(* ===== verification/Prelude.thy ===== *)
theory Prelude
  imports Main "HOL-Library.Word"
begin

text \<open>
  Shared vocabulary of the failsafe development: results with an error side, machine integers
  of the widths the Rust code uses, big-endian bytes, and the generic list lemmas the component
  theories share. Strings are in \<open>Text\<close>. Nothing here is specific to one component.
\<close>

named_theorems res_simps \<open>unfolding of the result combinators\<close>
named_theorems frame_simps \<open>fields an operation leaves alone\<close>

section \<open>Results\<close>

type_synonym ('e, 'a) result = "'e + 'a"

abbreviation Err :: "'e \<Rightarrow> ('e, 'a) result" where "Err \<equiv> Inl"
abbreviation Ok :: "'a \<Rightarrow> ('e, 'a) result" where "Ok \<equiv> Inr"

definition and_then :: "('e, 'a) result \<Rightarrow> ('a \<Rightarrow> ('e, 'b) result) \<Rightarrow> ('e, 'b) result" where
  "and_then r f = (case r of Inl e \<Rightarrow> Inl e | Inr x \<Rightarrow> f x)"

definition map_err :: "('e \<Rightarrow> 'f) \<Rightarrow> ('e, 'a) result \<Rightarrow> ('f, 'a) result" where
  "map_err g r = (case r of Inl e \<Rightarrow> Inl (g e) | Inr x \<Rightarrow> Inr x)"

definition map_ok :: "('a \<Rightarrow> 'b) \<Rightarrow> ('e, 'a) result \<Rightarrow> ('e, 'b) result" where
  "map_ok g r = (case r of Inl e \<Rightarrow> Inl e | Inr x \<Rightarrow> Inr (g x))"

definition ok_or :: "'a option \<Rightarrow> 'e \<Rightarrow> ('e, 'a) result" where
  "ok_or m e = (case m of None \<Rightarrow> Inl e | Some x \<Rightarrow> Inr x)"

definition is_ok :: "('e, 'a) result \<Rightarrow> bool" where
  "is_ok r = (case r of Inl _ \<Rightarrow> False | Inr _ \<Rightarrow> True)"

text \<open>\<open>iter().map(f).collect::<Result<Vec<_>, _>>()\<close>: the first error, or every value.\<close>

fun collect_res :: "('a \<Rightarrow> ('e, 'b) result) \<Rightarrow> 'a list \<Rightarrow> ('e, 'b list) result" where
  "collect_res f [] = Inr []"
| "collect_res f (x # xs) =
     (case f x of Inl e \<Rightarrow> Inl e
      | Inr y \<Rightarrow> (case collect_res f xs of Inl e \<Rightarrow> Inl e | Inr ys \<Rightarrow> Inr (y # ys)))"

lemma and_then_simps [simp]:
  "and_then (Inl e) f = Inl e" "and_then (Inr x) f = f x"
  by (simp_all add: and_then_def)

lemma map_err_simps [simp]:
  "map_err g (Inl e) = Inl (g e)" "map_err g (Inr x) = Inr x"
  by (simp_all add: map_err_def)

lemma map_ok_simps [simp]:
  "map_ok g (Inl e) = Inl e" "map_ok g (Inr x) = Inr (g x)"
  by (simp_all add: map_ok_def)

lemma ok_or_simps [simp]:
  "ok_or None e = Inl e" "ok_or (Some x) e = Inr x"
  by (simp_all add: ok_or_def)

lemma is_ok_simps [simp]:
  "is_ok (Inl e) = False" "is_ok (Inr x) = True"
  by (simp_all add: is_ok_def)

lemma and_then_eq_Inr [res_simps]:
  "and_then r f = Inr y \<longleftrightarrow> (\<exists>x. r = Inr x \<and> f x = Inr y)"
  by (cases r) auto

lemma map_err_eq_Inr [simp]: "map_err g r = Inr y \<longleftrightarrow> r = Inr y"
  by (cases r) auto

lemma map_ok_eq_Inr [res_simps]: "map_ok g r = Inr y \<longleftrightarrow> (\<exists>x. r = Inr x \<and> y = g x)"
  by (cases r) auto

lemma ok_or_eq_Inr [simp]: "ok_or m e = Inr x \<longleftrightarrow> m = Some x"
  by (cases m) auto

lemma collect_res_Inr_iff:
  "collect_res f xs = Inr ys \<longleftrightarrow> list_all2 (\<lambda>x y. f x = Inr y) xs ys"
proof (induction xs arbitrary: ys)
  case Nil
  then show ?case by auto
next
  case (Cons x xs)
  show ?case
  proof (cases ys)
    case Nil
    then show ?thesis by (auto split: sum.splits)
  next
    case (Cons y ys')
    then show ?thesis using Cons.IH [of ys']
      by (cases "f x"; cases "collect_res f xs") auto
  qed
qed

lemma collect_res_length: "collect_res f xs = Inr ys \<Longrightarrow> length ys = length xs"
  by (auto simp: collect_res_Inr_iff dest: list_all2_lengthD)

lemma collect_res_set: "collect_res f xs = Inr ys \<Longrightarrow> y \<in> set ys \<Longrightarrow> \<exists>x \<in> set xs. f x = Inr y"
  by (induction xs arbitrary: ys) (auto split: sum.splits)

lemma collect_res_Inr_map: "(\<And>x. x \<in> set xs \<Longrightarrow> f x = Inr (g x)) \<Longrightarrow> collect_res f xs = Inr (map g xs)"
  by (induction xs) auto

section \<open>Machine integers\<close>

type_synonym u8 = "8 word"
type_synonym u16 = "16 word"
type_synonym u32 = "32 word"
type_synonym u64 = "64 word"
type_synonym uuid = "128 word"

text \<open>\<open>saturating_add\<close> and \<open>saturating_mul\<close> of the unsigned integer types.\<close>

definition sat_add :: "'a::len word \<Rightarrow> 'a word \<Rightarrow> 'a word" where
  "sat_add a b = (if unat a + unat b < 2 ^ LENGTH('a) then a + b else - 1)"

definition sat_mul :: "'a::len word \<Rightarrow> 'a word \<Rightarrow> 'a word" where
  "sat_mul a b = (if unat a * unat b < 2 ^ LENGTH('a) then a * b else - 1)"

lemma unat_minus_one_max: "unat (- 1 :: 'a::len word) = 2 ^ LENGTH('a) - 1"
  by (metis unsigned_minus_1_eq_mask mask_eq_exp_minus_1)

lemma unat_sat_add:
  "unat (sat_add a b) = min (unat a + unat b) (2 ^ LENGTH('a) - 1)" for a b :: "'a::len word"
  by (auto simp: sat_add_def unat_word_ariths unat_minus_one_max min_def)

lemma unat_sat_mul:
  "unat (sat_mul a b) = min (unat a * unat b) (2 ^ LENGTH('a) - 1)" for a b :: "'a::len word"
proof (cases "unat a * unat b < 2 ^ LENGTH('a)")
  case True
  then show ?thesis by (simp add: sat_mul_def unat_word_ariths)
next
  case False
  then have "2 ^ LENGTH('a) - 1 \<le> unat a * unat b" by linarith
  with False show ?thesis by (simp add: sat_mul_def unat_minus_one_max min.absorb2)
qed

text \<open>
  \<open>iter().sum::<u64>()\<close> in the release profile: addition wraps. (A debug build panics on
  overflow; the lemmas that speak of true sums carry the bound that excludes it.)
\<close>

definition sum_u64 :: "u64 list \<Rightarrow> u64" where
  "sum_u64 xs = foldl (+) 0 xs"

lemma foldl_add_word: "foldl (+) a xs = (a :: 'a::len word) + foldl (+) 0 xs"
proof (induction xs arbitrary: a)
  case (Cons x xs)
  show ?case using Cons [of "a + x"] Cons [of x] by (simp add: add.assoc)
qed simp

lemma sum_u64_simps [simp]:
  "sum_u64 [] = 0" "sum_u64 (x # xs) = x + sum_u64 xs"
  "sum_u64 (xs @ ys) = sum_u64 xs + sum_u64 ys"
  using foldl_add_word [of x xs] foldl_add_word [of "foldl (+) 0 xs" ys]
  by (simp_all add: sum_u64_def)

lemma unat_sum_u64_le: "unat (sum_u64 xs) \<le> sum_list (map unat xs)"
proof (induction xs)
  case (Cons x xs)
  have "unat (x + sum_u64 xs) \<le> unat x + unat (sum_u64 xs)"
    by (simp add: unat_word_ariths)
  with Cons show ?case by simp
qed simp

lemma unat_sum_u64:
  "sum_list (map unat xs) < 2 ^ 64 \<Longrightarrow> unat (sum_u64 xs) = sum_list (map unat xs)"
proof (induction xs)
  case (Cons x xs)
  then show ?case by (simp add: unat_word_ariths)
qed simp

section \<open>Big-endian bytes\<close>

text \<open>\<open>to_be_bytes\<close> and \<open>from_be_bytes\<close>: most significant byte first.\<close>

definition be16 :: "u16 \<Rightarrow> u8 list" where
  "be16 w = (let n = unat w in [of_nat (n div 256), of_nat n])"

definition be32 :: "u32 \<Rightarrow> u8 list" where
  "be32 w = (let n = unat w in
     [of_nat (n div 16777216), of_nat (n div 65536), of_nat (n div 256), of_nat n])"

definition be_nat :: "u8 list \<Rightarrow> nat" where
  "be_nat bs = foldl (\<lambda>acc b. 256 * acc + unat b) 0 bs"

definition from_be16 :: "u8 list \<Rightarrow> u16" where "from_be16 bs = of_nat (be_nat bs)"
definition from_be32 :: "u8 list \<Rightarrow> u32" where "from_be32 bs = of_nat (be_nat bs)"

lemma length_be [simp]: "length (be16 v) = 2" "length (be32 w) = 4"
  by (simp_all add: be16_def be32_def Let_def)

lemma unat_lt2p: "unat (w :: 'a::len word) < 2 ^ LENGTH('a)"
  by (rule unsigned_less)

lemma unat_u8_of_nat [simp]: "unat (of_nat n :: u8) = n mod 256"
  by (simp add: unsigned_of_nat take_bit_eq_mod)

lemma unat_u8_ucast [simp]: "unat (ucast w :: u8) = unat w mod 256"
  by (simp add: unsigned_ucast_eq take_bit_eq_mod)

lemma be_digits:
  fixes a b c d :: nat
  assumes "b < 256" "c < 256" "d < 256"
  defines "n \<equiv> a * 16777216 + b * 65536 + c * 256 + d"
  shows "n div 16777216 = a" "n div 65536 mod 256 = b" "n div 256 mod 256 = c" "n mod 256 = d"
proof -
  show "n div 16777216 = a" using assms by (intro div_nat_eqI) auto
  have "n div 65536 = a * 256 + b" using assms by (intro div_nat_eqI) auto
  then show "n div 65536 mod 256 = b" using assms by simp
  have "n div 256 = a * 65536 + b * 256 + c" using assms by (intro div_nat_eqI) auto
  moreover have "a * 65536 + b * 256 + c = c + 256 * (a * 256 + b)" by simp
  ultimately show "n div 256 mod 256 = c" using assms by (simp only: mod_mult_self2) simp
  have "n = d + 256 * (a * 65536 + b * 256 + c)" by (simp add: n_def)
  then show "n mod 256 = d" using assms by (simp only: mod_mult_self2) simp
qed

lemma be_nat_be16: "be_nat (be16 w) = unat w"
proof -
  have "unat w < 65536" using unat_lt2p [of w] by simp
  then show ?thesis by (simp add: be_nat_def be16_def Let_def)
qed

lemma be_nat_be32: "be_nat (be32 w) = unat w"
proof -
  have "unat w < 4294967296" using unat_lt2p [of w] by simp
  then have "unat w div 16777216 mod 256 = unat w div 16777216" by simp
  moreover have "256 * (256 * (256 * (n div 16777216) + n div 65536 mod 256) + n div 256 mod 256)
      + n mod 256 = n" for n :: nat
  proof -
    have "n div 65536 = 256 * (n div 16777216) + n div 65536 mod 256"
      using mult_div_mod_eq [of 256 "n div 65536"] by (simp add: div_mult2_eq [symmetric])
    moreover have "n div 256 = 256 * (n div 65536) + n div 256 mod 256"
      using mult_div_mod_eq [of 256 "n div 256"] by (simp add: div_mult2_eq [symmetric])
    ultimately show ?thesis using mult_div_mod_eq [of 256 n] by simp
  qed
  ultimately show ?thesis by (simp add: be_nat_def be32_def Let_def)
qed

lemma from_be16_be16 [simp]: "from_be16 (be16 w) = w"
  by (simp add: from_be16_def be_nat_be16)

lemma from_be32_be32 [simp]: "from_be32 (be32 w) = w"
  by (simp add: from_be32_def be_nat_be32)

lemma be_nat_less: "be_nat bs < 256 ^ length bs"
proof (induction bs rule: rev_induct)
  case (snoc b bs)
  have b: "unat b < 256" using unat_lt2p [of b] by simp
  have "256 * (be_nat bs + 1) \<le> 256 * 256 ^ length bs"
    using snoc by (intro mult_le_mono) auto
  with b show ?case by (simp add: be_nat_def)
qed (simp add: be_nat_def)

lemma be_nat_Cons: "be_nat (b # bs) = unat b * 256 ^ length bs + be_nat bs"
proof (induction bs rule: rev_induct)
  case (snoc c bs)
  then show ?case by (simp add: be_nat_def algebra_simps)
qed (simp add: be_nat_def)

lemma unat_from_be32: "length bs = 4 \<Longrightarrow> unat (from_be32 bs) = be_nat bs"
  using be_nat_less [of bs] by (simp add: from_be32_def unsigned_of_nat take_bit_eq_mod)

lemma be32_from_be32: "length bs = 4 \<Longrightarrow> be32 (from_be32 bs) = bs"
proof -
  assume l: "length bs = 4"
  then obtain a b c d where bs: "bs = [a, b, c, d]"
    by (auto simp: numeral_eq_Suc length_Suc_conv)
  have bounds: "unat a < 256" "unat b < 256" "unat c < 256" "unat d < 256"
    using unat_lt2p [of a] unat_lt2p [of b] unat_lt2p [of c] unat_lt2p [of d] by simp_all
  have n: "be_nat bs = unat a * 16777216 + unat b * 65536 + unat c * 256 + unat d"
    by (simp add: bs be_nat_def)
  have "be_nat bs div 16777216 = unat a" "be_nat bs div 65536 mod 256 = unat b"
    "be_nat bs div 256 mod 256 = unat c" "be_nat bs mod 256 = unat d"
    unfolding n using bounds by (simp_all add: be_digits)
  then have "map unat (be32 (from_be32 bs)) = map unat bs"
    using bounds unat_from_be32 [OF l] by (simp add: be32_def Let_def bs)
  moreover have "inj (unat :: u8 \<Rightarrow> nat)" by (rule injI) (simp add: word_unat_eq_iff)
  ultimately show ?thesis by (metis map_injective)
qed

section \<open>Lists\<close>

lemma filter_not_mem_id: "x \<notin> set xs \<Longrightarrow> filter (\<lambda>y. y \<noteq> x) xs = xs"
  by (induction xs) auto

lemma find_Some_set: "find P xs = Some x \<Longrightarrow> x \<in> set xs \<and> P x"
  by (induction xs) (auto split: if_splits)

lemma find_None_set: "find P xs = None \<longleftrightarrow> (\<forall>x \<in> set xs. \<not> P x)"
  by (induction xs) auto

lemma sum_list_map_le: "(\<And>x. x \<in> set xs \<Longrightarrow> f x \<le> g x) \<Longrightarrow> sum_list (map f xs) \<le> sum_list (map g xs)"
  for f g :: "'a \<Rightarrow> nat"
  by (induction xs) (auto intro: add_mono)

end
