(* ===== verification/Text.thy ===== *)
theory Text
  imports Prelude
begin

text \<open>
  Rust's \<open>String\<close> and \<open>&str\<close> as the list of their UTF-8 bytes, with the functions of the
  standard library the program calls on them: \<open>trim\<close> (Unicode \<open>White_Space\<close>), \<open>split\<close>,
  \<open>split_once\<close>, \<open>strip_prefix\<close>, the ASCII case and class functions, \<open>parse::<uN>()\<close> and the
  decimal \<open>Display\<close> of integers. \<open>ext\<close> collects what is not written out here: the text form
  of UUIDs and the case mapping of non-ASCII text.
\<close>

section \<open>Outside conversions\<close>

record ext =
  uuid_display :: "uuid \<Rightarrow> string"
  uuid_parse :: "string \<Rightarrow> uuid option"
  unicode_lower :: "string \<Rightarrow> string"
  unicode_upper :: "string \<Rightarrow> string"

section \<open>ASCII classes and case\<close>

definition byte_of :: "char \<Rightarrow> nat" where "byte_of c = of_char c"

definition is_ascii_digit :: "char \<Rightarrow> bool" where
  "is_ascii_digit c \<longleftrightarrow> 48 \<le> byte_of c \<and> byte_of c \<le> 57"

definition is_ascii_uppercase :: "char \<Rightarrow> bool" where
  "is_ascii_uppercase c \<longleftrightarrow> 65 \<le> byte_of c \<and> byte_of c \<le> 90"

definition is_ascii_lowercase :: "char \<Rightarrow> bool" where
  "is_ascii_lowercase c \<longleftrightarrow> 97 \<le> byte_of c \<and> byte_of c \<le> 122"

definition is_ascii_alphanumeric :: "char \<Rightarrow> bool" where
  "is_ascii_alphanumeric c \<longleftrightarrow> is_ascii_digit c \<or> is_ascii_uppercase c \<or> is_ascii_lowercase c"

definition is_ascii :: "string \<Rightarrow> bool" where
  "is_ascii s \<longleftrightarrow> list_all (\<lambda>c. byte_of c < 128) s"

definition to_ascii_uppercase_char :: "char \<Rightarrow> char" where
  "to_ascii_uppercase_char c = (if is_ascii_lowercase c then char_of (byte_of c - 32) else c)"

definition to_ascii_lowercase_char :: "char \<Rightarrow> char" where
  "to_ascii_lowercase_char c = (if is_ascii_uppercase c then char_of (byte_of c + 32) else c)"

text \<open>\<open>str::to_lowercase\<close>: the ASCII mapping on ASCII text, the parameter otherwise.\<close>

definition to_lowercase :: "ext \<Rightarrow> string \<Rightarrow> string" where
  "to_lowercase x s = (if is_ascii s then map to_ascii_lowercase_char s else unicode_lower x s)"

definition to_uppercase :: "ext \<Rightarrow> string \<Rightarrow> string" where
  "to_uppercase x s = (if is_ascii s then map to_ascii_uppercase_char s else unicode_upper x s)"

section \<open>Trimming\<close>

text \<open>The UTF-8 encodings of the characters with the property \<open>White_Space\<close>.\<close>

definition ws_seqs :: "string list" where
  "ws_seqs =
     [[CHR 0x09], [CHR 0x0A], [CHR 0x0B], [CHR 0x0C], [CHR 0x0D], [CHR 0x20],
      [CHR 0xC2, CHR 0x85], [CHR 0xC2, CHR 0xA0], [CHR 0xE1, CHR 0x9A, CHR 0x80],
      [CHR 0xE2, CHR 0x80, CHR 0x80], [CHR 0xE2, CHR 0x80, CHR 0x81],
      [CHR 0xE2, CHR 0x80, CHR 0x82], [CHR 0xE2, CHR 0x80, CHR 0x83],
      [CHR 0xE2, CHR 0x80, CHR 0x84], [CHR 0xE2, CHR 0x80, CHR 0x85],
      [CHR 0xE2, CHR 0x80, CHR 0x86], [CHR 0xE2, CHR 0x80, CHR 0x87],
      [CHR 0xE2, CHR 0x80, CHR 0x88], [CHR 0xE2, CHR 0x80, CHR 0x89],
      [CHR 0xE2, CHR 0x80, CHR 0x8A], [CHR 0xE2, CHR 0x80, CHR 0xA8],
      [CHR 0xE2, CHR 0x80, CHR 0xA9], [CHR 0xE2, CHR 0x80, CHR 0xAF],
      [CHR 0xE2, CHR 0x81, CHR 0x9F], [CHR 0xE3, CHR 0x80, CHR 0x80]]"

fun strip_prefix :: "string \<Rightarrow> string \<Rightarrow> string option" where
  "strip_prefix [] s = Some s"
| "strip_prefix (p # ps) [] = None"
| "strip_prefix (p # ps) (c # cs) = (if p = c then strip_prefix ps cs else None)"

fun strip_any :: "string list \<Rightarrow> string \<Rightarrow> string option" where
  "strip_any [] s = None"
| "strip_any (p # ps) s = (case strip_prefix p s of Some r \<Rightarrow> Some r | None \<Rightarrow> strip_any ps s)"

function trim_by :: "string list \<Rightarrow> string \<Rightarrow> string" where
  "trim_by seqs s =
     (case strip_any seqs s of
        None \<Rightarrow> s
      | Some r \<Rightarrow> if length r < length s then trim_by seqs r else s)"
  by pat_completeness auto
termination by (relation "measure (\<lambda>(_, s). length s)") auto

declare trim_by.simps [simp del]

definition trim_start :: "string \<Rightarrow> string" where
  "trim_start s = trim_by ws_seqs s"

definition trim_end :: "string \<Rightarrow> string" where
  "trim_end s = rev (trim_by (map rev ws_seqs) (rev s))"

definition trim :: "string \<Rightarrow> string" where
  "trim s = trim_end (trim_start s)"

lemma strip_prefix_Some: "strip_prefix p s = Some r \<longleftrightarrow> s = p @ r"
  by (induction p s rule: strip_prefix.induct) auto

lemma strip_prefix_append [simp]: "strip_prefix p (p @ r) = Some r"
  by (simp add: strip_prefix_Some)

lemma strip_any_Some: "strip_any ps s = Some r \<Longrightarrow> \<exists>p \<in> set ps. s = p @ r"
  by (induction ps) (auto simp: strip_prefix_Some split: option.splits)

lemma strip_any_None_iff: "strip_any ps s = None \<longleftrightarrow> (\<forall>p \<in> set ps. strip_prefix p s = None)"
  by (induction ps) (auto split: option.splits)

lemma trim_by_suffix: "\<exists>w. s = w @ trim_by seqs s"
proof (induction seqs s rule: trim_by.induct)
  case (1 seqs s)
  show ?case
  proof (cases "strip_any seqs s")
    case None
    then have "trim_by seqs s = s" by (subst trim_by.simps) simp
    then show ?thesis by simp
  next
    case (Some r)
    then obtain p where p: "s = p @ r" using strip_any_Some by blast
    show ?thesis
    proof (cases "length r < length s")
      case True
      then obtain w where w: "r = w @ trim_by seqs r" using 1 Some by blast
      have "trim_by seqs s = trim_by seqs r"
        using Some True by (subst trim_by.simps) simp
      with p w have "s = (p @ w) @ trim_by seqs s" by simp
      then show ?thesis by blast
    next
      case False
      then have "trim_by seqs s = s" using Some by (subst trim_by.simps) simp
      then show ?thesis by simp
    qed
  qed
qed

lemma trim_by_idem: "\<forall>p \<in> set seqs. p \<noteq> [] \<Longrightarrow> strip_any seqs (trim_by seqs s) = None"
proof (induction seqs s rule: trim_by.induct)
  case (1 seqs s)
  show ?case
  proof (cases "strip_any seqs s")
    case None
    then have "trim_by seqs s = s" by (subst trim_by.simps) simp
    with None show ?thesis by simp
  next
    case (Some r)
    then obtain p where "p \<in> set seqs" "s = p @ r" using strip_any_Some by blast
    then have less: "length r < length s" using "1.prems" by (cases p) auto
    then have "trim_by seqs s = trim_by seqs r" using Some by (subst trim_by.simps) simp
    with "1.IH" [OF Some less "1.prems"] show ?thesis by simp
  qed
qed

lemma trim_by_id: "strip_any seqs s = None \<Longrightarrow> trim_by seqs s = s"
  by (subst trim_by.simps) simp

text \<open>Text that starts and ends with a letter or digit, between spaces.\<close>

lemma ws_not_alphanumeric:
  "p \<in> set ws_seqs \<Longrightarrow> p \<noteq> [] \<and> \<not> is_ascii_alphanumeric (hd p) \<and> \<not> is_ascii_alphanumeric (last p)"
proof -
  have "list_all (\<lambda>p. p \<noteq> [] \<and> \<not> is_ascii_alphanumeric (hd p) \<and> \<not> is_ascii_alphanumeric (last p)) ws_seqs"
    by code_simp
  then show "p \<in> set ws_seqs \<Longrightarrow> p \<noteq> [] \<and> \<not> is_ascii_alphanumeric (hd p) \<and> \<not> is_ascii_alphanumeric (last p)"
    by (auto simp: list_all_iff)
qed

lemma strip_any_alphanumeric:
  assumes "s \<noteq> []" "is_ascii_alphanumeric (hd s)"
  shows "strip_any ws_seqs s = None" "strip_any (map rev ws_seqs) s = None"
proof -
  have "strip_prefix p s = None" if "p \<noteq> []" "\<not> is_ascii_alphanumeric (hd p)" for p
    using that assms by (cases p; cases s) auto
  then show "strip_any ws_seqs s = None" "strip_any (map rev ws_seqs) s = None"
    using ws_not_alphanumeric by (auto simp: strip_any_None_iff hd_rev)
qed

lemma trim_by_spaces:
  assumes "strip_any seqs s = None" "\<And>r. strip_any seqs (CHR '' '' # r) = Some r"
  shows "trim_by seqs (replicate n (CHR '' '') @ s) = s"
proof (induction n)
  case (Suc n)
  then show ?case by (subst trim_by.simps) (simp add: assms(2))
qed (simp add: trim_by_id assms(1))

lemma trim_spaces:
  assumes "s \<noteq> []" "is_ascii_alphanumeric (hd s)" "is_ascii_alphanumeric (last s)"
  shows "trim (replicate n (CHR '' '') @ s @ replicate m (CHR '' '')) = s"
proof -
  have sp: "strip_any ws_seqs (CHR '' '' # r) = Some r" "strip_any (map rev ws_seqs) (CHR '' '' # r) = Some r" for r
    by (simp_all add: ws_seqs_def)
  have "trim_start (replicate n (CHR '' '') @ s @ replicate m (CHR '' '')) = s @ replicate m (CHR '' '')"
    unfolding trim_start_def by (rule trim_by_spaces) (use assms sp in \<open>simp_all add: strip_any_alphanumeric\<close>)
  moreover have "trim_by (map rev ws_seqs) (replicate m (CHR '' '') @ rev s) = rev s"
    by (rule trim_by_spaces) (use assms sp in \<open>simp_all add: strip_any_alphanumeric hd_rev\<close>)
  ultimately show ?thesis by (simp add: trim_def trim_end_def rev_replicate)
qed

section \<open>Splitting and searching\<close>

definition starts_with :: "string \<Rightarrow> string \<Rightarrow> bool" where
  "starts_with s p \<longleftrightarrow> strip_prefix p s \<noteq> None"

fun split_char :: "char \<Rightarrow> string \<Rightarrow> string list" where
  "split_char d [] = [[]]"
| "split_char d (c # cs) =
     (if c = d then [] # split_char d cs
      else (case split_char d cs of [] \<Rightarrow> [[c]] | w # ws \<Rightarrow> (c # w) # ws))"

fun split_once_char :: "char \<Rightarrow> string \<Rightarrow> (string \<times> string) option" where
  "split_once_char d [] = None"
| "split_once_char d (c # cs) =
     (if c = d then Some ([], cs)
      else (case split_once_char d cs of None \<Rightarrow> None | Some (a, b) \<Rightarrow> Some (c # a, b)))"

fun join_with :: "string \<Rightarrow> string list \<Rightarrow> string" where
  "join_with sep [] = []"
| "join_with sep [w] = w"
| "join_with sep (w # ws) = w @ sep @ join_with sep ws"

lemma split_char_nonempty [simp]: "split_char d s \<noteq> []"
  by (induction s) (auto split: list.splits)

lemma join_split_char: "join_with [d] (split_char d s) = s"
proof (induction s)
  case (Cons c cs)
  then show ?case by (cases "split_char d cs"; cases "tl (split_char d cs)") auto
qed simp

lemma split_char_no_sep: "w \<in> set (split_char d s) \<Longrightarrow> d \<notin> set w"
  by (induction s arbitrary: w) (auto split: if_splits list.splits)

lemma split_char_id: "d \<notin> set s \<Longrightarrow> split_char d s = [s]"
  by (induction s) auto

lemma split_char_append: "d \<notin> set w \<Longrightarrow> split_char d (w @ d # s) = w # split_char d s"
  by (induction w) auto

lemma split_once_char_Some:
  "split_once_char d s = Some (a, b) \<longleftrightarrow> s = a @ d # b \<and> d \<notin> set a"
proof (induction s arbitrary: a b)
  case (Cons c s)
  show ?case
  proof (cases "c = d")
    case True
    then show ?thesis by (auto simp: Cons_eq_append_conv)
  next
    case False
    then have "split_once_char d (c # s) = Some (a, b) \<longleftrightarrow>
        (\<exists>a'. a = c # a' \<and> split_once_char d s = Some (a', b))"
      by (auto split: option.splits)
    also have "\<dots> \<longleftrightarrow> (\<exists>a'. a = c # a' \<and> s = a' @ d # b \<and> d \<notin> set a')"
      by (simp only: Cons.IH)
    also have "\<dots> \<longleftrightarrow> c # s = a @ d # b \<and> d \<notin> set a"
      using False by (auto simp: Cons_eq_append_conv)
    finally show ?thesis .
  qed
qed simp

section \<open>Decimal integers\<close>

fun digits_value :: "nat \<Rightarrow> string \<Rightarrow> nat option" where
  "digits_value acc [] = Some acc"
| "digits_value acc (c # cs) =
     (if is_ascii_digit c then digits_value (10 * acc + (byte_of c - 48)) cs else None)"

text \<open>\<open>str::parse::<uN>()\<close>: an optional \<open>+\<close>, at least one digit, and no overflow.\<close>

definition parse_nat :: "string \<Rightarrow> nat option" where
  "parse_nat s =
     (let ds = (case s of c # cs \<Rightarrow> if c = CHR ''+'' then cs else s | [] \<Rightarrow> [])
      in if ds = [] then None else digits_value 0 ds)"

definition parse_word :: "string \<Rightarrow> 'a::len word option" where
  "parse_word s = (case parse_nat s of None \<Rightarrow> None
     | Some n \<Rightarrow> if n < 2 ^ LENGTH('a) then Some (of_nat n) else None)"

fun show_nat :: "nat \<Rightarrow> string" where
  "show_nat n = (if n < 10 then [char_of (48 + n)]
                 else show_nat (n div 10) @ [char_of (48 + n mod 10)])"

declare show_nat.simps [simp del]

lemma digits_value_append:
  "digits_value acc (xs @ ys) = (case digits_value acc xs of None \<Rightarrow> None | Some a \<Rightarrow> digits_value a ys)"
  by (induction xs arbitrary: acc) auto

lemma digit_char: "n < 10 \<Longrightarrow> byte_of (char_of (48 + n)) = 48 + n"
  by (simp add: byte_of_def of_char_of)

lemma digits_value_show_nat: "digits_value 0 (show_nat n) = Some n"
proof (induction n rule: show_nat.induct)
  case (1 n)
  show ?case
  proof (cases "n < 10")
    case True
    then show ?thesis by (simp add: show_nat.simps is_ascii_digit_def digit_char)
  next
    case False
    have "n mod 10 < 10" by simp
    with 1 False show ?thesis
      by (subst show_nat.simps) (simp add: digits_value_append is_ascii_digit_def digit_char)
  qed
qed

lemma show_nat_digits: "c \<in> set (show_nat n) \<Longrightarrow> is_ascii_digit c"
proof (induction n rule: show_nat.induct)
  case (1 n)
  have "n mod 10 < 10" by simp
  with 1 show ?case
    by (cases "n < 10")
      (auto simp: show_nat.simps [of n] is_ascii_digit_def digit_char simp del: of_char_of)
qed

lemma show_nat_nonempty [simp]: "show_nat n \<noteq> []"
  by (simp add: show_nat.simps)

lemma parse_nat_show_nat [simp]: "parse_nat (show_nat n) = Some n"
proof (cases "show_nat n")
  case Nil
  then show ?thesis by simp
next
  case (Cons c cs)
  then have "is_ascii_digit c" using show_nat_digits [of c n] by simp
  then have "c \<noteq> CHR ''+''" by (auto simp: is_ascii_digit_def byte_of_def)
  then show ?thesis using digits_value_show_nat [of n] Cons by (simp add: parse_nat_def)
qed

lemma parse_word_show_nat [simp]: "parse_word (show_nat (unat w)) = Some (w :: 'a::len word)"
  by (simp add: parse_word_def unat_lt2p)

section \<open>Hexadecimal and lines\<close>

definition hex_digit :: "nat \<Rightarrow> char" where
  "hex_digit n = char_of (if n < 10 then 48 + n else 87 + n)"

definition hex :: "u8 list \<Rightarrow> string" where
  "hex bs = concat (map (\<lambda>b. [hex_digit (unat b div 16), hex_digit (unat b mod 16)]) bs)"

text \<open>
  \<open>str::lines\<close>: the pieces between line feeds without a final empty piece; a carriage return
  right before a line feed belongs to the line ending.
\<close>

definition strip_cr :: "string \<Rightarrow> string" where
  "strip_cr s = (if s \<noteq> [] \<and> last s = CHR 0x0D then butlast s else s)"

definition str_lines :: "string \<Rightarrow> string list" where
  "str_lines s =
     (let parts = split_char (CHR 0x0A) s in
      map strip_cr (butlast parts) @ (if last parts = [] then [] else [last parts]))"

end
