(* ===== verification/Core.thy ===== *)
theory Core
  imports Text
begin

text \<open>
  \<open>crates/failsafe-core\<close>: identifiers (\<open>device.rs\<close>, \<open>feature.rs\<close>), the message envelope
  (\<open>message.rs\<close>, \<open>outbound.rs\<close>), the HTTP API types (\<open>api.rs\<close>), the types and the framing
  of the local control protocol (\<open>control/mod.rs\<close>) and the file name helper of \<open>path.rs\<close>.
  Serde's JSON writer and reader are arguments of the functions that call them.
\<close>

section \<open>Identifiers and messages\<close>

datatype device_id = DeviceId (device_uuid: uuid)
datatype feature_id = FeatureId (feature_str: string)
datatype account_id = AccountId (account_uuid: uuid)

datatype unknown_feature_id = UnknownFeatureId string

definition device_id_display :: "ext \<Rightarrow> device_id \<Rightarrow> string" where
  "device_id_display x d = uuid_display x (device_uuid d)"

definition device_id_from_str :: "ext \<Rightarrow> string \<Rightarrow> device_id option" where
  "device_id_from_str x s = map_option DeviceId (uuid_parse x s)"

definition account_id_display :: "ext \<Rightarrow> account_id \<Rightarrow> string" where
  "account_id_display x a = uuid_display x (account_uuid a)"

definition account_id_from_str :: "ext \<Rightarrow> string \<Rightarrow> account_id option" where
  "account_id_from_str x s = map_option AccountId (uuid_parse x s)"

definition feature_id_from_str :: "string \<Rightarrow> (unknown_feature_id, feature_id) result" where
  "feature_id_from_str value =
     (let v = trim value in if v = [] then Err (UnknownFeatureId v) else Ok (FeatureId v))"

datatype feature_error =
    AlreadyRegistered feature_id
  | NotRegistered feature_id
  | NotEnabled feature_id
  | Failed feature_id string

fun feature_error_display :: "feature_error \<Rightarrow> string" where
  "feature_error_display (AlreadyRegistered f) = ''feature `'' @ feature_str f @ ''` is already registered''"
| "feature_error_display (NotRegistered f) = ''feature `'' @ feature_str f @ ''` is not registered''"
| "feature_error_display (NotEnabled f) = ''feature `'' @ feature_str f @ ''` is not enabled''"
| "feature_error_display (Failed f m) = ''feature `'' @ feature_str f @ ''` failed: '' @ m"

record feature_message =
  fm_version :: u32
  fm_from :: device_id
  fm_to :: device_id
  fm_feature :: feature_id
  fm_payload :: "u8 list"

definition FEATURE_MESSAGE_VERSION :: u32 where "FEATURE_MESSAGE_VERSION = 1"

definition feature_message_new ::
    "device_id \<Rightarrow> device_id \<Rightarrow> feature_id \<Rightarrow> u8 list \<Rightarrow> feature_message" where
  "feature_message_new src to feature payload =
     \<lparr>fm_version = FEATURE_MESSAGE_VERSION, fm_from = src, fm_to = to,
      fm_feature = feature, fm_payload = payload\<rparr>"

record outbound_message =
  om_feature :: feature_id
  om_payload :: "u8 list"

datatype publish_error = PublishFailed string

lemma feature_message_new_simps [simp]:
  "fm_from (feature_message_new a b f p) = a" "fm_to (feature_message_new a b f p) = b"
  "fm_feature (feature_message_new a b f p) = f" "fm_payload (feature_message_new a b f p) = p"
  by (simp_all add: feature_message_new_def)

section \<open>The HTTP API\<close>

record auth_response =
  ar_token :: "string option"
  ar_refresh_token :: "string option"
  ar_mfa_required :: bool
  ar_mfa_token :: "string option"

definition auth_authenticated :: "string \<Rightarrow> string \<Rightarrow> auth_response" where
  "auth_authenticated token refresh_token =
     \<lparr>ar_token = Some token, ar_refresh_token = Some refresh_token,
      ar_mfa_required = False, ar_mfa_token = None\<rparr>"

definition auth_mfa_required :: "string \<Rightarrow> auth_response" where
  "auth_mfa_required mfa_token =
     \<lparr>ar_token = None, ar_refresh_token = None,
      ar_mfa_required = True, ar_mfa_token = Some mfa_token\<rparr>"

record device_upsert_request =
  du_device_id :: device_id
  du_name :: string
  du_iroh_public_key :: string
  du_enabled_features :: "feature_id list"

record device_info =
  di_device_id :: device_id
  di_name :: string
  di_iroh_public_key :: string
  di_enabled_features :: "feature_id list"
  di_last_seen :: "string option"
  di_online :: bool

record device_patch_request =
  dp_name :: "string option"
  dp_enabled_features :: "feature_id list option"

record feature_info =
  fi_id :: string
  fi_label :: string
  fi_description :: string

section \<open>Control protocol types\<close>

datatype port_protocol = Tcp

record 'v control_request =
  cr_feature :: feature_id
  cr_body :: 'v

record 'v control_envelope =
  ce_token :: string
  ce_request :: "'v control_request"

record send_path_spec =
  sp_local :: string
  sp_label :: string

datatype send_phase = Preparing | Storing | Sending | WaitingForAck

fun send_phase_label :: "send_phase \<Rightarrow> string option \<Rightarrow> string" where
  "send_phase_label Preparing (Some name) = ''Reading '' @ name"
| "send_phase_label Preparing None = ''Staging files locally''"
| "send_phase_label Storing _ = ''Finalizing''"
| "send_phase_label Sending _ = ''Starting transfer''"
| "send_phase_label WaitingForAck _ = ''Transferring to receiver''"

datatype control_event =
    SendProgress (ev_sequence: u64) (ev_phase: send_phase) (ev_bytes_done: u64)
      (ev_bytes_total: u64) (ev_current_file: "string option")
  | SendComplete (ev_transfer_id: uuid)
  | SendFailed (ev_message: string)

datatype control_response =
    Ready
  | ErrorResp string
  | CancelTransfers nat nat

datatype control_error = ConfigError string | IoError string

section \<open>Control framing\<close>

text \<open>
  A stream is the bytes still to be read; a read past its end is the \<open>UnexpectedEof\<close> of
  \<open>read_exact\<close>. A writer is the bytes written so far.
\<close>

definition CONTROL_MAX_MESSAGE :: nat where "CONTROL_MAX_MESSAGE = 1024 * 1024"

definition take_exact :: "nat \<Rightarrow> u8 list \<Rightarrow> (u8 list \<times> u8 list) option" where
  "take_exact n bs = (if length bs < n then None else Some (take n bs, drop n bs))"

definition write_message :: "u8 list \<Rightarrow> u8 list \<Rightarrow> (control_error, u8 list) result" where
  "write_message stream message =
     (if length message < 2 ^ 32
      then Ok (stream @ be32 (of_nat (length message)) @ message)
      else Err (ConfigError ''control message too large''))"

definition read_message :: "u8 list \<Rightarrow> (control_error, u8 list \<times> u8 list) result" where
  "read_message stream =
     (case take_exact 4 stream of
        None \<Rightarrow> Err (IoError ''early eof'')
      | Some (len_buf, rest) \<Rightarrow>
          let len = unat (from_be32 len_buf) in
          if len > CONTROL_MAX_MESSAGE then Err (ConfigError ''control message too large'')
          else (case take_exact len rest of
                  None \<Rightarrow> Err (IoError ''early eof'')
                | Some (payload, rest') \<Rightarrow> Ok (payload, rest')))"

lemma take_exact_append [simp]: "take_exact (length xs) (xs @ ys) = Some (xs, ys)"
  by (simp add: take_exact_def)

lemma take_exact_Some: "take_exact n bs = Some (xs, ys) \<longleftrightarrow> bs = xs @ ys \<and> length xs = n"
  by (auto simp: take_exact_def)

lemma take_exact_be32 [simp]: "take_exact 4 (be32 w @ ys) = Some (be32 w, ys)"
  using take_exact_append [of "be32 w" ys] by simp

lemma unat_u32_of_nat: "n < 2 ^ 32 \<Longrightarrow> unat (of_nat n :: u32) = n"
  by (simp add: unsigned_of_nat take_bit_eq_mod)

lemma read_write_message:
  assumes "length m \<le> CONTROL_MAX_MESSAGE" and "write_message [] m = Ok bs"
  shows "read_message (bs @ rest) = Ok (m, rest)"
proof -
  have l: "length m < 2 ^ 32" using assms(1) by (simp add: CONTROL_MAX_MESSAGE_def)
  then have bs: "bs = be32 (of_nat (length m)) @ m" using assms(2) by (simp add: write_message_def)
  show ?thesis using l assms(1)
    by (simp add: bs read_message_def unat_u32_of_nat Let_def not_less)
qed

text \<open>The typed wrappers: the JSON writer \<open>ser\<close> and reader \<open>de\<close> may fail with a message.\<close>

definition write_json :: "('a \<Rightarrow> (string, u8 list) result) \<Rightarrow> string \<Rightarrow> u8 list \<Rightarrow> 'a
    \<Rightarrow> (control_error, u8 list) result" where
  "write_json ser what stream x =
     and_then (map_err (\<lambda>e. ConfigError (''failed to encode control '' @ what @ '': '' @ e)) (ser x))
       (write_message stream)"

definition read_json :: "(u8 list \<Rightarrow> (string, 'a) result) \<Rightarrow> string \<Rightarrow> u8 list
    \<Rightarrow> (control_error, 'a \<times> u8 list) result" where
  "read_json de what stream =
     and_then (read_message stream) (\<lambda>(payload, rest).
       map_ok (\<lambda>x. (x, rest))
         (map_err (\<lambda>e. ConfigError (''failed to decode control '' @ what @ '': '' @ e)) (de payload)))"

definition send_request :: "('v control_envelope \<Rightarrow> (string, u8 list) result) \<Rightarrow> u8 list \<Rightarrow> string
    \<Rightarrow> 'v control_request \<Rightarrow> (control_error, u8 list) result" where
  "send_request ser stream token request =
     write_json ser ''request'' stream \<lparr>ce_token = token, ce_request = request\<rparr>"

definition recv_envelope :: "(u8 list \<Rightarrow> (string, 'v control_envelope) result) \<Rightarrow> u8 list
    \<Rightarrow> (control_error, 'v control_envelope \<times> u8 list) result" where
  "recv_envelope de stream = read_json de ''request'' stream"

definition recv_request :: "(u8 list \<Rightarrow> (string, 'v control_envelope) result) \<Rightarrow> u8 list
    \<Rightarrow> (control_error, 'v control_request \<times> u8 list) result" where
  "recv_request de stream = map_ok (\<lambda>(e, rest). (ce_request e, rest)) (recv_envelope de stream)"

definition send_response :: "(control_response \<Rightarrow> (string, u8 list) result) \<Rightarrow> u8 list
    \<Rightarrow> control_response \<Rightarrow> (control_error, u8 list) result" where
  "send_response ser stream response = write_json ser ''response'' stream response"

definition recv_response :: "(u8 list \<Rightarrow> (string, control_response) result) \<Rightarrow> u8 list
    \<Rightarrow> (control_error, control_response \<times> u8 list) result" where
  "recv_response de stream = read_json de ''response'' stream"

definition write_event :: "(control_event \<Rightarrow> (string, u8 list) result) \<Rightarrow> u8 list
    \<Rightarrow> control_event \<Rightarrow> (control_error, u8 list) result" where
  "write_event ser stream event = write_json ser ''event'' stream event"

definition read_event :: "(u8 list \<Rightarrow> (string, control_event) result) \<Rightarrow> u8 list
    \<Rightarrow> (control_error, control_event \<times> u8 list) result" where
  "read_event de stream = read_json de ''event'' stream"

lemma read_write_json:
  assumes "ser x = Ok bs" "de bs = Ok x" "length bs \<le> CONTROL_MAX_MESSAGE"
    and "write_json ser w [] x = Ok out"
  shows "read_json de w' (out @ rest) = Ok (x, rest)"
proof -
  have "write_message [] bs = Ok out" using assms(1,4) by (simp add: write_json_def)
  then have "read_message (out @ rest) = Ok (bs, rest)" using read_write_message assms(3) by blast
  then show ?thesis using assms(2) by (simp add: read_json_def)
qed

section \<open>The control token file\<close>

definition read_control_token :: "(string, string) result \<Rightarrow> (control_error, string) result" where
  "read_control_token contents =
     and_then (map_err IoError contents) (\<lambda>text.
       let token = trim text in
       if token = [] then Err (ConfigError ''control token file is empty'') else Ok token)"

section \<open>File names\<close>

text \<open>
  \<open>Path::file_name\<close> on Unix: the last component once empty components and \<open>.\<close> are dropped,
  unless it is \<open>..\<close>.
\<close>

definition path_components :: "string \<Rightarrow> string list" where
  "path_components p = filter (\<lambda>c. c \<noteq> [] \<and> c \<noteq> ''.'') (split_char (CHR ''/'') p)"

definition path_file_name :: "string \<Rightarrow> string option" where
  "path_file_name p = (case rev (path_components p) of [] \<Rightarrow> None
     | c # _ \<Rightarrow> if c = ''..'' then None else Some c)"

definition sanitize_filename :: "string \<Rightarrow> string" where
  "sanitize_filename name =
     (let candidate = (case path_file_name name of None \<Rightarrow> ''file'' | Some v \<Rightarrow> v)
      in if candidate = [] then ''file'' else candidate)"

lemma path_file_name_Some:
  assumes "path_file_name p = Some c"
  shows "c \<noteq> []" "c \<noteq> ''.''" "c \<noteq> ''..''" "CHR ''/'' \<notin> set c"
proof -
  from assms obtain cs where cs: "rev (path_components p) = c # cs" and dd: "c \<noteq> ''..''"
    by (auto simp: path_file_name_def split: list.splits if_splits)
  from cs have "c \<in> set (path_components p)" by (metis in_set_conv_decomp rev.simps(2) rev_swap set_rev)
  then show "c \<noteq> []" "c \<noteq> ''.''" "CHR ''/'' \<notin> set c"
    using split_char_no_sep by (auto simp: path_components_def)
  show "c \<noteq> ''..''" by (rule dd)
qed

lemma sanitize_filename_safe:
  "sanitize_filename n \<noteq> [] \<and> sanitize_filename n \<noteq> ''.'' \<and> sanitize_filename n \<noteq> ''..'' \<and>
   CHR ''/'' \<notin> set (sanitize_filename n)"
  using path_file_name_Some [of n] by (auto simp: sanitize_filename_def Let_def split: option.splits)

lemma sanitize_filename_id:
  assumes "n \<noteq> []" "n \<noteq> ''.''" "n \<noteq> ''..''" "CHR ''/'' \<notin> set n"
  shows "sanitize_filename n = n"
  using assms
  by (simp add: sanitize_filename_def path_file_name_def path_components_def split_char_id)

text \<open>\<open>write_named_files\<close> onto a directory, as a map from file name to contents; a write may fail.\<close>

fun write_named_files :: "(string \<Rightarrow> u8 list \<Rightarrow> string option) \<Rightarrow> (string \<rightharpoonup> u8 list)
    \<Rightarrow> (string \<times> u8 list) list \<Rightarrow> (string \<rightharpoonup> u8 list) \<times> (string, string list) result" where
  "write_named_files fail dir [] = (dir, Ok [])"
| "write_named_files fail dir ((name, data) # files) =
     (let path = sanitize_filename name in
      case fail path data of
        Some e \<Rightarrow> (dir, Err e)
      | None \<Rightarrow>
          (case write_named_files fail (dir(path \<mapsto> data)) files of
             (dir', Err e) \<Rightarrow> (dir', Err e)
           | (dir', Ok paths) \<Rightarrow> (dir', Ok (path # paths))))"

end
