(* ===== verification/Registry.thy ===== *)
theory Registry
  imports Core
begin

text \<open>
  The feature registry (\<open>failsafe-core/src/registry.rs\<close>) and the feature catalog
  (\<open>failsafe-feature-registry/src/feature_registry.rs\<close>). A boxed \<open>dyn Feature\<close> is a value of
  the type \<open>'f\<close>; its methods are the fields of a \<open>feature_ops\<close> record and may change the
  feature and the world \<open>'w\<close> it shares with the rest of the daemon. The hash set of enabled
  features is a distinct list: its order stands for the unspecified iteration order.
\<close>

section \<open>Features as trait objects\<close>

record ('f, 'w) feature_ops =
  f_id :: "'f \<Rightarrow> feature_id"
  f_start :: "'f \<Rightarrow> 'w \<Rightarrow> 'f \<times> 'w \<times> (feature_error, unit) result"
  f_stop :: "'f \<Rightarrow> 'w \<Rightarrow> 'f \<times> 'w \<times> (feature_error, unit) result"
  f_handle :: "'f \<Rightarrow> feature_message \<Rightarrow> 'w \<Rightarrow> 'f \<times> 'w \<times> (feature_error, unit) result"

record 'f feature_registry =
  reg_features :: "feature_id \<rightharpoonup> 'f"
  reg_enabled :: "feature_id list"

text \<open>An outcome of code that can also panic (\<open>expect\<close>).\<close>

datatype 'e raised = Raised 'e | Panic string

definition registry_new :: "'f feature_registry" where
  "registry_new = \<lparr>reg_features = (\<lambda>_. None), reg_enabled = []\<rparr>"

definition registry_register :: "('f, 'w) feature_ops \<Rightarrow> 'f \<Rightarrow> 'f feature_registry
    \<Rightarrow> 'f feature_registry \<times> (feature_error, unit) result" where
  "registry_register ops feature r =
     (let i = f_id ops feature in
      if reg_features r i \<noteq> None then (r, Err (AlreadyRegistered i))
      else (r\<lparr>reg_features := (reg_features r)(i \<mapsto> feature)\<rparr>, Ok ()))"

definition registry_enable :: "feature_id \<Rightarrow> 'f feature_registry
    \<Rightarrow> 'f feature_registry \<times> (feature_error, unit) result" where
  "registry_enable i r =
     (if reg_features r i = None then (r, Err (NotRegistered i))
      else (r\<lparr>reg_enabled := List.insert i (reg_enabled r)\<rparr>, Ok ()))"

definition registry_disable :: "('f, 'w) feature_ops \<Rightarrow> feature_id \<Rightarrow> 'f feature_registry \<Rightarrow> 'w
    \<Rightarrow> 'f feature_registry \<times> 'w" where
  "registry_disable ops i r w =
     (let r1 = r\<lparr>reg_enabled := remove1 i (reg_enabled r)\<rparr> in
      case reg_features r1 i of
        None \<Rightarrow> (r1, w)
      | Some f \<Rightarrow> (case f_stop ops f w of
          (f', w', _) \<Rightarrow> (r1\<lparr>reg_features := (reg_features r1)(i \<mapsto> f')\<rparr>, w')))"

definition start_registered :: "('f, 'w) feature_ops \<Rightarrow> feature_id \<Rightarrow> 'f feature_registry \<Rightarrow> 'w
    \<Rightarrow> 'f feature_registry \<times> 'w \<times> (feature_error raised, unit) result" where
  "start_registered ops i r w =
     (case reg_features r i of
        None \<Rightarrow> (r, w, Err (Panic ''enabled feature must be registered''))
      | Some f \<Rightarrow> (case f_start ops f w of
          (f', w', res) \<Rightarrow>
            (r\<lparr>reg_features := (reg_features r)(i \<mapsto> f')\<rparr>, w', map_err Raised res)))"

definition registry_enable_and_start :: "('f, 'w) feature_ops \<Rightarrow> feature_id \<Rightarrow> 'f feature_registry
    \<Rightarrow> 'w \<Rightarrow> 'f feature_registry \<times> 'w \<times> (feature_error raised, unit) result" where
  "registry_enable_and_start ops i r w =
     (case registry_enable i r of
        (r1, Err e) \<Rightarrow> (r1, w, Err (Raised e))
      | (r1, Ok _) \<Rightarrow> start_registered ops i r1 w)"

definition is_registered :: "'f feature_registry \<Rightarrow> feature_id \<Rightarrow> bool" where
  "is_registered r i \<longleftrightarrow> reg_features r i \<noteq> None"

definition is_enabled :: "'f feature_registry \<Rightarrow> feature_id \<Rightarrow> bool" where
  "is_enabled r i \<longleftrightarrow> i \<in> set (reg_enabled r)"

fun start_each :: "('f, 'w) feature_ops \<Rightarrow> feature_id list \<Rightarrow> 'f feature_registry \<Rightarrow> 'w
    \<Rightarrow> 'f feature_registry \<times> 'w \<times> (feature_error raised, unit) result" where
  "start_each ops [] r w = (r, w, Ok ())"
| "start_each ops (i # ids) r w =
     (case start_registered ops i r w of
        (r', w', Err e) \<Rightarrow> (r', w', Err e)
      | (r', w', Ok _) \<Rightarrow> start_each ops ids r' w')"

definition start_enabled :: "('f, 'w) feature_ops \<Rightarrow> 'f feature_registry \<Rightarrow> 'w
    \<Rightarrow> 'f feature_registry \<times> 'w \<times> (feature_error raised, unit) result" where
  "start_enabled ops r w = start_each ops (reg_enabled r) r w"

definition dispatch :: "('f, 'w) feature_ops \<Rightarrow> feature_message \<Rightarrow> 'f feature_registry \<Rightarrow> 'w
    \<Rightarrow> 'f feature_registry \<times> 'w \<times> (feature_error, unit) result" where
  "dispatch ops message r w =
     (let i = fm_feature message in
      if \<not> is_enabled r i then (r, w, Err (NotEnabled i))
      else (case reg_features r i of
              None \<Rightarrow> (r, w, Err (NotRegistered i))
            | Some f \<Rightarrow> (case f_handle ops f message w of
                (f', w', res) \<Rightarrow> (r\<lparr>reg_features := (reg_features r)(i \<mapsto> f')\<rparr>, w', res))))"

section \<open>The registry invariant\<close>

definition registry_inv :: "('f, 'w) feature_ops \<Rightarrow> 'f feature_registry \<Rightarrow> bool" where
  "registry_inv ops r \<longleftrightarrow> distinct (reg_enabled r) \<and> set (reg_enabled r) \<subseteq> dom (reg_features r) \<and>
     (\<forall>i f. reg_features r i = Some f \<longrightarrow> f_id ops f = i)"

text \<open>
  What the registry needs from a feature implementation: its methods never change the id it
  is filed under.
\<close>

locale feature_impl =
  fixes ops :: "('f, 'w) feature_ops"
  assumes start_id: "f_id ops (fst (f_start ops f w)) = f_id ops f"
    and stop_id: "f_id ops (fst (f_stop ops f w)) = f_id ops f"
    and handle_id: "f_id ops (fst (f_handle ops f m w)) = f_id ops f"
begin

lemma inv_new: "registry_inv ops registry_new"
  by (simp add: registry_inv_def registry_new_def)

lemma inv_register: "registry_inv ops r \<Longrightarrow> registry_inv ops (fst (registry_register ops f r))"
  by (auto simp: registry_inv_def registry_register_def Let_def)

lemma inv_enable: "registry_inv ops r \<Longrightarrow> registry_inv ops (fst (registry_enable i r))"
  by (auto simp: registry_inv_def registry_enable_def)

lemma inv_update:
  assumes "registry_inv ops r" "reg_features r i = Some f" "f_id ops f' = f_id ops f"
  shows "registry_inv ops (r\<lparr>reg_features := (reg_features r)(i \<mapsto> f')\<rparr>)"
  using assms by (auto simp: registry_inv_def)

lemma inv_disable: "registry_inv ops r \<Longrightarrow> registry_inv ops (fst (registry_disable ops i r w))"
proof -
  assume inv: "registry_inv ops r"
  let ?r1 = "r\<lparr>reg_enabled := remove1 i (reg_enabled r)\<rparr>"
  have inv1: "registry_inv ops ?r1"
    using inv by (auto simp: registry_inv_def dest: notin_set_remove1 in_set_remove1 set_mp)
  show ?thesis
  proof (cases "reg_features r i")
    case None
    then show ?thesis using inv1 by (simp add: registry_disable_def)
  next
    case (Some f)
    then show ?thesis
      using inv_update [OF inv1, of i f "fst (f_stop ops f w)"] stop_id
      by (simp add: registry_disable_def split: prod.splits) (metis fst_conv)
  qed
qed

lemma inv_start_registered:
  "registry_inv ops r \<Longrightarrow> registry_inv ops (fst (start_registered ops i r w))"
proof (cases "reg_features r i")
  case (Some f)
  assume "registry_inv ops r"
  then show ?thesis using Some inv_update [of r i f "fst (f_start ops f w)"] start_id
    by (simp add: start_registered_def split: prod.splits) (metis fst_conv)
qed (simp add: start_registered_def)

lemma enabled_start_registered: "reg_enabled (fst (start_registered ops i r w)) = reg_enabled r"
  by (simp add: start_registered_def split: option.splits prod.splits)

lemma dom_start_registered:
  "dom (reg_features (fst (start_registered ops i r w))) = dom (reg_features r)"
  by (auto simp: start_registered_def split: option.splits prod.splits)

lemma start_registered_no_panic:
  "i \<in> dom (reg_features r) \<Longrightarrow> snd (snd (start_registered ops i r w)) \<noteq> Err (Panic s)"
  by (auto simp: start_registered_def map_err_def split: option.splits prod.splits sum.splits)

lemma inv_enable_and_start:
  "registry_inv ops r \<Longrightarrow> registry_inv ops (fst (registry_enable_and_start ops i r w))"
  using inv_enable [of r i] inv_start_registered
  by (auto simp: registry_enable_and_start_def split: prod.splits sum.splits)

lemma enable_and_start_no_panic:
  "snd (snd (registry_enable_and_start ops i r w)) \<noteq> Err (Panic s)"
proof (cases "reg_features r i")
  case None
  then show ?thesis by (simp add: registry_enable_and_start_def registry_enable_def)
next
  case (Some f)
  then have "i \<in> dom (reg_features (r\<lparr>reg_enabled := List.insert i (reg_enabled r)\<rparr>))" by auto
  then show ?thesis using Some start_registered_no_panic
    by (simp add: registry_enable_and_start_def registry_enable_def)
qed

lemma inv_start_each: "registry_inv ops r \<Longrightarrow> registry_inv ops (fst (start_each ops ids r w))"
proof (induction ids arbitrary: r w)
  case (Cons i ids)
  then show ?case using inv_start_registered [of r i w]
    by (auto split: prod.splits sum.splits)
qed simp

lemma start_each_no_panic:
  "set ids \<subseteq> dom (reg_features r) \<Longrightarrow> snd (snd (start_each ops ids r w)) \<noteq> Err (Panic s)"
proof (induction ids arbitrary: r w)
  case (Cons i ids)
  obtain r' w' res where st: "start_registered ops i r w = (r', w', res)" by (metis prod_cases3)
  show ?case
  proof (cases res)
    case (Inl e)
    then show ?thesis using st start_registered_no_panic [of i r w s] Cons.prems by auto
  next
    case (Inr u)
    have "dom (reg_features r') = dom (reg_features r)" using dom_start_registered [of i r w] st by simp
    then show ?thesis using st Inr Cons by simp
  qed
qed simp

lemma start_enabled_no_panic:
  "registry_inv ops r \<Longrightarrow> snd (snd (start_enabled ops r w)) \<noteq> Err (Panic s)"
  by (rule start_each_no_panic [of "reg_enabled r" r w s, folded start_enabled_def])
    (simp add: registry_inv_def)

lemma inv_start_enabled: "registry_inv ops r \<Longrightarrow> registry_inv ops (fst (start_enabled ops r w))"
  by (simp add: start_enabled_def inv_start_each)

lemma inv_dispatch: "registry_inv ops r \<Longrightarrow> registry_inv ops (fst (dispatch ops m r w))"
proof -
  assume inv: "registry_inv ops r"
  show ?thesis
  proof (cases "reg_features r (fm_feature m)")
    case None
    with inv show ?thesis by (simp add: dispatch_def Let_def)
  next
    case (Some f)
    with inv show ?thesis
      using inv_update [of r "fm_feature m" f "fst (f_handle ops f m w)"] handle_id
      by (simp add: dispatch_def Let_def split: prod.splits) (metis fst_conv)
  qed
qed

end

lemma dispatch_not_enabled:
  "\<not> is_enabled r (fm_feature m) \<Longrightarrow> dispatch ops m r w = (r, w, Err (NotEnabled (fm_feature m)))"
  by (simp add: dispatch_def Let_def)

lemma dispatch_enabled:
  assumes "registry_inv ops r" "is_enabled r (fm_feature m)"
  obtains f where "reg_features r (fm_feature m) = Some f" "f_id ops f = fm_feature m"
    "dispatch ops m r w = (case f_handle ops f m w of
       (f', w', res) \<Rightarrow> (r\<lparr>reg_features := (reg_features r)(fm_feature m \<mapsto> f')\<rparr>, w', res))"
proof -
  from assms obtain f where f: "reg_features r (fm_feature m) = Some f" "f_id ops f = fm_feature m"
    by (auto simp: registry_inv_def is_enabled_def dom_def subset_iff)
  with assms(2) show thesis by (intro that) (auto simp: dispatch_def Let_def)
qed

section \<open>The catalog\<close>

definition clipboard_id :: feature_id where "clipboard_id = FeatureId ''clipboard''"
definition shell_id :: feature_id where "shell_id = FeatureId ''shell''"
definition port_id :: feature_id where "port_id = FeatureId ''port_forward''"
definition send_id :: feature_id where "send_id = FeatureId ''file_send''"

definition catalog :: "feature_info list" where
  "catalog =
     [\<lparr>fi_id = ''clipboard'', fi_label = ''Clipboard'',
       fi_description = ''Sync clipboard content across devices''\<rparr>,
      \<lparr>fi_id = ''shell'', fi_label = ''Shell'',
       fi_description = ''Accept remote terminal sessions from other devices''\<rparr>,
      \<lparr>fi_id = ''port_forward'', fi_label = ''Port Forward'',
       fi_description = ''Accept forwarded TCP connections from other devices''\<rparr>,
      \<lparr>fi_id = ''file_send'', fi_label = ''File Send'',
       fi_description = ''Receive explicit file transfers from other devices''\<rparr>]"

definition all_ids :: "feature_id list" where
  "all_ids = [clipboard_id, shell_id, port_id, send_id]"

definition is_known_feature :: "string \<Rightarrow> bool" where
  "is_known_feature i \<longleftrightarrow> list_ex (\<lambda>f. feature_str f = i) all_ids"

definition parse_feature_id :: "string \<Rightarrow> (unknown_feature_id, feature_id) result" where
  "parse_feature_id value =
     (let v = trim value in ok_or (List.find (\<lambda>f. feature_str f = v) all_ids) (UnknownFeatureId v))"

lemma feature_ids_distinct [simp]:
  "distinct all_ids"
  "clipboard_id \<noteq> shell_id" "clipboard_id \<noteq> port_id" "clipboard_id \<noteq> send_id"
  "shell_id \<noteq> port_id" "shell_id \<noteq> send_id" "port_id \<noteq> send_id"
  by (simp_all add: all_ids_def clipboard_id_def shell_id_def port_id_def send_id_def)

lemma catalog_ids: "map (FeatureId \<circ> fi_id) catalog = all_ids"
  by (simp add: catalog_def all_ids_def clipboard_id_def shell_id_def port_id_def send_id_def)

lemma is_known_feature_iff: "is_known_feature s \<longleftrightarrow> FeatureId s \<in> set all_ids"
  by (auto simp: is_known_feature_def list_ex_iff) (metis feature_id.sel)

lemma parse_feature_id_known: "parse_feature_id s = Ok f \<Longrightarrow> f \<in> set all_ids \<and> feature_str f = trim s"
  using find_Some_set [of "\<lambda>f. feature_str f = trim s" all_ids f]
  by (auto simp: parse_feature_id_def Let_def)

end
