(* ===== verification/Peers.thy ===== *)
theory Peers
  imports Registry "HOL-Library.AList"
begin

text \<open>
  Who the peers are and where they are: \<open>failsafe-core/src/peer.rs\<close> (peers of the account and
  the per-peer feature policy) and \<open>peer_address.rs\<close> (device to transport address). The two
  hash sets of \<open>PeerDirectory\<close> are distinct lists, the hash map of \<open>PeerAddressBook\<close> is an
  association list with distinct keys; list order stands for their iteration order.
\<close>

section \<open>The peer directory\<close>

record peer_directory =
  pd_peers :: "device_id list"
  pd_disabled :: "(device_id \<times> feature_id) list"

definition peer_directory_new :: peer_directory where
  "peer_directory_new = \<lparr>pd_peers = [], pd_disabled = []\<rparr>"

definition replace_peers :: "device_id list \<Rightarrow> peer_directory \<Rightarrow> peer_directory" where
  "replace_peers peers p = p\<lparr>pd_peers := remdups peers\<rparr>"

definition set_feature_enabled :: "device_id \<Rightarrow> feature_id \<Rightarrow> bool \<Rightarrow> peer_directory \<Rightarrow> peer_directory" where
  "set_feature_enabled peer feature enabled p =
     (let key = (peer, feature) in
      if enabled then p\<lparr>pd_disabled := removeAll key (pd_disabled p)\<rparr>
      else p\<lparr>pd_disabled := List.insert key (pd_disabled p)\<rparr>)"

definition is_feature_enabled :: "device_id \<Rightarrow> feature_id \<Rightarrow> peer_directory \<Rightarrow> bool" where
  "is_feature_enabled peer feature p \<longleftrightarrow>
     peer \<in> set (pd_peers p) \<and> (peer, feature) \<notin> set (pd_disabled p)"

definition recipients_for :: "feature_id \<Rightarrow> peer_directory \<Rightarrow> device_id list" where
  "recipients_for feature p = filter (\<lambda>peer. (peer, feature) \<notin> set (pd_disabled p)) (pd_peers p)"

definition peer_directory_inv :: "peer_directory \<Rightarrow> bool" where
  "peer_directory_inv p \<longleftrightarrow> distinct (pd_peers p) \<and> distinct (pd_disabled p)"

lemma recipients_for_iff: "d \<in> set (recipients_for f p) \<longleftrightarrow> is_feature_enabled d f p"
  by (auto simp: recipients_for_def is_feature_enabled_def)

lemma distinct_recipients: "peer_directory_inv p \<Longrightarrow> distinct (recipients_for f p)"
  by (simp add: peer_directory_inv_def recipients_for_def)

lemma peer_directory_inv_ops [simp]:
  "peer_directory_inv peer_directory_new"
  "peer_directory_inv p \<Longrightarrow> peer_directory_inv (replace_peers ps p)"
  "peer_directory_inv p \<Longrightarrow> peer_directory_inv (set_feature_enabled d f b p)"
  by (auto simp: peer_directory_inv_def peer_directory_new_def replace_peers_def
    set_feature_enabled_def Let_def distinct_removeAll)

lemma pd_peers_simps [simp]:
  "pd_peers (set_feature_enabled d f b p) = pd_peers p"
  "set (pd_peers (replace_peers ps p)) = set ps"
  "pd_disabled (replace_peers ps p) = pd_disabled p"
  by (simp_all add: set_feature_enabled_def replace_peers_def Let_def)

lemma pd_disabled_set [simp]:
  "set (pd_disabled (set_feature_enabled d f b p)) =
     (if b then set (pd_disabled p) - {(d, f)} else insert (d, f) (set (pd_disabled p)))"
  by (auto simp: set_feature_enabled_def Let_def)

section \<open>The address book\<close>

datatype peer_address_book = PeerAddressBook (book_entries: "(device_id \<times> string) list")

definition book_from_map :: "(device_id \<times> string) list \<Rightarrow> peer_address_book" where
  "book_from_map addresses = PeerAddressBook addresses"

definition book_get :: "device_id \<Rightarrow> peer_address_book \<Rightarrow> string option" where
  "book_get device b = map_of (book_entries b) device"

definition book_iter :: "peer_address_book \<Rightarrow> (device_id \<times> string) list" where
  "book_iter b = book_entries b"

definition book_is_empty :: "peer_address_book \<Rightarrow> bool" where
  "book_is_empty b \<longleftrightarrow> book_entries b = []"

text \<open>\<open>HashMap::insert\<close> on an association list.\<close>

definition map_insert :: "'k \<Rightarrow> 'v \<Rightarrow> ('k \<times> 'v) list \<Rightarrow> ('k \<times> 'v) list" where
  "map_insert k v m = AList.update k v m"

lemma map_of_map_insert [simp]: "map_of (map_insert k v m) = (map_of m)(k \<mapsto> v)"
  by (simp add: map_insert_def update_conv')

lemma distinct_map_insert [simp]:
  "distinct (map fst m) \<Longrightarrow> distinct (map fst (map_insert k v m))"
  by (simp add: map_insert_def distinct_update)

lemma dom_map_insert [simp]: "fst ` set (map_insert k v m) = insert k (fst ` set m)"
  by (metis dom_map_of_conv_image_fst map_of_map_insert dom_fun_upd option.distinct(1))

end
