(* ===== verification/Control_Io.thy ===== *)
theory Control_Io
  imports Core Peers
begin

text \<open>
  The control stream as the daemon's handlers see it (\<open>failsafe-core/src/control.rs\<close>): the
  responses and events written so far and a script of the outcomes of the writes to come, and
  the context a handler gets (\<open>failsafe-core/src/feature.rs\<close>). The bytes of a response are in
  \<open>Core\<close>.
\<close>

record control_io =
  ci_responses :: "control_response list"
  ci_events :: "control_event list"
  ci_faults :: "control_error option list"

definition next_control_fault :: "control_io \<Rightarrow> control_error option \<times> control_io" where
  "next_control_fault io = (case ci_faults io of [] \<Rightarrow> (None, io) | f # fs \<Rightarrow> (f, io\<lparr>ci_faults := fs\<rparr>))"

definition respond :: "control_response \<Rightarrow> control_io \<Rightarrow> control_io \<times> (control_error, unit) result" where
  "respond r io =
     (case next_control_fault io of
        (None, io') \<Rightarrow> (io'\<lparr>ci_responses := ci_responses io' @ [r]\<rparr>, Ok ())
      | (Some e, io') \<Rightarrow> (io', Err e))"

definition emit_event :: "control_event \<Rightarrow> control_io \<Rightarrow> control_io \<times> (control_error, unit) result" where
  "emit_event e io =
     (case next_control_fault io of
        (None, io') \<Rightarrow> (io'\<lparr>ci_events := ci_events io' @ [e]\<rparr>, Ok ())
      | (Some err, io') \<Rightarrow> (io', Err err))"

record control_context =
  cc_peers :: peer_directory
  cc_local_features :: "feature_id list"

lemma respond_responses:
  "respond r io = (io', Ok ()) \<Longrightarrow> ci_responses io' = ci_responses io @ [r]"
  "respond r io = (io', Err e) \<Longrightarrow> ci_responses io' = ci_responses io"
  by (auto simp: respond_def next_control_fault_def split: list.splits option.splits prod.splits)

lemma respond_events: "ci_events (fst (respond r io)) = ci_events io"
  by (auto simp: respond_def next_control_fault_def split: list.splits option.splits prod.splits)

lemma emit_events:
  "emit_event e io = (io', Ok ()) \<Longrightarrow> ci_events io' = ci_events io @ [e]"
  "emit_event e io = (io', Err er) \<Longrightarrow> ci_events io' = ci_events io"
  by (auto simp: emit_event_def next_control_fault_def split: list.splits option.splits prod.splits)

lemma emit_responses: "ci_responses (fst (emit_event e io)) = ci_responses io"
  by (auto simp: emit_event_def next_control_fault_def split: list.splits option.splits prod.splits)

end
