(* ===== verification/Codec.thy ===== *)
theory Codec
  imports Core
begin

text \<open>
  The wire format between devices: \<open>failsafe-transport/src/codec.rs\<close> (length-prefixed JSON
  frames), \<open>port.rs\<close> and \<open>shell.rs\<close> (the handshakes of raw streams), and the reader of
  \<open>iroh/stream.rs\<close> that tells the three apart by the first four bytes. serde's writer and
  reader for \<open>FeatureMessage\<close> are the arguments \<open>ser\<close> and \<open>de\<close>.
\<close>

section \<open>Transport errors\<close>

datatype transport_error =
    PeerNotFound device_id
  | Disconnected
  | CodecError string

fun transport_error_display :: "ext \<Rightarrow> transport_error \<Rightarrow> string" where
  "transport_error_display x (PeerNotFound d) = ''peer `'' @ device_id_display x d @ ''` not found''"
| "transport_error_display x Disconnected = ''transport disconnected''"
| "transport_error_display x (CodecError m) = ''transport codec error: '' @ m"

section \<open>Frames\<close>

definition MAX_MESSAGE_SIZE :: nat where "MAX_MESSAGE_SIZE = 16 * 1024 * 1024"

definition too_large :: string where
  "too_large = ''message exceeds maximum size of '' @ show_nat MAX_MESSAGE_SIZE @ '' bytes''"

definition encode :: "(feature_message \<Rightarrow> (string, u8 list) result) \<Rightarrow> feature_message
    \<Rightarrow> (transport_error, u8 list) result" where
  "encode ser message =
     (case ser message of
        Err e \<Rightarrow> Err (CodecError e)
      | Ok payload \<Rightarrow>
          if length payload > MAX_MESSAGE_SIZE then Err (CodecError too_large)
          else Ok (be32 (of_nat (length payload)) @ payload))"

definition decode :: "(u8 list \<Rightarrow> (string, feature_message) result) \<Rightarrow> u8 list
    \<Rightarrow> (transport_error, feature_message) result" where
  "decode de frame =
     (if length frame < 4 then Err (CodecError ''frame too short'')
      else let len = unat (from_be32 (take 4 frame)) in
        if len > MAX_MESSAGE_SIZE then Err (CodecError too_large)
        else if length frame < 4 + len then Err (CodecError ''incomplete frame'')
        else map_err CodecError (de (take len (drop 4 frame))))"

lemma encode_Ok:
  "encode ser m = Ok f \<longleftrightarrow>
     (\<exists>p. ser m = Ok p \<and> length p \<le> MAX_MESSAGE_SIZE \<and> f = be32 (of_nat (length p)) @ p)"
  by (auto simp: encode_def split: sum.splits)

lemma unat_frame_length:
  "length p \<le> MAX_MESSAGE_SIZE \<Longrightarrow> unat (of_nat (length p) :: u32) = length p"
  by (rule unat_u32_of_nat) (simp add: MAX_MESSAGE_SIZE_def)

lemma decode_frame:
  assumes "length p \<le> MAX_MESSAGE_SIZE"
  shows "decode de (be32 (of_nat (length p)) @ p @ rest) = map_err CodecError (de p)"
  using assms by (simp add: decode_def Let_def unat_frame_length)

lemma decode_encode:
  assumes "encode ser m = Ok f" and "\<And>p. ser m = Ok p \<Longrightarrow> de p = Ok m"
  shows "decode de (f @ rest) = Ok m"
  using assms by (auto simp: encode_Ok decode_frame)

lemma decode_errors:
  "length f < 4 \<Longrightarrow> decode de f = Err (CodecError ''frame too short'')"
  "length f \<ge> 4 \<Longrightarrow> unat (from_be32 (take 4 f)) > MAX_MESSAGE_SIZE \<Longrightarrow>
     decode de f = Err (CodecError too_large)"
  "length f \<ge> 4 \<Longrightarrow> unat (from_be32 (take 4 f)) \<le> MAX_MESSAGE_SIZE \<Longrightarrow>
     length f < 4 + unat (from_be32 (take 4 f)) \<Longrightarrow> decode de f = Err (CodecError ''incomplete frame'')"
  by (auto simp: decode_def Let_def)

section \<open>Port and shell handshakes\<close>

definition bytes_of :: "string \<Rightarrow> u8 list" where
  "bytes_of s = map (\<lambda>c. of_nat (byte_of c)) s"

definition PORT_HANDSHAKE :: "u8 list" where "PORT_HANDSHAKE = [0x46, 0x53, 0x50, 0x31]"
definition PORT_INIT_LEN :: nat where "PORT_INIT_LEN = 7"
definition PORT_PROTOCOL_TCP :: u8 where "PORT_PROTOCOL_TCP = 0"

lemma PORT_HANDSHAKE_text: "PORT_HANDSHAKE = bytes_of ''FSP1''"
  by (simp add: PORT_HANDSHAKE_def bytes_of_def byte_of_def)

definition is_port_handshake :: "u8 list \<Rightarrow> bool" where
  "is_port_handshake header \<longleftrightarrow> length header \<ge> 4 \<and> take 4 header = PORT_HANDSHAKE"

definition build_port_init :: "u16 \<Rightarrow> port_protocol \<Rightarrow> u8 list" where
  "build_port_init remote_port protocol =
     PORT_HANDSHAKE @ be16 remote_port @ [case protocol of Tcp \<Rightarrow> PORT_PROTOCOL_TCP]"

definition parse_port_init :: "u8 list \<Rightarrow> (u16 \<times> port_protocol) option" where
  "parse_port_init bytes =
     (if length bytes < PORT_INIT_LEN \<or> \<not> is_port_handshake bytes then None
      else let remote_port = from_be16 (take 2 (drop 4 bytes)) in
        if bytes ! 6 = PORT_PROTOCOL_TCP then Some (remote_port, Tcp) else None)"

definition SHELL_HANDSHAKE :: "u8 list" where "SHELL_HANDSHAKE = [0x46, 0x53, 0x48, 0x31]"
definition SHELL_INIT_LEN :: nat where "SHELL_INIT_LEN = 8"

lemma SHELL_HANDSHAKE_text: "SHELL_HANDSHAKE = bytes_of ''FSH1''"
  by (simp add: SHELL_HANDSHAKE_def bytes_of_def byte_of_def)

definition is_shell_handshake :: "u8 list \<Rightarrow> bool" where
  "is_shell_handshake header \<longleftrightarrow> length header \<ge> 4 \<and> take 4 header = SHELL_HANDSHAKE"

definition build_shell_init :: "u16 \<Rightarrow> u16 \<Rightarrow> u8 list" where
  "build_shell_init rows cols = SHELL_HANDSHAKE @ be16 rows @ be16 cols"

definition parse_shell_init :: "u8 list \<Rightarrow> (u16 \<times> u16) option" where
  "parse_shell_init bytes =
     (if length bytes < SHELL_INIT_LEN \<or> \<not> is_shell_handshake bytes then None
      else Some (from_be16 (take 2 (drop 4 bytes)), from_be16 (take 2 (drop 6 bytes))))"

lemma length_handshake [simp]: "length PORT_HANDSHAKE = 4" "length SHELL_HANDSHAKE = 4"
  by (simp_all add: PORT_HANDSHAKE_def SHELL_HANDSHAKE_def)

lemma length_init [simp]:
  "length (build_port_init p pr) = PORT_INIT_LEN" "length (build_shell_init r c) = SHELL_INIT_LEN"
  by (simp_all add: build_port_init_def build_shell_init_def PORT_INIT_LEN_def SHELL_INIT_LEN_def)

lemma parse_build_port: "parse_port_init (build_port_init p pr) = Some (p, pr)"
  by (cases pr)
    (simp add: parse_port_init_def is_port_handshake_def build_port_init_def PORT_INIT_LEN_def
      nth_append PORT_PROTOCOL_TCP_def)

lemma parse_build_shell: "parse_shell_init (build_shell_init r c) = Some (r, c)"
  by (simp add: parse_shell_init_def is_shell_handshake_def build_shell_init_def SHELL_INIT_LEN_def)

lemma handshakes_disjoint: "\<not> (is_port_handshake h \<and> is_shell_handshake h)"
  by (auto simp: is_port_handshake_def is_shell_handshake_def PORT_HANDSHAKE_def SHELL_HANDSHAKE_def)

lemma be_nat_handshake:
  "be_nat PORT_HANDSHAKE > MAX_MESSAGE_SIZE" "be_nat SHELL_HANDSHAKE > MAX_MESSAGE_SIZE"
  by (simp_all add: be_nat_def PORT_HANDSHAKE_def SHELL_HANDSHAKE_def MAX_MESSAGE_SIZE_def)

lemma frame_header_not_handshake:
  assumes "n \<le> MAX_MESSAGE_SIZE"
  shows "\<not> is_port_handshake (be32 (of_nat n))" "\<not> is_shell_handshake (be32 (of_nat n))"
proof -
  have "n < 2 ^ 32" using assms by (simp add: MAX_MESSAGE_SIZE_def)
  then have n: "be_nat (be32 (of_nat n)) \<le> MAX_MESSAGE_SIZE"
    using assms by (simp add: be_nat_be32 unat_u32_of_nat)
  show "\<not> is_port_handshake (be32 (of_nat n))" "\<not> is_shell_handshake (be32 (of_nat n))"
    using n be_nat_handshake by (auto simp: is_port_handshake_def is_shell_handshake_def)
qed

section \<open>Reading a receive stream\<close>

text \<open>
  A receive stream is the script of what the peer and the network do to it: chunks of data,
  each consumed by one or more reads, and read errors; its end is the peer's \<open>finish\<close>.
\<close>

datatype recv_event = RData "u8 list" | RError string

type_synonym recv_stream = "recv_event list"

fun recv_read :: "nat \<Rightarrow> recv_stream \<Rightarrow> (string, u8 list) result \<times> recv_stream" where
  "recv_read n [] = (Ok [], [])"
| "recv_read n (RError e # s) = (Err e, s)"
| "recv_read n (RData bs # s) =
     (Ok (take n bs), if length bs \<le> n then s else RData (drop n bs) # s)"

lemma recv_read_length: "recv_read n s = (Ok bs, s') \<Longrightarrow> length bs \<le> n"
  by (induction n s rule: recv_read.induct) auto

function read_exact :: "nat \<Rightarrow> recv_stream \<Rightarrow> (transport_error, u8 list) result \<times> recv_stream" where
  "read_exact n s =
     (if n = 0 then (Ok [], s)
      else (case recv_read n s of
        (Err e, s') \<Rightarrow> (Err (CodecError e), s')
      | (Ok bs, s') \<Rightarrow>
          if bs = [] then (Err (CodecError ''stream closed before read complete''), s')
          else (case read_exact (n - length bs) s' of
                  (Err e, s'') \<Rightarrow> (Err e, s'')
                | (Ok rest, s'') \<Rightarrow> (Ok (bs @ rest), s''))))"
  by pat_completeness auto
termination by (relation "measure fst") (auto simp: neq_Nil_conv)

declare read_exact.simps [simp del]

fun stream_bytes :: "recv_stream \<Rightarrow> u8 list" where
  "stream_bytes [] = []"
| "stream_bytes (RData bs # s) = bs @ stream_bytes s"
| "stream_bytes (RError _ # s) = []"

definition plain_stream :: "recv_stream \<Rightarrow> bool" where
  "plain_stream s \<longleftrightarrow> (\<forall>e \<in> set s. \<exists>bs. e = RData bs \<and> bs \<noteq> [])"

lemma plain_stream_simps [simp]:
  "plain_stream []" "plain_stream (RData bs # s) \<longleftrightarrow> bs \<noteq> [] \<and> plain_stream s"
  "\<not> plain_stream (RError e # s)"
  by (auto simp: plain_stream_def)

lemma recv_read_plain:
  assumes "plain_stream s" "n > 0"
  obtains bs s' where "recv_read n s = (Ok bs, s')" "plain_stream s'"
    "stream_bytes s = bs @ stream_bytes s'" "length bs \<le> n" "bs = [] \<longleftrightarrow> s = []"
  using assms by (cases s rule: stream_bytes.cases) (auto split: if_splits intro!: that)

lemma read_exact_plain:
  "plain_stream s \<Longrightarrow> n \<le> length (stream_bytes s) \<Longrightarrow>
     \<exists>s'. read_exact n s = (Ok (take n (stream_bytes s)), s') \<and> plain_stream s' \<and>
          stream_bytes s' = drop n (stream_bytes s)"
proof (induction n s rule: read_exact.induct)
  case (1 n s)
  show ?case
  proof (cases "n = 0")
    case True
    then show ?thesis using 1 by (simp add: read_exact.simps)
  next
    case False
    then obtain bs s1 where r: "recv_read n s = (Ok bs, s1)" "plain_stream s1"
      "stream_bytes s = bs @ stream_bytes s1" "length bs \<le> n" "bs = [] \<longleftrightarrow> s = []"
      using recv_read_plain "1.prems" by (metis not_gr_zero)
    have ne: "bs \<noteq> []" using r(5) False "1.prems" by auto
    have "n - length bs \<le> length (stream_bytes s1)" using "1.prems" r(3) by simp
    with "1.IH" [OF False r(1) [symmetric] refl ne r(2)] obtain s2 where
      "read_exact (n - length bs) s1 = (Ok (take (n - length bs) (stream_bytes s1)), s2)"
      "plain_stream s2" "stream_bytes s2 = drop (n - length bs) (stream_bytes s1)" by auto
    then show ?thesis using False r ne
      by (subst read_exact.simps) (simp add: take_append)
  qed
qed

lemma read_exact_short:
  "plain_stream s \<Longrightarrow> length (stream_bytes s) < n \<Longrightarrow>
     fst (read_exact n s) = Err (CodecError ''stream closed before read complete'')"
proof (induction n s rule: read_exact.induct)
  case (1 n s)
  then have n: "n \<noteq> 0" by auto
  then obtain bs s1 where r: "recv_read n s = (Ok bs, s1)" "plain_stream s1"
    "stream_bytes s = bs @ stream_bytes s1" "length bs \<le> n" "bs = [] \<longleftrightarrow> s = []"
    using recv_read_plain "1.prems" by (metis not_gr_zero)
  show ?case
  proof (cases "bs = []")
    case True
    then show ?thesis using n r by (subst read_exact.simps) simp
  next
    case False
    have "length (stream_bytes s1) < n - length bs" using "1.prems" r(3) by simp
    with "1.IH" [OF n r(1) [symmetric] refl False r(2)] show ?thesis
      using n r False by (subst read_exact.simps) (auto split: prod.splits sum.splits)
  qed
qed

lemma read_exact_length: "read_exact n s = (Ok bs, s') \<Longrightarrow> length bs = n"
proof (induction n s arbitrary: bs s' rule: read_exact.induct)
  case (1 n s)
  show ?case
  proof (cases "n = 0")
    case True
    with 1 show ?thesis by (simp add: read_exact.simps)
  next
    case False
    obtain r s1 where r: "recv_read n s = (r, s1)" by fastforce
    with "1.prems" False obtain b where b: "r = Ok b" "b \<noteq> []"
      by (subst (asm) read_exact.simps) (auto split: sum.splits if_splits)
    obtain q s2 where q: "read_exact (n - length b) s1 = (q, s2)" by fastforce
    from "1.prems" False r b q obtain rest where rest: "q = Ok rest" "bs = b @ rest"
      by (subst (asm) read_exact.simps) (auto split: sum.splits)
    have "length rest = n - length b"
      using "1.IH" [OF False r [symmetric] b] q rest by simp
    moreover have "length b \<le> n" using recv_read_length r b by blast
    ultimately show ?thesis using rest by simp
  qed
qed

section \<open>Incoming streams\<close>

text \<open>An \<open>mpsc\<close> channel: what was sent and not yet received, and whether the receiver lives.\<close>

record 'a channel =
  ch_queue :: "'a list"
  ch_open :: bool

definition channel_send :: "'a \<Rightarrow> 'a channel \<Rightarrow> 'a channel \<times> bool" where
  "channel_send a c = (if ch_open c then (c\<lparr>ch_queue := ch_queue c @ [a]\<rparr>, True) else (c, False))"

record port_session =
  ps_from :: device_id
  ps_remote_port :: u16
  ps_protocol :: port_protocol
  ps_recv :: recv_stream

record shell_session =
  ss_from :: device_id
  ss_rows :: u16
  ss_cols :: u16
  ss_recv :: recv_stream

record stream_env =
  se_inbox :: "feature_message channel"
  se_port_acceptor :: "port_session channel option"
  se_shell_acceptor :: "shell_session channel option"

definition forward_to_acceptor :: "'a channel option \<Rightarrow> 'a \<Rightarrow> 'a channel option" where
  "forward_to_acceptor acceptor session =
     (case acceptor of None \<Rightarrow> None | Some c \<Rightarrow> Some (fst (channel_send session c)))"

definition try_accept_port_stream :: "u8 list \<Rightarrow> recv_stream \<Rightarrow> device_id \<Rightarrow> stream_env \<Rightarrow> stream_env" where
  "try_accept_port_stream header recv device env =
     (case read_exact 3 recv of
        (Err _, _) \<Rightarrow> env
      | (Ok tail, recv') \<Rightarrow>
          (case parse_port_init (header @ tail) of
             None \<Rightarrow> env
           | Some (remote_port, protocol) \<Rightarrow>
               env\<lparr>se_port_acceptor := forward_to_acceptor (se_port_acceptor env)
                 \<lparr>ps_from = device, ps_remote_port = remote_port, ps_protocol = protocol,
                  ps_recv = recv'\<rparr>\<rparr>))"

definition try_accept_shell_stream :: "recv_stream \<Rightarrow> device_id \<Rightarrow> stream_env \<Rightarrow> stream_env" where
  "try_accept_shell_stream recv device env =
     (case read_exact 4 recv of
        (Err _, _) \<Rightarrow> env
      | (Ok size_buf, recv') \<Rightarrow>
          env\<lparr>se_shell_acceptor := forward_to_acceptor (se_shell_acceptor env)
            \<lparr>ss_from = device, ss_rows = from_be16 (take 2 size_buf),
             ss_cols = from_be16 (drop 2 size_buf), ss_recv = recv'\<rparr>\<rparr>)"

definition handle_feature_frame :: "(u8 list \<Rightarrow> (string, feature_message) result) \<Rightarrow> u8 list
    \<Rightarrow> recv_stream \<Rightarrow> device_id \<Rightarrow> device_id \<Rightarrow> stream_env \<Rightarrow> stream_env" where
  "handle_feature_frame de header recv device local_device_id env =
     (let len = unat (from_be32 header) in
      if len > MAX_MESSAGE_SIZE then env
      else (case read_exact len recv of
        (Err _, _) \<Rightarrow> env
      | (Ok payload, _) \<Rightarrow>
          (case decode de (header @ payload) of
             Err _ \<Rightarrow> env
           | Ok message \<Rightarrow>
               if fm_to message \<noteq> local_device_id then env
               else env\<lparr>se_inbox := fst (channel_send (message\<lparr>fm_from := device\<rparr>) (se_inbox env))\<rparr>)))"

definition handle_incoming_bi_stream :: "(u8 list \<Rightarrow> (string, feature_message) result)
    \<Rightarrow> recv_stream \<Rightarrow> device_id \<Rightarrow> device_id \<Rightarrow> stream_env \<Rightarrow> stream_env" where
  "handle_incoming_bi_stream de recv device local_device_id env =
     (case read_exact 4 recv of
        (Err _, _) \<Rightarrow> env
      | (Ok header, recv') \<Rightarrow>
          if is_port_handshake header then try_accept_port_stream header recv' device env
          else if is_shell_handshake header then try_accept_shell_stream recv' device env
          else handle_feature_frame de header recv' device local_device_id env)"

lemma se_inbox_accept [simp]:
  "se_inbox (try_accept_port_stream h r d env) = se_inbox env"
  "se_inbox (try_accept_shell_stream r d env) = se_inbox env"
  by (auto simp: try_accept_port_stream_def try_accept_shell_stream_def
    split: prod.splits sum.splits option.splits)

lemma handle_feature_frame_inbox:
  "se_inbox (handle_feature_frame de h r d l env) = se_inbox env \<or>
   (\<exists>m. fm_from m = d \<and> fm_to m = l \<and> ch_open (se_inbox env) \<and>
        ch_queue (se_inbox (handle_feature_frame de h r d l env)) = ch_queue (se_inbox env) @ [m])"
  by (auto simp: handle_feature_frame_def Let_def channel_send_def split: prod.splits sum.splits)

text \<open>
  C2. Whatever a peer writes on a stream, the stream handler adds at most one message to the
  inbox, and such a message carries the device the connection was authenticated as in \<open>from\<close>
  (never what the peer claimed) and this device in \<open>to\<close>; with a closed inbox nothing is added.
\<close>

theorem incoming_authentic:
  "se_inbox (handle_incoming_bi_stream de r d l env) = se_inbox env \<or>
   (\<exists>m. fm_from m = d \<and> fm_to m = l \<and> ch_open (se_inbox env) \<and>
        ch_queue (se_inbox (handle_incoming_bi_stream de r d l env)) = ch_queue (se_inbox env) @ [m])"
  using handle_feature_frame_inbox
  by (auto simp: handle_incoming_bi_stream_def split: prod.splits sum.splits)

text \<open>
  C1. A frame made by \<open>encode\<close> arrives: however the network cuts the bytes of the stream into
  chunks, and whatever follows the frame, the handler delivers exactly the message that was
  encoded, with \<open>from\<close> replaced by the authenticated device. No encoded frame is taken for a
  port or shell handshake on the way.
\<close>

theorem incoming_frame_delivered:
  assumes enc: "encode ser m = Ok frame" and de: "\<And>p. ser m = Ok p \<Longrightarrow> de p = Ok m"
    and s: "plain_stream s" "stream_bytes s = frame @ rest"
    and to: "fm_to m = l" and op: "ch_open (se_inbox env)"
  shows "ch_queue (se_inbox (handle_incoming_bi_stream de s d l env)) =
     ch_queue (se_inbox env) @ [m\<lparr>fm_from := d\<rparr>]"
proof -
  from enc obtain p where p: "ser m = Ok p" "length p \<le> MAX_MESSAGE_SIZE"
    "frame = be32 (of_nat (length p)) @ p" by (auto simp: encode_Ok)
  let ?h = "be32 (of_nat (length p))"
  have sb: "stream_bytes s = ?h @ p @ rest" using s(2) p(3) by simp
  have "4 \<le> length (stream_bytes s)" using sb by simp
  then obtain s1 where s1: "read_exact 4 s = (Ok (take 4 (stream_bytes s)), s1)" "plain_stream s1"
    "stream_bytes s1 = drop 4 (stream_bytes s)"
    using read_exact_plain [OF s(1)] by blast
  have r1: "read_exact 4 s = (Ok ?h, s1)" and sb1: "stream_bytes s1 = p @ rest"
    using s1 sb by simp_all
  have "length p \<le> length (stream_bytes s1)" using sb1 by simp
  then obtain s2 where "read_exact (length p) s1 = (Ok (take (length p) (stream_bytes s1)), s2)"
    using read_exact_plain [OF s1(2)] by blast
  then have r2: "read_exact (length p) s1 = (Ok p, s2)" using sb1 by simp
  have dec: "decode de (?h @ p) = Ok m"
    using decode_frame [OF p(2), of de "[]"] de [OF p(1)] by simp
  show ?thesis
    using r1 r2 dec frame_header_not_handshake [OF p(2)] p(2) to op
    by (simp add: handle_incoming_bi_stream_def handle_feature_frame_def Let_def
        unat_frame_length channel_send_def)
qed

text \<open>A stream that the witnesses below read: the frame of a two-byte payload in three chunks.\<close>

definition sample_message :: feature_message where
  "sample_message = feature_message_new (DeviceId 9) (DeviceId 2) (FeatureId ''clipboard'') [1]"

definition sample_env :: stream_env where
  "sample_env = \<lparr>se_inbox = \<lparr>ch_queue = [], ch_open = True\<rparr>,
     se_port_acceptor = Some \<lparr>ch_queue = [], ch_open = True\<rparr>, se_shell_acceptor = None\<rparr>"

lemma incoming_frame_delivered_witness:
  "ch_queue (se_inbox (handle_incoming_bi_stream (\<lambda>_. Ok sample_message)
     [RData [0, 0], RData [0, 2, 7], RData [8, 1]] (DeviceId 5) (DeviceId 2) sample_env)) =
   [sample_message\<lparr>fm_from := DeviceId 5\<rparr>]"
  using incoming_frame_delivered [of "\<lambda>_. Ok [7, 8]" sample_message "[0, 0, 0, 2, 7, 8]"
      "\<lambda>_. Ok sample_message" "[RData [0, 0], RData [0, 2, 7], RData [8, 1]]" "[1]"
      "DeviceId 2" sample_env "DeviceId 5"]
  by (simp add: encode_def MAX_MESSAGE_SIZE_def be32_def sample_message_def sample_env_def)

text \<open>
  The init bytes a port forward opens its stream with reach the port acceptor of the other
  side under every chunking: one session with the authenticated device, the requested port and
  protocol, whose receive stream holds exactly the bytes after the init.
\<close>

theorem incoming_port_delivered:
  assumes s: "plain_stream s" "stream_bytes s = build_port_init p pr @ rest"
    and acc: "se_port_acceptor env = Some c" "ch_open c"
  shows "\<exists>r. plain_stream r \<and> stream_bytes r = rest \<and>
     se_port_acceptor (handle_incoming_bi_stream de s d l env) = Some (c\<lparr>ch_queue := ch_queue c @
       [\<lparr>ps_from = d, ps_remote_port = p, ps_protocol = pr, ps_recv = r\<rparr>]\<rparr>)"
proof -
  have sb: "stream_bytes s = PORT_HANDSHAKE @ (be16 p @ [case pr of Tcp \<Rightarrow> PORT_PROTOCOL_TCP]) @ rest"
    using s(2) by (simp add: build_port_init_def)
  have "4 \<le> length (stream_bytes s)" using sb by simp
  then obtain s1 where s1: "read_exact 4 s = (Ok (take 4 (stream_bytes s)), s1)" "plain_stream s1"
    "stream_bytes s1 = drop 4 (stream_bytes s)"
    using read_exact_plain [OF s(1)] by blast
  let ?t = "be16 p @ [case pr of Tcp \<Rightarrow> PORT_PROTOCOL_TCP]"
  have r1: "read_exact 4 s = (Ok PORT_HANDSHAKE, s1)" and sb1: "stream_bytes s1 = ?t @ rest"
    using s1 sb by simp_all
  have "3 \<le> length (stream_bytes s1)" using sb1 by simp
  then obtain s2 where s2: "read_exact 3 s1 = (Ok (take 3 (stream_bytes s1)), s2)" "plain_stream s2"
    "stream_bytes s2 = drop 3 (stream_bytes s1)"
    using read_exact_plain [OF s1(2)] by blast
  have r2: "read_exact 3 s1 = (Ok ?t, s2)" and sb2: "stream_bytes s2 = rest"
    using s2 sb1 by simp_all
  have "parse_port_init (PORT_HANDSHAKE @ ?t) = Some (p, pr)"
    using parse_build_port [of p pr] by (simp add: build_port_init_def)
  moreover have "is_port_handshake PORT_HANDSHAKE" by (simp add: is_port_handshake_def)
  ultimately show ?thesis using r1 r2 sb2 s2(2) acc
    by (intro exI [of _ s2])
      (simp add: handle_incoming_bi_stream_def try_accept_port_stream_def forward_to_acceptor_def
        channel_send_def)
qed

lemma incoming_port_delivered_witness:
  "\<exists>r. plain_stream r \<and> stream_bytes r = [65] \<and>
     se_port_acceptor (handle_incoming_bi_stream (\<lambda>_. Err [])
       [RData [0x46, 0x53, 0x50], RData [0x31, 0x0B], RData [0xB8, 0, 65]] (DeviceId 5) (DeviceId 2)
       sample_env) =
     Some \<lparr>ch_queue = [\<lparr>ps_from = DeviceId 5, ps_remote_port = 3000, ps_protocol = Tcp, ps_recv = r\<rparr>],
       ch_open = True\<rparr>"
  using incoming_port_delivered [of "[RData [0x46, 0x53, 0x50], RData [0x31, 0x0B], RData [0xB8, 0, 65]]"
      3000 Tcp "[65]" sample_env "\<lparr>ch_queue = [], ch_open = True\<rparr>" "\<lambda>_. Err []" "DeviceId 5" "DeviceId 2"]
  by (simp add: build_port_init_def PORT_HANDSHAKE_def PORT_PROTOCOL_TCP_def be16_def sample_env_def)

text \<open>
  \<open>decode\<close> accepts exactly the buffers that hold a whole frame: a four-byte length of at most
  16 MiB, that many bytes after it, and a payload serde accepts. Bytes after the frame are ignored.
\<close>

theorem decode_accepts:
  "decode de f = Ok m \<longleftrightarrow>
     4 \<le> length f \<and> unat (from_be32 (take 4 f)) \<le> MAX_MESSAGE_SIZE \<and>
     4 + unat (from_be32 (take 4 f)) \<le> length f \<and>
     de (take (unat (from_be32 (take 4 f))) (drop 4 f)) = Ok m"
  by (auto simp: decode_def Let_def)

end
