(* ===== verification/Network.thy ===== *)
theory Network
  imports Peers Codec "HOL-Library.Sublist"
begin

text \<open>
  The device-to-device transport: the trait \<open>Transport\<close> (\<open>transport.rs\<close>) as a locale, the
  message router on top of it (\<open>router.rs\<close>), and its Iroh implementation: the address state
  (\<open>iroh/address.rs\<close>), the connection pool and the dial loop (\<open>iroh/manager.rs\<close>), the inbound
  handler (\<open>iroh/protocol.rs\<close>) and the operations of \<open>iroh/transport.rs\<close>. Iroh itself is
  outside: parsing a public key is the argument \<open>pk\<close> (to its canonical text), connecting is the
  argument \<open>connect\<close>, and the script \<open>ns_io\<close> of the state says which stream operation fails.
\<close>

section \<open>The transport trait\<close>

record 't transport_ops =
  tr_local_device_id :: "'t \<Rightarrow> device_id"
  tr_send :: "feature_message \<Rightarrow> 't \<Rightarrow> 't \<times> (transport_error, unit) result"
  tr_connected_peers :: "'t \<Rightarrow> device_id list"
  tr_try_recv :: "'t \<Rightarrow> 't \<times> (transport_error, feature_message option) result"

text \<open>
  \<open>frames\<close> is what has been handed over whole to each peer; \<open>frame\<close> is the encoding of a
  message.
\<close>

locale transport =
  fixes ops :: "'t transport_ops"
    and frames :: "'t \<Rightarrow> (device_id \<times> u8 list) list"
    and frame :: "feature_message \<Rightarrow> u8 list option"
  assumes send_Ok: "tr_send ops m t = (t', Ok ()) \<Longrightarrow>
      \<exists>f. frame m = Some f \<and> frames t' = frames t @ [(fm_to m, f)]"
    and send_Err: "tr_send ops m t = (t', Err e) \<Longrightarrow> frames t' = frames t"
    and local_send: "tr_local_device_id ops (fst (tr_send ops m t)) = tr_local_device_id ops t"

section \<open>The message router\<close>

fun publish_each :: "ext \<Rightarrow> 't transport_ops \<Rightarrow> device_id \<Rightarrow> outbound_message \<Rightarrow> device_id list \<Rightarrow> 't
    \<Rightarrow> 't \<times> string list" where
  "publish_each x ops local_id outbound [] t = (t, [])"
| "publish_each x ops local_id outbound (peer # peers) t =
     (let message = feature_message_new local_id peer (om_feature outbound) (om_payload outbound) in
      case tr_send ops message t of
        (t', Ok _) \<Rightarrow> publish_each x ops local_id outbound peers t'
      | (t', Err error) \<Rightarrow>
          (case publish_each x ops local_id outbound peers t' of
             (t'', failures) \<Rightarrow>
               (t'', (device_id_display x peer @ '': '' @ transport_error_display x error) # failures)))"

definition publish_recipients :: "'t transport_ops \<Rightarrow> peer_directory \<Rightarrow> feature_id \<Rightarrow> 't \<Rightarrow> device_id list" where
  "publish_recipients ops peers feature t =
     filter (\<lambda>peer. peer \<in> set (tr_connected_peers ops t)) (recipients_for feature peers)"

definition publish :: "ext \<Rightarrow> 't transport_ops \<Rightarrow> peer_directory \<Rightarrow> outbound_message \<Rightarrow> 't
    \<Rightarrow> 't \<times> (publish_error, unit) result" where
  "publish x ops peers outbound t =
     (let local_id = tr_local_device_id ops t;
          candidates = recipients_for (om_feature outbound) peers in
      if candidates = [] then (t, Ok ())
      else let recipients = publish_recipients ops peers (om_feature outbound) t in
        if recipients = [] then (t, Ok ())
        else (case publish_each x ops local_id outbound recipients t of
          (t', failures) \<Rightarrow>
            (t', if failures = [] then Ok () else Err (PublishFailed (join_with ''; '' failures)))))"

lemma publish_recipients_iff:
  "p \<in> set (publish_recipients ops pd f t) \<longleftrightarrow>
     is_feature_enabled p f pd \<and> p \<in> set (tr_connected_peers ops t)"
  by (auto simp: publish_recipients_def recipients_for_iff)

lemma publish_unfold:
  "publish x ops peers outbound t =
     (case publish_each x ops (tr_local_device_id ops t) outbound
        (publish_recipients ops peers (om_feature outbound) t) t of
      (t', failures) \<Rightarrow>
        (t', if failures = [] then Ok () else Err (PublishFailed (join_with ''; '' failures))))"
  by (auto simp: publish_def Let_def publish_recipients_def)

context transport
begin

lemma publish_each_frames:
  "publish_each x ops l ob ps t = (t', fails) \<Longrightarrow>
     \<exists>oks. subseq oks ps \<and> length oks + length fails = length ps \<and>
       (\<forall>p \<in> set oks. frame (feature_message_new l p (om_feature ob) (om_payload ob)) \<noteq> None) \<and>
       frames t' = frames t @
         map (\<lambda>p. (p, the (frame (feature_message_new l p (om_feature ob) (om_payload ob))))) oks"
proof (induction ps arbitrary: t fails)
  case (Cons p ps)
  let ?m = "\<lambda>p. feature_message_new l p (om_feature ob) (om_payload ob)"
  obtain t1 r where s: "tr_send ops (?m p) t = (t1, r)" by fastforce
  show ?case
  proof (cases r)
    case (Inl e)
    with Cons.prems s obtain fs where fs: "publish_each x ops l ob ps t1 = (t', fs)"
      "length fails = Suc (length fs)" by (auto simp: Let_def split: prod.splits)
    from Cons.IH [OF fs(1)] obtain oks where oks: "subseq oks ps"
      "length oks + length fs = length ps" "\<forall>p \<in> set oks. frame (?m p) \<noteq> None"
      "frames t' = frames t1 @ map (\<lambda>p. (p, the (frame (?m p)))) oks" by blast
    moreover have "frames t1 = frames t" using send_Err s Inl by blast
    moreover have "subseq oks (p # ps)" using oks(1) by (rule list_emb_Cons)
    ultimately show ?thesis using fs(2) by (intro exI [of _ oks]) auto
  next
    case (Inr u)
    with Cons.prems s have fs: "publish_each x ops l ob ps t1 = (t', fails)" by (simp add: Let_def)
    from Cons.IH [OF fs] obtain oks where oks: "subseq oks ps"
      "length oks + length fails = length ps" "\<forall>p \<in> set oks. frame (?m p) \<noteq> None"
      "frames t' = frames t1 @ map (\<lambda>p. (p, the (frame (?m p)))) oks" by blast
    moreover obtain f where "frame (?m p) = Some f" "frames t1 = frames t @ [(p, f)]"
      using send_Ok [of "?m p" t t1] s Inr by auto
    ultimately show ?thesis by (intro exI [of _ "p # oks"]) auto
  qed
qed simp

text \<open>
  The frames a publish leaves behind are one per recipient it succeeded for, in order, and it
  reports success exactly when that is every recipient.
\<close>

lemma publish_frames:
  assumes "publish x ops pd ob t = (t', r)"
  defines "m \<equiv> \<lambda>p. feature_message_new (tr_local_device_id ops t) p (om_feature ob) (om_payload ob)"
  shows "\<exists>oks. subseq oks (publish_recipients ops pd (om_feature ob) t) \<and>
     (r = Ok () \<longleftrightarrow> oks = publish_recipients ops pd (om_feature ob) t) \<and>
     (\<forall>p \<in> set oks. frame (m p) \<noteq> None) \<and>
     frames t' = frames t @ map (\<lambda>p. (p, the (frame (m p)))) oks"
proof -
  let ?rs = "publish_recipients ops pd (om_feature ob) t"
  obtain t1 fs where pe: "publish_each x ops (tr_local_device_id ops t) ob ?rs t = (t1, fs)" by fastforce
  with assms(1) have r: "t' = t1" "r = Ok () \<longleftrightarrow> fs = []" by (auto simp: publish_unfold split: if_splits)
  from publish_each_frames [OF pe] obtain oks where oks: "subseq oks ?rs"
    "length oks + length fs = length ?rs" "\<forall>p \<in> set oks. frame (m p) \<noteq> None"
    "frames t1 = frames t @ map (\<lambda>p. (p, the (frame (m p)))) oks" unfolding m_def by blast
  have "fs = [] \<longleftrightarrow> oks = ?rs" using oks(1,2)
    by (metis add_cancel_left_right length_0_conv subseq_same_length)
  with oks r show ?thesis by blast
qed

end

section \<open>Addresses\<close>

definition parse_endpoint_addr :: "(string \<Rightarrow> (string, string) result) \<Rightarrow> string
    \<Rightarrow> (transport_error, string) result" where
  "parse_endpoint_addr pk address =
     map_err (\<lambda>e. CodecError (''invalid iroh public key: '' @ e)) (pk address)"

fun reverse_from :: "(string \<Rightarrow> (string, string) result) \<Rightarrow> (device_id \<times> string) list
    \<Rightarrow> (string \<rightharpoonup> device_id) \<Rightarrow> (transport_error, string \<rightharpoonup> device_id) result" where
  "reverse_from pk [] acc = Ok acc"
| "reverse_from pk ((device, address) # book) acc =
     (case parse_endpoint_addr pk address of
        Err e \<Rightarrow> Err e
      | Ok key \<Rightarrow> reverse_from pk book (acc(key \<mapsto> device)))"

definition build_reverse_lookup :: "(string \<Rightarrow> (string, string) result) \<Rightarrow> peer_address_book
    \<Rightarrow> (transport_error, string \<rightharpoonup> device_id) result" where
  "build_reverse_lookup pk book = reverse_from pk (book_iter book) (\<lambda>_. None)"

record address_state =
  as_book :: peer_address_book
  as_reverse_lookup :: "string \<rightharpoonup> device_id"

definition address_state_from_book :: "(string \<Rightarrow> (string, string) result) \<Rightarrow> peer_address_book
    \<Rightarrow> (transport_error, address_state) result" where
  "address_state_from_book pk book =
     map_ok (\<lambda>r. \<lparr>as_book = book, as_reverse_lookup = r\<rparr>) (build_reverse_lookup pk book)"

definition update_address_state :: "(string \<Rightarrow> (string, string) result) \<Rightarrow> peer_address_book
    \<Rightarrow> address_state \<Rightarrow> address_state \<times> (transport_error, unit) result" where
  "update_address_state pk book st =
     (case address_state_from_book pk book of
        Err e \<Rightarrow> (st, Err e)
      | Ok next \<Rightarrow> (next, Ok ()))"

lemma reverse_from_Ok:
  "reverse_from pk book r0 = Ok r \<Longrightarrow> r k = Some d \<Longrightarrow>
     r0 k = Some d \<or> (\<exists>a. (d, a) \<in> set book \<and> pk a = Ok k)"
proof (induction pk book r0 rule: reverse_from.induct)
  case (2 pk device address book acc)
  from "2.prems"(1) obtain key where key: "pk address = Ok key"
    and rec: "reverse_from pk book (acc(key \<mapsto> device)) = Ok r"
    by (auto simp: parse_endpoint_addr_def split: sum.splits)
  have "parse_endpoint_addr pk address = Ok key" using key by (simp add: parse_endpoint_addr_def)
  from "2.IH" [OF this rec "2.prems"(2)] show ?case using key by (auto split: if_splits)
qed simp

lemma reverse_lookup_sound:
  "build_reverse_lookup pk book = Ok r \<Longrightarrow> r k = Some d \<Longrightarrow>
     \<exists>a. (d, a) \<in> set (book_iter book) \<and> pk a = Ok k"
  using reverse_from_Ok [of pk "book_iter book" "\<lambda>_. None" r k d] by (simp add: build_reverse_lookup_def)

lemma reverse_from_complete:
  "reverse_from pk book r0 = Ok r \<Longrightarrow> k \<in> dom r0 \<or> (\<exists>d a. (d, a) \<in> set book \<and> pk a = Ok k) \<Longrightarrow> k \<in> dom r"
proof (induction pk book r0 rule: reverse_from.induct)
  case (2 pk device address book acc)
  from "2.prems"(1) obtain key where key: "pk address = Ok key"
    and rec: "reverse_from pk book (acc(key \<mapsto> device)) = Ok r"
    by (auto simp: parse_endpoint_addr_def split: sum.splits)
  have "k \<in> dom (acc(key \<mapsto> device)) \<or> (\<exists>d a. (d, a) \<in> set book \<and> pk a = Ok k)"
    using "2.prems"(2) key by auto
  moreover have "parse_endpoint_addr pk address = Ok key"
    using key by (simp add: parse_endpoint_addr_def)
  ultimately show ?case using "2.IH" rec by blast
qed auto

section \<open>The network state\<close>

text \<open>
  A connection is a handle with the remote key it was authenticated with. \<open>ns_handlers\<close> are the
  accept loops running, one per registered connection; \<open>ns_wire\<close> the streams opened so far with
  the bytes written and whether \<open>finish\<close> succeeded.
\<close>

record conn =
  c_handle :: nat
  c_remote_id :: string

record wire_stream =
  ws_peer :: device_id
  ws_conn :: conn
  ws_bytes :: "u8 list"
  ws_finished :: bool

record net_state =
  ns_device_id :: device_id
  ns_endpoint_id :: string
  ns_pool :: "(device_id \<times> conn) list"
  ns_address :: address_state
  ns_handlers :: "(conn \<times> device_id) list"
  ns_streams :: stream_env
  ns_wire :: "wire_stream list"
  ns_io :: "string option list"

definition pool_insert :: "device_id \<Rightarrow> conn \<Rightarrow> (device_id \<times> conn) list \<Rightarrow> (device_id \<times> conn) list" where
  "pool_insert device connection p = map_insert device connection p"

definition pool_remove :: "device_id \<Rightarrow> (device_id \<times> conn) list \<Rightarrow> (device_id \<times> conn) list" where
  "pool_remove device p = AList.delete device p"

definition pool_get :: "device_id \<Rightarrow> (device_id \<times> conn) list \<Rightarrow> conn option" where
  "pool_get device p = map_of p device"

definition pool_connected_peers :: "(device_id \<times> conn) list \<Rightarrow> device_id list" where
  "pool_connected_peers p = map fst p"

lemma pool_get_simps [simp]:
  "pool_get d (pool_insert e c p) = (if d = e then Some c else pool_get d p)"
  "pool_get d (pool_remove e p) = (if d = e then None else pool_get d p)"
  by (simp_all add: pool_get_def pool_insert_def pool_remove_def delete_conv')

lemma distinct_pool_insert [simp]:
  "distinct (map fst p) \<Longrightarrow> distinct (map fst (pool_insert d c p))"
  by (simp add: pool_insert_def)

lemma pool_connected_iff: "d \<in> set (pool_connected_peers p) \<longleftrightarrow> pool_get d p \<noteq> None"
  by (auto simp: pool_connected_peers_def pool_get_def map_of_eq_None_iff)

definition unknown_endpoint :: "string \<Rightarrow> string" where
  "unknown_endpoint remote_id = ''unknown remote endpoint '' @ remote_id @
     ''; not in peer address book '' @ [CHR 0xE2, CHR 0x80, CHR 0x94] @
     '' if this repeats, remove stale devices from the server or re-pair the connecting device so its iroh key matches''"

definition resolve_device :: "conn \<Rightarrow> address_state \<Rightarrow> (transport_error, device_id) result" where
  "resolve_device connection st =
     (let remote_id = c_remote_id connection in
      ok_or (as_reverse_lookup st remote_id) (CodecError (unknown_endpoint remote_id)))"

text \<open>\<open>register_dialed_connection\<close>; the first part of \<open>ProtocolHandler::accept\<close> does the same.\<close>

definition register_connection :: "conn \<Rightarrow> net_state \<Rightarrow> net_state \<times> (transport_error, unit) result" where
  "register_connection connection s =
     (case resolve_device connection (ns_address s) of
        Err e \<Rightarrow> (s, Err e)
      | Ok device \<Rightarrow>
          (s\<lparr>ns_pool := pool_insert device connection (ns_pool s),
             ns_handlers := (connection, device) # ns_handlers s\<rparr>, Ok ()))"

definition protocol_accept :: "conn \<Rightarrow> net_state \<Rightarrow> net_state" where
  "protocol_accept connection s =
     (if c_remote_id connection = ns_endpoint_id s then s
      else fst (register_connection connection s))"

text \<open>One turn of an accept loop: a stream arrives, or \<open>accept_bi\<close> fails and the loop ends.\<close>

definition handler_stream :: "(u8 list \<Rightarrow> (string, feature_message) result) \<Rightarrow> conn \<times> device_id
    \<Rightarrow> recv_stream \<Rightarrow> net_state \<Rightarrow> net_state" where
  "handler_stream de h recv s =
     (if h \<in> set (ns_handlers s)
      then s\<lparr>ns_streams := handle_incoming_bi_stream de recv (snd h) (ns_device_id s) (ns_streams s)\<rparr>
      else s)"

definition handler_ended :: "conn \<times> device_id \<Rightarrow> net_state \<Rightarrow> net_state" where
  "handler_ended h s =
     (if h \<in> set (ns_handlers s)
      then s\<lparr>ns_pool := pool_remove (snd h) (ns_pool s), ns_handlers := remove1 h (ns_handlers s)\<rparr>
      else s)"

text \<open>One dial attempt; \<open>connect\<close> is the endpoint's answer for a key.\<close>

definition try_dial_one :: "(string \<Rightarrow> (string, string) result) \<Rightarrow> (string \<Rightarrow> (string, conn) result)
    \<Rightarrow> device_id \<times> string \<Rightarrow> net_state \<Rightarrow> net_state" where
  "try_dial_one pk connect peer s =
     (case peer of (device, address) \<Rightarrow>
      if pool_get device (ns_pool s) \<noteq> None then s
      else (case parse_endpoint_addr pk address of
        Err _ \<Rightarrow> s
      | Ok key \<Rightarrow>
          if key = ns_endpoint_id s then s
          else (case connect key of
            Err _ \<Rightarrow> s
          | Ok connection \<Rightarrow> fst (register_connection connection s))))"

definition dial_peers :: "(string \<Rightarrow> (string, string) result) \<Rightarrow> (string \<Rightarrow> (string, conn) result)
    \<Rightarrow> net_state \<Rightarrow> net_state" where
  "dial_peers pk connect s =
     fold (try_dial_one pk connect) (book_iter (as_book (ns_address s))) s"

definition update_peer_addresses :: "(string \<Rightarrow> (string, string) result) \<Rightarrow> peer_address_book
    \<Rightarrow> net_state \<Rightarrow> net_state" where
  "update_peer_addresses pk book s =
     s\<lparr>ns_address := fst (update_address_state pk book (ns_address s))\<rparr>"

definition set_shell_acceptor :: "net_state \<Rightarrow> net_state" where
  "set_shell_acceptor s = s\<lparr>ns_streams := (ns_streams s)
     \<lparr>se_shell_acceptor := Some \<lparr>ch_queue = [], ch_open = True\<rparr>\<rparr>\<rparr>"

definition clear_shell_acceptor :: "net_state \<Rightarrow> net_state" where
  "clear_shell_acceptor s = s\<lparr>ns_streams := (ns_streams s)\<lparr>se_shell_acceptor := None\<rparr>\<rparr>"

definition set_port_acceptor :: "net_state \<Rightarrow> net_state" where
  "set_port_acceptor s = s\<lparr>ns_streams := (ns_streams s)
     \<lparr>se_port_acceptor := Some \<lparr>ch_queue = [], ch_open = True\<rparr>\<rparr>\<rparr>"

definition clear_port_acceptor :: "net_state \<Rightarrow> net_state" where
  "clear_port_acceptor s = s\<lparr>ns_streams := (ns_streams s)\<lparr>se_port_acceptor := None\<rparr>\<rparr>"

section \<open>The Iroh transport\<close>

definition next_io :: "net_state \<Rightarrow> string option \<times> net_state" where
  "next_io s = (case ns_io s of [] \<Rightarrow> (None, s) | f # fs \<Rightarrow> (f, s\<lparr>ns_io := fs\<rparr>))"

text \<open>
  Open a stream to \<open>peer\<close> and write \<open>bytes\<close>; with \<open>fin\<close> also \<open>finish\<close> it. Each of the three
  stream operations takes its answer from the script.
\<close>

definition open_and_write :: "device_id \<Rightarrow> conn \<Rightarrow> u8 list \<Rightarrow> bool \<Rightarrow> net_state
    \<Rightarrow> net_state \<times> (transport_error, unit) result" where
  "open_and_write peer connection bytes fin s =
     (case next_io s of
        (Some e, s1) \<Rightarrow> (s1, Err (CodecError e))
      | (None, s1) \<Rightarrow>
          (case next_io s1 of
             (Some e, s2) \<Rightarrow> (s2, Err (CodecError e))
           | (None, s2) \<Rightarrow>
               (let opened = (\<lambda>done. \<lparr>ws_peer = peer, ws_conn = connection, ws_bytes = bytes,
                                ws_finished = done\<rparr>) in
                if \<not> fin then (s2\<lparr>ns_wire := ns_wire s2 @ [opened False]\<rparr>, Ok ())
                else (case next_io s2 of
                  (Some e, s3) \<Rightarrow> (s3\<lparr>ns_wire := ns_wire s3 @ [opened False]\<rparr>, Err (CodecError e))
                | (None, s3) \<Rightarrow> (s3\<lparr>ns_wire := ns_wire s3 @ [opened True]\<rparr>, Ok ())))))"

definition iroh_send :: "(feature_message \<Rightarrow> (string, u8 list) result) \<Rightarrow> feature_message \<Rightarrow> net_state
    \<Rightarrow> net_state \<times> (transport_error, unit) result" where
  "iroh_send ser message s =
     (case pool_get (fm_to message) (ns_pool s) of
        None \<Rightarrow> (s, Err (PeerNotFound (fm_to message)))
      | Some connection \<Rightarrow>
          (case encode ser message of
             Err e \<Rightarrow> (s, Err e)
           | Ok frame \<Rightarrow> open_and_write (fm_to message) connection frame True s))"

definition open_shell_stream :: "device_id \<Rightarrow> u16 \<Rightarrow> u16 \<Rightarrow> net_state
    \<Rightarrow> net_state \<times> (transport_error, unit) result" where
  "open_shell_stream peer rows cols s =
     (case pool_get peer (ns_pool s) of
        None \<Rightarrow> (s, Err (PeerNotFound peer))
      | Some connection \<Rightarrow> open_and_write peer connection (build_shell_init rows cols) False s)"

definition open_port_stream :: "device_id \<Rightarrow> u16 \<Rightarrow> port_protocol \<Rightarrow> net_state
    \<Rightarrow> net_state \<times> (transport_error, unit) result" where
  "open_port_stream peer remote_port protocol s =
     (case pool_get peer (ns_pool s) of
        None \<Rightarrow> (s, Err (PeerNotFound peer))
      | Some connection \<Rightarrow> open_and_write peer connection (build_port_init remote_port protocol) False s)"

definition iroh_try_recv :: "net_state \<Rightarrow> net_state \<times> (transport_error, feature_message option) result" where
  "iroh_try_recv s =
     (case ch_queue (se_inbox (ns_streams s)) of
        m # ms \<Rightarrow>
          (s\<lparr>ns_streams := (ns_streams s)\<lparr>se_inbox := (se_inbox (ns_streams s))\<lparr>ch_queue := ms\<rparr>\<rparr>\<rparr>,
           Ok (Some m))
      | [] \<Rightarrow> (s, Ok None))"

definition iroh_ops :: "(feature_message \<Rightarrow> (string, u8 list) result) \<Rightarrow> net_state transport_ops" where
  "iroh_ops ser =
     \<lparr>tr_local_device_id = ns_device_id,
      tr_send = iroh_send ser,
      tr_connected_peers = (\<lambda>s. pool_connected_peers (ns_pool s)),
      tr_try_recv = iroh_try_recv\<rparr>"

definition net_frames :: "net_state \<Rightarrow> (device_id \<times> u8 list) list" where
  "net_frames s = map (\<lambda>w. (ws_peer w, ws_bytes w)) (filter ws_finished (ns_wire s))"

definition net_frame :: "(feature_message \<Rightarrow> (string, u8 list) result) \<Rightarrow> feature_message \<Rightarrow> u8 list option" where
  "net_frame ser m = (case encode ser m of Err _ \<Rightarrow> None | Ok f \<Rightarrow> Some f)"

lemma next_io_frame:
  "next_io s = (f, s') \<Longrightarrow> ns_wire s' = ns_wire s \<and> ns_device_id s' = ns_device_id s \<and>
     ns_pool s' = ns_pool s \<and> ns_streams s' = ns_streams s"
  by (auto simp: next_io_def split: list.splits)

lemma next_io_simps [simp]:
  "ns_wire (snd (next_io s)) = ns_wire s" "ns_device_id (snd (next_io s)) = ns_device_id s"
  by (simp_all add: next_io_def split: list.split)

lemma open_and_write_no_io: "ns_io s = [] \<Longrightarrow> snd (open_and_write p c b fin s) = Ok ()"
  by (simp add: open_and_write_def next_io_def Let_def)

lemma open_and_write_Ok:
  "open_and_write p c b fin s = (s', Ok ()) \<Longrightarrow> ns_wire s' = ns_wire s @
     [\<lparr>ws_peer = p, ws_conn = c, ws_bytes = b, ws_finished = fin\<rparr>]"
  by (auto simp: open_and_write_def Let_def split: prod.splits option.splits if_splits
    dest!: next_io_frame)

lemma open_and_write_Err:
  "open_and_write p c b fin s = (s', Err e) \<Longrightarrow> net_frames s' = net_frames s"
  by (auto simp: open_and_write_def Let_def net_frames_def split: prod.splits option.splits if_splits
    dest!: next_io_frame)

lemma open_and_write_device: "ns_device_id (fst (open_and_write p c b fin s)) = ns_device_id s"
  by (auto simp: open_and_write_def Let_def split: prod.splits option.splits dest!: next_io_frame)

interpretation iroh: transport "iroh_ops ser" net_frames "net_frame ser"
proof unfold_locales
  fix m t t'
  assume "tr_send (iroh_ops ser) m t = (t', Ok ())"
  then obtain c f where f: "encode ser m = Ok f" "open_and_write (fm_to m) c f True t = (t', Ok ())"
    by (auto simp: iroh_ops_def iroh_send_def split: option.splits sum.splits)
  then show "\<exists>f. net_frame ser m = Some f \<and> net_frames t' = net_frames t @ [(fm_to m, f)]"
    using open_and_write_Ok by (auto simp: net_frame_def net_frames_def)
next
  fix m t t' e
  assume "tr_send (iroh_ops ser) m t = (t', Err e)"
  then show "net_frames t' = net_frames t"
    by (auto simp: iroh_ops_def iroh_send_def open_and_write_Err split: option.splits sum.splits)
next
  fix m t
  show "tr_local_device_id (iroh_ops ser) (fst (tr_send (iroh_ops ser) m t)) =
      tr_local_device_id (iroh_ops ser) t"
    by (auto simp: iroh_ops_def iroh_send_def open_and_write_device split: option.splits sum.splits)
qed

section \<open>The life of the network state\<close>

text \<open>
  Every operation that changes the state, in any order: inbound connections, streams on a
  running accept loop, a loop that ends, dial rounds (each with its own answers of the
  endpoint, which authenticates the key it connects to), new addresses, the acceptors the
  features install, and sends.
\<close>

inductive net_step :: "(string \<Rightarrow> (string, string) result) \<Rightarrow> (u8 list \<Rightarrow> (string, feature_message) result)
    \<Rightarrow> (feature_message \<Rightarrow> (string, u8 list) result) \<Rightarrow> net_state \<Rightarrow> net_state \<Rightarrow> bool"
  for pk de ser where
  step_accept: "net_step pk de ser s (protocol_accept c s)"
| step_stream: "net_step pk de ser s (handler_stream de h recv s)"
| step_ended: "net_step pk de ser s (handler_ended h s)"
| step_dial: "(\<forall>k c. connect k = Ok c \<longrightarrow> c_remote_id c = k) \<Longrightarrow>
    net_step pk de ser s (dial_peers pk connect s)"
| step_addresses: "net_step pk de ser s (update_peer_addresses pk book s)"
| step_set_shell: "net_step pk de ser s (set_shell_acceptor s)"
| step_clear_shell: "net_step pk de ser s (clear_shell_acceptor s)"
| step_set_port: "net_step pk de ser s (set_port_acceptor s)"
| step_clear_port: "net_step pk de ser s (clear_port_acceptor s)"
| step_send: "net_step pk de ser s (fst (iroh_send ser m s))"
| step_recv: "net_step pk de ser s (fst (iroh_try_recv s))"
| step_shell: "net_step pk de ser s (fst (open_shell_stream d rows cols s))"
| step_port: "net_step pk de ser s (fst (open_port_stream d port pr s))"

inductive_cases net_stepE: "net_step pk de ser s s'"

text \<open>
  The invariant: a pooled connection is one whose accept loop for that device is running, it is
  never a connection to this endpoint itself, and no device is pooled twice.
\<close>

definition pool_inv :: "net_state \<Rightarrow> bool" where
  "pool_inv s \<longleftrightarrow> distinct (map fst (ns_pool s)) \<and>
     (\<forall>d c. pool_get d (ns_pool s) = Some c \<longrightarrow> (c, d) \<in> set (ns_handlers s)) \<and>
     (\<forall>(c, d) \<in> set (ns_handlers s). c_remote_id c \<noteq> ns_endpoint_id s)"

definition net_core :: "net_state \<Rightarrow> (device_id \<times> conn) list \<times> (conn \<times> device_id) list \<times> string" where
  "net_core s = (ns_pool s, ns_handlers s, ns_endpoint_id s)"

lemma pool_inv_core: "net_core s' = net_core s \<Longrightarrow> pool_inv s' = pool_inv s"
  by (simp add: pool_inv_def net_core_def)

lemma pool_inv_register:
  assumes "pool_inv s" "c_remote_id c \<noteq> ns_endpoint_id s"
  shows "pool_inv (fst (register_connection c s))"
proof (cases "resolve_device c (ns_address s)")
  case (Inl e)
  then show ?thesis using assms by (simp add: register_connection_def)
next
  case (Inr d)
  then show ?thesis using assms
    by (auto simp: register_connection_def pool_inv_def)
qed

lemma pool_inv_accept: "pool_inv s \<Longrightarrow> pool_inv (protocol_accept c s)"
  using pool_inv_register by (simp add: protocol_accept_def)

lemma pool_inv_ended:
  assumes inv: "pool_inv s"
  shows "pool_inv (handler_ended h s)"
proof (cases "h \<in> set (ns_handlers s)")
  case True
  obtain c d where h: "h = (c, d)" by fastforce
  let ?s = "handler_ended h s"
  have pool: "ns_pool ?s = pool_remove d (ns_pool s)" and hs: "ns_handlers ?s = remove1 h (ns_handlers s)"
    and e: "ns_endpoint_id ?s = ns_endpoint_id s"
    using True h by (simp_all add: handler_ended_def)
  have "distinct (map fst (ns_pool ?s))"
    using inv unfolding pool by (simp add: pool_inv_def pool_remove_def distinct_delete)
  moreover have "(c', d') \<in> set (ns_handlers ?s)" if "pool_get d' (ns_pool ?s) = Some c'" for c' d'
  proof -
    from that have "d' \<noteq> d" "pool_get d' (ns_pool s) = Some c'"
      unfolding pool by (auto split: if_splits)
    with inv h show ?thesis unfolding hs by (auto simp: pool_inv_def in_set_remove1)
  qed
  moreover have "\<forall>(c, d) \<in> set (ns_handlers ?s). c_remote_id c \<noteq> ns_endpoint_id ?s"
    using inv notin_set_remove1 unfolding hs e pool_inv_def by fastforce
  ultimately show ?thesis unfolding pool_inv_def by blast
qed (simp add: handler_ended_def inv)

lemma register_endpoint [simp]: "ns_endpoint_id (fst (register_connection c s)) = ns_endpoint_id s"
  by (simp add: register_connection_def split: sum.splits)

lemma pool_inv_dial_one:
  assumes "\<forall>k c. connect k = Ok c \<longrightarrow> c_remote_id c = k" "pool_inv s"
  shows "pool_inv (try_dial_one pk connect peer s)"
  using assms pool_inv_register
  by (auto simp: try_dial_one_def split: prod.splits sum.splits)

lemma pool_inv_dial:
  assumes "\<forall>k c. connect k = Ok c \<longrightarrow> c_remote_id c = k" "pool_inv s"
  shows "pool_inv (dial_peers pk connect s)"
proof -
  have "pool_inv (fold (try_dial_one pk connect) ps s)" for ps
    using assms(2) by (induction ps arbitrary: s) (auto simp: pool_inv_dial_one [OF assms(1)])
  then show ?thesis by (simp add: dial_peers_def)
qed

lemma next_io_core: "next_io s = (f, s') \<Longrightarrow> net_core s' = net_core s"
  by (auto simp: next_io_def net_core_def split: list.splits)

lemma net_core_wire [simp]: "net_core (s\<lparr>ns_wire := w\<rparr>) = net_core s"
  by (simp add: net_core_def)

lemma open_and_write_core: "net_core (fst (open_and_write p c b fin s)) = net_core s"
  by (auto simp: open_and_write_def Let_def split: prod.split option.split dest!: next_io_core)

lemma send_core: "net_core (fst (iroh_send ser m s)) = net_core s"
  by (simp add: iroh_send_def open_and_write_core split: option.split sum.split)

lemma open_stream_core:
  "net_core (fst (open_shell_stream d rows cols s)) = net_core s"
  "net_core (fst (open_port_stream d port pr s)) = net_core s"
  by (simp_all add: open_shell_stream_def open_port_stream_def open_and_write_core split: option.split)

lemma other_core:
  "net_core (handler_stream de h recv s) = net_core s"
  "net_core (update_peer_addresses pk book s) = net_core s"
  "net_core (set_shell_acceptor s) = net_core s" "net_core (clear_shell_acceptor s) = net_core s"
  "net_core (set_port_acceptor s) = net_core s" "net_core (clear_port_acceptor s) = net_core s"
  "net_core (fst (iroh_try_recv s)) = net_core s"
  by (simp_all add: net_core_def handler_stream_def update_peer_addresses_def set_shell_acceptor_def
    clear_shell_acceptor_def set_port_acceptor_def clear_port_acceptor_def iroh_try_recv_def
    split: list.split)

lemmas step_cores = send_core open_stream_core other_core

lemma pool_inv_step: "net_step pk de ser s s' \<Longrightarrow> pool_inv s \<Longrightarrow> pool_inv s'"
proof (induction rule: net_step.induct)
  case (step_accept s c)
  then show ?case by (rule pool_inv_accept)
next
  case (step_ended s h)
  then show ?case by (rule pool_inv_ended)
next
  case (step_dial connect s)
  then show ?case by (intro pool_inv_dial)
qed (simp_all add: pool_inv_core [OF step_cores(1)] pool_inv_core [OF step_cores(2)]
    pool_inv_core [OF step_cores(3)] pool_inv_core [OF step_cores(4)] pool_inv_core [OF step_cores(5)]
    pool_inv_core [OF step_cores(6)] pool_inv_core [OF step_cores(7)] pool_inv_core [OF step_cores(8)]
    pool_inv_core [OF step_cores(9)] pool_inv_core [OF step_cores(10)])

definition net_start :: "device_id \<Rightarrow> string \<Rightarrow> address_state \<Rightarrow> net_state" where
  "net_start device endpoint address =
     \<lparr>ns_device_id = device, ns_endpoint_id = endpoint, ns_pool = [], ns_address = address,
      ns_handlers = [],
      ns_streams = \<lparr>se_inbox = \<lparr>ch_queue = [], ch_open = True\<rparr>, se_port_acceptor = None,
        se_shell_acceptor = None\<rparr>,
      ns_wire = [], ns_io = []\<rparr>"

lemma pool_inv_start: "pool_inv (net_start d e a)"
  by (simp add: pool_inv_def net_start_def pool_get_def)

lemma pool_inv_reachable: "(net_step pk de ser)\<^sup>*\<^sup>* (net_start d e a) s \<Longrightarrow> pool_inv s"
  by (induction rule: rtranclp_induct) (auto simp: pool_inv_start pool_inv_step)

text \<open>
  C4. Along every run of the transport, from its start, in whatever order connections come, go
  and are dialed: a connection the pool hands out for sending to a device is one whose accept
  loop for that device is running, no device has two, and none leads back to this endpoint.
\<close>

theorem pool_consistent:
  assumes "(net_step pk de ser)\<^sup>*\<^sup>* (net_start d e a) s"
  shows "distinct (pool_connected_peers (ns_pool s)) \<and>
    (pool_get p (ns_pool s) = Some c \<longrightarrow>
       (c, p) \<in> set (ns_handlers s) \<and> c_remote_id c \<noteq> ns_endpoint_id s)"
  using pool_inv_reachable [OF assms] by (fastforce simp: pool_inv_def pool_connected_peers_def)

definition sample_conn :: "nat \<Rightarrow> conn" where
  "sample_conn n = \<lparr>c_handle = n, c_remote_id = ''k7''\<rparr>"

definition sample_address :: address_state where
  "sample_address = \<lparr>as_book = PeerAddressBook [(DeviceId 7, ''k7'')],
     as_reverse_lookup = (\<lambda>_. None)(''k7'' \<mapsto> DeviceId 7)\<rparr>"

definition sample_net :: net_state where
  "sample_net = net_start (DeviceId 1) ''k1'' sample_address"

lemma register_sample:
  "pool_get (DeviceId 7) (ns_pool (protocol_accept (sample_conn n) sample_net)) = Some (sample_conn n)"
  by (simp add: protocol_accept_def register_connection_def resolve_device_def sample_conn_def
    sample_net_def sample_address_def net_start_def Let_def)

lemma pool_consistent_witness:
  "pool_get (DeviceId 7) (ns_pool (protocol_accept (sample_conn 0) sample_net)) = Some (sample_conn 0) \<and>
   (sample_conn 0, DeviceId 7) \<in> set (ns_handlers (protocol_accept (sample_conn 0) sample_net))"
proof -
  have "(net_step Ok (\<lambda>_. Err []) (\<lambda>_. Ok []))\<^sup>*\<^sup>* (net_start (DeviceId 1) ''k1'' sample_address)
      (protocol_accept (sample_conn 0) sample_net)"
    unfolding sample_net_def by (rule r_into_rtranclp) (rule step_accept)
  from pool_consistent [OF this, of "DeviceId 7" "sample_conn 0"] register_sample show ?thesis by blast
qed


text \<open>
  C3. Publishing on the Iroh transport: the frames written are one per peer it succeeded for, in
  the order of the connected peers whose policy enables the feature, each the encoding of the
  message from this device to that peer; it answers \<open>Ok\<close> exactly when it succeeded for all of
  them. No other peer receives anything.
\<close>

theorem publish_to_enabled_connected:
  assumes "publish x (iroh_ops ser) pd ob s = (s', r)"
  shows "\<exists>oks. subseq oks (publish_recipients (iroh_ops ser) pd (om_feature ob) s) \<and>
     (r = Ok () \<longleftrightarrow> oks = publish_recipients (iroh_ops ser) pd (om_feature ob) s) \<and>
     (\<forall>p. p \<in> set oks \<longrightarrow> is_feature_enabled p (om_feature ob) pd \<and> pool_get p (ns_pool s) \<noteq> None) \<and>
     net_frames s' = net_frames s @
       map (\<lambda>p. (p, the (net_frame ser
         (feature_message_new (ns_device_id s) p (om_feature ob) (om_payload ob))))) oks"
proof -
  from iroh.publish_frames [OF assms] obtain oks where
    oks: "subseq oks (publish_recipients (iroh_ops ser) pd (om_feature ob) s)"
      "(r = Ok ()) = (oks = publish_recipients (iroh_ops ser) pd (om_feature ob) s)"
      "net_frames s' = net_frames s @ map (\<lambda>p. (p, the (net_frame ser
         (feature_message_new (tr_local_device_id (iroh_ops ser) s) p (om_feature ob) (om_payload ob))))) oks"
    by blast
  have "is_feature_enabled p (om_feature ob) pd \<and> pool_get p (ns_pool s) \<noteq> None" if "p \<in> set oks" for p
  proof -
    have "p \<in> set (publish_recipients (iroh_ops ser) pd (om_feature ob) s)"
      using list_emb_set [OF oks(1) that] by auto
    then show ?thesis by (simp add: publish_recipients_iff iroh_ops_def pool_connected_iff)
  qed
  with oks show ?thesis by (intro exI [of _ oks]) (auto simp: iroh_ops_def)
qed

definition sample_publish_net :: net_state where
  "sample_publish_net = protocol_accept (sample_conn 0) sample_net"

definition sample_directory :: peer_directory where
  "sample_directory = replace_peers [DeviceId 7, DeviceId 8] peer_directory_new"

definition sample_ext :: ext where
  "sample_ext = \<lparr>uuid_display = (\<lambda>_. []), uuid_parse = (\<lambda>_. None), unicode_lower = id,
     unicode_upper = id\<rparr>"

lemma publish_to_enabled_connected_witness:
  "\<exists>s'. publish sample_ext (iroh_ops (\<lambda>_. Ok [1])) sample_directory
       \<lparr>om_feature = clipboard_id, om_payload = [1]\<rparr> sample_publish_net = (s', Ok ()) \<and>
     net_frames s' = [(DeviceId 7, [0, 0, 0, 1, 1])]"
proof -
  let ?ops = "iroh_ops (\<lambda>_. Ok [1])" and ?ob = "\<lparr>om_feature = clipboard_id, om_payload = [1]\<rparr>"
  have rs: "publish_recipients ?ops sample_directory clipboard_id sample_publish_net = [DeviceId 7]"
    using register_sample [of 0]
    by (simp add: publish_recipients_def recipients_for_def sample_directory_def replace_peers_def
        peer_directory_new_def iroh_ops_def pool_connected_peers_def sample_publish_net_def
        protocol_accept_def register_connection_def resolve_device_def sample_conn_def sample_net_def
        sample_address_def net_start_def pool_insert_def map_insert_def Let_def)
  obtain s' r where p: "publish sample_ext ?ops sample_directory ?ob sample_publish_net = (s', r)"
    by fastforce
  let ?m = "feature_message_new (DeviceId 1) (DeviceId 7) clipboard_id [1]"
  have io: "ns_io sample_publish_net = []" "ns_device_id sample_publish_net = DeviceId 1"
    by (simp_all add: sample_publish_net_def sample_net_def net_start_def protocol_accept_def
      register_connection_def resolve_device_def sample_conn_def sample_address_def Let_def)
  have "snd (iroh_send (\<lambda>_. Ok [1]) ?m sample_publish_net) = Ok ()"
    using register_sample [of 0] io
    by (simp add: iroh_send_def sample_publish_net_def [symmetric] encode_def MAX_MESSAGE_SIZE_def
        open_and_write_no_io)
  then obtain s1 where "iroh_send (\<lambda>_. Ok [1]) ?m sample_publish_net = (s1, Ok ())"
    by (metis prod.collapse)
  with p rs io have "r = Ok ()" by (simp add: publish_unfold) (simp add: iroh_ops_def)
  moreover from publish_to_enabled_connected [OF p] calculation have
    "net_frames s' = net_frames sample_publish_net @ [(DeviceId 7, [0, 0, 0, 1, 1])]"
    by (simp add: rs io net_frame_def encode_def MAX_MESSAGE_SIZE_def be32_def)
  moreover have "net_frames sample_publish_net = []"
    by (simp add: net_frames_def sample_publish_net_def sample_net_def net_start_def protocol_accept_def
      register_connection_def resolve_device_def sample_conn_def sample_address_def Let_def)
  ultimately show ?thesis using p by simp
qed

end
