(* ===== verification/Relay.thy ===== *)
theory Relay
  imports Codec
begin

text \<open>
  Copying bytes between a QUIC stream and a local end: the two loops of
  \<open>failsafe-transport/src/iroh/stream.rs\<close> (\<open>relay_shell_streams\<close>, \<open>relay_shell_to_channels\<close>)
  and the loop around a PTY of \<open>failsafe-shell/src/relay.rs\<close>. An interleaving is a list of
  events, each one turn of one of the concurrent parts; the outcome of a write is part of its
  event.
\<close>

section \<open>Relays over a QUIC stream\<close>

definition RELAY_BUF :: nat where "RELAY_BUF = 4096"

record 'i relay =
  ry_input :: 'i
  ry_recv :: recv_stream
  ry_sent :: "u8 list"
  ry_finished :: bool
  ry_output :: "u8 list"
  ry_result :: "(transport_error, unit) result option"

datatype relay_event = InputTurn "string option" | StreamTurn "string option"

definition relay_new :: "'i \<Rightarrow> recv_stream \<Rightarrow> 'i relay" where
  "relay_new input recv = \<lparr>ry_input = input, ry_recv = recv, ry_sent = [], ry_finished = False,
     ry_output = [], ry_result = None\<rparr>"

text \<open>
  One turn of one of the two branches of the \<open>select!\<close>: the branch that ends first ends the
  relay. \<open>read_in\<close> reads the local input (\<open>None\<close> at its end), \<open>gone\<close> is the result when the
  local output cannot be written.
\<close>

definition relay_turn :: "('i \<Rightarrow> (string, u8 list option) result \<times> 'i)
    \<Rightarrow> (string \<Rightarrow> (transport_error, unit) result) \<Rightarrow> relay_event \<Rightarrow> 'i relay \<Rightarrow> 'i relay" where
  "relay_turn read_in gone e s =
     (if ry_result s \<noteq> None then s
      else
       (case e of
          InputTurn fault \<Rightarrow>
            (case read_in (ry_input s) of
               (Err m, i) \<Rightarrow> s\<lparr>ry_input := i, ry_result := Some (Err (CodecError m))\<rparr>
             | (Ok None, i) \<Rightarrow>
                 (case fault of
                    None \<Rightarrow> s\<lparr>ry_input := i, ry_finished := True, ry_result := Some (Ok ())\<rparr>
                  | Some m \<Rightarrow> s\<lparr>ry_input := i, ry_result := Some (Err (CodecError m))\<rparr>)
             | (Ok (Some bs), i) \<Rightarrow>
                 (case fault of
                    None \<Rightarrow> s\<lparr>ry_input := i, ry_sent := ry_sent s @ bs\<rparr>
                  | Some m \<Rightarrow> s\<lparr>ry_input := i, ry_result := Some (Err (CodecError m))\<rparr>))
        | StreamTurn fault \<Rightarrow>
            (case recv_read RELAY_BUF (ry_recv s) of
               (Err m, r) \<Rightarrow> s\<lparr>ry_recv := r, ry_result := Some (Err (CodecError m))\<rparr>
             | (Ok bs, r) \<Rightarrow>
                 (if bs = [] then s\<lparr>ry_recv := r, ry_result := Some (Ok ())\<rparr>
                  else
                   (case fault of
                      None \<Rightarrow> s\<lparr>ry_recv := r, ry_output := ry_output s @ bs\<rparr>
                    | Some m \<Rightarrow> s\<lparr>ry_recv := r, ry_result := Some (gone m)\<rparr>)))))"

definition relay_run :: "('i \<Rightarrow> (string, u8 list option) result \<times> 'i)
    \<Rightarrow> (string \<Rightarrow> (transport_error, unit) result) \<Rightarrow> relay_event list \<Rightarrow> 'i relay \<Rightarrow> 'i relay" where
  "relay_run read_in gone es s = fold (relay_turn read_in gone) es s"

text \<open>The input of \<open>relay_shell_streams\<close>: a reader, whose end is a read of nothing.\<close>

definition read_bytes :: "recv_stream \<Rightarrow> (string, u8 list option) result \<times> recv_stream" where
  "read_bytes i = (case recv_read RELAY_BUF i of
     (Err m, i') \<Rightarrow> (Err m, i') | (Ok bs, i') \<Rightarrow> (Ok (if bs = [] then None else Some bs), i'))"

definition relay_shell_streams :: "relay_event list \<Rightarrow> recv_stream relay \<Rightarrow> recv_stream relay" where
  "relay_shell_streams = relay_run read_bytes (\<lambda>m. Err (CodecError m))"

text \<open>The input of \<open>relay_shell_to_channels\<close>: a channel; a closed output channel is no error.\<close>

fun read_channel :: "u8 list list \<Rightarrow> (string, u8 list option) result \<times> u8 list list" where
  "read_channel [] = (Ok None, [])"
| "read_channel (m # ms) = (Ok (Some m), ms)"

definition relay_shell_to_channels :: "relay_event list \<Rightarrow> u8 list list relay \<Rightarrow> u8 list list relay" where
  "relay_shell_to_channels = relay_run read_channel (\<lambda>_. Ok ())"

text \<open>
  A reader of an input: \<open>content\<close> is what it will deliver, and each read takes a nonempty piece
  of it, ends it or fails.
\<close>

locale relay_reader =
  fixes read_in :: "'i \<Rightarrow> (string, u8 list option) result \<times> 'i"
    and content :: "'i \<Rightarrow> u8 list"
    and left :: "'i \<Rightarrow> nat"
  assumes read_data: "read_in i = (Ok (Some bs), i') \<Longrightarrow> content i = bs @ content i' \<and> left i' < left i"
    and read_end: "read_in i = (Ok None, i') \<Longrightarrow> content i' = content i"
begin

lemma turn_ended: "ry_result s \<noteq> None \<Longrightarrow> relay_turn read_in gone e s = s"
  by (simp add: relay_turn_def)

lemma run_ended: "ry_result s \<noteq> None \<Longrightarrow> relay_run read_in gone es s = s"
  unfolding relay_run_def by (induction es) (simp_all add: turn_ended)

lemma run_Cons: "relay_run read_in gone (e # es) s = relay_run read_in gone es (relay_turn read_in gone e s)"
  by (simp add: relay_run_def)

definition sound :: "u8 list \<Rightarrow> recv_stream \<Rightarrow> 'i relay \<Rightarrow> bool" where
  "sound ins recv s \<longleftrightarrow>
     (if ry_result s = None
      then ins = ry_sent s @ content (ry_input s) \<and> stream_bytes recv = ry_output s @ stream_bytes (ry_recv s)
      else (\<exists>rest. ins = ry_sent s @ rest) \<and> (\<exists>rest. stream_bytes recv = ry_output s @ rest))"

lemma recv_read_bytes:
  "recv_read n s = (Ok bs, s') \<Longrightarrow> stream_bytes s = bs @ stream_bytes s'"
  by (induction n s rule: recv_read.induct) (auto split: if_splits)

lemma turn_sound: "sound ins recv s \<Longrightarrow> sound ins recv (relay_turn read_in gone e s)"
proof (cases "ry_result s")
  case (Some r)
  moreover assume "sound ins recv s"
  ultimately show ?thesis by (simp add: turn_ended)
next
  case None
  assume "sound ins recv s"
  with None have s: "ins = ry_sent s @ content (ry_input s)"
    "stream_bytes recv = ry_output s @ stream_bytes (ry_recv s)" by (simp_all add: sound_def)
  show ?thesis
  proof (cases e)
    case (InputTurn fault)
    obtain r i where r: "read_in (ry_input s) = (r, i)" by fastforce
    show ?thesis
    proof (cases r)
      case (Inl m)
      with InputTurn None r s show ?thesis by (auto simp: relay_turn_def sound_def)
    next
      case (Inr d)
      with InputTurn None r s show ?thesis
        by (cases d; cases fault) (auto simp: relay_turn_def sound_def dest: read_data)
    qed
  next
    case (StreamTurn fault)
    obtain r rs where r: "recv_read RELAY_BUF (ry_recv s) = (r, rs)" by fastforce
    show ?thesis
    proof (cases r)
      case (Inl m)
      with StreamTurn None r s show ?thesis by (auto simp: relay_turn_def sound_def)
    next
      case (Inr bs)
      with r have "stream_bytes (ry_recv s) = bs @ stream_bytes rs" using recv_read_bytes by blast
      with StreamTurn None r s Inr show ?thesis
        by (cases fault) (auto simp: relay_turn_def sound_def)
    qed
  qed
qed

lemma run_sound: "sound ins recv s \<Longrightarrow> sound ins recv (relay_run read_in gone es s)"
proof (induction es arbitrary: s)
  case (Cons e es)
  then show ?case using turn_sound by (simp add: run_Cons)
qed (simp add: relay_run_def)

lemma run_prefix:
  assumes "s = relay_run read_in gone es (relay_new input recv)"
  shows "\<exists>rest. content input = ry_sent s @ rest" "\<exists>rest. stream_bytes recv = ry_output s @ rest"
proof -
  have "sound (content input) recv (relay_new input recv)" by (simp add: sound_def relay_new_def)
  then have "sound (content input) recv s" using run_sound assms by blast
  then show "\<exists>rest. content input = ry_sent s @ rest" "\<exists>rest. stream_bytes recv = ry_output s @ rest"
    by (auto simp: sound_def split: if_splits)
qed

text \<open>Enough turns of the input branch end the relay, whatever the other branch does.\<close>

lemma input_turn_progress:
  assumes "ry_result s = None"
  shows "ry_result (relay_turn read_in gone (InputTurn f) s) \<noteq> None \<or>
     left (ry_input (relay_turn read_in gone (InputTurn f) s)) < left (ry_input s)"
proof -
  obtain r i where r: "read_in (ry_input s) = (r, i)" by fastforce
  show ?thesis
  proof (cases r)
    case (Inl m)
    with assms r show ?thesis by (simp add: relay_turn_def)
  next
    case (Inr d)
    with assms r show ?thesis
      by (cases d; cases f) (auto simp: relay_turn_def dest: read_data)
  qed
qed

lemma stream_turn_keeps: "ry_input (relay_turn read_in gone (StreamTurn f) s) = ry_input s"
  by (simp add: relay_turn_def split: prod.splits sum.splits option.splits)

lemma run_ends:
  "left (ry_input s) < length (filter (\<lambda>e. case e of InputTurn _ \<Rightarrow> True | StreamTurn _ \<Rightarrow> False) es) \<Longrightarrow>
     ry_result (relay_run read_in gone es s) \<noteq> None"
proof (induction es arbitrary: s)
  case (Cons e es)
  show ?case
  proof (cases "ry_result s")
    case (Some r)
    then show ?thesis by (simp add: run_ended)
  next
    case None
    show ?thesis
    proof (cases e)
      case (InputTurn f)
      show ?thesis
      proof (cases "ry_result (relay_turn read_in gone e s)")
        case None2: None
        then have "left (ry_input (relay_turn read_in gone e s)) < left (ry_input s)"
          using input_turn_progress [OF None, of gone f] InputTurn by auto
        with Cons InputTurn show ?thesis by (simp add: run_Cons)
      qed (simp add: run_Cons run_ended)
    next
      case (StreamTurn f)
      with Cons show ?thesis by (simp add: run_Cons stream_turn_keeps)
    qed
  qed
qed simp

end

text \<open>A stream delivers its bytes up to an error; a channel all its messages, then its end.\<close>

interpretation reader: relay_reader read_bytes stream_bytes "\<lambda>i. length (stream_bytes i)"
proof
  fix i i' bs
  assume "read_bytes i = (Ok (Some bs), i')"
  then have r: "recv_read RELAY_BUF i = (Ok bs, i')" "bs \<noteq> []"
    by (auto simp: read_bytes_def split: prod.splits sum.splits if_splits)
  then have "stream_bytes i = bs @ stream_bytes i'"
    by (induction RELAY_BUF i rule: recv_read.induct) (auto split: if_splits)
  with r(2) show "stream_bytes i = bs @ stream_bytes i' \<and> length (stream_bytes i') < length (stream_bytes i)"
    by (cases bs) simp_all
next
  fix i i'
  assume "read_bytes i = (Ok None, i')"
  then have "recv_read RELAY_BUF i = (Ok [], i')"
    by (auto simp: read_bytes_def split: prod.splits sum.splits if_splits)
  then show "stream_bytes i' = stream_bytes i"
    by (cases "(RELAY_BUF, i)" rule: recv_read.cases) (auto simp: RELAY_BUF_def split: if_splits)
qed

interpretation channel: relay_reader read_channel concat length
proof
  fix i i' bs
  assume "read_channel i = (Ok (Some bs), i')"
  then show "concat i = bs @ concat i' \<and> length i' < length i"
    by (cases i) auto
next
  fix i i'
  assume "read_channel i = (Ok None, i')"
  then show "concat i' = concat i" by (cases i) auto
qed

text \<open>
  C31. A relay between a stream and a local connection never invents, reorders or duplicates
  bytes: under every interleaving of its two halves, whatever writes fail, what it has sent is a
  prefix of the local input and what it has written out is a prefix of what the stream delivers.
  And it ends: once the input half has had one turn more than the input has bytes, the relay is
  over, however the turns of the other half lie between.
\<close>

theorem relay_prefixes_and_ends:
  assumes "s = relay_shell_streams es (relay_new input recv)"
  shows "(\<exists>rest. stream_bytes input = ry_sent s @ rest) \<and>
     (\<exists>rest. stream_bytes recv = ry_output s @ rest) \<and>
     (length (stream_bytes input) <
        length (filter (\<lambda>e. case e of InputTurn _ \<Rightarrow> True | StreamTurn _ \<Rightarrow> False) es) \<longrightarrow>
      ry_result s \<noteq> None)"
  using reader.run_prefix [OF assms [unfolded relay_shell_streams_def]]
    reader.run_ends [of "relay_new input recv" es "\<lambda>m. Err (CodecError m)"] assms
  by (simp_all add: relay_shell_streams_def relay_new_def)

lemma relay_prefixes_and_ends_witness:
  "ry_sent (relay_shell_streams [InputTurn None, StreamTurn None, InputTurn None]
     (relay_new [RData [1]] [RData [5, 6]])) = [1] \<and>
   ry_output (relay_shell_streams [InputTurn None, StreamTurn None, InputTurn None]
     (relay_new [RData [1]] [RData [5, 6]])) = [5, 6] \<and>
   ry_result (relay_shell_streams [InputTurn None, StreamTurn None, InputTurn None]
     (relay_new [RData [1]] [RData [5, 6]])) \<noteq> None"
proof -
  let ?s = "relay_shell_streams [InputTurn None, StreamTurn None, InputTurn None]
     (relay_new [RData [1]] [RData [5, 6]])"
  have "ry_sent ?s = [1] \<and> ry_output ?s = [5, 6]"
    by (simp add: relay_shell_streams_def relay_run_def relay_turn_def relay_new_def read_bytes_def
        RELAY_BUF_def)
  moreover have "ry_result ?s \<noteq> None" using relay_prefixes_and_ends [OF refl, of "[RData [1]]" "[InputTurn None, StreamTurn None, InputTurn None]" "[RData [5, 6]]"] by simp
  ultimately show ?thesis by simp
qed

lemma channel_relay_prefixes:
  assumes "s = relay_shell_to_channels es (relay_new msgs recv)"
  shows "\<exists>rest. concat msgs = ry_sent s @ rest" "\<exists>rest. stream_bytes recv = ry_output s @ rest"
  using channel.run_prefix [OF assms [unfolded relay_shell_to_channels_def]] by auto

text \<open>
  The end of the local input ends both directions: what the stream still has to deliver is
  dropped, so a connection that shuts down its writing half loses the answer.
\<close>

lemma half_close_drops_answer:
  assumes "ry_result s = None" "recv_read RELAY_BUF (ry_input s) = (Ok [], i)"
  shows "ry_output (relay_shell_streams (InputTurn None # es) s) = ry_output s"
    "ry_result (relay_shell_streams (InputTurn None # es) s) = Some (Ok ())"
proof -
  let ?s = "relay_turn read_bytes (\<lambda>m. Err (CodecError m)) (InputTurn None) s"
  have "ry_result ?s = Some (Ok ())" "ry_output ?s = ry_output s"
    using assms by (simp_all add: relay_turn_def read_bytes_def)
  then show "ry_output (relay_shell_streams (InputTurn None # es) s) = ry_output s"
    "ry_result (relay_shell_streams (InputTurn None # es) s) = Some (Ok ())"
    by (simp_all add: relay_shell_streams_def reader.run_Cons reader.run_ended)
qed

section \<open>The relay around a PTY\<close>

text \<open>
  The state of \<open>relay_channels_to_pty\<close>: the reading task with what it has sent on, the channel
  to the writing task and whether its sender is alive, the writing task, and the loop. \<open>py_watch\<close>
  is the guard of the first branch as evaluated at the start of the current turn.
\<close>

record pty_relay =
  py_reader :: recv_stream
  py_read_result :: "(string, unit) result option"
  py_to_stream :: "u8 list list"
  py_incoming :: "u8 list list"
  py_queue :: "u8 list list"
  py_tx_open :: bool
  py_written :: "u8 list"
  py_write_result :: "(string, unit) result option"
  py_stream_open :: bool
  py_watch :: bool
  py_left :: bool
  py_result :: "(string, unit) result option"

definition pty_relay_new :: "recv_stream \<Rightarrow> u8 list list \<Rightarrow> pty_relay" where
  "pty_relay_new reader incoming =
     \<lparr>py_reader = reader, py_read_result = None, py_to_stream = [], py_incoming = incoming, py_queue = [],
      py_tx_open = True, py_written = [], py_write_result = None, py_stream_open = True,
      py_watch = True, py_left = False, py_result = None\<rparr>"

text \<open>
  Turns: of the reading task (the flag: the channel to the stream is closed), of the writing
  task with its outcome, of the loop for each of its branches, and of the code after the loop.
\<close>

datatype pty_event =
    ReadTask bool
  | WriteTask "string option"
  | LoopRead
  | LoopStream
  | LoopElse
  | AfterLoop

definition next_turn :: "pty_relay \<Rightarrow> pty_relay" where
  "next_turn s = s\<lparr>py_watch := py_read_result s = None\<rparr>"

definition pty_turn :: "pty_event \<Rightarrow> pty_relay \<Rightarrow> pty_relay" where
  "pty_turn e s =
     (if py_result s \<noteq> None then s
      else
       (case e of
          ReadTask closed \<Rightarrow>
            (if py_read_result s \<noteq> None then s
             else
              (case recv_read RELAY_BUF (py_reader s) of
                 (Err m, r) \<Rightarrow> s\<lparr>py_reader := r, py_read_result := Some (Err m)\<rparr>
               | (Ok bs, r) \<Rightarrow>
                   (if bs = [] \<or> closed then s\<lparr>py_reader := r, py_read_result := Some (Ok ())\<rparr>
                    else s\<lparr>py_reader := r, py_to_stream := py_to_stream s @ [bs]\<rparr>)))
        | WriteTask fault \<Rightarrow>
            (if py_write_result s \<noteq> None then s
             else
              (case py_queue s of
                 d # q \<Rightarrow>
                   (case fault of
                      None \<Rightarrow> s\<lparr>py_queue := q, py_written := py_written s @ d\<rparr>
                    | Some m \<Rightarrow> s\<lparr>py_queue := q, py_write_result := Some (Err m)\<rparr>)
               | [] \<Rightarrow> (if py_tx_open s then s else s\<lparr>py_write_result := Some (Ok ())\<rparr>)))
        | LoopRead \<Rightarrow>
            (if py_left s \<or> \<not> py_watch s then s
             else
              (case py_read_result s of
                 None \<Rightarrow> s
               | Some (Err m) \<Rightarrow> s\<lparr>py_tx_open := False, py_left := True, py_result := Some (Err m)\<rparr>
               | Some (Ok _) \<Rightarrow> s\<lparr>py_tx_open := False, py_left := True\<rparr>))
        | LoopStream \<Rightarrow>
            (if py_left s \<or> \<not> py_stream_open s then s
             else
              (case py_incoming s of
                 [] \<Rightarrow> next_turn (s\<lparr>py_stream_open := False\<rparr>)
               | d # ds \<Rightarrow>
                   next_turn
                     (if py_write_result s = None
                      then s\<lparr>py_incoming := ds, py_queue := py_queue s @ [d]\<rparr>
                      else s\<lparr>py_incoming := ds, py_stream_open := False\<rparr>)))
        | LoopElse \<Rightarrow>
            (if py_left s \<or> py_watch s \<or> py_stream_open s then s else s\<lparr>py_left := True\<rparr>)
        | AfterLoop \<Rightarrow>
            (if \<not> py_left s then s
             else (case py_write_result s of None \<Rightarrow> s | Some r \<Rightarrow> s\<lparr>py_result := Some r\<rparr>))))"

definition relay_channels_to_pty :: "pty_event list \<Rightarrow> pty_relay \<Rightarrow> pty_relay" where
  "relay_channels_to_pty es s = fold pty_turn es s"

definition pty_sound :: "recv_stream \<Rightarrow> u8 list list \<Rightarrow> pty_relay \<Rightarrow> bool" where
  "pty_sound reader incoming s \<longleftrightarrow>
     (\<exists>rest. stream_bytes reader = concat (py_to_stream s) @ rest) \<and>
     (py_read_result s = None \<longrightarrow> stream_bytes reader = concat (py_to_stream s) @ stream_bytes (py_reader s)) \<and>
     (\<exists>rest. concat incoming = py_written s @ rest) \<and>
     (py_write_result s = None \<longrightarrow>
       concat incoming = py_written s @ concat (py_queue s) @ concat (py_incoming s))"

lemma pty_turn_sound: "pty_sound reader incoming s \<Longrightarrow> pty_sound reader incoming (pty_turn e s)"
proof (cases "py_result s")
  case (Some r)
  moreover assume "pty_sound reader incoming s"
  ultimately show ?thesis by (simp add: pty_turn_def)
next
  case None
  assume s: "pty_sound reader incoming s"
  show ?thesis
  proof (cases e)
    case (ReadTask closed)
    obtain r rs where r: "recv_read RELAY_BUF (py_reader s) = (r, rs)" by fastforce
    show ?thesis
    proof (cases r)
      case (Inl m)
      with None ReadTask r s show ?thesis by (auto simp: pty_turn_def pty_sound_def)
    next
      case (Inr bs)
      with r have "stream_bytes (py_reader s) = bs @ stream_bytes rs" using reader.recv_read_bytes by blast
      with None ReadTask r s Inr show ?thesis by (auto simp: pty_turn_def pty_sound_def)
    qed
  next
    case (WriteTask fault)
    with None s show ?thesis
      by (cases "py_queue s"; cases fault) (auto simp: pty_turn_def pty_sound_def)
  next
    case LoopStream
    with None s show ?thesis
      by (cases "py_incoming s") (auto simp: pty_turn_def pty_sound_def next_turn_def)
  qed (use None s in \<open>auto simp: pty_turn_def pty_sound_def split: option.splits sum.splits\<close>)
qed

lemma pty_relay_sound:
  "pty_sound reader incoming (relay_channels_to_pty es (pty_relay_new reader incoming))"
proof -
  have "pty_sound reader incoming s \<Longrightarrow> pty_sound reader incoming (fold pty_turn es s)" for s
    by (induction es arbitrary: s) (simp_all add: pty_turn_sound)
  moreover have "pty_sound reader incoming (pty_relay_new reader incoming)"
    by (simp add: pty_sound_def pty_relay_new_def)
  ultimately show ?thesis by (simp add: relay_channels_to_pty_def)
qed

text \<open>
  When the reading task ends while the loop is busy with the stream, the guard of the first
  branch is false from the next turn on; the loop can then only end through its \<open>else\<close> branch,
  which leaves the sender of the writing task alive. The writing task waits for it, the code
  after the loop waits for the writing task: short of a failing write the relay never returns.
\<close>

definition pty_stuck :: "pty_relay \<Rightarrow> bool" where
  "pty_stuck s \<longleftrightarrow> \<not> py_watch s \<and> py_read_result s \<noteq> None \<and> py_tx_open s \<and> py_write_result s = None \<and>
     py_result s = None"

lemma pty_relay_hangs:
  "pty_stuck s \<Longrightarrow> \<forall>m. WriteTask (Some m) \<notin> set es \<Longrightarrow> py_result (relay_channels_to_pty es s) = None"
proof -
  have "pty_stuck s \<Longrightarrow> \<forall>m. WriteTask (Some m) \<notin> set es \<Longrightarrow> pty_stuck (fold pty_turn es s)" for s
  proof (induction es arbitrary: s)
    case (Cons e es)
    have "pty_stuck (pty_turn e s)"
    proof (cases e)
      case (WriteTask fault)
      with Cons.prems show ?thesis
        by (cases "py_queue s"; cases fault) (auto simp: pty_turn_def pty_stuck_def)
    qed (use Cons.prems in \<open>auto simp: pty_turn_def pty_stuck_def next_turn_def
          split: option.splits sum.splits list.splits\<close>)
    with Cons show ?case by simp
  qed simp
  then show "pty_stuck s \<Longrightarrow> \<forall>m. WriteTask (Some m) \<notin> set es \<Longrightarrow> py_result (relay_channels_to_pty es s) = None"
    by (auto simp: relay_channels_to_pty_def pty_stuck_def)
qed

lemma pty_stuck_reachable:
  "pty_stuck (relay_channels_to_pty [ReadTask False, LoopStream] (pty_relay_new [] [[7]]))"
  by (simp add: relay_channels_to_pty_def pty_stuck_def pty_turn_def pty_relay_new_def next_turn_def)

end
