(* ===== verification/Shell_Port.thy ===== *)
theory Shell_Port
  imports Control_Io Network Relay
begin

text \<open>
  Remote shells (\<open>failsafe-shell/src/\<close>) and port forwarding (\<open>failsafe-port/src/\<close>): the two
  features' start and stop, the hosts of incoming sessions, the control handlers behind
  \<open>failsafe shell\<close> and \<open>failsafe port\<close>, and the accept loop of a forward. PTYs, child
  processes and TCP sockets answer through arguments.
\<close>

section \<open>The shell feature\<close>

record shell_feature =
  sh_sessions :: bool
  sh_host_task :: bool

definition shell_feature_new :: shell_feature where
  "shell_feature_new = \<lparr>sh_sessions = False, sh_host_task = False\<rparr>"

definition shell_start :: "shell_feature \<Rightarrow> net_state
    \<Rightarrow> shell_feature \<times> net_state \<times> (feature_error, unit) result" where
  "shell_start f s =
     (if sh_sessions f then (f, s, Ok ())
      else (f\<lparr>sh_host_task := True\<rparr>, set_shell_acceptor s, Ok ()))"

definition shell_stop :: "shell_feature \<Rightarrow> net_state
    \<Rightarrow> shell_feature \<times> net_state \<times> (feature_error, unit) result" where
  "shell_stop f s = (f\<lparr>sh_host_task := False, sh_sessions := False\<rparr>, clear_shell_acceptor s, Ok ())"

text \<open>One turn of the host task: it takes the next session, if there is one.\<close>

definition take_session :: "'a channel option \<Rightarrow> ('a \<times> 'a channel) option" where
  "take_session acceptor =
     (case acceptor of None \<Rightarrow> None
      | Some c \<Rightarrow> (case ch_queue c of [] \<Rightarrow> None | x # q \<Rightarrow> Some (x, c\<lparr>ch_queue := q\<rparr>)))"

definition shell_host_turn :: "shell_feature \<Rightarrow> net_state \<Rightarrow> net_state \<times> shell_session option" where
  "shell_host_turn f s =
     (if \<not> sh_host_task f then (s, None)
      else (case take_session (se_shell_acceptor (ns_streams s)) of
              None \<Rightarrow> (s, None)
            | Some (x, c) \<Rightarrow> (s\<lparr>ns_streams := (ns_streams s)\<lparr>se_shell_acceptor := Some c\<rparr>\<rparr>, Some x)))"

section \<open>The shell host\<close>

datatype shell_error = PtyError string | SpawnError string | ShellIo string

record pty_env =
  pe_openpty :: "u16 \<Rightarrow> u16 \<Rightarrow> (string, unit) result"
  pe_shell_var :: "string option"
  pe_term_var :: "string option"
  pe_spawn :: "string \<Rightarrow> string \<Rightarrow> string list \<Rightarrow> (string, unit) result"
  pe_clone_reader :: "(string, unit) result"
  pe_take_writer :: "(string, unit) result"

definition default_shell :: "pty_env \<Rightarrow> string" where
  "default_shell pe = (case pe_shell_var pe of None \<Rightarrow> ''/bin/sh'' | Some s \<Rightarrow> s)"

definition ends_with :: "string \<Rightarrow> string \<Rightarrow> bool" where
  "ends_with s w \<longleftrightarrow> starts_with (rev s) (rev w)"

definition shell_arguments :: "string \<Rightarrow> string list" where
  "shell_arguments shell = (if ends_with shell ''bash'' \<or> ends_with shell ''zsh'' then [''-i''] else [])"

text \<open>
  \<open>None\<close> is a host that has not returned: \<open>relayed\<close> is the outcome of the relay, once there is
  one.
\<close>

definition run_shell_host :: "pty_env \<Rightarrow> u16 \<Rightarrow> u16 \<Rightarrow> (string, unit) result option
    \<Rightarrow> (shell_error, unit) result option" where
  "run_shell_host pe rows cols relayed =
     (case pe_openpty pe rows cols of
        Err e \<Rightarrow> Some (Err (PtyError e))
      | Ok _ \<Rightarrow>
     (let shell = default_shell pe;
          term = (case pe_term_var pe of None \<Rightarrow> ''xterm-256color'' | Some t \<Rightarrow> t) in
      case pe_spawn pe shell term (shell_arguments shell) of
        Err e \<Rightarrow> Some (Err (SpawnError e))
      | Ok _ \<Rightarrow>
     (case pe_clone_reader pe of
        Err e \<Rightarrow> Some (Err (PtyError e))
      | Ok _ \<Rightarrow>
     (case pe_take_writer pe of
        Err e \<Rightarrow> Some (Err (PtyError e))
      | Ok _ \<Rightarrow> map_option (map_err ShellIo) relayed))))"

text \<open>
  \<open>handle_incoming_shell\<close> runs the relay of the stream and the host's PTY relay side by side,
  joined by two channels. A receive waits while its channel is empty and its sender alive: the
  sender of \<open>from_pty\<close> lives with the PTY reading task, that of \<open>to_pty\<close> with the stream relay.
\<close>

record shell_run =
  sr_relay :: "u8 list list relay"
  sr_host :: pty_relay

datatype shell_run_event = RelayEvent relay_event | HostEvent pty_event

definition shell_run_new :: "recv_stream \<Rightarrow> shell_session \<Rightarrow> shell_run" where
  "shell_run_new pty session =
     \<lparr>sr_relay = relay_new [] (ss_recv session), sr_host = pty_relay_new pty []\<rparr>"

definition host_event :: "shell_run \<Rightarrow> pty_event \<Rightarrow> pty_event" where
  "host_event s e = (case e of ReadTask _ \<Rightarrow> ReadTask (ry_result (sr_relay s) \<noteq> None) | _ \<Rightarrow> e)"

definition shell_run_turn :: "shell_run_event \<Rightarrow> shell_run \<Rightarrow> shell_run" where
  "shell_run_turn e s =
     (let relay = sr_relay s; host = sr_host s in
      case e of
        RelayEvent re \<Rightarrow>
          (if (\<exists>f. re = InputTurn f) \<and> ry_input relay = [] \<and> py_read_result host = None then s
           else
            (let relay' = relay_turn read_channel (\<lambda>_. Ok ()) re relay;
                 out = drop (length (ry_output relay)) (ry_output relay') in
             \<lparr>sr_relay = relay', sr_host = host\<lparr>py_incoming := py_incoming host @ (if out = [] then [] else [out])\<rparr>\<rparr>))
      | HostEvent pe \<Rightarrow>
          (if pe = LoopStream \<and> py_incoming host = [] \<and> ry_result relay = None then s
           else
            (let host' = pty_turn (host_event s pe) host;
                 out = drop (length (py_to_stream host)) (py_to_stream host') in
             \<lparr>sr_relay = relay\<lparr>ry_input := ry_input relay @ out\<rparr>, sr_host = host'\<rparr>)))"

definition handle_incoming_shell :: "pty_env \<Rightarrow> recv_stream \<Rightarrow> shell_run_event list \<Rightarrow> shell_session
    \<Rightarrow> shell_run \<times> (shell_error, unit) result option" where
  "handle_incoming_shell pe pty es session =
     (let s = fold shell_run_turn es (shell_run_new pty session) in
      (s, run_shell_host pe (ss_rows session) (ss_cols session) (py_result (sr_host s))))"

text \<open>
  What the session's two ends have exchanged: the stream got a prefix of what the PTY said, the
  PTY a prefix of what the stream said.
\<close>

definition shell_run_sound :: "recv_stream \<Rightarrow> recv_stream \<Rightarrow> shell_run \<Rightarrow> bool" where
  "shell_run_sound pty recv s \<longleftrightarrow>
     (\<exists>inc. concat inc = ry_output (sr_relay s) \<and> pty_sound pty inc (sr_host s)) \<and>
     (if ry_result (sr_relay s) = None
      then concat (py_to_stream (sr_host s)) = ry_sent (sr_relay s) @ concat (ry_input (sr_relay s)) \<and>
        stream_bytes recv = ry_output (sr_relay s) @ stream_bytes (ry_recv (sr_relay s))
      else (\<exists>rest. concat (py_to_stream (sr_host s)) = ry_sent (sr_relay s) @ rest) \<and>
        (\<exists>rest. stream_bytes recv = ry_output (sr_relay s) @ rest))"

lemma pty_sound_grow:
  "pty_sound pty inc h \<Longrightarrow> pty_sound pty (inc @ [c]) (h\<lparr>py_incoming := py_incoming h @ [c]\<rparr>)"
  by (auto simp: pty_sound_def)

lemma relay_turn_output: "\<exists>out. ry_output (relay_turn read_in gone e r) = ry_output r @ out"
  by (auto simp: relay_turn_def split: relay_event.splits prod.splits sum.splits option.splits)

lemma pty_turn_to_stream: "\<exists>out. py_to_stream (pty_turn e h) = py_to_stream h @ out"
  by (auto simp: pty_turn_def next_turn_def split: pty_event.splits prod.splits sum.splits option.splits list.splits)

lemma relay_turn_sound':
  assumes "if ry_result r = None
      then ins = ry_sent r @ concat (ry_input r) \<and> stream_bytes recv = ry_output r @ stream_bytes (ry_recv r)
      else (\<exists>rest. ins = ry_sent r @ rest) \<and> (\<exists>rest. stream_bytes recv = ry_output r @ rest)"
  shows "let r' = relay_turn read_channel gone e r in
      if ry_result r' = None
      then ins = ry_sent r' @ concat (ry_input r') \<and> stream_bytes recv = ry_output r' @ stream_bytes (ry_recv r')
      else (\<exists>rest. ins = ry_sent r' @ rest) \<and> (\<exists>rest. stream_bytes recv = ry_output r' @ rest)"
  using channel.turn_sound [unfolded channel.sound_def, OF assms] by (simp add: Let_def)

lemma shell_run_turn_sound:
  assumes s: "shell_run_sound pty recv s"
  shows "shell_run_sound pty recv (shell_run_turn e s)"
proof -
  from s obtain inc where inc: "concat inc = ry_output (sr_relay s)" "pty_sound pty inc (sr_host s)"
    by (auto simp: shell_run_sound_def)
  note r = s [unfolded shell_run_sound_def, THEN conjunct2]
  show ?thesis
  proof (cases e)
    case (RelayEvent re)
    let ?r = "relay_turn read_channel (\<lambda>_. Ok ()) re (sr_relay s)"
    obtain out where out: "ry_output ?r = ry_output (sr_relay s) @ out" using relay_turn_output by blast
    define h where "h = (sr_host s)\<lparr>py_incoming := py_incoming (sr_host s) @ (if out = [] then [] else [out])\<rparr>"
    have ts: "py_to_stream h = py_to_stream (sr_host s)" by (simp add: h_def)
    have A: "\<exists>inc'. concat inc' = ry_output ?r \<and> pty_sound pty inc' h"
    proof (cases "out = []")
      case True
      with inc out show ?thesis by (intro exI [of _ inc]) (simp add: h_def)
    next
      case False
      with inc out pty_sound_grow show ?thesis by (intro exI [of _ "inc @ [out]"]) (simp add: h_def)
    qed
    have "shell_run_sound pty recv \<lparr>sr_relay = ?r, sr_host = h\<rparr>"
      by (simp only: shell_run_sound_def shell_run.simps ts)
        (rule conjI [OF A relay_turn_sound' [OF r, unfolded Let_def]])
    with s RelayEvent out show ?thesis
      by (cases "out = []") (auto simp: shell_run_turn_def Let_def h_def)
  next
    case (HostEvent pe)
    let ?h = "pty_turn (host_event s pe) (sr_host s)"
    obtain out where out: "py_to_stream ?h = py_to_stream (sr_host s) @ out" using pty_turn_to_stream by blast
    have "pty_sound pty inc ?h" using inc(2) by (rule pty_turn_sound)
    with inc(1) r s HostEvent out show ?thesis
      by (auto simp: shell_run_turn_def Let_def shell_run_sound_def)
  qed
qed

lemma shell_session_bytes:
  assumes "handle_incoming_shell pe pty es session = (s, r)"
  shows "\<exists>rest. stream_bytes pty = ry_sent (sr_relay s) @ rest"
    "\<exists>rest. stream_bytes (ss_recv session) = py_written (sr_host s) @ rest"
proof -
  have "shell_run_sound pty recv s0 \<Longrightarrow> shell_run_sound pty recv (fold shell_run_turn es s0)" for recv s0
    by (induction es arbitrary: s0) (simp_all add: shell_run_turn_sound)
  moreover have "shell_run_sound pty (ss_recv session) (shell_run_new pty session)"
    unfolding shell_run_sound_def shell_run_new_def relay_new_def pty_relay_new_def pty_sound_def
    by (auto intro: exI [of _ "[]"])
  ultimately have s: "shell_run_sound pty (ss_recv session) s"
    using assms by (auto simp: handle_incoming_shell_def Let_def)
  then show "\<exists>rest. stream_bytes pty = ry_sent (sr_relay s) @ rest"
    by (auto simp: shell_run_sound_def pty_sound_def split: if_splits)
  from s obtain inc rest where "concat inc = ry_output (sr_relay s)" "concat inc = py_written (sr_host s) @ rest"
    by (auto simp: shell_run_sound_def pty_sound_def)
  moreover from s obtain rest' where "stream_bytes (ss_recv session) = ry_output (sr_relay s) @ rest'"
    by (auto simp: shell_run_sound_def split: if_splits)
  ultimately show "\<exists>rest. stream_bytes (ss_recv session) = py_written (sr_host s) @ rest"
    by (metis append_assoc)
qed

section \<open>Opening a shell from the command line\<close>

record open_shell_request =
  os_target :: device_id
  os_rows :: u16
  os_cols :: u16

definition shell_not_enabled_here :: string where
  "shell_not_enabled_here = ''shell is not enabled on this device; enable it in the web UI or with `failsafe devices features`, then wait for the daemon to sync''"

text \<open>
  The answer of a control handler: the stream, the network, its result and, when a session was
  relayed, its relay.
\<close>

definition shell_handle_control :: "ext \<Rightarrow> ('v \<Rightarrow> (string, open_shell_request) result) \<Rightarrow> control_context
    \<Rightarrow> 'v \<Rightarrow> relay_event list \<Rightarrow> recv_stream \<Rightarrow> recv_stream \<Rightarrow> control_io \<Rightarrow> net_state
    \<Rightarrow> control_io \<times> net_state \<times> recv_stream relay option \<times> (control_error, unit) result" where
  "shell_handle_control x parse ctx body events input recv io s =
     (let refuse = (\<lambda>m s'. case respond (ErrorResp m) io of (io', r) \<Rightarrow> (io', s', None, r)) in
      case parse body of
        Err e \<Rightarrow> (io, s, None, Err (ConfigError (''invalid shell control request: '' @ e)))
      | Ok request \<Rightarrow>
          (if shell_id \<notin> set (cc_local_features ctx) then refuse shell_not_enabled_here s
           else if \<not> is_feature_enabled (os_target request) shell_id (cc_peers ctx)
           then refuse (''shell is not enabled on device '' @ device_id_display x (os_target request) @
                  ''; enable it on both devices'') s
           else if os_target request \<notin> set (pool_connected_peers (ns_pool s))
           then refuse (''device '' @ device_id_display x (os_target request) @ '' is offline or unreachable'') s
           else
            (case open_shell_stream (os_target request) (os_rows request) (os_cols request) s of
               (s', Err e) \<Rightarrow> refuse (''failed to open shell: '' @ transport_error_display x e) s'
             | (s', Ok _) \<Rightarrow>
                 (case respond Ready io of
                    (io', Err _) \<Rightarrow> (io', s', None, Ok ())
                  | (io', Ok _) \<Rightarrow>
                      (io', s', Some (relay_shell_streams events (relay_new input recv)), Ok ())))))"

section \<open>The port feature\<close>

record port_feature =
  po_host_task :: bool

definition port_feature_new :: port_feature where
  "port_feature_new = \<lparr>po_host_task = False\<rparr>"

definition port_start :: "port_feature \<Rightarrow> net_state
    \<Rightarrow> port_feature \<times> net_state \<times> (feature_error, unit) result" where
  "port_start f s =
     (if po_host_task f then (f, s, Ok ())
      else (f\<lparr>po_host_task := True\<rparr>, set_port_acceptor s, Ok ()))"

definition port_stop :: "port_feature \<Rightarrow> net_state
    \<Rightarrow> port_feature \<times> net_state \<times> (feature_error, unit) result" where
  "port_stop f s = (f\<lparr>po_host_task := False\<rparr>, clear_port_acceptor s, Ok ())"

definition port_host_turn :: "port_feature \<Rightarrow> net_state \<Rightarrow> net_state \<times> port_session option" where
  "port_host_turn f s =
     (if \<not> po_host_task f then (s, None)
      else (case take_session (se_port_acceptor (ns_streams s)) of
              None \<Rightarrow> (s, None)
            | Some (x, c) \<Rightarrow> (s\<lparr>ns_streams := (ns_streams s)\<lparr>se_port_acceptor := Some c\<rparr>\<rparr>, Some x)))"

text \<open>An incoming forward connects to the local service; \<open>connect\<close> gives what it will send.\<close>

definition handle_incoming_port :: "(u16 \<Rightarrow> (string, recv_stream) result) \<Rightarrow> relay_event list
    \<Rightarrow> port_session \<Rightarrow> recv_stream relay option" where
  "handle_incoming_port connect events session =
     (if ps_protocol session \<noteq> Tcp then None
      else (case connect (ps_remote_port session) of
              Err _ \<Rightarrow> None
            | Ok input \<Rightarrow> Some (relay_shell_streams events (relay_new input (ps_recv session)))))"

datatype port_error = ClientError string

definition port_not_enabled_here :: string where
  "port_not_enabled_here = ''port_forward is not enabled on this device; enable it in the web UI or with `failsafe devices features`, then wait for the daemon to sync''"

definition prepare_outgoing_port_forward :: "ext \<Rightarrow> (u16 \<Rightarrow> (string, unit) result) \<Rightarrow> net_state
    \<Rightarrow> peer_directory \<Rightarrow> feature_id list \<Rightarrow> device_id \<Rightarrow> u16 \<Rightarrow> port_protocol \<Rightarrow> (port_error, unit) result" where
  "prepare_outgoing_port_forward x bind s peers local_features target local_port protocol =
     (if port_id \<notin> set local_features then Err (ClientError port_not_enabled_here)
      else if \<not> is_feature_enabled target port_id peers
      then Err (ClientError (''port_forward is not enabled on device '' @ device_id_display x target @
             ''; enable it on both devices''))
      else if target \<notin> set (pool_connected_peers (ns_pool s))
      then Err (ClientError (''device '' @ device_id_display x target @ '' is offline or unreachable''))
      else if protocol \<noteq> Tcp then Err (ClientError ''only tcp port forwarding is supported'')
      else map_err (\<lambda>e. ClientError (''failed to bind local port '' @ show_nat (unat local_port) @ '': '' @ e))
             (bind local_port))"

text \<open>
  The loop of a forward: a local connection (with the bytes it sends, what the stream answers
  and the interleaving of its relay), a failing accept, or a read of the control stream.
\<close>

datatype forward_event =
    Accepted recv_stream recv_stream "relay_event list"
  | AcceptFailed string
  | ControlRead "(string, nat) result"

fun run_outgoing_port_forward :: "device_id \<Rightarrow> u16 \<Rightarrow> forward_event list \<Rightarrow> net_state
    \<Rightarrow> net_state \<times> recv_stream relay list \<times> bool" where
  "run_outgoing_port_forward target remote_port [] s = (s, [], False)"
| "run_outgoing_port_forward target remote_port (Accepted input recv events # es) s =
     (case open_port_stream target remote_port Tcp s of
        (s', Err _) \<Rightarrow> run_outgoing_port_forward target remote_port es s'
      | (s', Ok _) \<Rightarrow>
          (case run_outgoing_port_forward target remote_port es s' of
             (s'', relays, ended) \<Rightarrow>
               (s'', relay_shell_streams events (relay_new input recv) # relays, ended)))"
| "run_outgoing_port_forward target remote_port (AcceptFailed e # es) s = (s, [], True)"
| "run_outgoing_port_forward target remote_port (ControlRead r # es) s =
     (case r of
        Err _ \<Rightarrow> (s, [], True)
      | Ok n \<Rightarrow> if n = 0 then (s, [], True) else run_outgoing_port_forward target remote_port es s)"

record open_port_forward_request =
  op_target :: device_id
  op_local_port :: u16
  op_remote_port :: u16
  op_protocol :: port_protocol

definition port_handle_control :: "ext \<Rightarrow> ('v \<Rightarrow> (string, open_port_forward_request) result)
    \<Rightarrow> (u16 \<Rightarrow> (string, unit) result) \<Rightarrow> control_context \<Rightarrow> 'v \<Rightarrow> forward_event list
    \<Rightarrow> control_io \<Rightarrow> net_state \<Rightarrow> control_io \<times> net_state \<times> recv_stream relay list \<times> (control_error, unit) result" where
  "port_handle_control x parse bind ctx body events io s =
     (case parse body of
        Err e \<Rightarrow> (io, s, [], Err (ConfigError (''invalid port forward control request: '' @ e)))
      | Ok request \<Rightarrow>
          (case prepare_outgoing_port_forward x bind s (cc_peers ctx) (cc_local_features ctx)
                  (op_target request) (op_local_port request) (op_protocol request) of
             Err (ClientError m) \<Rightarrow> (case respond (ErrorResp m) io of (io', r) \<Rightarrow> (io', s, [], r))
           | Ok _ \<Rightarrow>
               (case respond Ready io of
                  (io', Err _) \<Rightarrow> (io', s, [], Ok ())
                | (io', Ok _) \<Rightarrow>
                    (case run_outgoing_port_forward (op_target request) (op_remote_port request) events s of
                       (s', relays, _) \<Rightarrow> (io', s', relays, Ok ())))))"

section \<open>Sessions need both sides\<close>

lemma refused_keeps: "(case respond m io of (io', r) \<Rightarrow> (io', s', None, r)) = (io1, s1, rl, r1) \<Longrightarrow> s1 = s' \<and> rl = None"
  by (auto split: prod.splits)

lemma shell_opened:
  assumes "shell_handle_control x parse ctx body events input recv io s = (io', s', rl, r)" "s' \<noteq> s"
  shows "\<exists>request. parse body = Ok request \<and> shell_id \<in> set (cc_local_features ctx) \<and>
     is_feature_enabled (os_target request) shell_id (cc_peers ctx) \<and>
     os_target request \<in> set (pool_connected_peers (ns_pool s))"
  using assms
  by (auto simp: shell_handle_control_def Let_def split: sum.splits if_splits prod.splits dest!: refused_keeps)

lemma port_opened:
  assumes "port_handle_control x parse bind ctx body events io s = (io', s', rls, r)" "s' \<noteq> s"
  shows "\<exists>request. parse body = Ok request \<and> port_id \<in> set (cc_local_features ctx) \<and>
     is_feature_enabled (op_target request) port_id (cc_peers ctx) \<and>
     op_target request \<in> set (pool_connected_peers (ns_pool s))"
  using assms
  by (auto simp: port_handle_control_def prepare_outgoing_port_forward_def
      split: sum.splits if_splits prod.splits port_error.splits)


definition sample_context :: control_context where
  "sample_context = \<lparr>cc_peers = sample_directory, cc_local_features = [shell_id, port_id]\<rparr>"

definition sample_io :: control_io where
  "sample_io = \<lparr>ci_responses = [], ci_events = [], ci_faults = []\<rparr>"

lemma sample_opened:
  "fst (snd (shell_handle_control sample_ext Ok sample_context
       \<lparr>os_target = DeviceId 7, os_rows = 24, os_cols = 80\<rparr> [] [] [] sample_io sample_publish_net)) \<noteq> sample_publish_net"
proof -
  let ?q = "\<lparr>os_target = DeviceId 7, os_rows = 24, os_cols = 80\<rparr>"
  have c: "pool_get (DeviceId 7) (ns_pool sample_publish_net) = Some (sample_conn 0)"
    using register_sample [of 0] by (simp add: sample_publish_net_def)
  then have m: "DeviceId 7 \<in> set (pool_connected_peers (ns_pool sample_publish_net))"
    by (simp add: pool_connected_iff)
  have e: "is_feature_enabled (DeviceId 7) shell_id sample_directory"
    by code_simp
  have io: "ns_io sample_publish_net = []"
    by (simp add: sample_publish_net_def protocol_accept_def register_connection_def resolve_device_def
        sample_conn_def sample_net_def sample_address_def net_start_def Let_def)
  obtain s1 where o: "open_shell_stream (DeviceId 7) 24 80 sample_publish_net = (s1, Ok ())"
      "ns_wire s1 \<noteq> ns_wire sample_publish_net"
    using c io by (simp add: open_shell_stream_def open_and_write_def next_io_def Let_def)
  then have "s1 \<noteq> sample_publish_net" by auto
  with o m e show ?thesis
    by (simp add: shell_handle_control_def Let_def sample_context_def sample_io_def respond_def
        next_control_fault_def)
qed


end
