(* ===== verification/Limits.thy ===== *)
theory Limits
  imports Core
begin

text \<open>
  Size limits on files and blobs (\<open>failsafe-clipboard/src/limits.rs\<close>), used by the clipboard
  feature and by file sends. Sizes are \<open>u64\<close> and their running total saturates.
\<close>

record clipboard_limits =
  max_file_bytes :: u64
  max_total_bytes :: u64

definition limits_default :: clipboard_limits where
  "limits_default = \<lparr>max_file_bytes = 100 * 1024 * 1024, max_total_bytes = 500 * 1024 * 1024\<rparr>"

definition limits_unlimited :: clipboard_limits where
  "limits_unlimited = \<lparr>max_file_bytes = - 1, max_total_bytes = - 1\<rparr>"

text \<open>The loop of both validators: the first file over its limit, or the saturating total.\<close>

fun check_sizes :: "clipboard_limits \<Rightarrow> (string \<Rightarrow> string) \<Rightarrow> (string \<times> u64) list \<Rightarrow> u64 \<Rightarrow> (string, u64) result" where
  "check_sizes limits msg [] acc = Ok acc"
| "check_sizes limits msg ((name, sz) # files) acc =
     (if sz > max_file_bytes limits then Err (msg name)
      else check_sizes limits msg files (sat_add acc sz))"

definition show_u64 :: "u64 \<Rightarrow> string" where "show_u64 w = show_nat (unat w)"

definition validate_entries :: "clipboard_limits \<Rightarrow> (string \<times> u64) list \<Rightarrow> (string, unit) result" where
  "validate_entries limits entries =
     and_then (check_sizes limits (\<lambda>name. ''file `'' @ name @ ''` exceeds limit of '' @
         show_u64 (max_file_bytes limits) @ '' bytes'') entries 0)
       (\<lambda>total. if total > max_total_bytes limits
          then Err (''files exceed total limit of '' @ show_u64 (max_total_bytes limits) @ '' bytes'')
          else Ok ())"

definition byte_len :: "u8 list \<Rightarrow> u64" where "byte_len bs = of_nat (length bs)"

definition validate_files :: "clipboard_limits \<Rightarrow> (string \<times> u8 list) list \<Rightarrow> (string, unit) result" where
  "validate_files limits files =
     and_then (check_sizes limits (\<lambda>name. ''clipboard file `'' @ name @ ''` exceeds limit of '' @
         show_u64 (max_file_bytes limits) @ '' bytes'') (map (\<lambda>(n, d). (n, byte_len d)) files) 0)
       (\<lambda>total. if total > max_total_bytes limits
          then Err (''clipboard files exceed total limit of '' @ show_u64 (max_total_bytes limits) @ '' bytes'')
          else Ok ())"

definition validate_blob :: "clipboard_limits \<Rightarrow> nat \<Rightarrow> (string, unit) result" where
  "validate_blob limits sz =
     (if (of_nat sz :: u64) > max_file_bytes limits
      then Err (''clipboard blob exceeds limit of '' @ show_u64 (max_file_bytes limits) @ '' bytes'')
      else Ok ())"

lemma check_sizes_Ok:
  "check_sizes l msg fs acc = Ok t \<longleftrightarrow>
     (\<forall>(n, s) \<in> set fs. s \<le> max_file_bytes l) \<and>
     t = foldl sat_add acc (map snd fs)"
  by (induction l msg fs acc rule: check_sizes.induct) (auto simp: not_less not_le)

lemma unat_foldl_sat_add:
  "unat (foldl sat_add (t :: u64) ss) = min (unat t + sum_list (map unat ss)) (2 ^ 64 - 1)"
proof (induction ss arbitrary: t)
  case Nil
  then show ?case using unat_lt2p [of t] by simp
next
  case (Cons s ss)
  then show ?case by (simp add: unat_sat_add)
qed

lemma total_bound_iff:
  fixes m :: u64
  shows "foldl sat_add 0 ss \<le> m \<longleftrightarrow> sum_list (map unat ss) \<le> unat m \<or> m = - 1"
proof -
  have "foldl sat_add 0 ss \<le> m \<longleftrightarrow> min (sum_list (map unat ss)) (2 ^ 64 - 1) \<le> unat m"
    by (simp add: word_le_nat_alt unat_foldl_sat_add)
  moreover have "m = - 1 \<longleftrightarrow> unat m = 2 ^ 64 - 1"
    by (simp add: word_unat_eq_iff unat_minus_one_max)
  moreover have "unat m \<le> 2 ^ 64 - 1" using unat_lt2p [of m] by simp
  ultimately show ?thesis by (auto simp: min_def split: if_splits)
qed

lemma entries_accepted:
  "validate_entries l es = Ok () \<longleftrightarrow>
     (\<forall>(n, s) \<in> set es. s \<le> max_file_bytes l) \<and>
     (sum_list (map (unat \<circ> snd) es) \<le> unat (max_total_bytes l) \<or> max_total_bytes l = - 1)"
  using total_bound_iff [of "map snd es" "max_total_bytes l"]
  by (auto simp: validate_entries_def and_then_eq_Inr check_sizes_Ok not_less comp_def)

lemma unlimited_accepts: "validate_entries limits_unlimited es = Ok ()"
  by (auto simp: entries_accepted limits_unlimited_def)

text \<open>
  C16. Entries are accepted exactly when every file is within the limit for one file and the sum
  of the sizes, taken without wrap-around, is within the limit for all; the largest limit stands
  for no limit at all, since the running total saturates there.
\<close>

theorem validate_entries_iff:
  "validate_entries l es = Ok () \<longleftrightarrow>
     (\<forall>(n, s) \<in> set es. s \<le> max_file_bytes l) \<and>
     (sum_list (map (unat \<circ> snd) es) \<le> unat (max_total_bytes l) \<or> max_total_bytes l = - 1)"
  by (rule entries_accepted)

lemma validate_entries_iff_witness:
  "validate_entries \<lparr>max_file_bytes = 10, max_total_bytes = 15\<rparr> [(''a'', 10), (''b'', 5)] = Ok () \<and>
   validate_entries \<lparr>max_file_bytes = 10, max_total_bytes = 15\<rparr> [(''a'', 10), (''b'', 6)] \<noteq> Ok ()"
  by (simp add: validate_entries_iff)

end
