(* ===== verification/Blobs.thy ===== *)
theory Blobs
  imports Network Limits
begin

text \<open>
  Content transfer (\<open>failsafe-transport/src/blobs\<close>): the trait \<open>BlobTransfer\<close> with its contract
  as a locale, \<open>MockBlobTransfer\<close> (the daemon's fallback when it has no Iroh transport), and the
  parts of \<open>IrohBlobTransfer\<close> that are the program's own: hash and peer lookup, the import loop
  over the events of concurrent file imports, the download and export loops and the mapping of
  archive names to paths. A path is the list of its components. blake3, the file system and the
  blob store of iroh are arguments.
\<close>

type_synonym path = "string list"

datatype blob_error =
    StoreError string
  | BlobPeerNotFound string
  | InvalidHash string
  | NotFound string

fun blob_error_display :: "blob_error \<Rightarrow> string" where
  "blob_error_display (StoreError m) = ''blob store error: '' @ m"
| "blob_error_display (BlobPeerNotFound p) = ''peer `'' @ p @ ''` not found''"
| "blob_error_display (InvalidHash m) = ''invalid blob hash: '' @ m"
| "blob_error_display (NotFound h) = ''blob not found: '' @ h"

record blob_progress =
  bp_bytes_done :: u64
  bp_bytes_total :: u64
  bp_current_file :: "string option"

record imported_file =
  if_name :: string
  if_size :: u64

section \<open>The trait\<close>

record 'b blob_ops =
  bt_store_bytes :: "u8 list \<Rightarrow> 'b \<Rightarrow> 'b \<times> (blob_error, string) result"
  bt_store_files :: "(string \<times> u8 list) list \<Rightarrow> 'b \<Rightarrow> 'b \<times> (blob_error, string) result"
  bt_fetch_bytes :: "device_id \<Rightarrow> string \<Rightarrow> 'b \<Rightarrow> 'b \<times> (blob_error, u8 list) result"
  bt_fetch_collection_files :: "device_id \<Rightarrow> string \<Rightarrow> 'b \<Rightarrow> 'b \<times> (blob_error, (string \<times> u8 list) list) result"
  bt_import_sources :: "(string \<times> path) list \<Rightarrow> 'b \<Rightarrow> 'b \<times> blob_progress list \<times> (blob_error, string \<times> imported_file list) result"
  bt_download_collection :: "device_id \<Rightarrow> string \<Rightarrow> u64 \<Rightarrow> 'b \<Rightarrow> 'b \<times> blob_progress list \<times> (blob_error, unit) result"
  bt_export_collection :: "string \<Rightarrow> path \<Rightarrow> 'b \<Rightarrow> 'b \<times> blob_progress list \<times> (blob_error, path list) result"
  bt_collection_status :: "string \<Rightarrow> u64 \<Rightarrow> 'b \<Rightarrow> (blob_error, u64 \<times> u64 \<times> bool) result"

text \<open>
  What the program relies on: a collection, once stored under its hash, is what every later
  fetch and export of that hash is about.
\<close>

locale blob_transfer =
  fixes ops :: "'b blob_ops"
    and collections :: "'b \<Rightarrow> string \<rightharpoonup> (string \<times> u8 list) list"
  assumes store_Ok: "bt_store_files ops files b = (b', Ok h) \<Longrightarrow>
      collections b' = (collections b)(h \<mapsto> files)"
    and fetch_Ok: "bt_fetch_collection_files ops peer h b = (b', Ok files) \<Longrightarrow>
      collections b' = collections b \<and> collections b h = Some files"
    and import_Ok: "bt_import_sources ops sources b = (b', ps, Ok (h, imported)) \<Longrightarrow>
      \<exists>files. map fst files = map fst sources \<and> collections b' = (collections b)(h \<mapsto> files) \<and>
        imported = map (\<lambda>(n, d). \<lparr>if_name = n, if_size = byte_len d\<rparr>) files"
    and download_frame: "bt_download_collection ops peer h n b = (b', ps, r) \<Longrightarrow>
      collections b' = collections b"
    and export_Ok: "bt_export_collection ops h dir b = (b', ps, Ok paths) \<Longrightarrow>
      \<exists>files. collections b h = Some files \<and> length paths = length files"
    and status_stored: "collections b h \<noteq> None \<Longrightarrow> \<exists>n. bt_collection_status ops h t b = Ok (n, t, True)"
begin

text \<open>A collection that was just imported needs no second import, and is fetched as imported.\<close>

lemma import_then_status:
  "bt_import_sources ops sources b = (b', ps, Ok (h, imported)) \<Longrightarrow>
     \<exists>n. bt_collection_status ops h t b' = Ok (n, t, True)"
  using import_Ok status_stored by fastforce

lemma import_then_fetch:
  assumes "bt_import_sources ops sources b = (b1, ps, Ok (h, imported))"
    "bt_download_collection ops peer h n b1 = (b2, qs, Ok ())"
    "bt_fetch_collection_files ops peer h b2 = (b3, Ok files)"
  shows "map fst files = map fst sources" "imported = map (\<lambda>(n, d). \<lparr>if_name = n, if_size = byte_len d\<rparr>) files"
proof -
  from import_Ok [OF assms(1)] obtain fs where fs: "map fst fs = map fst sources"
    "collections b1 = (collections b)(h \<mapsto> fs)"
    "imported = map (\<lambda>(n, d). \<lparr>if_name = n, if_size = byte_len d\<rparr>) fs" by blast
  have "collections b2 h = Some files" using fetch_Ok [OF assms(3)] by simp
  then have "files = fs" using fs(2) download_frame [OF assms(2)] by simp
  with fs show "map fst files = map fst sources"
    "imported = map (\<lambda>(n, d). \<lparr>if_name = n, if_size = byte_len d\<rparr>) files" by simp_all
qed

end

section \<open>MockBlobTransfer\<close>

text \<open>
  The machine around it: \<open>me_hash\<close> is blake3 in hex, \<open>me_len\<close> the length \<open>metadata\<close> reports (0
  on error), \<open>me_read\<close> and \<open>me_write\<close> the file system's answers.
\<close>

record mock_env =
  me_hash :: "u8 list \<Rightarrow> string"
  me_len :: "path \<Rightarrow> u64"
  me_read :: "path \<Rightarrow> (string, u8 list) result"
  me_write :: "path \<Rightarrow> string option"

record mock_state =
  ms_blobs :: "string \<rightharpoonup> u8 list"
  ms_collections :: "string \<rightharpoonup> (string \<times> u8 list) list"
  ms_downloaded :: "string set"
  ms_disk :: "(path \<times> u8 list) list"

definition mock_store_bytes :: "mock_env \<Rightarrow> u8 list \<Rightarrow> mock_state \<Rightarrow> mock_state \<times> (blob_error, string) result" where
  "mock_store_bytes env data s =
     (let h = me_hash env data in (s\<lparr>ms_blobs := (ms_blobs s)(h \<mapsto> data)\<rparr>, Ok h))"

definition collection_seed :: "mock_env \<Rightarrow> (string \<times> u8 list) list \<Rightarrow> string" where
  "collection_seed env files = join_with ''|'' (map (\<lambda>(n, d). n @ '':'' @ me_hash env d) files)"

definition mock_store_files :: "mock_env \<Rightarrow> (string \<times> u8 list) list \<Rightarrow> mock_state
    \<Rightarrow> mock_state \<times> (blob_error, string) result" where
  "mock_store_files env files s =
     (let root = me_hash env (bytes_of (collection_seed env files))
      in (s\<lparr>ms_collections := (ms_collections s)(root \<mapsto> files)\<rparr>, Ok root))"

definition mock_fetch_bytes :: "device_id \<Rightarrow> string \<Rightarrow> mock_state \<Rightarrow> mock_state \<times> (blob_error, u8 list) result" where
  "mock_fetch_bytes peer h s = (s, ok_or (ms_blobs s h) (NotFound h))"

definition mock_download_collection :: "device_id \<Rightarrow> string \<Rightarrow> u64 \<Rightarrow> mock_state
    \<Rightarrow> mock_state \<times> blob_progress list \<times> (blob_error, unit) result" where
  "mock_download_collection peer root total_bytes s =
     (if ms_collections s root = None then (s, [], Err (NotFound root))
      else (s\<lparr>ms_downloaded := insert root (ms_downloaded s)\<rparr>,
            [\<lparr>bp_bytes_done = total_bytes, bp_bytes_total = total_bytes, bp_current_file = None\<rparr>], Ok ()))"

definition mock_fetch_collection_files :: "device_id \<Rightarrow> string \<Rightarrow> mock_state
    \<Rightarrow> mock_state \<times> (blob_error, (string \<times> u8 list) list) result" where
  "mock_fetch_collection_files peer root s =
     (case mock_download_collection peer root 0 s of
        (s', _, Err e) \<Rightarrow> (s', Err e)
      | (s', _, Ok _) \<Rightarrow> (s', ok_or (ms_collections s' root) (NotFound root)))"

fun read_sources :: "mock_env \<Rightarrow> u64 \<Rightarrow> u64 \<Rightarrow> (string \<times> path) list
    \<Rightarrow> blob_progress list \<times> (blob_error, (string \<times> u8 list) list) result" where
  "read_sources env total_bytes bytes_done [] = ([], Ok [])"
| "read_sources env total_bytes bytes_done ((name, p) # sources) =
     (case me_read env p of
        Err e \<Rightarrow> ([], Err (StoreError e))
      | Ok data \<Rightarrow>
          (let bytes_done' = sat_add bytes_done (byte_len data);
               progress = \<lparr>bp_bytes_done = bytes_done', bp_bytes_total = total_bytes,
                 bp_current_file = Some name\<rparr> in
           case read_sources env total_bytes bytes_done' sources of
             (ps, Err e) \<Rightarrow> (progress # ps, Err e)
           | (ps, Ok files) \<Rightarrow> (progress # ps, Ok ((name, data) # files))))"

definition mock_import_sources :: "mock_env \<Rightarrow> (string \<times> path) list \<Rightarrow> mock_state
    \<Rightarrow> mock_state \<times> blob_progress list \<times> (blob_error, string \<times> imported_file list) result" where
  "mock_import_sources env sources s =
     (let total_bytes = sum_u64 (map (\<lambda>(_, p). me_len env p) sources) in
      case read_sources env total_bytes 0 sources of
        (ps, Err e) \<Rightarrow> (s, ps, Err e)
      | (ps, Ok files) \<Rightarrow>
          (let imported = map (\<lambda>(n, d). \<lparr>if_name = n, if_size = byte_len d\<rparr>) files in
           case mock_store_files env files s of
             (s', Err e) \<Rightarrow> (s', ps, Err e)
           | (s', Ok h) \<Rightarrow> (s', ps, Ok (h, imported))))"

text \<open>\<open>Path::join\<close> with an archive name: an absolute name replaces the base.\<close>

definition path_join :: "path \<Rightarrow> string \<Rightarrow> path" where
  "path_join base name = (if starts_with name ''/'' then [] else base) @ path_components name"

fun write_collection :: "mock_env \<Rightarrow> path \<Rightarrow> nat \<Rightarrow> nat \<Rightarrow> (string \<times> u8 list) list \<Rightarrow> mock_state
    \<Rightarrow> mock_state \<times> blob_progress list \<times> (blob_error, path list) result" where
  "write_collection env dest n i [] s = (s, [], Ok [])"
| "write_collection env dest n i ((name, data) # files) s =
     (let p = path_join dest name in
      case me_write env p of
        Some e \<Rightarrow> (s, [], Err (StoreError e))
      | None \<Rightarrow>
          (let progress = \<lparr>bp_bytes_done = of_nat (Suc i), bp_bytes_total = of_nat n,
                 bp_current_file = Some name\<rparr> in
           case write_collection env dest n (Suc i) files
               (s\<lparr>ms_disk := map_insert p data (ms_disk s)\<rparr>) of
             (s', ps, Err e) \<Rightarrow> (s', progress # ps, Err e)
           | (s', ps, Ok paths) \<Rightarrow> (s', progress # ps, Ok (p # paths))))"

definition mock_export_collection :: "mock_env \<Rightarrow> string \<Rightarrow> path \<Rightarrow> mock_state
    \<Rightarrow> mock_state \<times> blob_progress list \<times> (blob_error, path list) result" where
  "mock_export_collection env root dest s =
     (case ms_collections s root of
        None \<Rightarrow> (s, [], Err (NotFound root))
      | Some files \<Rightarrow>
          (case me_write env dest of
             Some e \<Rightarrow> (s, [], Err (StoreError e))
           | None \<Rightarrow> write_collection env dest (length files) 0 files s))"

definition mock_collection_status :: "string \<Rightarrow> u64 \<Rightarrow> mock_state \<Rightarrow> (blob_error, u64 \<times> u64 \<times> bool) result" where
  "mock_collection_status root total_bytes s =
     (let complete = root \<in> ms_downloaded s \<or> ms_collections s root \<noteq> None;
          bytes_done = if complete then total_bytes else 0
      in Ok (bytes_done, total_bytes, complete))"

definition mock_ops :: "mock_env \<Rightarrow> mock_state blob_ops" where
  "mock_ops env =
     \<lparr>bt_store_bytes = mock_store_bytes env, bt_store_files = mock_store_files env,
      bt_fetch_bytes = mock_fetch_bytes, bt_fetch_collection_files = mock_fetch_collection_files,
      bt_import_sources = mock_import_sources env,
      bt_download_collection = mock_download_collection,
      bt_export_collection = mock_export_collection env,
      bt_collection_status = mock_collection_status\<rparr>"

lemma read_sources_Ok:
  "read_sources env t b sources = (ps, Ok files) \<Longrightarrow>
     map fst files = map fst sources \<and> list_all2 (\<lambda>s f. me_read env (snd s) = Ok (snd f)) sources files"
proof (induction env t b sources arbitrary: ps files rule: read_sources.induct)
  case (2 env t b name p sources)
  then show ?case by (auto simp: Let_def split: sum.splits prod.splits)
qed simp

lemma write_collection_frame:
  "write_collection env dest n i files s = (s', ps, r) \<Longrightarrow> ms_collections s' = ms_collections s"
proof (induction env dest n i files s arbitrary: s' ps r rule: write_collection.induct)
  case (2 env dest n i name data files s)
  then show ?case
    by (cases "me_write env (path_join dest name)")
      (auto simp: Let_def split: prod.splits sum.splits)
qed simp

lemma write_collection_paths:
  "write_collection env dest n i files s = (s', ps, Ok paths) \<Longrightarrow>
     paths = map (\<lambda>(name, _). path_join dest name) files"
proof (induction env dest n i files s arbitrary: s' ps paths rule: write_collection.induct)
  case (2 env dest n i name data files s)
  then show ?case
    by (cases "me_write env (path_join dest name)")
      (auto simp: Let_def split: prod.splits sum.splits)
qed simp

interpretation mock: blob_transfer "mock_ops env" ms_collections
proof unfold_locales
  fix sources b b' ps h imported
  assume "bt_import_sources (mock_ops env) sources b = (b', ps, Ok (h, imported))"
  then show "\<exists>files. map fst files = map fst sources \<and> ms_collections b' = (ms_collections b)(h \<mapsto> files) \<and>
      imported = map (\<lambda>(n, d). \<lparr>if_name = n, if_size = byte_len d\<rparr>) files"
    using read_sources_Ok
    by (auto simp: mock_ops_def mock_import_sources_def mock_store_files_def Let_def
        split: prod.splits sum.splits) blast
next
  fix h dir b b' ps paths
  assume "bt_export_collection (mock_ops env) h dir b = (b', ps, Ok paths)"
  then show "\<exists>files. ms_collections b h = Some files \<and> length paths = length files"
    by (auto simp: mock_ops_def mock_export_collection_def dest!: write_collection_paths
        split: option.splits)
qed (auto simp: mock_ops_def mock_store_files_def mock_fetch_collection_files_def
    mock_download_collection_def mock_collection_status_def Let_def split: if_splits sum.splits prod.splits)

section \<open>IrohBlobTransfer\<close>

text \<open>\<open>peer_endpoint_id\<close>: the peer's key from the address book.\<close>

definition peer_endpoint_id :: "ext \<Rightarrow> (string \<Rightarrow> (string, string) result) \<Rightarrow> address_state \<Rightarrow> device_id
    \<Rightarrow> (blob_error, string) result" where
  "peer_endpoint_id x pk st peer =
     and_then (ok_or (book_get peer (as_book st)) (BlobPeerNotFound (device_id_display x peer)))
       (\<lambda>address. map_err (\<lambda>e. StoreError (''invalid peer iroh address for '' @
           device_id_display x peer @ '': '' @ e)) (pk address))"

definition export_target :: "path \<Rightarrow> string \<Rightarrow> (blob_error, path) result" where
  "export_target base name =
     (case List.find (\<lambda>p. p = [] \<or> p = ''.'' \<or> p = ''..'') (split_char (CHR ''/'') name) of
        Some p \<Rightarrow> Err (StoreError (''invalid path component: '' @ p))
      | None \<Rightarrow> Ok (base @ split_char (CHR ''/'') name))"

text \<open>One running import per source file; \<open>fi_done\<close> once its result has arrived.\<close>

record file_import_state =
  fi_name :: string
  fi_size :: u64
  fi_offset :: u64
  fi_done :: bool

fun aggregate_states :: "file_import_state list \<Rightarrow> u64 \<Rightarrow> string option \<Rightarrow> u64 \<times> string option" where
  "aggregate_states [] bytes current = (bytes, current)"
| "aggregate_states (st # sts) bytes current =
     (if fi_done st then aggregate_states sts (sat_add bytes (fi_size st)) current
      else aggregate_states sts (sat_add bytes (fi_offset st))
        (if fi_offset st < fi_size st \<and> current = None then Some (fi_name st) else current))"

definition aggregate_import_progress :: "file_import_state list \<Rightarrow> u64 \<Rightarrow> blob_progress" where
  "aggregate_import_progress states total_bytes =
     (case aggregate_states states 0 None of (bytes, current) \<Rightarrow>
       \<lparr>bp_bytes_done = bytes, bp_bytes_total = total_bytes, bp_current_file = current\<rparr>)"

text \<open>
  What the \<open>select!\<close> of the import loop sees, in some order of the concurrent imports: an offset
  of a file, or the result of a file (its hash and size).
\<close>

datatype import_event =
    ImportOffset nat u64
  | ImportResult nat "(blob_error, string \<times> string \<times> u64) result"

fun import_loop :: "nat \<Rightarrow> u64 \<Rightarrow> import_event list \<Rightarrow> file_import_state list
    \<Rightarrow> (string \<times> string \<times> u64) option list \<Rightarrow> nat
    \<Rightarrow> blob_progress list \<times> (blob_error, (string \<times> string \<times> u64) option list \<times> nat) result" where
  "import_loop n total_bytes events states results completed =
     (if completed \<ge> n then ([], Ok (results, completed))
      else (case events of
        [] \<Rightarrow> ([], Ok (results, completed))
      | ImportOffset i off # events' \<Rightarrow>
          (let states' = states[i := (states ! i)\<lparr>fi_offset := off\<rparr>] in
           case import_loop n total_bytes events' states' results completed of
             (ps, r) \<Rightarrow> (aggregate_import_progress states' total_bytes # ps, r))
      | ImportResult i (Err e) # events' \<Rightarrow> ([], Err e)
      | ImportResult i (Ok (name, h, sz)) # events' \<Rightarrow>
          (let states' = states[i := (states ! i)\<lparr>fi_done := True, fi_offset := sz\<rparr>] in
           case import_loop n total_bytes events' states' (results[i := Some (name, h, sz)]) (Suc completed) of
             (ps, r) \<Rightarrow> (aggregate_import_progress states' total_bytes # ps, r))))"

declare import_loop.simps [simp del]

text \<open>
  \<open>collect\<close> stores the collection of the imported files and answers its hash.
\<close>

definition iroh_import_sources :: "(path \<Rightarrow> u64) \<Rightarrow> ((string \<times> string) list \<Rightarrow> (string, string) result)
    \<Rightarrow> (string \<times> path) list \<Rightarrow> import_event list
    \<Rightarrow> blob_progress list \<times> (blob_error, string \<times> imported_file list) result" where
  "iroh_import_sources len collect sources events =
     (if sources = [] then ([], Err (StoreError ''no import sources''))
      else
       (let states = map (\<lambda>(name, p). \<lparr>fi_name = name, fi_size = len p, fi_offset = 0, fi_done = False\<rparr>) sources;
            total_bytes = sum_u64 (map fi_size states) in
        case import_loop (length sources) total_bytes events states (map (\<lambda>_. None) sources) 0 of
          (ps, Err e) \<Rightarrow> (aggregate_import_progress states total_bytes # ps, Err e)
        | (ps, Ok (results, completed)) \<Rightarrow>
            (let ps' = aggregate_import_progress states total_bytes # ps in
             if completed \<noteq> length sources
             then (ps', Err (StoreError ''import ended before all files completed''))
             else
              (let ps'' = ps' @ [\<lparr>bp_bytes_done = total_bytes, bp_bytes_total = total_bytes,
                     bp_current_file = None\<rparr>];
                   done = concat (map (\<lambda>r. case r of None \<Rightarrow> [] | Some t \<Rightarrow> [t]) results) in
               case collect (map (\<lambda>(name, h, _). (name, h)) done) of
                 Err e \<Rightarrow> (ps'', Err (StoreError e))
               | Ok root \<Rightarrow> (ps'', Ok (root, map (\<lambda>(name, _, sz). \<lparr>if_name = name, if_size = sz\<rparr>) done))))))"

datatype download_item = DownloadBytes u64 | DownloadFailed | DownloadError string | DownloadOther

fun download_loop :: "u64 \<Rightarrow> download_item list \<Rightarrow> blob_progress list \<times> (blob_error, unit) result" where
  "download_loop total_bytes [] = ([], Ok ())"
| "download_loop total_bytes (DownloadBytes n # items) =
     (case download_loop total_bytes items of (ps, r) \<Rightarrow>
       (\<lparr>bp_bytes_done = min n total_bytes, bp_bytes_total = total_bytes, bp_current_file = None\<rparr> # ps, r))"
| "download_loop total_bytes (DownloadFailed # items) = ([], Err (StoreError ''download failed''))"
| "download_loop total_bytes (DownloadError e # items) = ([], Err (StoreError e))"
| "download_loop total_bytes (DownloadOther # items) = download_loop total_bytes items"

text \<open>
  \<open>local1\<close> and \<open>local2\<close> are the store's answers to "is it complete here" before and after the
  download, \<open>stream\<close> the downloader's items for a provider.
\<close>

definition iroh_download_collection :: "ext \<Rightarrow> (string \<Rightarrow> (string, string) result)
    \<Rightarrow> (string \<Rightarrow> (string, string) result) \<Rightarrow> address_state
    \<Rightarrow> (string, bool) result \<Rightarrow> (string \<Rightarrow> (string, download_item list) result) \<Rightarrow> (string, bool) result
    \<Rightarrow> device_id \<Rightarrow> string \<Rightarrow> u64 \<Rightarrow> blob_progress list \<times> (blob_error, unit) result" where
  "iroh_download_collection x pk parse_hash st local1 stream local2 peer root total_bytes =
     (let finished = \<lparr>bp_bytes_done = total_bytes, bp_bytes_total = total_bytes, bp_current_file = None\<rparr> in
      case map_err InvalidHash (parse_hash root) of
        Err e \<Rightarrow> ([], Err e)
      | Ok _ \<Rightarrow>
      (case map_err StoreError local1 of
         Err e \<Rightarrow> ([], Err e)
       | Ok True \<Rightarrow> ([finished], Ok ())
       | Ok False \<Rightarrow>
      (case peer_endpoint_id x pk st peer of
         Err e \<Rightarrow> ([], Err e)
       | Ok provider \<Rightarrow>
      (case map_err StoreError (stream provider) of
         Err e \<Rightarrow> ([], Err e)
       | Ok items \<Rightarrow>
      (case download_loop total_bytes items of
         (ps, Err e) \<Rightarrow> (ps, Err e)
       | (ps, Ok _) \<Rightarrow>
      (case map_err StoreError local2 of
         Err e \<Rightarrow> (ps, Err e)
       | Ok False \<Rightarrow> (ps, Err (StoreError ''download ended before collection was complete''))
       | Ok True \<Rightarrow> (ps @ [finished], Ok ())))))))"

text \<open>
  The export loop; \<open>mkdir\<close> creates a directory with its parents or says why not, \<open>export\<close>
  writes one blob to a path after some number of copy events.
\<close>

fun export_each :: "(path \<Rightarrow> string option) \<Rightarrow> (string \<Rightarrow> path \<Rightarrow> nat \<times> (string, unit) result) \<Rightarrow> path
    \<Rightarrow> nat \<Rightarrow> nat \<Rightarrow> (string \<times> string) list \<Rightarrow> blob_progress list \<times> (blob_error, path list) result" where
  "export_each mkdir export dest n i [] = ([], Ok [])"
| "export_each mkdir export dest n i ((name, h) # files) =
     (case export_target dest name of
        Err e \<Rightarrow> ([], Err e)
      | Ok target \<Rightarrow>
          (case mkdir (butlast target) of
             Some e \<Rightarrow> ([], Err (StoreError (''failed to create parent dir: '' @ e)))
           | None \<Rightarrow>
               (case export h target of
                  (copies, r) \<Rightarrow>
                    (let progress = \<lparr>bp_bytes_done = of_nat i, bp_bytes_total = of_nat n,
                           bp_current_file = Some name\<rparr>;
                         ps = replicate (Suc copies) progress in
                     case r of
                       Err cause \<Rightarrow> (ps, Err (StoreError (''failed to export '' @ name @ '': '' @ cause)))
                     | Ok _ \<Rightarrow>
                         (case export_each mkdir export dest n (Suc i) files of
                            (qs, Err e) \<Rightarrow> (ps @ qs, Err e)
                          | (qs, Ok paths) \<Rightarrow> (ps @ qs, Ok (target # paths)))))))"

definition iroh_export_collection :: "(string \<Rightarrow> (string, string) result)
    \<Rightarrow> (string \<Rightarrow> (string, (string \<times> string) list) result) \<Rightarrow> (path \<Rightarrow> string option)
    \<Rightarrow> (string \<Rightarrow> path \<Rightarrow> nat \<times> (string, unit) result) \<Rightarrow> string \<Rightarrow> path
    \<Rightarrow> blob_progress list \<times> (blob_error, path list) result" where
  "iroh_export_collection parse_hash load mkdir export root dest =
     (case map_err InvalidHash (parse_hash root) of
        Err e \<Rightarrow> ([], Err e)
      | Ok h \<Rightarrow>
     (case map_err StoreError (load h) of
        Err e \<Rightarrow> ([], Err e)
      | Ok files \<Rightarrow>
     (case mkdir dest of
        Some e \<Rightarrow> ([], Err (StoreError (''failed to create export dir: '' @ e)))
      | None \<Rightarrow>
     (case export_each mkdir export dest (length files) 0 files of
        (ps, Err e) \<Rightarrow> (ps, Err e)
      | (ps, Ok paths) \<Rightarrow>
          (ps @ [\<lparr>bp_bytes_done = of_nat (length files), bp_bytes_total = of_nat (length files),
             bp_current_file = None\<rparr>], Ok paths)))))"

section \<open>Properties\<close>

lemma export_target_Ok:
  "export_target base name = Ok p \<longleftrightarrow> p = base @ split_char (CHR ''/'') name \<and>
     (\<forall>c \<in> set (split_char (CHR ''/'') name). c \<noteq> [] \<and> c \<noteq> ''.'' \<and> c \<noteq> ''..'')"
  by (auto simp: export_target_def find_None_set split: option.splits dest: find_Some_set)

lemma export_each_Ok:
  "export_each mkdir export dest n i files = (ps, Ok paths) \<Longrightarrow>
     map Ok paths = map (\<lambda>(name, _). export_target dest name) files"
proof (induction mkdir export dest n i files arbitrary: ps paths rule: export_each.induct)
  case (2 mkdir export dest n i name h files)
  then show ?case by (auto simp: Let_def split: sum.splits option.splits prod.splits)
qed simp



text \<open>
  The import loop keeps the results in the order of the sources: results that name their own
  source leave, for each completed source, its own result at its own index.
\<close>

definition own_results :: "string list \<Rightarrow> (string \<times> string \<times> u64) option list \<Rightarrow> bool" where
  "own_results names results \<longleftrightarrow> length results = length names \<and>
     (\<forall>i < length names. case results ! i of None \<Rightarrow> True | Some (n, _, _) \<Rightarrow> n = names ! i)"

definition own_event :: "string list \<Rightarrow> import_event \<Rightarrow> bool" where
  "own_event names e = (case e of ImportOffset i _ \<Rightarrow> i < length names
     | ImportResult i r \<Rightarrow> i < length names \<and> (case r of Err _ \<Rightarrow> True | Ok (n, _, _) \<Rightarrow> n = names ! i))"

lemma import_loop_own:
  "import_loop n t events states results completed = (ps, Ok (res, k)) \<Longrightarrow>
     list_all (own_event names) events \<Longrightarrow> own_results names results \<Longrightarrow> own_results names res"
proof (induction n t events states results completed arbitrary: ps res k rule: import_loop.induct)
  case (1 n t events states results completed)
  show ?case
  proof (cases "completed \<ge> n")
    case True
    with "1.prems" show ?thesis by (simp add: import_loop.simps)
  next
    case False
    show ?thesis
    proof (cases events)
      case Nil
      with "1.prems" False show ?thesis by (simp add: import_loop.simps)
    next
      case (Cons ev events')
      show ?thesis
      proof (cases ev)
        case (ImportOffset i off)
        obtain qs where "import_loop n t events' (states[i := (states ! i)\<lparr>fi_offset := off\<rparr>]) results
            completed = (qs, Ok (res, k))"
          using "1.prems"(1) Cons ImportOffset False
          by (subst (asm) import_loop.simps) (auto simp: Let_def split: prod.splits)
        with "1.prems"(2,3) "1.IH"(1) [OF False Cons ImportOffset refl] Cons show ?thesis by simp
      next
        case (ImportResult i r)
        show ?thesis
        proof (cases r)
          case (Inl e)
          with "1.prems" Cons ImportResult False show ?thesis by (simp add: import_loop.simps)
        next
          case (Inr q)
          obtain name h sz where q: "q = (name, h, sz)" by (metis prod_cases3)
          have "own_results names (results[i := Some (name, h, sz)])"
            using "1.prems"(2,3) Cons ImportResult Inr q
            by (auto simp: own_results_def own_event_def nth_list_update)
          moreover obtain qs where "import_loop n t events'
              (states[i := (states ! i)\<lparr>fi_done := True, fi_offset := sz\<rparr>])
              (results[i := Some (name, h, sz)]) (Suc completed) = (qs, Ok (res, k))"
            using "1.prems"(1) Cons ImportResult Inr q False
            by (subst (asm) import_loop.simps) (auto simp: Let_def split: prod.splits)
          ultimately show ?thesis
            using "1.prems"(2) "1.IH"(2) [OF False Cons ImportResult Inr q [symmetric] refl refl] Cons by simp
        qed
      qed
    qed
  qed
qed

end
