(* ===== verification/Client.thy ===== *)
theory Client
  imports Blobs Codec
begin

text \<open>
  The client side of the account server: \<open>failsafe/src/error.rs\<close>, \<open>config.rs\<close>, \<open>credentials.rs\<close>
  and \<open>server.rs\<close>. Files are text by path, with the text of the
  error for a missing one and a script of failing writes; TOML, JSON and the
  HTTP library are parameters: a request is a value, \<open>hc_send\<close> answers it.
\<close>

section \<open>Errors\<close>

datatype daemon_error =
    DConfig string
  | DIo string
  | DFeature feature_error
  | DControl control_error
  | DTransport transport_error
  | TransportUnavailable string
  | DeviceRemoved

fun control_error_display :: "control_error \<Rightarrow> string" where
  "control_error_display (ConfigError m) = ''configuration error: '' @ m"
| "control_error_display (IoError m) = ''io error: '' @ m"

fun daemon_error_display :: "ext \<Rightarrow> daemon_error \<Rightarrow> string" where
  "daemon_error_display x (DConfig m) = ''configuration error: '' @ m"
| "daemon_error_display x (DIo m) = ''io error: '' @ m"
| "daemon_error_display x (DFeature e) = ''feature error: '' @ feature_error_display e"
| "daemon_error_display x (DControl e) = ''control error: '' @ control_error_display e"
| "daemon_error_display x (DTransport e) = ''transport error: '' @ transport_error_display x e"
| "daemon_error_display x (TransportUnavailable m) = ''transport `'' @ m @ ''` is not available yet''"
| "daemon_error_display x DeviceRemoved =
     ''this device was removed from your account; run `failsafe pair --code <CODE>` to re-add it''"

section \<open>Files\<close>

record disk =
  dk_files :: "string \<rightharpoonup> string"
  dk_private :: "string set"
  dk_not_found :: string
  dk_faults :: "string option list"

definition next_disk_fault :: "disk \<Rightarrow> string option \<times> disk" where
  "next_disk_fault d = (case dk_faults d of [] \<Rightarrow> (None, d) | f # fs \<Rightarrow> (f, d\<lparr>dk_faults := fs\<rparr>))"

text \<open>\<open>create_dir_all\<close>, serialisation and \<open>write\<close>, in that order.\<close>

definition write_text :: "string \<Rightarrow> string \<Rightarrow> (string, string) result \<Rightarrow> disk \<Rightarrow> disk \<times> (daemon_error, unit) result" where
  "write_text what path contents d =
     (case next_disk_fault d of
        (Some e, d1) \<Rightarrow> (d1, Err (DIo e))
      | (None, d1) \<Rightarrow>
     (case contents of
        Err e \<Rightarrow> (d1, Err (DConfig (''failed to serialize '' @ what @ '': '' @ e)))
      | Ok text \<Rightarrow>
     (case next_disk_fault d1 of
        (Some e, d2) \<Rightarrow> (d2, Err (DIo e))
      | (None, d2) \<Rightarrow> (d2\<lparr>dk_files := (dk_files d2)(path \<mapsto> text)\<rparr>, Ok ()))))"

definition read_text :: "string \<Rightarrow> disk \<Rightarrow> (daemon_error, string) result" where
  "read_text path d = ok_or (dk_files d path) (DIo (dk_not_found d))"

section \<open>The configuration file\<close>

record config =
  cf_device_id :: device_id
  cf_device_name :: string
  cf_server_url :: string
  cf_enabled_features :: "feature_id list"
  cf_blob_store_path :: "path option"
  cf_clipboard_max_file_bytes :: u64

record credentials =
  cr_auth_token :: string
  cr_refresh_token :: "string option"

record toml =
  tm_parse_config :: "string \<Rightarrow> (string, config) result"
  tm_show_config :: "config \<Rightarrow> (string, string) result"
  tm_parse_credentials :: "string \<Rightarrow> (string, credentials) result"
  tm_show_credentials :: "credentials \<Rightarrow> (string, string) result"

definition default_device_name :: string where "default_device_name = ''my-device''"
definition default_server_url :: string where "default_server_url = ''https://failsafe.pendejo.dev''"
definition default_clipboard_max_file_bytes :: u64 where
  "default_clipboard_max_file_bytes = 100 * 1024 * 1024"

definition config_new :: "device_id \<Rightarrow> config" where
  "config_new device =
     \<lparr>cf_device_id = device, cf_device_name = default_device_name, cf_server_url = default_server_url,
      cf_enabled_features = [FeatureId ''clipboard'', FeatureId ''shell'', FeatureId ''file_send''],
      cf_blob_store_path = None, cf_clipboard_max_file_bytes = default_clipboard_max_file_bytes\<rparr>"

definition default_secret_key_path :: "path option \<Rightarrow> path option" where
  "default_secret_key_path config_dir = map_option (\<lambda>dir. dir @ [''failsafe'', ''iroh.key'']) config_dir"

definition default_blob_store_path :: "path option \<Rightarrow> path option" where
  "default_blob_store_path data_dir = map_option (\<lambda>dir. dir @ [''failsafe'', ''blobs'']) data_dir"

definition resolved_blob_store_path :: "path option \<Rightarrow> config \<Rightarrow> path option" where
  "resolved_blob_store_path data_dir c =
     (case cf_blob_store_path c of Some p \<Rightarrow> Some p | None \<Rightarrow> default_blob_store_path data_dir)"

definition config_default_path :: "path option \<Rightarrow> path option" where
  "config_default_path config_dir = map_option (\<lambda>dir. dir @ [''failsafe'', ''config.toml'']) config_dir"

definition config_clipboard_limits :: "config \<Rightarrow> clipboard_limits" where
  "config_clipboard_limits c =
     \<lparr>max_file_bytes = cf_clipboard_max_file_bytes c,
      max_total_bytes = sat_mul (cf_clipboard_max_file_bytes c) 5\<rparr>"

definition config_load :: "toml \<Rightarrow> string \<Rightarrow> disk \<Rightarrow> (daemon_error, config) result" where
  "config_load tm path d = and_then (read_text path d)
     (\<lambda>text. map_err (\<lambda>e. DConfig (''failed to parse '' @ path @ '': '' @ e)) (tm_parse_config tm text))"

definition config_save :: "toml \<Rightarrow> string \<Rightarrow> config \<Rightarrow> disk \<Rightarrow> disk \<times> (daemon_error, unit) result" where
  "config_save tm path c d = write_text ''config'' path (tm_show_config tm c) d"

definition config_load_or_create :: "toml \<Rightarrow> device_id \<Rightarrow> string \<Rightarrow> disk
    \<Rightarrow> disk \<times> (daemon_error, config) result" where
  "config_load_or_create tm fresh path d =
     (if dk_files d path \<noteq> None then (d, config_load tm path d)
      else
       (let c = config_new fresh in
        case config_save tm path c d of (d', r) \<Rightarrow> (d', map_ok (\<lambda>_. c) r)))"

definition enabled_feature_set :: "config \<Rightarrow> feature_id list" where
  "enabled_feature_set c = remdups (cf_enabled_features c)"

definition trim_end_slashes :: "string \<Rightarrow> string" where
  "trim_end_slashes s = rev (dropWhile (\<lambda>c. c = CHR ''/'') (rev s))"

definition normalize_server_url :: "string \<Rightarrow> string" where
  "normalize_server_url url = trim_end_slashes (trim url)"

definition apply_server_policy :: "toml \<Rightarrow> string \<Rightarrow> string \<Rightarrow> feature_id list \<Rightarrow> config \<Rightarrow> disk
    \<Rightarrow> config \<times> disk \<times> (daemon_error, bool) result" where
  "apply_server_policy tm path name features c d =
     (let changed = (cf_device_name c \<noteq> name \<or> cf_enabled_features c \<noteq> features) in
      if changed then
       (let c' = c\<lparr>cf_device_name := name, cf_enabled_features := features\<rparr> in
        case config_save tm path c' d of (d', r) \<Rightarrow> (c', d', map_ok (\<lambda>_. changed) r))
      else (c, d, Ok changed))"

definition apply_server_url_override :: "toml \<Rightarrow> string \<Rightarrow> string option \<Rightarrow> config \<Rightarrow> disk
    \<Rightarrow> config \<times> disk \<times> (daemon_error, unit) result" where
  "apply_server_url_override tm path override_url c d =
     (case override_url of
        None \<Rightarrow> (c, d, Ok ())
      | Some url \<Rightarrow>
         (let normalized = normalize_server_url url in
          if normalized = [] then (c, d, Err (DConfig ''server_url cannot be empty''))
          else if cf_server_url c \<noteq> normalized
          then (let c' = c\<lparr>cf_server_url := normalized\<rparr> in
                case config_save tm path c' d of (d', r) \<Rightarrow> (c', d', r))
          else (c, d, Ok ())))"

section \<open>The credentials file\<close>

definition credentials_default_path :: "path option \<Rightarrow> path option" where
  "credentials_default_path config_dir = map_option (\<lambda>dir. dir @ [''failsafe'', ''credentials.toml'']) config_dir"

definition credentials_load :: "toml \<Rightarrow> string \<Rightarrow> disk \<Rightarrow> (daemon_error, credentials) result" where
  "credentials_load tm path d = and_then (read_text path d)
     (\<lambda>text. map_err (\<lambda>e. DConfig (''failed to parse credentials '' @ path @ '': '' @ e))
        (tm_parse_credentials tm text))"

definition restrict_file_permissions :: "string \<Rightarrow> disk \<Rightarrow> disk \<times> (string, unit) result" where
  "restrict_file_permissions path d =
     (case next_disk_fault d of
        (Some e, d') \<Rightarrow> (d', Err e)
      | (None, d') \<Rightarrow> (d'\<lparr>dk_private := insert path (dk_private d')\<rparr>, Ok ()))"

definition credentials_save :: "toml \<Rightarrow> string \<Rightarrow> credentials \<Rightarrow> disk \<Rightarrow> disk \<times> (daemon_error, unit) result" where
  "credentials_save tm path c d =
     (case write_text ''credentials'' path (tm_show_credentials tm c) d of
        (d', Err e) \<Rightarrow> (d', Err e)
      | (d', Ok _) \<Rightarrow> (case restrict_file_permissions path d' of (d'', r) \<Rightarrow> (d'', map_err DIo r)))"

definition credentials_load_or_error :: "toml \<Rightarrow> string option \<Rightarrow> disk \<Rightarrow> (daemon_error, credentials) result" where
  "credentials_load_or_error tm path d =
     (case path of
        None \<Rightarrow> Err (DConfig ''could not determine credentials path for this platform'')
      | Some p \<Rightarrow>
          (if dk_files d p = None
           then Err (DConfig (''credentials not found at '' @ p @
                  ''; run `failsafe register`, `failsafe login`, or `failsafe pair --code`''))
           else credentials_load tm p d))"

section \<open>HTTP\<close>

datatype http_body =
    EmptyBody
  | EmptyObject
  | RegisterBody string string
  | LoginBody string string
  | MfaBody string string
  | RefreshBody string
  | UpsertBody device_upsert_request
  | PatchBody device_patch_request
  | RedeemBody string "device_upsert_request option"

record http_request =
  hr_method :: string
  hr_url :: string
  hr_token :: "string option"
  hr_body :: http_body

record http_response =
  rs_status :: nat
  rs_text :: "(string, string) result"

text \<open>
  The network with the server behind it is a state \<open>'h\<close>; the typed readings of a body and the
  text of a status are the library's.
\<close>

record 'h http_client =
  hc_send :: "http_request \<Rightarrow> 'h \<Rightarrow> 'h \<times> (string, http_response) result"
  hc_status_text :: "nat \<Rightarrow> string"
  hc_auth :: "string \<Rightarrow> (string, auth_response) result"
  hc_devices :: "string \<Rightarrow> (string, device_info list) result"
  hc_device :: "string \<Rightarrow> (string, device_info) result"
  hc_pairing :: "string \<Rightarrow> (string, string \<times> string) result"

definition is_success :: "http_response \<Rightarrow> bool" where
  "is_success r \<longleftrightarrow> 200 \<le> rs_status r \<and> rs_status r < 300"

definition body_or_empty :: "http_response \<Rightarrow> string" where
  "body_or_empty r = (case rs_text r of Ok t \<Rightarrow> t | Err _ \<Rightarrow> [])"

definition parse_json_response :: "'h http_client \<Rightarrow> (string \<Rightarrow> (string, 'a) result) \<Rightarrow> http_response
    \<Rightarrow> (daemon_error, 'a) result" where
  "parse_json_response hc dec r =
     (if \<not> is_success r
      then Err (DConfig (''server returned '' @ hc_status_text hc (rs_status r) @ '': '' @ body_or_empty r))
      else map_err (\<lambda>e. DConfig (''failed to decode server response: '' @ e)) (and_then (rs_text r) dec))"

fun contains :: "string \<Rightarrow> string \<Rightarrow> bool" where
  "contains [] w = starts_with [] w"
| "contains (c # cs) w = (starts_with (c # cs) w \<or> contains cs w)"

definition map_device_mutation_response :: "'h http_client \<Rightarrow> string \<Rightarrow> http_response
    \<Rightarrow> (daemon_error, unit) result" where
  "map_device_mutation_response hc action r =
     (if rs_status r = 403 then
       (let body = body_or_empty r in
        if contains body ''device removed'' then Err DeviceRemoved
        else Err (DConfig (action @ '' returned 403: '' @ body)))
      else if \<not> is_success r
      then Err (DConfig (action @ '' returned '' @ hc_status_text hc (rs_status r) @ '': '' @ body_or_empty r))
      else Ok ())"

section \<open>The client\<close>

text \<open>\<open>sc_disk\<close> is the file system the refreshed credentials are saved to.\<close>

record server_client =
  sc_base_url :: string
  sc_credentials :: credentials
  sc_credentials_path :: "string option"
  sc_disk :: disk

definition server_client_new :: "string \<Rightarrow> credentials \<Rightarrow> string option \<Rightarrow> disk \<Rightarrow> server_client" where
  "server_client_new base_url creds path d =
     \<lparr>sc_base_url = trim_end_slashes base_url, sc_credentials = creds, sc_credentials_path = path,
      sc_disk = d\<rparr>"

definition auth_token :: "server_client \<Rightarrow> string" where
  "auth_token c = cr_auth_token (sc_credentials c)"

definition refresh_tokens :: "toml \<Rightarrow> 'h http_client \<Rightarrow> server_client \<Rightarrow> 'h
    \<Rightarrow> server_client \<times> 'h \<times> (daemon_error, bool) result" where
  "refresh_tokens tm hc c h =
     (case cr_refresh_token (sc_credentials c) of
        None \<Rightarrow> (c, h, Ok False)
      | Some refresh_token \<Rightarrow>
     (case hc_send hc \<lparr>hr_method = ''POST'', hr_url = sc_base_url c @ ''/api/v1/auth/refresh'',
              hr_token = None, hr_body = RefreshBody refresh_token\<rparr> h of
        (h', Err e) \<Rightarrow> (c, h', Err (DConfig (''token refresh failed: '' @ e)))
      | (h', Ok response) \<Rightarrow>
     (if \<not> is_success response then (c, h', Ok False)
      else
     (case and_then (rs_text response) (hc_auth hc) of
        Err e \<Rightarrow> (c, h', Err (DConfig (''failed to decode refresh response: '' @ e)))
      | Ok body \<Rightarrow>
     (case (ar_token body, ar_refresh_token body) of
        (None, _) \<Rightarrow> (c, h', Err (DConfig ''refresh response missing token''))
      | (Some token, None) \<Rightarrow> (c, h', Err (DConfig ''refresh response missing refresh_token''))
      | (Some token, Some refresh_token') \<Rightarrow>
         (let creds = \<lparr>cr_auth_token = token, cr_refresh_token = Some refresh_token'\<rparr>;
              c' = c\<lparr>sc_credentials := creds\<rparr> in
          case sc_credentials_path c of
            None \<Rightarrow> (c', h', Ok True)
          | Some path \<Rightarrow>
              (case credentials_save tm path creds (sc_disk c') of
                 (d, r) \<Rightarrow> (c'\<lparr>sc_disk := d\<rparr>, h', map_ok (\<lambda>_. True) r))))))))"

definition send_authenticated :: "toml \<Rightarrow> 'h http_client \<Rightarrow> (string \<Rightarrow> http_request) \<Rightarrow> server_client \<Rightarrow> 'h
    \<Rightarrow> server_client \<times> 'h \<times> (string, http_response) result" where
  "send_authenticated tm hc build c h =
     (case hc_send hc (build (auth_token c)) h of
        (h1, Err e) \<Rightarrow> (c, h1, Err e)
      | (h1, Ok response) \<Rightarrow>
          (if rs_status response \<noteq> 401 then (c, h1, Ok response)
           else
            (case refresh_tokens tm hc c h1 of
               (c2, h2, r) \<Rightarrow>
                 (if r = Ok True
                  then (case hc_send hc (build (auth_token c2)) h2 of (h3, r3) \<Rightarrow> (c2, h3, r3))
                  else (c2, h2, Ok response)))))"

section \<open>The calls\<close>

text \<open>A request without credentials, from a client of its own.\<close>

definition public_post :: "'h http_client \<Rightarrow> string \<Rightarrow> string \<Rightarrow> string \<Rightarrow> http_body \<Rightarrow> 'h
    \<Rightarrow> 'h \<times> (daemon_error, auth_response) result" where
  "public_post hc what base_url path body h =
     (case hc_send hc \<lparr>hr_method = ''POST'', hr_url = trim_end_slashes base_url @ path, hr_token = None,
              hr_body = body\<rparr> h of
        (h', Err e) \<Rightarrow> (h', Err (DConfig (what @ '' failed: '' @ e)))
      | (h', Ok response) \<Rightarrow> (h', parse_json_response hc (hc_auth hc) response))"

definition client_register :: "'h http_client \<Rightarrow> string \<Rightarrow> string \<Rightarrow> string \<Rightarrow> 'h
    \<Rightarrow> 'h \<times> (daemon_error, auth_response) result" where
  "client_register hc base_url email password =
     public_post hc ''register request'' base_url ''/api/v1/auth/register'' (RegisterBody email password)"

definition client_login :: "'h http_client \<Rightarrow> string \<Rightarrow> string \<Rightarrow> string \<Rightarrow> 'h
    \<Rightarrow> 'h \<times> (daemon_error, auth_response) result" where
  "client_login hc base_url email password =
     public_post hc ''login request'' base_url ''/api/v1/auth/login'' (LoginBody email password)"

definition client_login_mfa :: "'h http_client \<Rightarrow> string \<Rightarrow> string \<Rightarrow> string \<Rightarrow> 'h
    \<Rightarrow> 'h \<times> (daemon_error, auth_response) result" where
  "client_login_mfa hc base_url mfa_token code =
     public_post hc ''MFA login request'' base_url ''/api/v1/auth/login/mfa'' (MfaBody mfa_token code)"

definition client_redeem_pairing_code :: "'h http_client \<Rightarrow> string \<Rightarrow> string \<Rightarrow> device_upsert_request option \<Rightarrow> 'h
    \<Rightarrow> 'h \<times> (daemon_error, auth_response) result" where
  "client_redeem_pairing_code hc base_url code device =
     public_post hc ''redeem pairing code'' base_url ''/api/v1/pairing/redeem'' (RedeemBody code device)"

text \<open>A request with the bearer token, and what its response is turned into.\<close>

definition bearer :: "server_client \<Rightarrow> string \<Rightarrow> string \<Rightarrow> http_body \<Rightarrow> string \<Rightarrow> http_request" where
  "bearer c meth path body token =
     \<lparr>hr_method = meth, hr_url = sc_base_url c @ path, hr_token = Some token, hr_body = body\<rparr>"

definition call_server :: "toml \<Rightarrow> 'h http_client \<Rightarrow> string \<Rightarrow> string \<Rightarrow> string \<Rightarrow> http_body
    \<Rightarrow> (http_response \<Rightarrow> (daemon_error, 'a) result) \<Rightarrow> server_client \<Rightarrow> 'h
    \<Rightarrow> server_client \<times> 'h \<times> (daemon_error, 'a) result" where
  "call_server tm hc what meth path body finish c h =
     (case send_authenticated tm hc (bearer c meth path body) c h of
        (c', h', r) \<Rightarrow> (c', h', and_then (map_err (\<lambda>e. DConfig (what @ '' failed: '' @ e)) r) finish))"

definition device_path :: "ext \<Rightarrow> device_id \<Rightarrow> string" where
  "device_path x device = ''/api/v1/devices/'' @ device_id_display x device"

definition client_create_pairing_code :: "toml \<Rightarrow> 'h http_client \<Rightarrow> server_client \<Rightarrow> 'h
    \<Rightarrow> server_client \<times> 'h \<times> (daemon_error, string \<times> string) result" where
  "client_create_pairing_code tm hc =
     call_server tm hc ''create pairing code'' ''POST'' ''/api/v1/pairing'' EmptyObject
       (parse_json_response hc (hc_pairing hc))"

definition client_upsert_device :: "ext \<Rightarrow> toml \<Rightarrow> 'h http_client \<Rightarrow> device_upsert_request
    \<Rightarrow> server_client \<Rightarrow> 'h \<Rightarrow> server_client \<times> 'h \<times> (daemon_error, unit) result" where
  "client_upsert_device x tm hc request =
     call_server tm hc ''device upsert'' ''PUT'' (device_path x (du_device_id request)) (UpsertBody request)
       (map_device_mutation_response hc ''device upsert'')"

definition client_heartbeat_device :: "ext \<Rightarrow> toml \<Rightarrow> 'h http_client \<Rightarrow> device_id
    \<Rightarrow> server_client \<Rightarrow> 'h \<Rightarrow> server_client \<times> 'h \<times> (daemon_error, unit) result" where
  "client_heartbeat_device x tm hc device =
     call_server tm hc ''device heartbeat'' ''POST'' (device_path x device @ ''/heartbeat'') EmptyBody
       (map_device_mutation_response hc ''device heartbeat'')"

definition client_patch_device :: "ext \<Rightarrow> toml \<Rightarrow> 'h http_client \<Rightarrow> device_id \<Rightarrow> device_patch_request
    \<Rightarrow> server_client \<Rightarrow> 'h \<Rightarrow> server_client \<times> 'h \<times> (daemon_error, device_info) result" where
  "client_patch_device x tm hc device request =
     call_server tm hc ''device patch'' ''PATCH'' (device_path x device) (PatchBody request)
       (parse_json_response hc (hc_device hc))"

definition client_delete_device :: "ext \<Rightarrow> toml \<Rightarrow> 'h http_client \<Rightarrow> device_id
    \<Rightarrow> server_client \<Rightarrow> 'h \<Rightarrow> server_client \<times> 'h \<times> (daemon_error, unit) result" where
  "client_delete_device x tm hc device =
     call_server tm hc ''device delete'' ''DELETE'' (device_path x device) EmptyBody
       (\<lambda>r. if is_success r then Ok ()
            else Err (DConfig (''device delete returned '' @ hc_status_text hc (rs_status r) @ '': '' @ body_or_empty r)))"

definition client_list_devices :: "toml \<Rightarrow> 'h http_client \<Rightarrow> server_client \<Rightarrow> 'h
    \<Rightarrow> server_client \<times> 'h \<times> (daemon_error, device_info list) result" where
  "client_list_devices tm hc =
     call_server tm hc ''list devices'' ''GET'' ''/api/v1/devices'' EmptyBody
       (parse_json_response hc (hc_devices hc))"

section \<open>At most one retry\<close>

text \<open>The same network, writing down every request.\<close>

definition logged :: "'h http_client \<Rightarrow> ('h \<times> http_request list) http_client" where
  "logged hc =
     \<lparr>hc_send = (\<lambda>r (h, log). case hc_send hc r h of (h', a) \<Rightarrow> ((h', log @ [r]), a)),
      hc_status_text = hc_status_text hc, hc_auth = hc_auth hc, hc_devices = hc_devices hc,
      hc_device = hc_device hc, hc_pairing = hc_pairing hc\<rparr>"

definition refresh_request :: "server_client \<Rightarrow> string \<Rightarrow> http_request" where
  "refresh_request c t = \<lparr>hr_method = ''POST'', hr_url = sc_base_url c @ ''/api/v1/auth/refresh'',
     hr_token = None, hr_body = RefreshBody t\<rparr>"

lemma credentials_save_Ok:
  "credentials_save tm path creds d = (d', Ok ()) \<Longrightarrow>
     \<exists>text. tm_show_credentials tm creds = Ok text \<and> dk_files d' path = Some text \<and> path \<in> dk_private d'"
  by (auto simp: credentials_save_def write_text_def restrict_file_permissions_def next_disk_fault_def
      split: list.splits option.splits sum.splits prod.splits)

text \<open>The credentials of the client are on disk, readable by their owner only.\<close>

definition credentials_saved :: "toml \<Rightarrow> server_client \<Rightarrow> bool" where
  "credentials_saved tm c = (case sc_credentials_path c of None \<Rightarrow> True
     | Some p \<Rightarrow> (case dk_files (sc_disk c) p of None \<Rightarrow> False
         | Some text \<Rightarrow> tm_show_credentials tm (sc_credentials c) = Ok text \<and> p \<in> dk_private (sc_disk c)))"

lemma refresh_tokens_log:
  assumes "refresh_tokens tm (logged hc) c (h, log) = (c', (h', log'), r)"
  shows "(case cr_refresh_token (sc_credentials c) of
      None \<Rightarrow> log' = log \<and> c' = c \<and> r = Ok False
    | Some t \<Rightarrow> log' = log @ [refresh_request c t]) \<and>
    (r = Ok True \<longrightarrow> cr_refresh_token (sc_credentials c') \<noteq> None \<and> credentials_saved tm c')"
proof (cases "cr_refresh_token (sc_credentials c)")
  case None
  with assms show ?thesis by (auto simp: refresh_tokens_def)
next
  case (Some t)
  obtain h1 a where a: "hc_send hc (refresh_request c t) h = (h1, a)" by fastforce
  show ?thesis
  proof (cases "\<exists>response body. a = Ok response \<and> is_success response \<and>
      and_then (rs_text response) (hc_auth hc) = Ok body \<and> ar_token body \<noteq> None \<and> ar_refresh_token body \<noteq> None")
    case False
    with assms Some a show ?thesis
      by (auto simp: refresh_tokens_def logged_def refresh_request_def split: sum.splits option.splits if_splits)
  next
    case True
    then obtain response body tok rtok where ok: "a = Ok response" "is_success response"
      "and_then (rs_text response) (hc_auth hc) = Ok body" "ar_token body = Some tok" "ar_refresh_token body = Some rtok"
      by blast
    show ?thesis
    proof (cases "sc_credentials_path c")
      case None
      with assms Some a ok show ?thesis
        by (auto simp: refresh_tokens_def logged_def refresh_request_def credentials_saved_def Let_def)
    next
      case path: (Some p)
      let ?creds = "\<lparr>cr_auth_token = tok, cr_refresh_token = Some rtok\<rparr>"
      obtain d s where s: "credentials_save tm p ?creds (sc_disk c) = (d, s)" by fastforce
      show ?thesis
      proof (cases s)
        case (Inl e)
        with assms Some a ok path s show ?thesis
          by (auto simp: refresh_tokens_def logged_def refresh_request_def Let_def)
      next
        case (Inr u)
        with s credentials_save_Ok [of tm p ?creds "sc_disk c" d] assms Some a ok path show ?thesis
          by (auto simp: refresh_tokens_def logged_def refresh_request_def credentials_saved_def Let_def)
      qed
    qed
  qed
qed


definition sample_toml :: toml where
  "sample_toml = \<lparr>tm_parse_config = (\<lambda>_. Err []), tm_show_config = (\<lambda>_. Ok []),
     tm_parse_credentials = (\<lambda>_. Err []), tm_show_credentials = (\<lambda>c. Ok (cr_auth_token c))\<rparr>"

definition sample_disk :: disk where
  "sample_disk = \<lparr>dk_files = Map.empty, dk_private = {}, dk_not_found = ''not found'', dk_faults = []\<rparr>"

text \<open>A server that knows one token, and hands it out for the refresh token \<open>r1\<close>.\<close>

definition sample_http :: "unit http_client" where
  "sample_http =
     \<lparr>hc_send = (\<lambda>r h. (h, Ok \<lparr>rs_status = (if hr_body r = RefreshBody ''r1'' \<or> hr_token r = Some ''t2'' then 200 else 401),
          rs_text = Ok []\<rparr>)),
      hc_status_text = show_nat, hc_auth = (\<lambda>_. Ok (auth_authenticated ''t2'' ''r2'')),
      hc_devices = (\<lambda>_. Ok []), hc_device = (\<lambda>_. Err []), hc_pairing = (\<lambda>_. Err [])\<rparr>"

definition sample_client :: server_client where
  "sample_client = server_client_new ''http://s/'' \<lparr>cr_auth_token = ''t1'', cr_refresh_token = Some ''r1''\<rparr>
     (Some ''cred'') sample_disk"


end
