(* ===== verification/Cli_Util.thy ===== *)
theory Cli_Util
  imports Shell_Port Client
begin

text \<open>
  What the commands of \<open>failsafe\<close> share: reading their arguments (\<open>failsafe/src/cli/util.rs\<close>),
  choosing a device (\<open>device_select.rs\<close>), loading the configuration (\<open>context.rs\<close>) and reaching
  the daemon (\<open>failsafe/src/control.rs\<close>). The terminal, the platform's directories and the host
  name are fields of \<open>cli\<close>.
\<close>

section \<open>The surroundings of a command\<close>

text \<open>
  \<open>cl_select\<close>, \<open>cl_prompt\<close>, \<open>cl_confirm\<close> and \<open>cl_read_line\<close> are the answers of the person at the
  terminal, \<open>cl_path_text\<close> writes a path, \<open>cl_uuid_error\<close> is the complaint about a text that is no
  UUID.
\<close>

record 'h cli =
  cl_ext :: ext
  cl_toml :: toml
  cl_http :: "'h http_client"
  cl_config_dir :: "path option"
  cl_path_text :: "path \<Rightarrow> string"
  cl_key_hex :: "path \<Rightarrow> (daemon_error, string) result"
  cl_fresh :: device_id
  cl_hostname :: string
  cl_uuid_error :: "string \<Rightarrow> string"
  cl_terminal :: bool
  cl_select :: "string list \<Rightarrow> (string, string) result"
  cl_prompt :: "string \<Rightarrow> (string, string) result"
  cl_confirm :: "string \<Rightarrow> (string, bool) result"
  cl_read_line :: "(string, string) result"

section \<open>Arguments\<close>

definition parse_device_id :: "'h cli \<Rightarrow> string \<Rightarrow> (daemon_error, device_id) result" where
  "parse_device_id cl i =
     ok_or (device_id_from_str (cl_ext cl) (trim i))
       (DConfig (''invalid device id `'' @ i @ ''`: '' @ cl_uuid_error cl (trim i)))"

definition unknown_feature_display :: "unknown_feature_id \<Rightarrow> string" where
  "unknown_feature_display u = (case u of UnknownFeatureId v \<Rightarrow> ''unknown feature `'' @ v @ ''`'')"

definition parse_feature_list :: "string \<Rightarrow> (daemon_error, feature_id list) result" where
  "parse_feature_list features =
     (if trim features = [] then Ok []
      else collect_res (\<lambda>part. map_err (\<lambda>e. DConfig (''unknown feature `'' @ trim part @ ''`: '' @
               unknown_feature_display e)) (parse_feature_id (trim part)))
             (split_char (CHR '','') features))"

record port_spec =
  ps_local_port :: u16
  ps_remote_port :: u16

definition parse_port_number :: "string \<Rightarrow> (daemon_error, u16) result" where
  "parse_port_number s =
     (let v = trim s in
      case (parse_word v :: u32 option) of
        None \<Rightarrow> Err (DConfig (''invalid port `'' @ v @ ''`''))
      | Some port \<Rightarrow>
          (if \<not> (1 \<le> port \<and> port \<le> 65535)
           then Err (DConfig (''port must be between 1 and 65535, got '' @ show_nat (unat port)))
           else Ok (ucast port)))"

definition parse_port_spec :: "string \<Rightarrow> u16 option \<Rightarrow> (daemon_error, port_spec) result" where
  "parse_port_spec s remote_port_override =
     (let v = trim s in
      if v = [] then Err (DConfig ''port cannot be empty'')
      else case split_once_char (CHR '':'') v of
        Some (l, r) \<Rightarrow>
          and_then (parse_port_number l) (\<lambda>l'. and_then (parse_port_number r) (\<lambda>r'.
            Ok \<lparr>ps_local_port = l', ps_remote_port = r'\<rparr>))
      | None \<Rightarrow>
          and_then (parse_port_number v) (\<lambda>l'.
            Ok \<lparr>ps_local_port = l',
                ps_remote_port = (case remote_port_override of Some r \<Rightarrow> r | None \<Rightarrow> l')\<rparr>))"

definition parse_protocol :: "string \<Rightarrow> (daemon_error, port_protocol) result" where
  "parse_protocol s =
     (let v = map to_ascii_lowercase_char (trim s) in
      if v = ''tcp'' then Ok Tcp
      else Err (DConfig (''unsupported protocol `'' @ v @ ''`; only tcp is supported'')))"

section \<open>Choosing a device\<close>

definition resolve_device_target :: "ext \<Rightarrow> string \<Rightarrow> device_id \<Rightarrow> device_info list
    \<Rightarrow> (daemon_error, device_info) result" where
  "resolve_device_target x s self devices =
     (let q = trim s; not_found = DConfig (''device `'' @ q @ ''` not found'') in
      if q = [] then Err (DConfig ''device name cannot be empty'')
      else case device_id_from_str x q of
        Some i \<Rightarrow>
          and_then (ok_or (List.find (\<lambda>d. di_device_id d = i) devices) not_found) (\<lambda>d.
            if di_device_id d = self then Err (DConfig ''cannot open a shell to this device'') else Ok d)
      | None \<Rightarrow>
          (case filter (\<lambda>d. di_device_id d \<noteq> self \<and>
                  map to_ascii_lowercase_char (di_name d) = map to_ascii_lowercase_char q) devices of
             [] \<Rightarrow> Err not_found
           | [d] \<Rightarrow> Ok d
           | ds \<Rightarrow> Err (DConfig (''ambiguous device name `'' @ q @ ''`; matches: '' @
                    join_with '', '' (map (\<lambda>d. di_name d @ '' ('' @ device_id_display x (di_device_id d) @ '')'') ds)))))"

definition device_label :: "device_info \<Rightarrow> string" where
  "device_label d = di_name d @ ''  ['' @ (if di_online d then ''online'' else ''offline'') @ '']''"

text \<open>The list returns the text of the choice; a text it was not given is a panic.\<close>

definition select_device_interactive :: "'h cli \<Rightarrow> device_id \<Rightarrow> device_info list
    \<Rightarrow> (daemon_error raised, device_info) result" where
  "select_device_interactive cl self devices =
     (let candidates = filter (\<lambda>d. di_device_id d \<noteq> self) devices in
      if candidates = [] then Err (Raised (DConfig ''no other devices available to connect to''))
      else if \<not> cl_terminal cl
      then Err (Raised (DConfig ''device name required when stdin is not a terminal''))
      else case cl_select cl (map device_label candidates) of
        Err e \<Rightarrow> Err (Raised (DConfig e))
      | Ok selection \<Rightarrow>
          ok_or (List.find (\<lambda>d. device_label d = selection) candidates)
            (Panic ''selected option must exist''))"

section \<open>Configuration and client\<close>

definition config_path_or_default :: "'h cli \<Rightarrow> string option \<Rightarrow> (daemon_error, string) result" where
  "config_path_or_default cl p =
     ok_or (case p of Some q \<Rightarrow> Some q | None \<Rightarrow> map_option (cl_path_text cl) (config_default_path (cl_config_dir cl)))
       (DConfig ''could not determine config path for this platform'')"

definition load_config :: "'h cli \<Rightarrow> string \<Rightarrow> string option \<Rightarrow> bool \<Rightarrow> disk
    \<Rightarrow> disk \<times> (daemon_error, config) result" where
  "load_config cl path server_url create d =
     (case (if create then config_load_or_create (cl_toml cl) (cl_fresh cl) path d
            else (d, config_load (cl_toml cl) path d)) of
        (d1, Err e) \<Rightarrow> (d1, Err e)
      | (d1, Ok c) \<Rightarrow>
          (case apply_server_url_override (cl_toml cl) path server_url c d1 of
             (c', d2, r) \<Rightarrow> (d2, map_ok (\<lambda>_. c') r)))"

definition credentials_path :: "'h cli \<Rightarrow> (daemon_error, string) result" where
  "credentials_path cl =
     ok_or (map_option (cl_path_text cl) (credentials_default_path (cl_config_dir cl)))
       (DConfig ''could not determine credentials path for this platform'')"

text \<open>The client of a loaded configuration, with the saved credentials.\<close>

definition client_of_config :: "'h cli \<Rightarrow> config \<Rightarrow> disk \<Rightarrow> (daemon_error, server_client) result" where
  "client_of_config cl c d =
     and_then (credentials_path cl) (\<lambda>path.
     and_then (credentials_load_or_error (cl_toml cl) (Some path) d) (\<lambda>creds.
       Ok (server_client_new (cf_server_url c) creds (Some path) d)))"

definition server_client_from_config :: "'h cli \<Rightarrow> string option \<Rightarrow> string option \<Rightarrow> disk
    \<Rightarrow> disk \<times> (daemon_error, server_client) result" where
  "server_client_from_config cl config_path server_url d =
     (case config_path_or_default cl config_path of
        Err e \<Rightarrow> (d, Err e)
      | Ok path \<Rightarrow>
          (case load_config cl path server_url True d of
             (d1, Err e) \<Rightarrow> (d1, Err e)
           | (d1, Ok c) \<Rightarrow> (d1, client_of_config cl c d1)))"

section \<open>Reaching the daemon\<close>

datatype connect_error = ConnectNotFound | ConnectRefused | ConnectFailed control_error

definition daemon_not_running :: daemon_error where
  "daemon_not_running = DConfig ''daemon is not running; start it with `failsafe run`''"

definition map_control_connect_error :: "connect_error \<Rightarrow> daemon_error" where
  "map_control_connect_error e =
     (case e of ConnectFailed c \<Rightarrow> DControl c | _ \<Rightarrow> daemon_not_running)"

text \<open>
  What one command meets at the control socket: the connection, the token's path and file, the
  writing of the request, the response and the events that follow it.
\<close>

record control_link =
  kl_socket_path :: "(control_error, unit) result"
  kl_connect :: "(connect_error, unit) result"
  kl_token_path :: "(control_error, string) result"
  kl_token_files :: "string \<rightharpoonup> (string, string) result"
  kl_write :: "string \<Rightarrow> (control_error, unit) result"
  kl_response :: "(control_error, control_response) result"
  kl_events :: "(control_error, control_event) result list"

definition load_control_token :: "control_link \<Rightarrow> (daemon_error, string) result" where
  "load_control_token k =
     and_then (map_err DControl (kl_token_path k)) (\<lambda>path.
       case kl_token_files k path of
         None \<Rightarrow> Err daemon_not_running
       | Some contents \<Rightarrow> map_err DControl (read_control_token contents))"

definition client_send_request :: "control_link \<Rightarrow> (daemon_error, unit) result" where
  "client_send_request k =
     and_then (load_control_token k) (\<lambda>token. map_err DControl (kl_write k token))"

definition connect_and_request :: "control_link \<Rightarrow> (daemon_error, unit) result" where
  "connect_and_request k =
     and_then (map_err DControl (kl_socket_path k)) (\<lambda>_.
     and_then (map_err map_control_connect_error (kl_connect k)) (\<lambda>_. client_send_request k))"

definition expect_ready_response :: "control_link \<Rightarrow> (daemon_error, unit) result" where
  "expect_ready_response k =
     and_then (map_err DControl (kl_response k)) (\<lambda>r.
       case r of
         Ready \<Rightarrow> Ok ()
       | CancelTransfers _ _ \<Rightarrow> Err (DConfig ''unexpected cancel transfers response'')
       | ErrorResp m \<Rightarrow> Err (DConfig m))"

end
