(* ===== verification/Manifest.thy ===== *)
theory Manifest
  imports Network Limits
begin

text \<open>
  File transfer manifests: the envelopes of \<open>failsafe-send/src/payload.rs\<close>, their chunking by
  the sender and their reassembly by the receiver (\<open>manifest.rs\<close>), and the acknowledgement
  deadline (\<open>timeout.rs\<close>). \<open>senv\<close> is serde's writer for envelopes and \<open>ser\<close> the one for
  messages.
\<close>

section \<open>Envelopes\<close>

definition SEND_PAYLOAD_VERSION :: u32 where "SEND_PAYLOAD_VERSION = 1"

record file_entry =
  fe_name :: string
  fe_size :: u64

record send_payload =
  pl_version :: u32
  pl_transfer_id :: uuid
  pl_sender_name :: string
  pl_collection_hash :: string
  pl_entries :: "file_entry list"

record send_transfer_header =
  th_version :: u32
  th_transfer_id :: uuid
  th_sender_name :: string
  th_collection_hash :: string
  th_bytes_total :: u64
  th_entry_count :: u32

record send_transfer_chunk =
  tc_transfer_id :: uuid
  tc_chunk_index :: u32
  tc_entries :: "file_entry list"

record send_transfer_end =
  te_transfer_id :: uuid
  te_chunk_count :: u32

record send_ack =
  ack_transfer_id :: uuid
  ack_ok :: bool
  ack_error :: "string option"

record send_progress =
  pr_transfer_id :: uuid
  pr_phase :: send_phase
  pr_bytes_done :: u64
  pr_bytes_total :: u64
  pr_current_file :: "string option"

datatype send_envelope =
    Transfer send_payload
  | TransferHeader send_transfer_header
  | TransferChunk send_transfer_chunk
  | TransferEnd send_transfer_end
  | Ack send_ack
  | Progress send_progress

definition parse_ack :: "(u8 list \<Rightarrow> (string, send_envelope) result) \<Rightarrow> u8 list \<Rightarrow> send_ack option" where
  "parse_ack denv payload = (case denv payload of Ok (Ack a) \<Rightarrow> Some a | _ \<Rightarrow> None)"

definition decode_envelope :: "(u8 list \<Rightarrow> (string, send_envelope) result) \<Rightarrow> u8 list
    \<Rightarrow> (feature_error, send_envelope) result" where
  "decode_envelope denv bytes = map_err (\<lambda>e. Failed send_id (''invalid send envelope: '' @ e)) (denv bytes)"

section \<open>The acknowledgement deadline\<close>

definition send_ack_timeout :: "u64 \<Rightarrow> u64" where
  "send_ack_timeout bytes_total =
     (let mib = bytes_total div (1024 * 1024) in sat_add 300 (sat_mul mib 120))"

lemma unat_send_ack_timeout: "unat (send_ack_timeout b) = 300 + unat b div 1048576 * 120"
proof -
  have "unat b < 2 ^ 64" using unat_lt2p [of b] by simp
  then have "unat b div 1048576 < 2 ^ 44" by (simp add: div_less_iff_less_mult)
  then show ?thesis
    by (simp add: send_ack_timeout_def Let_def unat_sat_add unat_sat_mul unat_div_distrib)
qed

section \<open>Planning the envelopes\<close>

definition INITIAL_CHUNK_ENTRIES :: nat where "INITIAL_CHUNK_ENTRIES = 4096"

definition transfer_envelope_fits :: "(feature_message \<Rightarrow> (string, u8 list) result)
    \<Rightarrow> (send_envelope \<Rightarrow> u8 list) \<Rightarrow> device_id \<Rightarrow> device_id \<Rightarrow> send_envelope \<Rightarrow> bool" where
  "transfer_envelope_fits ser senv src to envelope =
     is_ok (encode ser (feature_message_new src to send_id (senv envelope)))"

text \<open>The inner loop: halve until the chunk fits or nothing is left.\<close>

fun fitting_len :: "(nat \<Rightarrow> bool) \<Rightarrow> nat \<Rightarrow> nat" where
  "fitting_len fits n = (if n = 0 then 0 else if fits n then n else fitting_len fits (n div 2))"

declare fitting_len.simps [simp del]

lemma fitting_len_le: "fitting_len fits n \<le> n"
  by (induction fits n rule: fitting_len.induct) (subst fitting_len.simps, force)

lemma fitting_len_fits: "fitting_len fits n \<noteq> 0 \<Longrightarrow> fits (fitting_len fits n)"
  by (induction fits n rule: fitting_len.induct) (subst fitting_len.simps, subst (asm) (2) fitting_len.simps, auto split: if_splits)

lemma fitting_len_1: "fits 1 \<Longrightarrow> n > 0 \<Longrightarrow> fitting_len fits n > 0"
proof (induction fits n rule: fitting_len.induct)
  case (1 fits n)
  show ?case
  proof (cases "fits n")
    case True
    with 1 show ?thesis by (subst fitting_len.simps) simp
  next
    case False
    with 1 have "n \<noteq> 1" by auto
    with 1 False show ?thesis by (subst fitting_len.simps) auto
  qed
qed

text \<open>The outer loop, over the entries still to place; \<open>k\<close> is at least one entry.\<close>

definition chunk_len :: "(send_envelope \<Rightarrow> bool) \<Rightarrow> uuid \<Rightarrow> u32 \<Rightarrow> file_entry list \<Rightarrow> nat" where
  "chunk_len fits tid index entries =
     (let n = fitting_len (\<lambda>k. fits (TransferChunk \<lparr>tc_transfer_id = tid, tc_chunk_index = index,
                tc_entries = take k entries\<rparr>)) (min INITIAL_CHUNK_ENTRIES (length entries))
      in if n = 0 then 1 else n)"

lemma chunk_len_pos [simp]: "0 < chunk_len fits tid i es"
  by (simp add: chunk_len_def Let_def)

lemma chunk_len_le: "es \<noteq> [] \<Longrightarrow> chunk_len fits tid i es \<le> length es"
  using fitting_len_le [of _ "min INITIAL_CHUNK_ENTRIES (length es)"]
  by (auto simp: chunk_len_def Let_def Suc_le_eq intro: order_trans)

function plan_chunks :: "(send_envelope \<Rightarrow> bool) \<Rightarrow> uuid \<Rightarrow> u32 \<Rightarrow> file_entry list
    \<Rightarrow> send_envelope list \<times> u32" where
  "plan_chunks fits tid index entries =
     (if entries = [] then ([], index)
      else let k = chunk_len fits tid index entries;
               chunk = TransferChunk \<lparr>tc_transfer_id = tid, tc_chunk_index = index,
                         tc_entries = take k entries\<rparr> in
        (case plan_chunks fits tid (sat_add index 1) (drop k entries) of
           (envs, count) \<Rightarrow> (chunk # envs, count)))"
  by pat_completeness auto
termination
  by (relation "measure (\<lambda>(_, _, _, es). length es)") (auto simp: length_greater_0_conv [symmetric] simp del: length_greater_0_conv)

declare plan_chunks.simps [simp del]

definition plan_with :: "(send_envelope \<Rightarrow> bool) \<Rightarrow> send_payload \<Rightarrow> send_envelope list" where
  "plan_with fits payload =
     (if fits (Transfer payload) then [Transfer payload]
      else
       (let tid = pl_transfer_id payload;
            header = \<lparr>th_version = SEND_PAYLOAD_VERSION, th_transfer_id = tid,
              th_sender_name = pl_sender_name payload,
              th_collection_hash = pl_collection_hash payload,
              th_bytes_total = sum_u64 (map fe_size (pl_entries payload)),
              th_entry_count = (if length (pl_entries payload) < 2 ^ 32
                then of_nat (length (pl_entries payload)) else - 1)\<rparr> in
        (case plan_chunks fits tid 0 (pl_entries payload) of
           (chunks, count) \<Rightarrow> TransferHeader header # chunks @
             [TransferEnd \<lparr>te_transfer_id = tid, te_chunk_count = count\<rparr>])))"

definition plan_transfer_envelopes :: "(feature_message \<Rightarrow> (string, u8 list) result)
    \<Rightarrow> (send_envelope \<Rightarrow> u8 list) \<Rightarrow> device_id \<Rightarrow> device_id \<Rightarrow> send_payload \<Rightarrow> send_envelope list" where
  "plan_transfer_envelopes ser senv src to payload =
     plan_with (transfer_envelope_fits ser senv src to) payload"

section \<open>Reassembly\<close>

record chunked_transfer =
  ct_header :: send_transfer_header
  ct_chunks :: "(u32 \<times> file_entry list) list"
  ct_end_received :: bool
  ct_expected_chunk_count :: "u32 option"

definition chunked_new :: "send_transfer_header \<Rightarrow> chunked_transfer" where
  "chunked_new header = \<lparr>ct_header = header, ct_chunks = [], ct_end_received = False,
     ct_expected_chunk_count = None\<rparr>"

definition push_chunk :: "u32 \<Rightarrow> file_entry list \<Rightarrow> chunked_transfer \<Rightarrow> chunked_transfer" where
  "push_chunk index entries t = t\<lparr>ct_chunks := map_insert index entries (ct_chunks t)\<rparr>"

definition mark_end :: "u32 \<Rightarrow> chunked_transfer \<Rightarrow> chunked_transfer" where
  "mark_end chunk_count t =
     t\<lparr>ct_end_received := True, ct_expected_chunk_count := Some chunk_count\<rparr>"

definition entries_received :: "chunked_transfer \<Rightarrow> nat" where
  "entries_received t = sum_list (map (length \<circ> snd) (ct_chunks t))"

definition is_complete :: "chunked_transfer \<Rightarrow> bool" where
  "is_complete t \<longleftrightarrow> entries_received t = unat (th_entry_count (ct_header t)) \<and>
     (case ct_expected_chunk_count t of None \<Rightarrow> True
      | Some count \<Rightarrow> length (ct_chunks t) = unat count)"

definition missing_chunks :: "chunked_transfer \<Rightarrow> string" where
  "missing_chunks t =
     (case ct_expected_chunk_count t of None \<Rightarrow> []
      | Some count \<Rightarrow>
          (let missing = filter (\<lambda>i. of_nat i \<notin> fst ` set (ct_chunks t)) [0..<unat count] in
           if missing = [] then []
           else '', missing chunk indices: ['' @ join_with '', '' (map show_nat missing) @ '']''))"

definition incomplete_message :: "ext \<Rightarrow> chunked_transfer \<Rightarrow> nat \<Rightarrow> string \<Rightarrow> string" where
  "incomplete_message x t got rest =
     ''transfer '' @ uuid_display x (th_transfer_id (ct_header t)) @ '' manifest incomplete: expected '' @
     show_nat (unat (th_entry_count (ct_header t))) @ '' entries, got '' @ show_nat got @ rest"

definition into_payload :: "ext \<Rightarrow> chunked_transfer \<Rightarrow> (string, send_payload) result" where
  "into_payload x t =
     (if \<not> is_complete t then Err (incomplete_message x t (entries_received t) (missing_chunks t))
      else
       (let indices = sort (map fst (ct_chunks t));
            entries = concat (map (\<lambda>i. case map_of (ct_chunks t) i of Some es \<Rightarrow> es | None \<Rightarrow> []) indices);
            header = ct_header t in
        if length entries \<noteq> unat (th_entry_count header)
        then Err (incomplete_message x t (length entries) [])
        else let bytes_total = sum_u64 (map fe_size entries) in
          if bytes_total \<noteq> th_bytes_total header
          then Err (''transfer '' @ uuid_display x (th_transfer_id header) @
            '' manifest size mismatch: expected '' @ show_u64 (th_bytes_total header) @
            '' bytes, got '' @ show_u64 bytes_total)
          else Ok \<lparr>pl_version = th_version header, pl_transfer_id = th_transfer_id header,
            pl_sender_name = th_sender_name header, pl_collection_hash = th_collection_hash header,
            pl_entries = entries\<rparr>))"

text \<open>What the receiver does with the envelopes of one transfer after its header.\<close>

fun feed :: "send_envelope \<Rightarrow> chunked_transfer \<Rightarrow> chunked_transfer" where
  "feed (TransferChunk c) t = push_chunk (tc_chunk_index c) (tc_entries c) t"
| "feed (TransferEnd e) t = mark_end (te_chunk_count e) t"
| "feed _ t = t"

section \<open>The plan is a partition of the entries\<close>

definition numbered :: "uuid \<Rightarrow> nat \<Rightarrow> file_entry list list \<Rightarrow> send_envelope list" where
  "numbered tid i parts = map (\<lambda>(j, p). TransferChunk \<lparr>tc_transfer_id = tid,
     tc_chunk_index = of_nat j, tc_entries = p\<rparr>) (enumerate i parts)"

lemma sat_add_u32: "Suc i < 2 ^ 32 \<Longrightarrow> sat_add (of_nat i :: u32) 1 = of_nat (Suc i)"
  by (simp add: sat_add_def unat_u32_of_nat)

lemma plan_chunks_parts:
  "i + length es < 2 ^ 32 \<Longrightarrow>
     \<exists>parts. plan_chunks fits tid (of_nat i) es = (numbered tid i parts, of_nat (i + length parts)) \<and>
       concat parts = es \<and> (\<forall>p \<in> set parts. p \<noteq> []) \<and> length parts \<le> length es"
proof (induction "length es" arbitrary: es i rule: less_induct)
  case less
  show ?case
  proof (cases "es = []")
    case True
    then show ?thesis by (intro exI [of _ "[]"]) (simp add: plan_chunks.simps numbered_def)
  next
    case False
    let ?k = "chunk_len fits tid (of_nat i) es"
    have k: "0 < ?k" "?k \<le> length es" using chunk_len_le [OF False] by simp_all
    have shorter: "length (drop ?k es) < length es" using k False by (simp add: diff_less)
    have "Suc i + length (drop ?k es) < 2 ^ 32" using less.prems k unfolding length_drop by linarith
    from less.hyps [OF shorter this] obtain parts where parts:
      "plan_chunks fits tid (of_nat (Suc i)) (drop ?k es) =
         (numbered tid (Suc i) parts, of_nat (Suc i + length parts))"
      "concat parts = drop ?k es" "\<forall>p \<in> set parts. p \<noteq> []" "length parts \<le> length (drop ?k es)"
      by blast
    have "Suc i < 2 ^ 32" using less.prems False by (cases es) auto
    then have step: "plan_chunks fits tid (of_nat i) es =
        (numbered tid i (take ?k es # parts), of_nat (i + length (take ?k es # parts)))"
      using False parts(1)
      by (subst plan_chunks.simps) (simp add: Let_def sat_add_u32 numbered_def del: of_nat_Suc)
    moreover have "take ?k es \<noteq> []" using False k by (cases es) auto
    moreover have "Suc (length parts) \<le> length es" using parts(4) k unfolding length_drop by linarith
    ultimately show ?thesis using parts k
      by (intro exI [of _ "take ?k es # parts"]) auto
  qed
qed

lemma plan_with_chunked:
  assumes "\<not> fits (Transfer p)" "length (pl_entries p) < 2 ^ 32"
  obtains parts where
    "plan_with fits p = TransferHeader
       \<lparr>th_version = SEND_PAYLOAD_VERSION, th_transfer_id = pl_transfer_id p,
        th_sender_name = pl_sender_name p, th_collection_hash = pl_collection_hash p,
        th_bytes_total = sum_u64 (map fe_size (pl_entries p)),
        th_entry_count = of_nat (length (pl_entries p))\<rparr> #
       numbered (pl_transfer_id p) 0 parts @
       [TransferEnd \<lparr>te_transfer_id = pl_transfer_id p, te_chunk_count = of_nat (length parts)\<rparr>]"
    "concat parts = pl_entries p" "\<forall>q \<in> set parts. q \<noteq> []" "length parts \<le> length (pl_entries p)"
proof -
  from plan_chunks_parts [of 0 "pl_entries p" fits "pl_transfer_id p"] assms(2) obtain parts where
    "plan_chunks fits (pl_transfer_id p) 0 (pl_entries p) =
       (numbered (pl_transfer_id p) 0 parts, of_nat (length parts))"
    "concat parts = pl_entries p" "\<forall>q \<in> set parts. q \<noteq> []" "length parts \<le> length (pl_entries p)"
    by auto
  with assms show thesis by (intro that) (simp_all add: plan_with_def Let_def)
qed

section \<open>Reassembly of a plan\<close>

text \<open>
  \<open>partial parts t\<close>: the chunks held are numbered parts of the plan, each held once. It is what
  any deliveries of the plan's envelopes, repeated or not, leave behind.
\<close>

definition partial :: "file_entry list list \<Rightarrow> chunked_transfer \<Rightarrow> bool" where
  "partial parts t \<longleftrightarrow> distinct (map fst (ct_chunks t)) \<and>
     (\<forall>(i, es) \<in> set (ct_chunks t). unat i < length parts \<and> es = parts ! unat i)"

definition held :: "chunked_transfer \<Rightarrow> nat set" where
  "held t = unat ` fst ` set (ct_chunks t)"

lemma of_nat_u32_eq: "i < 2 ^ 32 \<Longrightarrow> j < 2 ^ 32 \<Longrightarrow> (of_nat i :: u32) = of_nat j \<longleftrightarrow> i = j"
  by (metis unat_u32_of_nat)

lemma numbered_iff:
  "e \<in> set (numbered tid 0 parts) \<longleftrightarrow> (\<exists>j < length parts. e = TransferChunk
     \<lparr>tc_transfer_id = tid, tc_chunk_index = of_nat j, tc_entries = parts ! j\<rparr>)"
proof -
  have "set (enumerate 0 parts) = {(j, parts ! j) | j. j < length parts}"
    by (auto simp: in_set_enumerate_eq)
  then show ?thesis by (auto simp: numbered_def)
qed

lemma chunked_new_simps [simp]:
  "ct_header (chunked_new h) = h" "ct_chunks (chunked_new h) = []"
  "ct_expected_chunk_count (chunked_new h) = None"
  by (simp_all add: chunked_new_def)

lemma partial_new: "partial parts (chunked_new h)" "held (chunked_new h) = {}"
  by (simp_all add: partial_def held_def)

lemma push_mark_header [simp]:
  "ct_header (push_chunk i es t) = ct_header t" "ct_header (mark_end n t) = ct_header t"
  by (simp_all add: push_chunk_def mark_end_def)

lemma feed_header [simp]: "ct_header (feed e t) = ct_header t"
  by (cases e) (simp_all add: push_chunk_def mark_end_def)

lemma set_map_insert:
  "distinct (map fst m) \<Longrightarrow> set (map_insert k v m) = insert (k, v) {(a, b) \<in> set m. a \<noteq> k}"
  unfolding map_insert_def by (induction m) (auto simp: image_iff)

lemma partial_feed_chunk:
  fixes tid :: uuid
  assumes "partial parts t" "j < length parts" "length parts < 2 ^ 32"
  defines "e \<equiv> TransferChunk \<lparr>tc_transfer_id = tid, tc_chunk_index = of_nat j, tc_entries = parts ! j\<rparr>"
  shows "partial parts (feed e t)" "held (feed e t) = insert j (held t)"
    "ct_expected_chunk_count (feed e t) = ct_expected_chunk_count t"
proof -
  have j: "unat (of_nat j :: u32) = j" using assms(2,3) by (intro unat_u32_of_nat) simp
  have s: "set (ct_chunks (feed e t)) =
      insert (of_nat j, parts ! j) {(a, b) \<in> set (ct_chunks t). a \<noteq> of_nat j}"
    using assms(1) by (simp add: e_def push_chunk_def partial_def set_map_insert)
  show "partial parts (feed e t)" using assms(1,2) j
    unfolding partial_def s by (auto simp: e_def push_chunk_def)
  have "fst ` set (ct_chunks (feed e t)) = insert (of_nat j) (fst ` set (ct_chunks t))"
    by (simp add: e_def push_chunk_def)
  then show "held (feed e t) = insert j (held t)" by (simp add: held_def j)
  show "ct_expected_chunk_count (feed e t) = ct_expected_chunk_count t"
    by (simp add: e_def push_chunk_def)
qed

lemma partial_feed_end:
  "partial parts (feed (TransferEnd d) t) = partial parts t" "held (feed (TransferEnd d) t) = held t"
  "ct_expected_chunk_count (feed (TransferEnd d) t) = Some (te_chunk_count d)"
  by (simp_all add: partial_def held_def mark_end_def)

lemma held_bound: "partial parts t \<Longrightarrow> held t \<subseteq> {..<length parts}"
  by (auto simp: partial_def held_def)

lemma inj_unat: "inj_on (unat :: 'a::len word \<Rightarrow> nat) A"
  by (rule inj_onI) (simp add: word_unat_eq_iff)

lemma entries_received_held:
  assumes "partial parts t"
  shows "entries_received t = (\<Sum>j \<in> held t. length (parts ! j))"
proof -
  have d: "distinct (ct_chunks t)" using assms by (auto simp: partial_def distinct_map)
  have inj: "inj_on (unat \<circ> fst) (set (ct_chunks t))"
    using assms by (intro comp_inj_on inj_unat) (auto simp: partial_def distinct_map)
  have "entries_received t = (\<Sum>c \<in> set (ct_chunks t). length (snd c))"
    using d by (simp add: entries_received_def sum_list_distinct_conv_sum_set)
  also have "\<dots> = (\<Sum>c \<in> set (ct_chunks t). length (parts ! ((unat \<circ> fst) c)))"
    using assms by (intro sum.cong) (auto simp: partial_def)
  also have "\<dots> = (\<Sum>j \<in> (unat \<circ> fst) ` set (ct_chunks t). length (parts ! j))"
    by (rule sum.reindex_cong [OF inj, symmetric]) simp_all
  finally show ?thesis by (simp add: held_def image_comp)
qed

lemma length_chunks_held: "partial parts t \<Longrightarrow> length (ct_chunks t) = card (held t)"
  by (simp add: held_def partial_def card_image [OF inj_unat])
    (metis distinct_card length_map list.set_map)

lemma sum_parts: "(\<Sum>j < length parts. length (parts ! j)) = length (concat parts)"
  by (simp add: length_concat sum_list_sum_nth atLeast0LessThan)

lemma sum_held_all:
  assumes "D \<subseteq> {..<length parts}" "\<forall>q \<in> set parts. q \<noteq> []"
    "(\<Sum>j \<in> D. length (parts ! j)) = length (concat parts)"
  shows "D = {..<length parts}"
proof (rule ccontr)
  assume "D \<noteq> {..<length parts}"
  then obtain k where k: "k < length parts" "k \<notin> D" using assms(1) by auto
  have "(\<Sum>j \<in> D. length (parts ! j)) < (\<Sum>j < length parts. length (parts ! j))"
    using assms k by (intro sum_strict_mono2 [of _ _ k]) auto
  with assms(3) sum_parts [of parts] show False by simp
qed

text \<open>A transfer is complete exactly when every chunk of the plan is held.\<close>

lemma is_complete_iff:
  assumes "partial parts t" "\<forall>q \<in> set parts. q \<noteq> []"
    and hdr: "unat (th_entry_count (ct_header t)) = length (concat parts)"
    and fin: "ct_expected_chunk_count t \<in> {None, Some (of_nat (length parts))}"
    and n: "length parts < 2 ^ 32"
  shows "is_complete t \<longleftrightarrow> held t = {..<length parts}"
proof
  assume "is_complete t"
  then have "(\<Sum>j \<in> held t. length (parts ! j)) = length (concat parts)"
    using hdr entries_received_held [OF assms(1)] by (simp add: is_complete_def)
  then show "held t = {..<length parts}"
    using sum_held_all held_bound [OF assms(1)] assms(2) by blast
next
  assume "held t = {..<length parts}"
  then have "entries_received t = length (concat parts)" "length (ct_chunks t) = length parts"
    using entries_received_held [OF assms(1)] length_chunks_held [OF assms(1)] sum_parts [of parts]
    by simp_all
  then show "is_complete t"
    using hdr fin by (auto simp: is_complete_def unat_u32_of_nat [OF n])
qed

lemma sorted_of_nat_u32: "n \<le> 2 ^ 32 \<Longrightarrow> sorted (map (of_nat :: nat \<Rightarrow> u32) [0..<n])"
  by (auto simp: sorted_iff_nth_mono word_le_nat_alt unat_u32_of_nat)

lemma complete_entries:
  assumes "partial parts t" "held t = {..<length parts}" "length parts < 2 ^ 32"
  shows "sort (map fst (ct_chunks t)) = map of_nat [0..<length parts]"
    "j < length parts \<Longrightarrow> map_of (ct_chunks t) (of_nat j) = Some (parts ! j)"
proof -
  let ?n = "length parts"
  have "fst ` set (ct_chunks t) = of_nat ` {..<?n}"
  proof -
    have "(of_nat :: nat \<Rightarrow> u32) ` unat ` fst ` set (ct_chunks t) = of_nat ` {..<?n}"
      using assms(2) by (simp add: held_def)
    then show ?thesis by (simp add: image_image)
  qed
  moreover have "distinct (map (of_nat :: nat \<Rightarrow> u32) [0..<?n])"
    using assms(3) by (auto simp: distinct_map inj_on_def of_nat_u32_eq)
  ultimately show "sort (map fst (ct_chunks t)) = map of_nat [0..<?n]"
    using assms sorted_of_nat_u32 [of ?n]
    by (intro sorted_distinct_set_unique) (auto simp: partial_def atLeast0LessThan)
  assume j: "j < ?n"
  then have "of_nat j \<in> fst ` set (ct_chunks t)"
    using \<open>fst ` set (ct_chunks t) = of_nat ` {..<?n}\<close> by auto
  then obtain es where es: "map_of (ct_chunks t) (of_nat j) = Some es"
    by (metis map_of_eq_None_iff not_None_eq)
  then have "(of_nat j, es) \<in> set (ct_chunks t)" by (rule map_of_SomeD)
  then have "es = parts ! j"
    using assms(1,3) j by (auto simp: partial_def unat_u32_of_nat)
  with es show "map_of (ct_chunks t) (of_nat j) = Some (parts ! j)" by simp
qed

lemma into_payload_complete:
  assumes "partial parts t" "held t = {..<length parts}" "\<forall>q \<in> set parts. q \<noteq> []"
    and hdr: "unat (th_entry_count (ct_header t)) = length (concat parts)"
      "th_bytes_total (ct_header t) = sum_u64 (map fe_size (concat parts))"
    and fin: "ct_expected_chunk_count t \<in> {None, Some (of_nat (length parts))}"
    and n: "length parts < 2 ^ 32"
  shows "into_payload x t = Ok \<lparr>pl_version = th_version (ct_header t),
    pl_transfer_id = th_transfer_id (ct_header t), pl_sender_name = th_sender_name (ct_header t),
    pl_collection_hash = th_collection_hash (ct_header t), pl_entries = concat parts\<rparr>"
proof -
  have c: "is_complete t" using is_complete_iff [OF assms(1,3) hdr(1) fin n] assms(2) by simp
  have "map (\<lambda>i. case map_of (ct_chunks t) i of Some es \<Rightarrow> es | None \<Rightarrow> [])
      (sort (map fst (ct_chunks t))) = map ((!) parts) [0..<length parts]"
    unfolding complete_entries(1) [OF assms(1,2) n]
    using complete_entries(2) [OF assms(1,2) n] by simp
  then have e: "concat (map (\<lambda>i. case map_of (ct_chunks t) i of Some es \<Rightarrow> es | None \<Rightarrow> [])
      (sort (map fst (ct_chunks t)))) = concat parts"
    by (simp add: map_nth)
  show ?thesis using c hdr by (simp add: into_payload_def Let_def e)
qed

text \<open>Any deliveries of a plan's chunks and of its end leave a partial plan.\<close>

lemma partial_deliveries:
  assumes "length parts < 2 ^ 32"
    "set ds \<subseteq> set (numbered tid 0 parts) \<union>
       {TransferEnd \<lparr>te_transfer_id = tid, te_chunk_count = of_nat (length parts)\<rparr>}"
    "partial parts t" "ct_expected_chunk_count t \<in> {None, Some (of_nat (length parts))}"
  shows "partial parts (fold feed ds t) \<and>
     held (fold feed ds t) = held t \<union> {j. j < length parts \<and> TransferChunk \<lparr>tc_transfer_id = tid,
       tc_chunk_index = of_nat j, tc_entries = parts ! j\<rparr> \<in> set ds} \<and>
     ct_header (fold feed ds t) = ct_header t \<and>
     ct_expected_chunk_count (fold feed ds t) \<in> {None, Some (of_nat (length parts))}"
  using assms(2-4)
proof (induction ds arbitrary: t)
  case (Cons d ds)
  from Cons.prems(1) consider (chunk) j where "j < length parts"
      "d = TransferChunk \<lparr>tc_transfer_id = tid, tc_chunk_index = of_nat j, tc_entries = parts ! j\<rparr>"
    | (fin) "d = TransferEnd \<lparr>te_transfer_id = tid, te_chunk_count = of_nat (length parts)\<rparr>"
    by (auto simp: numbered_iff)
  then show ?case
  proof cases
    case chunk
    have inj: "(of_nat i :: u32) = of_nat j \<longleftrightarrow> i = j" if "i < length parts" for i
      using that chunk(1) assms(1) by (simp add: of_nat_u32_eq)
    note f = partial_feed_chunk [OF Cons.prems(2) chunk(1) assms(1), of tid, folded chunk(2)]
    have "set ds \<subseteq> set (numbered tid 0 parts) \<union>
       {TransferEnd \<lparr>te_transfer_id = tid, te_chunk_count = of_nat (length parts)\<rparr>}"
      using Cons.prems(1) by simp
    from Cons.IH [OF this f(1)] f Cons.prems(3) chunk inj show ?thesis by auto
  next
    case fin
    have "set ds \<subseteq> set (numbered tid 0 parts) \<union>
       {TransferEnd \<lparr>te_transfer_id = tid, te_chunk_count = of_nat (length parts)\<rparr>}"
      using Cons.prems(1) by simp
    moreover have "partial parts (feed d t)" "held (feed d t) = held t"
      "ct_expected_chunk_count (feed d t) \<in> {None, Some (of_nat (length parts))}"
      "\<And>c. TransferChunk c \<noteq> d"
      unfolding fin partial_feed_end using Cons.prems(2) by simp_all
    ultimately show ?thesis using Cons.IH [of "feed d t"] by (auto simp del: feed.simps)
  qed
qed auto

section \<open>Properties\<close>

lemma plan_chunks_fit:
  assumes "\<And>i e. e \<in> set es \<Longrightarrow> fits (TransferChunk \<lparr>tc_transfer_id = tid, tc_chunk_index = i, tc_entries = [e]\<rparr>)"
    and "env \<in> set (fst (plan_chunks fits tid index es))"
  shows "fits env"
  using assms
proof (induction fits tid index es rule: plan_chunks.induct)
  case (1 fits tid index es)
  show ?case
  proof (cases "es = []")
    case True
    with "1.prems"(2) show ?thesis by (simp add: plan_chunks.simps)
  next
    case False
    let ?k = "chunk_len fits tid index es"
    let ?c = "\<lambda>k. TransferChunk \<lparr>tc_transfer_id = tid, tc_chunk_index = index, tc_entries = take k es\<rparr>"
    have "fits (?c ?k)"
    proof (cases "fitting_len (\<lambda>k. fits (?c k)) (min INITIAL_CHUNK_ENTRIES (length es)) = 0")
      case True
      then have "?k = 1" by (simp add: chunk_len_def Let_def)
      moreover obtain e es' where "es = e # es'" using False by (cases es) auto
      ultimately show ?thesis using "1.prems"(1) [of e index] by simp
    next
      case nz: False
      then have "?k = fitting_len (\<lambda>k. fits (?c k)) (min INITIAL_CHUNK_ENTRIES (length es))"
        by (simp add: chunk_len_def Let_def)
      with fitting_len_fits [OF nz] show ?thesis by simp
    qed
    moreover obtain envs n where r: "plan_chunks fits tid (sat_add index 1) (drop ?k es) = (envs, n)"
      by fastforce
    moreover have "env = ?c ?k \<or> env \<in> set envs"
      using "1.prems"(2) False r by (subst (asm) plan_chunks.simps) (auto simp: Let_def)
    ultimately show ?thesis
      using "1.IH" [OF False refl refl] "1.prems"(1) by (auto dest: in_set_dropD)
  qed
qed

lemma plan_shape:
  assumes plan: "plan_transfer_envelopes ser senv src to p = TransferHeader h # body"
    and small: "length (pl_entries p) < 2 ^ 32"
  obtains parts where
    "body = numbered (pl_transfer_id p) 0 parts @
       [TransferEnd \<lparr>te_transfer_id = pl_transfer_id p, te_chunk_count = of_nat (length parts)\<rparr>]"
    "concat parts = pl_entries p" "\<forall>q \<in> set parts. q \<noteq> []" "length parts < 2 ^ 32"
    "unat (th_entry_count h) = length (concat parts)"
    "h = \<lparr>th_version = SEND_PAYLOAD_VERSION, th_transfer_id = pl_transfer_id p,
        th_sender_name = pl_sender_name p, th_collection_hash = pl_collection_hash p,
        th_bytes_total = sum_u64 (map fe_size (pl_entries p)),
        th_entry_count = of_nat (length (pl_entries p))\<rparr>"
proof -
  have nofit: "\<not> transfer_envelope_fits ser senv src to (Transfer p)"
    using plan by (auto simp: plan_transfer_envelopes_def plan_with_def split: if_splits)
  show thesis
    by (rule plan_with_chunked [of "transfer_envelope_fits ser senv src to", OF nofit small], rule that)
      (use plan small in \<open>auto simp: plan_transfer_envelopes_def unat_u32_of_nat\<close>)
qed

text \<open>
  C9. Chunked sending is lossless under any delivery: let a payload of fewer than 2^32 entries
  not fit one message, and let the receiver get the header of its plan and then, in any order
  and with any repetitions, envelopes of the plan among which is every chunk. Then the transfer
  is complete and \<open>into_payload\<close> gives back the payload that was sent, whether or not the end
  marker is among them.
\<close>

theorem reassembly_any_order:
  assumes plan: "plan_transfer_envelopes ser senv src to p = TransferHeader h # body"
    and small: "length (pl_entries p) < 2 ^ 32" and version: "pl_version p = SEND_PAYLOAD_VERSION"
    and sub: "set ds \<subseteq> set body"
    and all: "\<And>c. TransferChunk c \<in> set body \<Longrightarrow> TransferChunk c \<in> set ds"
  shows "is_complete (fold feed ds (chunked_new h)) \<and>
    into_payload x (fold feed ds (chunked_new h)) = Ok p"
proof -
  let ?t = "fold feed ds (chunked_new h)"
  obtain parts where body: "body = numbered (pl_transfer_id p) 0 parts @
       [TransferEnd \<lparr>te_transfer_id = pl_transfer_id p, te_chunk_count = of_nat (length parts)\<rparr>]"
    and parts: "concat parts = pl_entries p" "\<forall>q \<in> set parts. q \<noteq> []"
    and n: "length parts < 2 ^ 32" and c: "unat (th_entry_count h) = length (concat parts)"
    and h: "h = \<lparr>th_version = SEND_PAYLOAD_VERSION, th_transfer_id = pl_transfer_id p,
        th_sender_name = pl_sender_name p, th_collection_hash = pl_collection_hash p,
        th_bytes_total = sum_u64 (map fe_size (pl_entries p)),
        th_entry_count = of_nat (length (pl_entries p))\<rparr>"
    by (rule plan_shape [OF plan small])
  have t: "partial parts ?t" "held ?t = {..<length parts}" "ct_header ?t = h"
    "ct_expected_chunk_count ?t \<in> {None, Some (of_nat (length parts))}"
    using partial_deliveries [OF n, of ds "pl_transfer_id p" "chunked_new h"] sub all partial_new
    by (auto simp: body numbered_iff)
  have hs: "th_version h = pl_version p" "th_transfer_id h = pl_transfer_id p"
    "th_sender_name h = pl_sender_name p" "th_collection_hash h = pl_collection_hash p"
    "th_bytes_total h = sum_u64 (map fe_size (pl_entries p))"
    by (simp_all add: h version)
  have "is_complete ?t" using is_complete_iff [OF t(1) parts(2) _ t(4) n] c by (simp add: t(2,3))
  moreover have "into_payload x ?t = Ok p"
    using into_payload_complete [OF t(1,2) parts(2) _ _ t(4) n, of x, unfolded t(3)] c
    by (simp add: hs parts(1))
  ultimately show ?thesis by blast
qed

definition sample_payload :: send_payload where
  "sample_payload = \<lparr>pl_version = 1, pl_transfer_id = 77, pl_sender_name = ''laptop'',
     pl_collection_hash = ''abc'', pl_entries = [\<lparr>fe_name = ''a'', fe_size = 3\<rparr>,
       \<lparr>fe_name = ''b'', fe_size = 4\<rparr>, \<lparr>fe_name = ''c'', fe_size = 5\<rparr>]\<rparr>"

definition sample_header :: send_transfer_header where
  "sample_header = \<lparr>th_version = 1, th_transfer_id = 77, th_sender_name = ''laptop'',
     th_collection_hash = ''abc'', th_bytes_total = 12, th_entry_count = 3\<rparr>"

definition sample_chunk :: "nat \<Rightarrow> send_envelope" where
  "sample_chunk i = TransferChunk \<lparr>tc_transfer_id = 77, tc_chunk_index = of_nat i,
     tc_entries = [pl_entries sample_payload ! i]\<rparr>"

definition sample_end :: send_envelope where
  "sample_end = TransferEnd \<lparr>te_transfer_id = 77, te_chunk_count = 3\<rparr>"

text \<open>A writer under which only a chunk of one entry, a header and an end fit a message.\<close>

fun sample_writer :: "send_envelope \<Rightarrow> u8 list" where
  "sample_writer (Transfer _) = [0]"
| "sample_writer (TransferChunk c) = (if length (tc_entries c) = 1 then [1] else [0])"
| "sample_writer _ = [1]"

definition sample_ser :: "feature_message \<Rightarrow> (string, u8 list) result" where
  "sample_ser m = (if fm_payload m = [1] then Ok [1] else Err ''too large'')"

lemma sample_plan:
  "plan_transfer_envelopes sample_ser sample_writer (DeviceId 1) (DeviceId 2) sample_payload =
     TransferHeader sample_header # [sample_chunk 0, sample_chunk 1, sample_chunk 2, sample_end]"
  by (simp add: plan_transfer_envelopes_def plan_with_def transfer_envelope_fits_def encode_def
      sample_ser_def sample_payload_def plan_chunks.simps chunk_len_def fitting_len.simps Let_def
      INITIAL_CHUNK_ENTRIES_def MAX_MESSAGE_SIZE_def sat_add_def sample_header_def sample_chunk_def
      sample_end_def SEND_PAYLOAD_VERSION_def)

lemma reassembly_any_order_witness:
  "into_payload sample_ext (fold feed [sample_chunk 2, sample_end, sample_chunk 0, sample_chunk 2,
     sample_chunk 1] (chunked_new sample_header)) = Ok sample_payload"
  by (rule reassembly_any_order [OF sample_plan, THEN conjunct2])
    (auto simp: sample_payload_def SEND_PAYLOAD_VERSION_def sample_end_def)

text \<open>
  C10. A transfer is never finalised early: while a chunk of the plan is missing, whatever else has
  arrived, the receiver does not consider it complete and \<open>into_payload\<close> is an error.
\<close>

theorem missing_chunk_incomplete:
  assumes plan: "plan_transfer_envelopes ser senv src to p = TransferHeader h # body"
    and small: "length (pl_entries p) < 2 ^ 32" and sub: "set ds \<subseteq> set body"
    and missing: "TransferChunk k \<in> set body" "TransferChunk k \<notin> set ds"
  shows "\<not> is_complete (fold feed ds (chunked_new h)) \<and>
    \<not> is_ok (into_payload x (fold feed ds (chunked_new h)))"
proof -
  let ?t = "fold feed ds (chunked_new h)"
  obtain parts where body: "body = numbered (pl_transfer_id p) 0 parts @
       [TransferEnd \<lparr>te_transfer_id = pl_transfer_id p, te_chunk_count = of_nat (length parts)\<rparr>]"
    and parts: "\<forall>q \<in> set parts. q \<noteq> []" and n: "length parts < 2 ^ 32"
    and c: "unat (th_entry_count h) = length (concat parts)"
    by (rule plan_shape [OF plan small])
  note t = partial_deliveries [OF n, of ds "pl_transfer_id p" "chunked_new h"]
  have t: "partial parts ?t" "ct_header ?t = h"
    "ct_expected_chunk_count ?t \<in> {None, Some (of_nat (length parts))}"
    "held ?t = {j. j < length parts \<and> TransferChunk \<lparr>tc_transfer_id = pl_transfer_id p,
       tc_chunk_index = of_nat j, tc_entries = parts ! j\<rparr> \<in> set ds}"
    using t sub partial_new by (auto simp: body)
  from missing(1) obtain j where "j < length parts" "k = \<lparr>tc_transfer_id = pl_transfer_id p,
      tc_chunk_index = of_nat j, tc_entries = parts ! j\<rparr>"
    by (auto simp: body numbered_iff)
  with missing(2) have "j \<notin> held ?t" "j \<in> {..<length parts}" by (auto simp: t(4))
  then have "\<not> is_complete ?t"
    using is_complete_iff [OF t(1) parts _ t(3) n] c by (auto simp: t(2))
  then show ?thesis by (simp add: into_payload_def)
qed

lemma missing_chunk_incomplete_witness:
  "\<not> is_complete (fold feed [sample_chunk 2, sample_end, sample_chunk 0] (chunked_new sample_header))"
proof -
  have "\<not> is_complete (fold feed [sample_chunk 2, sample_end, sample_chunk 0] (chunked_new sample_header)) \<and>
     \<not> is_ok (into_payload sample_ext (fold feed [sample_chunk 2, sample_end, sample_chunk 0] (chunked_new sample_header)))"
    by (rule missing_chunk_incomplete [OF sample_plan, where k = "\<lparr>tc_transfer_id = 77,
        tc_chunk_index = 1, tc_entries = [\<lparr>fe_name = ''b'', fe_size = 4\<rparr>]\<rparr>"])
      (auto simp: sample_payload_def sample_chunk_def sample_end_def)
  then show ?thesis by blast
qed



end
