(* ===== verification/Transfers.thy ===== *)
theory Transfers
  imports Manifest
begin

text \<open>
  The sender's and the receiver's bookkeeping of file transfers: the state files
  (\<open>failsafe-send/src/transfer_state.rs\<close>, \<open>mark_send_complete\<close> and \<open>mark_send_failed\<close> of
  \<open>outbound.rs\<close>), the acknowledgement waiters (\<open>coordinator.rs\<close>) and the cancellation of
  everything pending (\<open>cancel.rs\<close>).
\<close>

section \<open>State records\<close>

datatype send_stage = Importing | ReadyToSend | WaitingAck | SendStageComplete | SendStageFailed

datatype receive_stage = Downloading | Exporting | ReceiveComplete | ReceiveFailed

record send_transfer_state =
  sst_transfer_id :: uuid
  sst_target :: device_id
  sst_paths :: "send_path_spec list"
  sst_stage :: send_stage
  sst_collection_hash :: "string option"
  sst_entries :: "file_entry list"
  sst_bytes_done :: u64
  sst_bytes_total :: u64
  sst_error :: "string option"

record receive_transfer_state =
  rst_transfer_id :: uuid
  rst_sender :: device_id
  rst_sender_name :: string
  rst_stage :: receive_stage
  rst_collection_hash :: string
  rst_entries :: "file_entry list"
  rst_receive_dir :: "string option"
  rst_bytes_done :: u64
  rst_bytes_total :: u64
  rst_error :: "string option"

section \<open>A directory of state files\<close>

text \<open>
  One JSON file per transfer; its contents either decode to a state or to an error message.
  \<open>sd_available\<close> says whether the data directory of the user exists at all, and the script
  \<open>sd_faults\<close> which file operation fails. A save writes a temporary file and renames it, so a
  failing save leaves the old contents.
\<close>

record 's state_dir =
  sd_available :: bool
  sd_files :: "(uuid \<times> (string, 's) result) list"
  sd_faults :: "string option list"

definition next_fault :: "'s state_dir \<Rightarrow> string option \<times> 's state_dir" where
  "next_fault d = (case sd_faults d of [] \<Rightarrow> (None, d) | f # fs \<Rightarrow> (f, d\<lparr>sd_faults := fs\<rparr>))"

definition no_directory :: string where
  "no_directory = ''could not determine transfer state directory''"

definition save_state :: "('s \<Rightarrow> uuid) \<Rightarrow> 's \<Rightarrow> 's state_dir \<Rightarrow> 's state_dir \<times> (string, unit) result" where
  "save_state key st d =
     (if \<not> sd_available d then (d, Err no_directory)
      else (case next_fault d of
        (Some e, d') \<Rightarrow> (d', Err e)
      | (None, d') \<Rightarrow> (d'\<lparr>sd_files := map_insert (key st) (Ok st) (sd_files d')\<rparr>, Ok ())))"

definition load_state :: "(uuid \<Rightarrow> string) \<Rightarrow> string \<Rightarrow> uuid \<Rightarrow> 's state_dir
    \<Rightarrow> 's state_dir \<times> (string, 's) result" where
  "load_state disp kind i d =
     (if \<not> sd_available d then (d, Err no_directory)
      else (case map_of (sd_files d) i of
        None \<Rightarrow> (d, Err (''no '' @ kind @ '' transfer state found for '' @ disp i))
      | Some contents \<Rightarrow>
          (case next_fault d of
             (Some e, d') \<Rightarrow> (d', Err (''failed to read transfer state: '' @ e))
           | (None, d') \<Rightarrow> (d', map_err (\<lambda>e. ''failed to decode transfer state: '' @ e) contents))))"

definition remove_state :: "string \<Rightarrow> uuid \<Rightarrow> 's state_dir \<Rightarrow> 's state_dir \<times> (string, unit) result" where
  "remove_state kind i d =
     (if \<not> sd_available d \<or> map_of (sd_files d) i = None then (d, Ok ())
      else (case next_fault d of
        (Some e, d') \<Rightarrow> (d', Err (''failed to remove '' @ kind @ '' transfer state: '' @ e))
      | (None, d') \<Rightarrow> (d'\<lparr>sd_files := AList.delete i (sd_files d')\<rparr>, Ok ())))"

fun read_entries :: "('s \<Rightarrow> bool) \<Rightarrow> (uuid \<times> (string, 's) result) list \<Rightarrow> 's state_dir
    \<Rightarrow> 's state_dir \<times> (string, 's list) result" where
  "read_entries finished [] d = (d, Ok [])"
| "read_entries finished ((_, contents) # files) d =
     (case next_fault d of
        (Some e, d') \<Rightarrow> (d', Err (''failed to read transfer state: '' @ e))
      | (None, d') \<Rightarrow>
          (case contents of
             Err e \<Rightarrow> (d', Err (''failed to decode transfer state: '' @ e))
           | Ok st \<Rightarrow>
               (case read_entries finished files d' of
                  (d'', Err e) \<Rightarrow> (d'', Err e)
                | (d'', Ok sts) \<Rightarrow> (d'', Ok (if finished st then sts else st # sts)))))"

definition list_incomplete :: "('s \<Rightarrow> bool) \<Rightarrow> string \<Rightarrow> 's state_dir
    \<Rightarrow> 's state_dir \<times> (string, 's list) result" where
  "list_incomplete finished kind d =
     (if \<not> sd_available d then (d, Ok [])
      else (case next_fault d of
        (Some e, d') \<Rightarrow> (d', Err (''failed to read '' @ kind @ '' transfer dir: '' @ e))
      | (None, d') \<Rightarrow> read_entries finished (sd_files d') d'))"

text \<open>The two instances.\<close>

definition save_send_state :: "send_transfer_state \<Rightarrow> send_transfer_state state_dir
    \<Rightarrow> send_transfer_state state_dir \<times> (string, unit) result" where
  "save_send_state = save_state sst_transfer_id"

definition load_send_state :: "ext \<Rightarrow> uuid \<Rightarrow> send_transfer_state state_dir
    \<Rightarrow> send_transfer_state state_dir \<times> (string, send_transfer_state) result" where
  "load_send_state x = load_state (uuid_display x) ''send''"

definition remove_send_state :: "uuid \<Rightarrow> send_transfer_state state_dir
    \<Rightarrow> send_transfer_state state_dir \<times> (string, unit) result" where
  "remove_send_state = remove_state ''send''"

definition list_incomplete_sends :: "send_transfer_state state_dir
    \<Rightarrow> send_transfer_state state_dir \<times> (string, send_transfer_state list) result" where
  "list_incomplete_sends = list_incomplete (\<lambda>st. sst_stage st = SendStageComplete) ''send''"

definition save_receive_state :: "receive_transfer_state \<Rightarrow> receive_transfer_state state_dir
    \<Rightarrow> receive_transfer_state state_dir \<times> (string, unit) result" where
  "save_receive_state = save_state rst_transfer_id"

definition load_receive_state :: "ext \<Rightarrow> uuid \<Rightarrow> receive_transfer_state state_dir
    \<Rightarrow> receive_transfer_state state_dir \<times> (string, receive_transfer_state) result" where
  "load_receive_state x = load_state (uuid_display x) ''receive''"

definition remove_receive_state :: "uuid \<Rightarrow> receive_transfer_state state_dir
    \<Rightarrow> receive_transfer_state state_dir \<times> (string, unit) result" where
  "remove_receive_state = remove_state ''receive''"

definition list_incomplete_receives :: "receive_transfer_state state_dir
    \<Rightarrow> receive_transfer_state state_dir \<times> (string, receive_transfer_state list) result" where
  "list_incomplete_receives = list_incomplete (\<lambda>st. rst_stage st = ReceiveComplete) ''receive''"

text \<open>The contract of a state store: what it holds is a map, changed only by successful calls.\<close>

locale state_store =
  fixes key :: "'s \<Rightarrow> uuid"
    and save :: "'s \<Rightarrow> 'd \<Rightarrow> 'd \<times> (string, unit) result"
    and load :: "uuid \<Rightarrow> 'd \<Rightarrow> 'd \<times> (string, 's) result"
    and remove :: "uuid \<Rightarrow> 'd \<Rightarrow> 'd \<times> (string, unit) result"
    and view :: "'d \<Rightarrow> uuid \<rightharpoonup> (string, 's) result"
  assumes save_Ok: "save s d = (d', Ok ()) \<Longrightarrow> view d' = (view d)(key s \<mapsto> Ok s)"
    and save_Err: "save s d = (d', Err e) \<Longrightarrow> view d' = view d"
    and load_frame: "load i d = (d', r) \<Longrightarrow> view d' = view d"
    and load_Ok: "load i d = (d', Ok s) \<Longrightarrow> view d i = Some (Ok s)"
    and remove_Ok: "remove i d = (d', Ok ()) \<Longrightarrow> view d' = (view d)(i := None)"
    and remove_Err: "remove i d = (d', Err e) \<Longrightarrow> view d' = view d"
begin

lemma load_after_save:
  "save s d = (d1, Ok ()) \<Longrightarrow> load (key s) d1 = (d2, Ok s') \<Longrightarrow> s' = s"
  using save_Ok load_Ok by fastforce

lemma save_other: "save s d = (d', r) \<Longrightarrow> i \<noteq> key s \<Longrightarrow> view d' i = view d i"
  by (cases r) (use save_Ok save_Err in \<open>force+\<close>)

lemma remove_gone: "remove i d = (d1, Ok ()) \<Longrightarrow> load i d1 = (d2, r) \<Longrightarrow> \<not> is_ok r"
  using remove_Ok load_Ok by (cases r) fastforce+

lemma remove_other: "remove i d = (d', r) \<Longrightarrow> j \<noteq> i \<Longrightarrow> view d' j = view d j"
  by (cases r) (use remove_Ok remove_Err in \<open>force+\<close>)

end

definition dir_view :: "'s state_dir \<Rightarrow> uuid \<rightharpoonup> (string, 's) result" where
  "dir_view d = (if sd_available d then map_of (sd_files d) else (\<lambda>_. None))"

lemma next_fault_files:
  "next_fault d = (f, d') \<Longrightarrow> sd_files d' = sd_files d \<and> sd_available d' = sd_available d"
  by (auto simp: next_fault_def split: list.splits)

lemma state_dir_store: "state_store key (save_state key) (load_state disp k) (remove_state k) dir_view"
  by unfold_locales
    (auto simp: save_state_def load_state_def remove_state_def dir_view_def delete_conv' fun_upd_def
      split: if_splits prod.splits option.splits dest!: next_fault_files)

interpretation send_store: state_store sst_transfer_id save_send_state "load_send_state x"
  remove_send_state dir_view
  unfolding save_send_state_def load_send_state_def remove_send_state_def by (rule state_dir_store)

interpretation receive_store: state_store rst_transfer_id save_receive_state "load_receive_state x"
  remove_receive_state dir_view
  unfolding save_receive_state_def load_receive_state_def remove_receive_state_def by (rule state_dir_store)

lemma read_entries_frame: "read_entries fin fs d = (d', r) \<Longrightarrow> dir_view d' = dir_view d"
proof (induction fin fs d arbitrary: d' r rule: read_entries.induct)
  case (2 fin u c fs d)
  obtain f d1 where f: "next_fault d = (f, d1)" by fastforce
  have v: "dir_view d1 = dir_view d" using next_fault_files [OF f] by (simp add: dir_view_def)
  show ?case
  proof (cases f)
    case None
    show ?thesis
    proof (cases c)
      case (Inr st)
      obtain d2 r2 where "read_entries fin fs d1 = (d2, r2)" by fastforce
      with "2.IH" [OF f [symmetric] None Inr] "2.prems" f None Inr v show ?thesis
        by (auto split: sum.splits)
    qed (use "2.prems" f None v in auto)
  qed (use "2.prems" f v in auto)
qed simp

lemma list_incomplete_frame:
  "list_incomplete fin k d = (d', r) \<Longrightarrow> dir_view d' = dir_view d"
  by (auto simp: list_incomplete_def split: if_splits prod.splits option.splits
      dest!: next_fault_files read_entries_frame) (auto simp: dir_view_def)

lemma read_entries_Ok:
  "read_entries fin fs d = (d', Ok sts) \<Longrightarrow>
     sts = filter (\<lambda>s. \<not> fin s) (map (projr \<circ> snd) fs) \<and> list_all (is_ok \<circ> snd) fs"
proof (induction fin fs d arbitrary: d' sts rule: read_entries.induct)
  case (2 fin u c fs d)
  obtain d1 where f: "next_fault d = (None, d1)"
    using "2.prems" by (cases "next_fault d") (auto split: option.splits)
  with "2.prems" obtain st where c: "c = Ok st" by (auto split: sum.splits)
  obtain d2 r2 where r: "read_entries fin fs d1 = (d2, r2)" by fastforce
  with "2.prems" f c obtain ss where ss: "r2 = Ok ss" "sts = (if fin st then ss else st # ss)"
    by (cases r2) auto
  from "2.IH" [OF f [symmetric] refl c] r ss c show ?case by simp
qed simp

section \<open>Closing a send\<close>

definition mark_send_complete :: "ext \<Rightarrow> uuid \<Rightarrow> send_transfer_state state_dir
    \<Rightarrow> send_transfer_state state_dir \<times> (string, unit) result" where
  "mark_send_complete x i d =
     (case load_send_state x i d of
        (d1, Err e) \<Rightarrow> (d1, Err e)
      | (d1, Ok st) \<Rightarrow>
          (case save_send_state (st\<lparr>sst_stage := SendStageComplete, sst_error := None\<rparr>) d1 of
             (d2, Err e) \<Rightarrow> (d2, Err e)
           | (d2, Ok _) \<Rightarrow> remove_send_state i d2))"

definition mark_send_failed :: "ext \<Rightarrow> uuid \<Rightarrow> string \<Rightarrow> send_transfer_state state_dir
    \<Rightarrow> send_transfer_state state_dir \<times> (string, unit) result" where
  "mark_send_failed x i message d =
     (case load_send_state x i d of
        (d1, Err _) \<Rightarrow> (d1, Ok ())
      | (d1, Ok st) \<Rightarrow>
          (fst (save_send_state (st\<lparr>sst_stage := SendStageFailed, sst_error := Some message\<rparr>) d1), Ok ()))"

section \<open>Acknowledgement waiters\<close>

text \<open>
  \<open>register\<close> creates a one-shot channel and a progress channel; a waiter handle names the two
  receivers. \<open>co_acks\<close> holds what was sent on a one-shot channel; a handle with no answer that
  is pending under no transfer has lost its sender, and its receiver sees the channel closed.
\<close>

record coordinator =
  co_pending :: "(uuid \<times> nat) list"
  co_acks :: "nat \<rightharpoonup> (string, unit) result"
  co_progress :: "nat \<Rightarrow> send_progress list"
  co_next :: nat

definition coordinator_new :: coordinator where
  "coordinator_new = \<lparr>co_pending = [], co_acks = (\<lambda>_. None), co_progress = (\<lambda>_. []), co_next = 0\<rparr>"

definition coordinator_register :: "uuid \<Rightarrow> coordinator \<Rightarrow> coordinator \<times> nat" where
  "coordinator_register i c =
     (c\<lparr>co_pending := map_insert i (co_next c) (co_pending c), co_next := Suc (co_next c)\<rparr>, co_next c)"

definition coordinator_complete :: "uuid \<Rightarrow> (string, unit) result \<Rightarrow> coordinator \<Rightarrow> coordinator" where
  "coordinator_complete i r c =
     (case map_of (co_pending c) i of
        Some h \<Rightarrow> c\<lparr>co_pending := AList.delete i (co_pending c), co_acks := (co_acks c)(h \<mapsto> r)\<rparr>
      | None \<Rightarrow> c)"

definition coordinator_cancel :: "uuid \<Rightarrow> coordinator \<Rightarrow> coordinator" where
  "coordinator_cancel i c = coordinator_complete i (Err ''transfer cancelled'') c"

definition coordinator_cancel_all :: "coordinator \<Rightarrow> coordinator" where
  "coordinator_cancel_all c = fold coordinator_cancel (map fst (co_pending c)) c"

definition ack_result :: "send_ack \<Rightarrow> (string, unit) result" where
  "ack_result ack = (if ack_ok ack then Ok ()
     else Err (case ack_error ack of Some e \<Rightarrow> e | None \<Rightarrow> ''receiver reported failure''))"

definition complete_ack :: "send_ack \<Rightarrow> coordinator \<Rightarrow> coordinator" where
  "complete_ack ack c = coordinator_complete (ack_transfer_id ack) (ack_result ack) c"

definition report_progress :: "send_progress \<Rightarrow> coordinator \<Rightarrow> coordinator" where
  "report_progress p c =
     (case map_of (co_pending c) (pr_transfer_id p) of
        None \<Rightarrow> c
      | Some h \<Rightarrow> c\<lparr>co_progress := (co_progress c)(h := co_progress c h @ [p])\<rparr>)"

datatype ack_status = AckWaiting | AckResult "(string, unit) result" | AckClosed

definition ack_poll :: "nat \<Rightarrow> coordinator \<Rightarrow> ack_status" where
  "ack_poll h c = (case co_acks c h of Some r \<Rightarrow> AckResult r
     | None \<Rightarrow> if h \<in> snd ` set (co_pending c) then AckWaiting else AckClosed)"

definition coordinator_inv :: "coordinator \<Rightarrow> bool" where
  "coordinator_inv c \<longleftrightarrow> distinct (map fst (co_pending c)) \<and> distinct (map snd (co_pending c)) \<and>
     (\<forall>h \<in> snd ` set (co_pending c). h < co_next c \<and> co_acks c h = None) \<and>
     (\<forall>h \<in> dom (co_acks c). h < co_next c)"

lemma coordinator_inv_new: "coordinator_inv coordinator_new"
  by (simp add: coordinator_inv_def coordinator_new_def)

lemma snd_map_insert: "set (map snd (map_insert k v m)) \<subseteq> insert v (set (map snd m))"
  unfolding map_insert_def by (induction m) auto

lemma distinct_snd_map_insert:
  "distinct (map snd m) \<Longrightarrow> v \<notin> set (map snd m) \<Longrightarrow> distinct (map snd (map_insert k v m))"
  unfolding map_insert_def
proof (induction m)
  case (Cons p m)
  then show ?case using snd_map_insert [of k v m] by (auto simp: map_insert_def)
qed simp

lemma snd_delete: "set (map snd (AList.delete k m)) \<subseteq> set (map snd m)"
  by (induction m) auto

lemma distinct_snd_delete: "distinct (map snd m) \<Longrightarrow> distinct (map snd (AList.delete k m))"
  by (simp add: AList.delete_eq distinct_map_filter)

lemma snd_delete_gone:
  "distinct (map fst m) \<Longrightarrow> distinct (map snd m) \<Longrightarrow> map_of m k = Some h \<Longrightarrow>
     snd ` set (AList.delete k m) = snd ` set m - {h}"
proof (induction m)
  case (Cons p m)
  show ?case
  proof (cases "fst p = k")
    case True
    with Cons.prems have "k \<notin> fst ` set m" by auto
    then have "AList.delete k m = m" by (metis delete_id)
    with True Cons.prems show ?thesis by auto
  next
    case False
    with Cons.prems have m: "map_of m k = Some h" by auto
    then have "h \<in> snd ` set m" by (force dest: map_of_SomeD)
    then have "snd p \<noteq> h" using Cons.prems(2) by auto
    with False Cons.IH [OF _ _ m] Cons.prems show ?thesis by auto
  qed
qed simp

lemma coordinator_inv_register:
  assumes "coordinator_inv c"
  shows "coordinator_inv (fst (coordinator_register i c))"
proof -
  have "co_next c \<notin> set (map snd (co_pending c))"
    using assms by (fastforce simp: coordinator_inv_def)
  moreover have "co_acks c (co_next c) = None" using assms by (fastforce simp: coordinator_inv_def)
  ultimately show ?thesis
    using assms snd_map_insert [of i "co_next c" "co_pending c"]
    by (fastforce simp: coordinator_inv_def coordinator_register_def distinct_snd_map_insert less_Suc_eq)
qed

lemma coordinator_inv_complete:
  assumes "coordinator_inv c"
  shows "coordinator_inv (coordinator_complete i r c)"
proof (cases "map_of (co_pending c) i")
  case None
  with assms show ?thesis by (simp add: coordinator_complete_def)
next
  case (Some h)
  then have "(i, h) \<in> set (co_pending c)" by (rule map_of_SomeD)
  then have "h < co_next c" using assms by (force simp: coordinator_inv_def)
  with assms Some show ?thesis
    by (auto simp: coordinator_inv_def coordinator_complete_def distinct_delete distinct_snd_delete
        snd_delete_gone)
qed

lemma coordinator_inv_cancel_all: "coordinator_inv c \<Longrightarrow> coordinator_inv (coordinator_cancel_all c)"
proof -
  assume inv: "coordinator_inv c"
  have "coordinator_inv (fold coordinator_cancel js c)" for js
    using inv by (induction js arbitrary: c) (auto simp: coordinator_cancel_def coordinator_inv_complete)
  then show ?thesis by (simp add: coordinator_cancel_all_def)
qed

lemma coordinator_inv_progress: "coordinator_inv c \<Longrightarrow> coordinator_inv (report_progress p c)"
  by (simp add: coordinator_inv_def report_progress_def split: option.split)

lemma complete_keeps_acks:
  assumes "coordinator_inv c" "co_acks c h = Some r"
  shows "co_acks (coordinator_complete i r' c) h = Some r"
proof (cases "map_of (co_pending c) i")
  case (Some k)
  then have "co_acks c k = None" using assms(1) by (force simp: coordinator_inv_def dest: map_of_SomeD)
  with assms(2) Some show ?thesis by (auto simp: coordinator_complete_def)
qed (simp add: coordinator_complete_def assms)

lemma cancels_keep_acks:
  "coordinator_inv c \<Longrightarrow> co_acks c h = Some r \<Longrightarrow> co_acks (fold coordinator_cancel js c) h = Some r"
  by (induction js arbitrary: c)
    (auto simp: coordinator_cancel_def coordinator_inv_complete complete_keeps_acks)

lemma cancels_pending:
  "map_of (co_pending (fold coordinator_cancel js c)) j =
     (if j \<in> set js then None else map_of (co_pending c) j)"
proof (induction js arbitrary: c)
  case (Cons i js)
  show ?case unfolding fold_simps comp_def Cons.IH
    by (auto simp: coordinator_cancel_def coordinator_complete_def delete_conv' split: option.splits)
qed simp

lemma cancel_all_pending: "co_pending (coordinator_cancel_all c) = []"
proof -
  have "map_of (co_pending (coordinator_cancel_all c)) j = None" for j
    by (simp add: coordinator_cancel_all_def cancels_pending map_of_eq_None_iff)
  then show ?thesis by (metis list.set_intros(1) neq_Nil_conv option.distinct(1) weak_map_of_SomeI surj_pair)
qed

section \<open>Cancelling everything\<close>

fun cancel_each_send :: "send_transfer_state list \<Rightarrow> coordinator \<Rightarrow> send_transfer_state state_dir
    \<Rightarrow> coordinator \<times> send_transfer_state state_dir \<times> (string, unit) result" where
  "cancel_each_send [] c d = (c, d, Ok ())"
| "cancel_each_send (st # sts) c d =
     (let c1 = coordinator_cancel (sst_transfer_id st) c in
      case remove_send_state (sst_transfer_id st) d of
        (d1, Err e) \<Rightarrow> (c1, d1, Err e)
      | (d1, Ok _) \<Rightarrow> cancel_each_send sts c1 d1)"

definition cancel_all_incomplete_sends :: "coordinator \<Rightarrow> send_transfer_state state_dir
    \<Rightarrow> coordinator \<times> send_transfer_state state_dir \<times> (string, nat) result" where
  "cancel_all_incomplete_sends c d =
     (case list_incomplete_sends d of
        (d1, Err e) \<Rightarrow> (c, d1, Err e)
      | (d1, Ok states) \<Rightarrow>
          (case cancel_each_send states c d1 of
             (c2, d2, Err e) \<Rightarrow> (c2, d2, Err e)
           | (c2, d2, Ok _) \<Rightarrow> (coordinator_cancel_all c2, d2, Ok (length states))))"

fun remove_each_receive :: "receive_transfer_state list \<Rightarrow> receive_transfer_state state_dir
    \<Rightarrow> receive_transfer_state state_dir \<times> (string, unit) result" where
  "remove_each_receive [] d = (d, Ok ())"
| "remove_each_receive (st # sts) d =
     (case remove_receive_state (rst_transfer_id st) d of
        (d1, Err e) \<Rightarrow> (d1, Err e)
      | (d1, Ok _) \<Rightarrow> remove_each_receive sts d1)"

definition cancel_all_incomplete_receives :: "receive_transfer_state state_dir
    \<Rightarrow> receive_transfer_state state_dir \<times> (string, nat) result" where
  "cancel_all_incomplete_receives d =
     (case list_incomplete_receives d of
        (d1, Err e) \<Rightarrow> (d1, Err e)
      | (d1, Ok states) \<Rightarrow>
          (case remove_each_receive states d1 of
             (d2, Err e) \<Rightarrow> (d2, Err e)
           | (d2, Ok _) \<Rightarrow> (d2, Ok (length states))))"

section \<open>Properties\<close>

inductive coordinator_step :: "coordinator \<Rightarrow> coordinator \<Rightarrow> bool" where
  cs_register: "coordinator_step c (fst (coordinator_register i c))"
| cs_complete: "coordinator_step c (coordinator_complete i r c)"
| cs_ack: "coordinator_step c (complete_ack a c)"
| cs_cancel: "coordinator_step c (coordinator_cancel i c)"
| cs_cancel_all: "coordinator_step c (coordinator_cancel_all c)"
| cs_progress: "coordinator_step c (report_progress p c)"

lemma coordinator_inv_step: "coordinator_step c c' \<Longrightarrow> coordinator_inv c \<Longrightarrow> coordinator_inv c'"
  by (induction rule: coordinator_step.induct)
    (simp_all add: coordinator_inv_register coordinator_inv_complete complete_ack_def
      coordinator_cancel_def coordinator_inv_cancel_all coordinator_inv_progress)

lemma acks_step:
  "coordinator_step c c' \<Longrightarrow> coordinator_inv c \<Longrightarrow> co_acks c h = Some r \<Longrightarrow> co_acks c' h = Some r"
  by (induction rule: coordinator_step.induct)
    (simp_all add: coordinator_register_def complete_keeps_acks complete_ack_def coordinator_cancel_def
      coordinator_cancel_all_def cancels_keep_acks report_progress_def split: option.split)

lemma coordinator_inv_steps: "coordinator_step\<^sup>*\<^sup>* c c' \<Longrightarrow> coordinator_inv c \<Longrightarrow> coordinator_inv c'"
  by (induction rule: rtranclp_induct) (auto intro: coordinator_inv_step)

text \<open>
  C12. The first answer a send's waiter gets is the one it keeps: whatever registrations,
  acknowledgements, duplicates, progress reports and cancellations follow, in any order, the
  waiter's result does not change.
\<close>

theorem first_answer_wins:
  assumes "coordinator_step\<^sup>*\<^sup>* coordinator_new c" "ack_poll h c = AckResult r"
    and "coordinator_step\<^sup>*\<^sup>* c c'"
  shows "ack_poll h c' = AckResult r"
proof -
  have inv: "coordinator_inv c" using assms(1) coordinator_inv_steps coordinator_inv_new by blast
  have "co_acks c h = Some r" using assms(2) by (auto simp: ack_poll_def split: option.splits if_splits)
  with assms(3) inv have "co_acks c' h = Some r \<and> coordinator_inv c'"
    by (induction rule: rtranclp_induct) (auto intro: acks_step coordinator_inv_step)
  then show ?thesis by (simp add: ack_poll_def)
qed

definition sample_waiting :: coordinator where
  "sample_waiting = fst (coordinator_register 77 coordinator_new)"

lemma first_answer_wins_witness:
  "ack_poll 0 (coordinator_complete 77 (Ok ()) (coordinator_cancel 77 sample_waiting)) =
     AckResult (Err ''transfer cancelled'')"
proof (rule first_answer_wins)
  show "coordinator_step\<^sup>*\<^sup>* coordinator_new (coordinator_cancel 77 sample_waiting)"
  proof -
    have "coordinator_step coordinator_new sample_waiting"
      unfolding sample_waiting_def by (rule cs_register)
    moreover have "coordinator_step sample_waiting (coordinator_cancel 77 sample_waiting)"
      by (rule cs_cancel)
    ultimately show ?thesis by (meson converse_rtranclp_into_rtranclp r_into_rtranclp)
  qed
  show "ack_poll 0 (coordinator_cancel 77 sample_waiting) = AckResult (Err ''transfer cancelled'')"
    by (simp add: ack_poll_def coordinator_cancel_def coordinator_complete_def sample_waiting_def
        coordinator_register_def coordinator_new_def map_insert_def)
  show "coordinator_step\<^sup>*\<^sup>* (coordinator_cancel 77 sample_waiting)
      (coordinator_complete 77 (Ok ()) (coordinator_cancel 77 sample_waiting))"
    by (rule r_into_rtranclp) (rule cs_complete)
qed

lemma cancel_each_send_Ok:
  "cancel_each_send sts c d = (c', d', Ok ()) \<Longrightarrow>
     dir_view d' = (\<lambda>i. if i \<in> sst_transfer_id ` set sts then None else dir_view d i) \<and>
     c' = fold coordinator_cancel (map sst_transfer_id sts) c"
proof (induction sts c d rule: cancel_each_send.induct)
  case (2 st sts c d)
  obtain d1 r where r: "remove_send_state (sst_transfer_id st) d = (d1, r)" by fastforce
  with "2.prems" obtain u where u: "r = Ok u" by (cases r) (auto simp: Let_def)
  then have "dir_view d1 = (dir_view d)(sst_transfer_id st := None)"
    using send_store.remove_Ok r by auto
  with "2.IH" [OF refl r [symmetric] u] "2.prems" r u show ?case by (auto simp: Let_def)
qed auto

lemma cancelled_ack:
  "coordinator_inv c \<Longrightarrow> map_of (co_pending c) i = Some h \<Longrightarrow> i \<in> set js \<Longrightarrow>
     co_acks (fold coordinator_cancel js c) h = Some (Err ''transfer cancelled'')"
proof (induction js arbitrary: c)
  case (Cons j js)
  show ?case
  proof (cases "j = i")
    case True
    have inv: "coordinator_inv (coordinator_cancel i c)"
      using Cons.prems by (simp add: coordinator_cancel_def coordinator_inv_complete)
    have "co_acks (coordinator_cancel i c) h = Some (Err ''transfer cancelled'')"
      using Cons.prems by (simp add: coordinator_cancel_def coordinator_complete_def)
    from cancels_keep_acks [OF inv this] True show ?thesis by simp
  next
    case False
    have inv: "coordinator_inv (coordinator_cancel j c)"
      using Cons.prems by (simp add: coordinator_cancel_def coordinator_inv_complete)
    have "map_of (co_pending (coordinator_cancel j c)) i = Some h"
      using Cons.prems False
      by (simp add: coordinator_cancel_def coordinator_complete_def delete_conv' split: option.split)
    from Cons.IH [OF inv this] Cons.prems False show ?thesis by simp
  qed
qed simp

text \<open>
  C13. When \<open>cancel_all_incomplete_sends\<close> succeeds, every waiter that was pending has been told
  "transfer cancelled", none is left, every incomplete send's state file is gone and the files
  of completed sends are untouched; the count is the number of incomplete sends.
\<close>

theorem cancel_all_sends_complete:
  assumes "coordinator_inv c" "cancel_all_incomplete_sends c d = (c', d', Ok n)"
  shows "co_pending c' = [] \<and>
    (\<forall>i h. map_of (co_pending c) i = Some h \<longrightarrow> ack_poll h c' = AckResult (Err ''transfer cancelled'')) \<and>
    (\<exists>states. snd (list_incomplete_sends d) = Ok states \<and> n = length states \<and>
       (\<forall>i. dir_view d' i = (if i \<in> sst_transfer_id ` set states then None else dir_view d i)))"
proof -
  obtain d1 r1 where l: "list_incomplete_sends d = (d1, r1)" by fastforce
  with assms(2) obtain states where states: "r1 = Ok states"
    by (cases r1) (auto simp: cancel_all_incomplete_sends_def)
  obtain c2 d2 r2 where e: "cancel_each_send states c d1 = (c2, d2, r2)" by (metis prod_cases3)
  with assms(2) l states obtain u where r2: "r2 = Ok u"
    by (cases r2) (auto simp: cancel_all_incomplete_sends_def)
  with assms(2) l states e have res: "c' = coordinator_cancel_all c2" "d' = d2" "n = length states"
    by (auto simp: cancel_all_incomplete_sends_def)
  have each: "dir_view d2 = (\<lambda>i. if i \<in> sst_transfer_id ` set states then None else dir_view d1 i)"
    "c2 = fold coordinator_cancel (map sst_transfer_id states) c"
    using cancel_each_send_Ok [of states c d1 c2 d2] e r2 by auto
  have v: "dir_view d1 = dir_view d"
    using list_incomplete_frame l by (auto simp: list_incomplete_sends_def)
  let ?js = "map sst_transfer_id states @ map fst (co_pending c2)"
  have c': "c' = fold coordinator_cancel ?js c"
    by (simp add: res coordinator_cancel_all_def flip: each(2))
  have "ack_poll h c' = AckResult (Err ''transfer cancelled'')" if "map_of (co_pending c) i = Some h" for i h
  proof -
    have "i \<in> set ?js"
    proof (rule ccontr)
      assume "i \<notin> set ?js"
      then have "map_of (co_pending c2) i = None" by (simp add: map_of_eq_None_iff)
      then show False
        using \<open>i \<notin> set ?js\<close> that by (simp add: each(2) cancels_pending split: if_splits)
    qed
    from cancelled_ack [OF assms(1) that this] show ?thesis by (simp add: c' ack_poll_def)
  qed
  then show ?thesis using each(1) v l states res cancel_all_pending [of c2] by auto
qed

definition sample_send_state :: send_transfer_state where
  "sample_send_state = \<lparr>sst_transfer_id = 77, sst_target = DeviceId 2, sst_paths = [],
     sst_stage = WaitingAck, sst_collection_hash = Some ''abc'', sst_entries = [],
     sst_bytes_done = 0, sst_bytes_total = 12, sst_error = None\<rparr>"

definition sample_send_dir :: "send_transfer_state state_dir" where
  "sample_send_dir = \<lparr>sd_available = True, sd_files = [(77, Ok sample_send_state)], sd_faults = []\<rparr>"

lemma cancel_all_sends_complete_witness:
  "\<exists>c' d'. cancel_all_incomplete_sends sample_waiting sample_send_dir = (c', d', Ok 1) \<and>
     ack_poll 0 c' = AckResult (Err ''transfer cancelled'') \<and> co_pending c' = []"
proof -
  have inv: "coordinator_inv sample_waiting"
    unfolding sample_waiting_def by (intro coordinator_inv_register coordinator_inv_new)
  have p: "map_of (co_pending sample_waiting) 77 = Some 0"
    by (simp add: sample_waiting_def coordinator_register_def coordinator_new_def)
  have "snd (snd (cancel_all_incomplete_sends sample_waiting sample_send_dir)) = Ok 1"
    by (simp add: cancel_all_incomplete_sends_def list_incomplete_sends_def list_incomplete_def
        sample_send_dir_def sample_send_state_def next_fault_def remove_send_state_def remove_state_def
        Let_def)
  then obtain c' d' where r: "cancel_all_incomplete_sends sample_waiting sample_send_dir = (c', d', Ok 1)"
    by (metis prod.collapse)
  from cancel_all_sends_complete [OF inv r] p r show ?thesis by blast
qed

text \<open>
  A send that succeeded leaves no state file behind; a send that failed leaves its state file
  with the stage \<open>Failed\<close>, the message and everything a resume needs unchanged (when the save
  succeeds), and no other transfer's file is touched by either.
\<close>

lemma send_state_after_end:
  shows "mark_send_complete x i d = (d', Ok ()) \<Longrightarrow> dir_view d' = (dir_view d)(i := None) \<or>
      (\<exists>st. dir_view d i = Some (Ok st) \<and> sst_transfer_id st \<noteq> i)"
    and "mark_send_failed x i m d = (d', r) \<Longrightarrow> dir_view d i = Some (Ok st) \<Longrightarrow> sst_transfer_id st = i \<Longrightarrow>
      dir_view d' = dir_view d \<or>
      dir_view d' = (dir_view d)(i \<mapsto> Ok (st\<lparr>sst_stage := SendStageFailed, sst_error := Some m\<rparr>))"
proof -
  assume "mark_send_complete x i d = (d', Ok ())"
  then obtain st d1 d2 where l: "load_send_state x i d = (d1, Ok st)"
    and s: "save_send_state (st\<lparr>sst_stage := SendStageComplete, sst_error := None\<rparr>) d1 = (d2, Ok ())"
    and r: "remove_send_state i d2 = (d', Ok ())"
    by (auto simp: mark_send_complete_def split: prod.splits sum.splits)
  have "dir_view d i = Some (Ok st)" "dir_view d1 = dir_view d"
    using send_store.load_Ok [OF l] send_store.load_frame [OF l] by simp_all
  moreover have "dir_view d' = (dir_view d2)(i := None)" using send_store.remove_Ok [OF r] .
  moreover have "dir_view d2 = (dir_view d1)(sst_transfer_id st \<mapsto> Ok (st\<lparr>sst_stage := SendStageComplete, sst_error := None\<rparr>))"
    using send_store.save_Ok [OF s] by simp
  ultimately show "dir_view d' = (dir_view d)(i := None) \<or>
      (\<exists>st. dir_view d i = Some (Ok st) \<and> sst_transfer_id st \<noteq> i)" by (cases "sst_transfer_id st = i") auto
next
  assume m: "mark_send_failed x i m d = (d', r)" and v: "dir_view d i = Some (Ok st)"
    and k: "sst_transfer_id st = i"
  obtain d1 r1 where l: "load_send_state x i d = (d1, r1)" by fastforce
  have v1: "dir_view d1 = dir_view d" using send_store.load_frame [OF l] .
  show "dir_view d' = dir_view d \<or>
      dir_view d' = (dir_view d)(i \<mapsto> Ok (st\<lparr>sst_stage := SendStageFailed, sst_error := Some m\<rparr>))"
  proof (cases r1)
    case (Inl e)
    then show ?thesis using m l v1 by (auto simp: mark_send_failed_def)
  next
    case (Inr st')
    then have "st' = st" using send_store.load_Ok l v by fastforce
    moreover obtain d2 r2 where s: "save_send_state (st\<lparr>sst_stage := SendStageFailed, sst_error := Some m\<rparr>) d1 = (d2, r2)"
      by fastforce
    ultimately have "d' = d2" using m l Inr by (simp add: mark_send_failed_def)
    then show ?thesis using send_store.save_Ok send_store.save_Err s v1 k by (cases r2) fastforce+
  qed
qed

end
