(* ===== verification/Send_Feature.thy ===== *)
theory Send_Feature
  imports Transfers Blobs
begin

text \<open>
  The receiving side of file transfers (\<open>failsafe-send/src/feature.rs\<close>, \<open>inbound.rs\<close>,
  \<open>resume.rs\<close>): the message handler of the feature, the assembly of chunked manifests, the
  handler task of one transfer and the resumption of incomplete receives. Spawned tasks are
  entries of the state (\<open>sn_spawned\<close>, \<open>sn_timeouts\<close>) that separate steps run.
\<close>

section \<open>Where received files go\<close>

text \<open>
  A byte of a character that is not ASCII: the first byte of the character becomes the
  underscore, the continuation bytes vanish with it.
\<close>

definition sanitize_char :: "char \<Rightarrow> string" where
  "sanitize_char c =
     (if is_ascii_alphanumeric c \<or> c = CHR ''-'' \<or> c = CHR ''_'' then [c]
      else if 128 \<le> byte_of c \<and> byte_of c < 192 then []
      else ''_'')"

definition sanitize_path_component :: "string \<Rightarrow> string" where
  "sanitize_path_component v =
     (let t = trim v in if t = [] then ''device'' else concat (map sanitize_char t))"

definition receive_dir :: "ext \<Rightarrow> path option \<Rightarrow> string \<Rightarrow> string \<Rightarrow> uuid \<Rightarrow> path option" where
  "receive_dir x downloads timestamp sender_name transfer_id =
     (case downloads of None \<Rightarrow> None
      | Some base \<Rightarrow> Some (base @ [sanitize_path_component sender_name,
          timestamp @ ''-'' @ take 8 (uuid_display x transfer_id)]))"

definition receive_state_from_payload :: "device_id \<Rightarrow> send_payload \<Rightarrow> receive_transfer_state" where
  "receive_state_from_payload sender payload =
     \<lparr>rst_transfer_id = pl_transfer_id payload, rst_sender = sender,
      rst_sender_name = pl_sender_name payload, rst_stage = Downloading,
      rst_collection_hash = pl_collection_hash payload, rst_entries = pl_entries payload,
      rst_receive_dir = None, rst_bytes_done = 0,
      rst_bytes_total = sum_u64 (map fe_size (pl_entries payload)), rst_error = None\<rparr>"

section \<open>The world of a receive\<close>

text \<open>
  \<open>rc_keep\<close> says which of the progress messages find room in the bounded channel to the
  forwarding task; \<open>rc_timestamp\<close> is the local time of the receive.
\<close>

record recv_config =
  rc_limits :: clipboard_limits
  rc_downloads :: "path option"
  rc_timestamp :: string
  rc_keep :: "nat \<Rightarrow> bool"

record ('t, 'b) recv_world =
  rw_transport :: 't
  rw_blobs :: 'b
  rw_states :: "receive_transfer_state state_dir"
  rw_notified :: "(string \<times> nat \<times> path) list"

definition show_path :: "path \<Rightarrow> string" where "show_path p = concat (map (\<lambda>c. ''/'' @ c) p)"

definition read_path :: "string \<Rightarrow> path" where "read_path s = path_components s"

definition send_envelope_to :: "'t transport_ops \<Rightarrow> (send_envelope \<Rightarrow> u8 list) \<Rightarrow> device_id
    \<Rightarrow> send_envelope \<Rightarrow> ('t, 'b) recv_world \<Rightarrow> ('t, 'b) recv_world \<times> (transport_error, unit) result" where
  "send_envelope_to tops senv to e w =
     (let m = feature_message_new (tr_local_device_id tops (rw_transport w)) to send_id (senv e) in
      case tr_send tops m (rw_transport w) of (t', r) \<Rightarrow> (w\<lparr>rw_transport := t'\<rparr>, r))"

definition send_ack_to :: "ext \<Rightarrow> 't transport_ops \<Rightarrow> (send_envelope \<Rightarrow> u8 list) \<Rightarrow> device_id \<Rightarrow> send_ack
    \<Rightarrow> ('t, 'b) recv_world \<Rightarrow> ('t, 'b) recv_world \<times> (feature_error, unit) result" where
  "send_ack_to x tops senv to ack w =
     (case send_envelope_to tops senv to (Ack ack) w of
        (w', r) \<Rightarrow> (w', map_err (\<lambda>e. Failed send_id (transport_error_display x e)) r))"

text \<open>The progress task: forwards in order and stops at the first failure.\<close>

fun forward_progress :: "'t transport_ops \<Rightarrow> (send_envelope \<Rightarrow> u8 list) \<Rightarrow> device_id \<Rightarrow> send_progress list
    \<Rightarrow> ('t, 'b) recv_world \<Rightarrow> ('t, 'b) recv_world" where
  "forward_progress tops senv to [] w = w"
| "forward_progress tops senv to (p # ps) w =
     (case send_envelope_to tops senv to (Progress p) w of
        (w', Ok _) \<Rightarrow> forward_progress tops senv to ps w'
      | (w', Err _) \<Rightarrow> w')"

definition kept :: "(nat \<Rightarrow> bool) \<Rightarrow> 'a list \<Rightarrow> 'a list" where
  "kept keep xs = map snd (filter (\<lambda>(i, _). keep i) (enumerate 0 xs))"

definition progress_of :: "uuid \<Rightarrow> send_phase \<Rightarrow> u64 \<Rightarrow> u64 \<Rightarrow> string option \<Rightarrow> send_progress" where
  "progress_of tid phase done total_bytes current =
     \<lparr>pr_transfer_id = tid, pr_phase = phase, pr_bytes_done = done, pr_bytes_total = total_bytes,
      pr_current_file = current\<rparr>"

section \<open>Running a receive\<close>

text \<open>
  The body of \<open>run_receive\<close>, returning the progress it emitted beside the result; the wrapper
  hands it to the forwarding task.
\<close>

definition receive_body :: "ext \<Rightarrow> 'b blob_ops \<Rightarrow> recv_config \<Rightarrow> receive_transfer_state
    \<Rightarrow> ('t, 'b) recv_world
    \<Rightarrow> ('t, 'b) recv_world \<times> receive_transfer_state \<times> send_progress list \<times> (string, unit) result" where
  "receive_body x bops cfg st w =
     (case validate_entries (rc_limits cfg) (map (\<lambda>e. (fe_name e, fe_size e)) (rst_entries st)) of
        Err e \<Rightarrow> (w, st, [], Err e)
      | Ok _ \<Rightarrow>
     (let st1 = st\<lparr>rst_stage := Downloading\<rparr>;
          tid = rst_transfer_id st; total_bytes = rst_bytes_total st;
          root = rst_collection_hash st in
      case save_receive_state st1 (rw_states w) of
        (d1, Err e) \<Rightarrow> (w\<lparr>rw_states := d1\<rparr>, st1, [], Err e)
      | (d1, Ok _) \<Rightarrow>
     (let start = progress_of tid WaitingForAck (rst_bytes_done st1) total_bytes None in
      case bt_download_collection bops (rst_sender st1) root total_bytes (rw_blobs w) of
        (b1, ps, r) \<Rightarrow>
     (let w1 = w\<lparr>rw_states := d1, rw_blobs := b1\<rparr>;
          st2 = (if ps = [] then st1 else st1\<lparr>rst_bytes_done := bp_bytes_done (last ps)\<rparr>);
          pr1 = start # map (\<lambda>p. progress_of tid WaitingForAck (bp_bytes_done p) (bp_bytes_total p)
                  (bp_current_file p)) ps in
      case r of
        Err e \<Rightarrow> (w1, st2, pr1, Err (blob_error_display e))
      | Ok _ \<Rightarrow>
     (let st3 = st2\<lparr>rst_stage := Exporting, rst_bytes_done := total_bytes\<rparr> in
      case save_receive_state st3 (rw_states w1) of
        (d2, Err e) \<Rightarrow> (w1\<lparr>rw_states := d2\<rparr>, st3, pr1, Err e)
      | (d2, Ok _) \<Rightarrow>
     (let w2 = w1\<lparr>rw_states := d2\<rparr> in
      case (case rst_receive_dir st3 of Some s \<Rightarrow> Some (read_path s)
            | None \<Rightarrow> receive_dir x (rc_downloads cfg) (rc_timestamp cfg) (rst_sender_name st3) tid) of
        None \<Rightarrow> (w2, st3, pr1, Err ''downloads directory unavailable'')
      | Some dir \<Rightarrow>
     (let st4 = st3\<lparr>rst_receive_dir := Some (show_path dir)\<rparr> in
      case bt_export_collection bops root dir (rw_blobs w2) of
        (b2, qs, r2) \<Rightarrow>
     (let w3 = w2\<lparr>rw_blobs := b2\<rparr>;
          pr2 = pr1 @ map (\<lambda>q. progress_of tid Storing total_bytes total_bytes (bp_current_file q)) qs in
      case r2 of
        Err e \<Rightarrow> (w3, st4, pr2, Err (blob_error_display e))
      | Ok paths \<Rightarrow>
     (let pr3 = pr2 @ [progress_of tid Storing total_bytes total_bytes None];
          st5 = st4\<lparr>rst_stage := ReceiveComplete, rst_bytes_done := total_bytes\<rparr> in
      case save_receive_state st5 (rw_states w3) of
        (d3, Err e) \<Rightarrow> (w3\<lparr>rw_states := d3\<rparr>, st5, pr3, Err e)
      | (d3, Ok _) \<Rightarrow>
          (w3\<lparr>rw_states := d3,
             rw_notified := rw_notified w3 @ [(rst_sender_name st5, length paths, dir)]\<rparr>,
           st5, pr3, Ok ()))))))))))"

definition run_receive :: "ext \<Rightarrow> 't transport_ops \<Rightarrow> 'b blob_ops \<Rightarrow> (send_envelope \<Rightarrow> u8 list)
    \<Rightarrow> recv_config \<Rightarrow> receive_transfer_state \<Rightarrow> ('t, 'b) recv_world
    \<Rightarrow> ('t, 'b) recv_world \<times> (string, unit) result" where
  "run_receive x tops bops senv cfg st w =
     (case receive_body x bops cfg st w of
        (w', st', ps, r) \<Rightarrow> (forward_progress tops senv (rst_sender st) (kept (rc_keep cfg) ps) w', r))"

section \<open>The handler of one transfer\<close>

definition handle_transfer_locked :: "ext \<Rightarrow> 't transport_ops \<Rightarrow> 'b blob_ops \<Rightarrow> (send_envelope \<Rightarrow> u8 list)
    \<Rightarrow> recv_config \<Rightarrow> device_id \<Rightarrow> send_payload \<Rightarrow> ('t, 'b) recv_world
    \<Rightarrow> ('t, 'b) recv_world \<times> (feature_error, unit) result" where
  "handle_transfer_locked x tops bops senv cfg src payload w =
     (let tid = pl_transfer_id payload;
          ack = (\<lambda>ok err. \<lparr>ack_transfer_id = tid, ack_ok = ok, ack_error = err\<rparr>);
          acknowledge = (\<lambda>w. case send_ack_to x tops senv src (ack True None) w of
            (w', Err e) \<Rightarrow> (w', Err e)
          | (w', Ok _) \<Rightarrow> (w'\<lparr>rw_states := fst (remove_receive_state tid (rw_states w'))\<rparr>, Ok ())) in
      if pl_version payload \<noteq> SEND_PAYLOAD_VERSION then
        (w, Err (Failed send_id (''unsupported send payload version '' @
           show_nat (unat (pl_version payload)) @ '' (expected '' @ show_nat (unat SEND_PAYLOAD_VERSION) @ '')'')))
      else
       (case load_receive_state x tid (rw_states w) of
          (d0, loaded) \<Rightarrow>
       (let w0 = w\<lparr>rw_states := d0\<rparr>;
            st = (case loaded of Ok saved \<Rightarrow> saved | Err _ \<Rightarrow> receive_state_from_payload src payload) in
        if rst_stage st = ReceiveComplete then acknowledge w0
        else
         (let st1 = st\<lparr>rst_sender := src, rst_sender_name := pl_sender_name payload,
                rst_collection_hash := pl_collection_hash payload, rst_entries := pl_entries payload,
                rst_bytes_total := sum_u64 (map fe_size (pl_entries payload))\<rparr> in
          case run_receive x tops bops senv cfg st1 w0 of
            (w1, Ok _) \<Rightarrow> acknowledge w1
          | (w1, Err message) \<Rightarrow>
              (let w2 = (case load_receive_state x tid (rw_states w1) of
                     (d1, Err _) \<Rightarrow> w1\<lparr>rw_states := d1\<rparr>
                   | (d1, Ok saved) \<Rightarrow> w1\<lparr>rw_states := fst (save_receive_state
                       (saved\<lparr>rst_stage := ReceiveFailed, rst_error := Some message\<rparr>) d1)\<rparr>);
                   w3 = fst (send_ack_to x tops senv src (ack False (Some message)) w2) in
               (w3, Err (Failed send_id message)))))))"

section \<open>The feature's state and its message handler\<close>

record send_node =
  sn_coordinator :: coordinator
  sn_pending :: "uuid \<rightharpoonup> chunked_transfer"
  sn_locks :: "uuid \<rightharpoonup> nat"
  sn_spawned :: "(device_id \<times> send_payload) list"
  sn_timeouts :: "(device_id \<times> uuid) list"

definition send_node_new :: "coordinator \<Rightarrow> send_node" where
  "send_node_new c = \<lparr>sn_coordinator = c, sn_pending = (\<lambda>_. None), sn_locks = (\<lambda>_. None),
     sn_spawned = [], sn_timeouts = []\<rparr>"

definition spawn_transfer_handler :: "device_id \<Rightarrow> send_payload \<Rightarrow> send_node \<Rightarrow> send_node" where
  "spawn_transfer_handler src payload s = s\<lparr>sn_spawned := sn_spawned s @ [(src, payload)]\<rparr>"

definition try_finalize_chunked_transfer :: "ext \<Rightarrow> device_id \<Rightarrow> uuid \<Rightarrow> send_node
    \<Rightarrow> send_node \<times> (feature_error, bool) result" where
  "try_finalize_chunked_transfer x src tid s =
     (case sn_pending s tid of
        None \<Rightarrow> (s, Ok False)
      | Some t \<Rightarrow>
          if \<not> is_complete t then (s, Ok False)
          else
           (let s' = s\<lparr>sn_pending := (sn_pending s)(tid := None)\<rparr> in
            case into_payload x t of
              Err e \<Rightarrow> (s', Err (Failed send_id e))
            | Ok payload \<Rightarrow> (spawn_transfer_handler src payload s', Ok True)))"

definition spawn_incomplete_chunk_timeout :: "device_id \<Rightarrow> uuid \<Rightarrow> send_node \<Rightarrow> send_node" where
  "spawn_incomplete_chunk_timeout src tid s = s\<lparr>sn_timeouts := sn_timeouts s @ [(src, tid)]\<rparr>"

text \<open>What the timeout task does after its 60 seconds: it takes the transfer out, complete or not.\<close>

definition incomplete_chunk_timeout :: "uuid \<Rightarrow> send_node \<Rightarrow> send_node" where
  "incomplete_chunk_timeout tid s = s\<lparr>sn_pending := (sn_pending s)(tid := None)\<rparr>"

definition unknown_transfer :: "ext \<Rightarrow> string \<Rightarrow> uuid \<Rightarrow> feature_error" where
  "unknown_transfer x what tid = Failed send_id
     (''received transfer '' @ what @ '' for unknown transfer '' @ uuid_display x tid)"

definition handle_envelope :: "ext \<Rightarrow> device_id \<Rightarrow> send_envelope \<Rightarrow> send_node
    \<Rightarrow> send_node \<times> (feature_error, unit) result" where
  "handle_envelope x src e s =
     (case e of
        Transfer payload \<Rightarrow> (spawn_transfer_handler src payload s, Ok ())
      | TransferHeader header \<Rightarrow>
          (s\<lparr>sn_pending := (sn_pending s)(th_transfer_id header \<mapsto> chunked_new header)\<rparr>, Ok ())
      | TransferChunk chunk \<Rightarrow>
          (let tid = tc_transfer_id chunk in
           case sn_pending s tid of
             None \<Rightarrow> (s, Err (unknown_transfer x ''chunk'' tid))
           | Some t \<Rightarrow>
               (let t' = push_chunk (tc_chunk_index chunk) (tc_entries chunk) t;
                    s' = s\<lparr>sn_pending := (sn_pending s)(tid \<mapsto> t')\<rparr> in
                case try_finalize_chunked_transfer x src tid s' of (s'', r) \<Rightarrow> (s'', map_ok (\<lambda>_. ()) r)))
      | TransferEnd end_marker \<Rightarrow>
          (let tid = te_transfer_id end_marker in
           case sn_pending s tid of
             None \<Rightarrow> (s, Err (unknown_transfer x ''end'' tid))
           | Some t \<Rightarrow>
               (let t' = mark_end (te_chunk_count end_marker) t;
                    s' = s\<lparr>sn_pending := (sn_pending s)(tid \<mapsto> t')\<rparr> in
                case try_finalize_chunked_transfer x src tid s' of
                  (s'', Err er) \<Rightarrow> (s'', Err er)
                | (s'', Ok True) \<Rightarrow> (s'', Ok ())
                | (s'', Ok False) \<Rightarrow> (spawn_incomplete_chunk_timeout src tid s'', Ok ())))
      | Ack ack \<Rightarrow>
          (s\<lparr>sn_coordinator := coordinator_complete (ack_transfer_id ack) (ack_result ack) (sn_coordinator s)\<rparr>,
           Ok ())
      | Progress progress \<Rightarrow>
          (s\<lparr>sn_coordinator := report_progress progress (sn_coordinator s)\<rparr>, Ok ()))"

definition send_handle_message :: "ext \<Rightarrow> (u8 list \<Rightarrow> (string, send_envelope) result) \<Rightarrow> feature_message
    \<Rightarrow> send_node \<Rightarrow> send_node \<times> (feature_error, unit) result" where
  "send_handle_message x denv message s =
     (case decode_envelope denv (fm_payload message) of
        Err e \<Rightarrow> (s, Err e)
      | Ok e \<Rightarrow> handle_envelope x (fm_from message) e s)"

text \<open>
  The per-transfer lock table of \<open>handle_transfer\<close>: the number of tasks holding a clone of the
  lock. The last one to finish removes the entry (\<open>strong_count == 2\<close>: the table's and its own).
\<close>

definition acquire_lock :: "uuid \<Rightarrow> send_node \<Rightarrow> send_node" where
  "acquire_lock tid s = s\<lparr>sn_locks := (sn_locks s)(tid \<mapsto>
     (case sn_locks s tid of None \<Rightarrow> 1 | Some n \<Rightarrow> Suc n))\<rparr>"

definition release_lock :: "uuid \<Rightarrow> send_node \<Rightarrow> send_node" where
  "release_lock tid s = (case sn_locks s tid of
     None \<Rightarrow> s
   | Some n \<Rightarrow> s\<lparr>sn_locks := (sn_locks s)(tid := (if n = 1 then None else Some (n - 1)))\<rparr>)"

text \<open>A spawned handler is taken out of the list and runs with the lock of its transfer.\<close>

definition run_spawned :: "ext \<Rightarrow> 't transport_ops \<Rightarrow> 'b blob_ops \<Rightarrow> (send_envelope \<Rightarrow> u8 list)
    \<Rightarrow> recv_config \<Rightarrow> send_node \<Rightarrow> ('t, 'b) recv_world \<Rightarrow> send_node \<times> ('t, 'b) recv_world" where
  "run_spawned x tops bops senv cfg s w =
     (case sn_spawned s of
        [] \<Rightarrow> (s, w)
      | (src, payload) # rest \<Rightarrow>
          (let tid = pl_transfer_id payload;
               s1 = acquire_lock tid (s\<lparr>sn_spawned := rest\<rparr>);
               w' = fst (handle_transfer_locked x tops bops senv cfg src payload w)
           in (release_lock tid s1, w')))"

section \<open>Resuming receives\<close>

text \<open>
  A resume takes the lock of its transfer and gives it back, but leaves the entry in the table:
  only \<open>handle_transfer\<close> removes entries.
\<close>

definition drop_lock :: "uuid \<Rightarrow> send_node \<Rightarrow> send_node" where
  "drop_lock tid s = s\<lparr>sn_locks := (sn_locks s)(tid := map_option (\<lambda>n. n - 1) (sn_locks s tid))\<rparr>"

definition resume_receive :: "ext \<Rightarrow> 't transport_ops \<Rightarrow> 'b blob_ops \<Rightarrow> (send_envelope \<Rightarrow> u8 list)
    \<Rightarrow> recv_config \<Rightarrow> receive_transfer_state \<Rightarrow> send_node \<Rightarrow> ('t, 'b) recv_world
    \<Rightarrow> send_node \<times> ('t, 'b) recv_world \<times> (string, unit) result" where
  "resume_receive x tops bops senv cfg st s w =
     (let s1 = acquire_lock (rst_transfer_id st) s in
      case run_receive x tops bops senv cfg st w of
        (w', r) \<Rightarrow> (drop_lock (rst_transfer_id st) s1, w', r))"

definition acknowledge_completed_receive :: "ext \<Rightarrow> 't transport_ops \<Rightarrow> (send_envelope \<Rightarrow> u8 list)
    \<Rightarrow> device_id \<Rightarrow> uuid \<Rightarrow> ('t, 'b) recv_world \<Rightarrow> ('t, 'b) recv_world \<times> (string, unit) result" where
  "acknowledge_completed_receive x tops senv sender tid w =
     (case send_ack_to x tops senv sender \<lparr>ack_transfer_id = tid, ack_ok = True, ack_error = None\<rparr> w of
        (w', r) \<Rightarrow> (w', map_err feature_error_display r))"

fun resume_each :: "ext \<Rightarrow> 't transport_ops \<Rightarrow> 'b blob_ops \<Rightarrow> (send_envelope \<Rightarrow> u8 list)
    \<Rightarrow> recv_config \<Rightarrow> device_id list \<Rightarrow> receive_transfer_state list \<Rightarrow> send_node \<Rightarrow> ('t, 'b) recv_world
    \<Rightarrow> send_node \<times> ('t, 'b) recv_world" where
  "resume_each x tops bops senv cfg connected [] s w = (s, w)"
| "resume_each x tops bops senv cfg connected (st # sts) s w =
     (if rst_sender st \<notin> set connected then resume_each x tops bops senv cfg connected sts s w
      else
       (case resume_receive x tops bops senv cfg st s w of
          (s1, w1, Err _) \<Rightarrow> resume_each x tops bops senv cfg connected sts s1 w1
        | (s1, w1, Ok _) \<Rightarrow>
            (case acknowledge_completed_receive x tops senv (rst_sender st) (rst_transfer_id st) w1 of
               (w2, Err _) \<Rightarrow> resume_each x tops bops senv cfg connected sts s1 w2
             | (w2, Ok _) \<Rightarrow> resume_each x tops bops senv cfg connected sts s1
                 (w2\<lparr>rw_states := fst (remove_receive_state (rst_transfer_id st) (rw_states w2))\<rparr>))))"

definition resume_incomplete_receives :: "ext \<Rightarrow> 't transport_ops \<Rightarrow> 'b blob_ops \<Rightarrow> (send_envelope \<Rightarrow> u8 list)
    \<Rightarrow> recv_config \<Rightarrow> send_node \<Rightarrow> ('t, 'b) recv_world \<Rightarrow> send_node \<times> ('t, 'b) recv_world" where
  "resume_incomplete_receives x tops bops senv cfg s w =
     (case list_incomplete_receives (rw_states w) of
        (d, Err _) \<Rightarrow> (s, w\<lparr>rw_states := d\<rparr>)
      | (d, Ok states) \<Rightarrow>
          (let w' = w\<lparr>rw_states := d\<rparr> in
           if states = [] then (s, w')
           else resume_each x tops bops senv cfg (tr_connected_peers tops (rw_transport w')) states s w'))"

text \<open>
  One tick of the watcher: resume when a peer is connected that was not at the last tick.
\<close>

definition resume_watcher_tick :: "ext \<Rightarrow> 't transport_ops \<Rightarrow> 'b blob_ops \<Rightarrow> (send_envelope \<Rightarrow> u8 list)
    \<Rightarrow> recv_config \<Rightarrow> device_id list \<Rightarrow> send_node \<Rightarrow> ('t, 'b) recv_world
    \<Rightarrow> device_id list \<times> send_node \<times> ('t, 'b) recv_world" where
  "resume_watcher_tick x tops bops senv cfg known s w =
     (let connected = tr_connected_peers tops (rw_transport w);
          has_new_peer = list_ex (\<lambda>p. p \<notin> set known) connected
      in (connected,
          if has_new_peer then resume_incomplete_receives x tops bops senv cfg s w else (s, w)))"

section \<open>Chunked transfers are handed over once\<close>

definition deliver :: "ext \<Rightarrow> device_id \<Rightarrow> send_envelope list \<Rightarrow> send_node \<Rightarrow> send_node" where
  "deliver x src es s = fold (\<lambda>e s. fst (handle_envelope x src e s)) es s"

lemma deliver_simps [simp]:
  "deliver x src [] s = s"
  "deliver x src (e # es) s = deliver x src es (fst (handle_envelope x src e s))"
  by (simp_all add: deliver_def)

text \<open>The envelopes of a transfer after its header.\<close>

fun body_of :: "uuid \<Rightarrow> send_envelope \<Rightarrow> bool" where
  "body_of tid (TransferChunk c) = (tc_transfer_id c = tid)"
| "body_of tid (TransferEnd e) = (te_transfer_id e = tid)"
| "body_of tid _ = False"

lemma body_unknown:
  assumes "body_of tid e" "sn_pending s tid = None"
  shows "\<exists>what. handle_envelope x src e s = (s, Err (unknown_transfer x what tid))"
  using assms by (cases e) (auto simp: handle_envelope_def Let_def)

lemma body_incomplete:
  assumes "body_of tid e" "sn_pending s tid = Some t" "\<not> is_complete (feed e t)"
  shows "sn_pending (fst (handle_envelope x src e s)) tid = Some (feed e t)"
    "sn_spawned (fst (handle_envelope x src e s)) = sn_spawned s"
    "snd (handle_envelope x src e s) = Ok ()"
  using assms
  by (cases e; simp add: handle_envelope_def Let_def try_finalize_chunked_transfer_def
      spawn_incomplete_chunk_timeout_def)+

lemma body_complete:
  assumes "body_of tid e" "sn_pending s tid = Some t" "is_complete (feed e t)"
    "into_payload x (feed e t) = Ok p"
  shows "handle_envelope x src e s =
    (s\<lparr>sn_pending := (sn_pending s)(tid := None), sn_spawned := sn_spawned s @ [(src, p)]\<rparr>, Ok ())"
  using assms
  by (cases e) (auto simp: handle_envelope_def Let_def try_finalize_chunked_transfer_def
      spawn_transfer_handler_def)

lemma deliver_unknown:
  "list_all (body_of tid) es \<Longrightarrow> sn_pending s tid = None \<Longrightarrow> deliver x src es s = s"
proof (induction es)
  case (Cons e es)
  then show ?case using body_unknown [of tid e s x src] by auto
qed simp

lemma deliver_body:
  assumes n: "length parts < 2 ^ 32" and ne: "\<forall>q \<in> set parts. q \<noteq> []"
    and sub: "set ds \<subseteq> set (numbered tid 0 parts) \<union>
       {TransferEnd \<lparr>te_transfer_id = tid, te_chunk_count = of_nat (length parts)\<rparr>}"
    and all: "held t \<union> {j. j < length parts \<and> TransferChunk \<lparr>tc_transfer_id = tid,
       tc_chunk_index = of_nat j, tc_entries = parts ! j\<rparr> \<in> set ds} = {..<length parts}"
    and t: "partial parts t" "ct_expected_chunk_count t \<in> {None, Some (of_nat (length parts))}"
      "held t \<noteq> {..<length parts}" "sn_pending s tid = Some t"
    and hdr: "unat (th_entry_count (ct_header t)) = length (concat parts)"
      "th_bytes_total (ct_header t) = sum_u64 (map fe_size (concat parts))"
  defines "p \<equiv> \<lparr>pl_version = th_version (ct_header t), pl_transfer_id = th_transfer_id (ct_header t),
    pl_sender_name = th_sender_name (ct_header t), pl_collection_hash = th_collection_hash (ct_header t),
    pl_entries = concat parts\<rparr>"
  shows "sn_spawned (deliver x src ds s) = sn_spawned s @ [(src, p)] \<and>
    sn_pending (deliver x src ds s) tid = None"
  using sub all t hdr unfolding p_def
proof (induction ds arbitrary: s t)
  case Nil
  then show ?case by auto
next
  case (Cons d ds)
  have body: "list_all (body_of tid) (d # ds)"
  proof -
    have "body_of tid e" if "e \<in> set (numbered tid 0 parts) \<union>
       {TransferEnd \<lparr>te_transfer_id = tid, te_chunk_count = of_nat (length parts)\<rparr>}" for e
      using that by (auto simp: numbered_iff)
    with Cons.prems(1) show ?thesis unfolding list_all_iff by blast
  qed
  have one: "partial parts (feed d t) \<and> held (feed d t) = held t \<union> {j. j < length parts \<and>
       TransferChunk \<lparr>tc_transfer_id = tid, tc_chunk_index = of_nat j, tc_entries = parts ! j\<rparr> = d} \<and>
     ct_header (feed d t) = ct_header t \<and>
     ct_expected_chunk_count (feed d t) \<in> {None, Some (of_nat (length parts))}"
    using partial_deliveries [OF n, of "[d]" tid t] Cons.prems(1,3,4) by simp
  have c: "is_complete (feed d t) \<longleftrightarrow> held (feed d t) = {..<length parts}"
    using is_complete_iff [of parts "feed d t"] one ne n Cons.prems(7) by auto
  show ?case
  proof (cases "is_complete (feed d t)")
    case True
    then have "into_payload x (feed d t) = Ok \<lparr>pl_version = th_version (ct_header t),
        pl_transfer_id = th_transfer_id (ct_header t), pl_sender_name = th_sender_name (ct_header t),
        pl_collection_hash = th_collection_hash (ct_header t), pl_entries = concat parts\<rparr>"
      using into_payload_complete [of parts "feed d t" x] one ne n c Cons.prems(7,8) by simp
    note fin = body_complete [OF _ Cons.prems(6) True this, of src]
    have "deliver x src ds (s\<lparr>sn_pending := (sn_pending s)(tid := None), sn_spawned := a\<rparr>) =
        s\<lparr>sn_pending := (sn_pending s)(tid := None), sn_spawned := a\<rparr>" for a
      by (rule deliver_unknown [of tid]) (use body in simp_all)
    with fin body show ?thesis by simp
  next
    case False
    note step = body_incomplete [of tid d s t x src, OF _ Cons.prems(6) False]
    let ?s = "fst (handle_envelope x src d s)"
    have "sn_spawned (deliver x src ds ?s) = sn_spawned ?s @ [(src, \<lparr>pl_version = th_version (ct_header (feed d t)),
        pl_transfer_id = th_transfer_id (ct_header (feed d t)), pl_sender_name = th_sender_name (ct_header (feed d t)),
        pl_collection_hash = th_collection_hash (ct_header (feed d t)), pl_entries = concat parts\<rparr>)] \<and>
      sn_pending (deliver x src ds ?s) tid = None"
    proof (rule Cons.IH)
      show "set ds \<subseteq> set (numbered tid 0 parts) \<union>
         {TransferEnd \<lparr>te_transfer_id = tid, te_chunk_count = of_nat (length parts)\<rparr>}"
        using Cons.prems(1) by simp
      show "held (feed d t) \<union> {j. j < length parts \<and> TransferChunk \<lparr>tc_transfer_id = tid,
         tc_chunk_index = of_nat j, tc_entries = parts ! j\<rparr> \<in> set ds} = {..<length parts}"
        using Cons.prems(2) one by auto
      show "held (feed d t) \<noteq> {..<length parts}" using False c by simp
      show "sn_pending ?s tid = Some (feed d t)" using step(1) body by simp
    qed (use one Cons.prems(7,8) in simp_all)
    then show ?thesis using step(2) body one by simp
  qed
qed

lemma chunked_delivered:
  assumes plan: "plan_transfer_envelopes ser senv src to p = TransferHeader h # body"
    and small: "length (pl_entries p) < 2 ^ 32" and version: "pl_version p = SEND_PAYLOAD_VERSION"
    and some: "pl_entries p \<noteq> []"
    and sub: "set ds \<subseteq> set body"
    and all: "\<And>c. TransferChunk c \<in> set body \<Longrightarrow> TransferChunk c \<in> set ds"
  shows "sn_spawned (deliver x from_dev (TransferHeader h # ds) s) = sn_spawned s @ [(from_dev, p)] \<and>
    sn_pending (deliver x from_dev (TransferHeader h # ds) s) (pl_transfer_id p) = None"
proof -
  obtain parts where body: "body = numbered (pl_transfer_id p) 0 parts @
       [TransferEnd \<lparr>te_transfer_id = pl_transfer_id p, te_chunk_count = of_nat (length parts)\<rparr>]"
    and parts: "concat parts = pl_entries p" "\<forall>q \<in> set parts. q \<noteq> []" and n: "length parts < 2 ^ 32"
    and c: "unat (th_entry_count h) = length (concat parts)"
    and h: "h = \<lparr>th_version = SEND_PAYLOAD_VERSION, th_transfer_id = pl_transfer_id p,
        th_sender_name = pl_sender_name p, th_collection_hash = pl_collection_hash p,
        th_bytes_total = sum_u64 (map fe_size (pl_entries p)),
        th_entry_count = of_nat (length (pl_entries p))\<rparr>"
    by (rule plan_shape [OF plan small])
  have hs: "th_version h = pl_version p" "th_transfer_id h = pl_transfer_id p"
    "th_sender_name h = pl_sender_name p" "th_collection_hash h = pl_collection_hash p"
    "th_bytes_total h = sum_u64 (map fe_size (concat parts))"
    by (simp_all add: h version parts(1))
  let ?s = "fst (handle_envelope x from_dev (TransferHeader h) s)"
  have s: "?s = s\<lparr>sn_pending := (sn_pending s)(pl_transfer_id p \<mapsto> chunked_new h)\<rparr>"
    by (simp add: handle_envelope_def hs)
  have "parts \<noteq> []" using some parts(1) by auto
  then have "held (chunked_new h) \<noteq> {..<length parts}" by (auto simp: partial_new lessThan_empty_iff)
  moreover have "held (chunked_new h) \<union> {j. j < length parts \<and> TransferChunk
      \<lparr>tc_transfer_id = pl_transfer_id p, tc_chunk_index = of_nat j, tc_entries = parts ! j\<rparr> \<in> set ds} =
      {..<length parts}"
    using all by (auto simp: partial_new body numbered_iff)
  ultimately have "sn_spawned (deliver x from_dev ds ?s) = sn_spawned ?s @
      [(from_dev, \<lparr>pl_version = th_version h, pl_transfer_id = th_transfer_id h, pl_sender_name = th_sender_name h,
        pl_collection_hash = th_collection_hash h, pl_entries = concat parts\<rparr>)] \<and>
      sn_pending (deliver x from_dev ds ?s) (pl_transfer_id p) = None"
    using deliver_body [OF n parts(2), of ds "pl_transfer_id p" "chunked_new h" ?s x from_dev] sub c
    by (simp add: body partial_new s hs(5))
  then show ?thesis by (simp add: s hs(1-4) parts(1))
qed



text \<open>
  C15. In the order in which they were sent, the envelopes of a chunked transfer make the receiver
  report an error: the count of entries alone completes the transfer at the last chunk, since
  the number of chunks is not yet known, so the end marker that follows is answered with
  "received transfer end for unknown transfer", although the transfer is being handled.
\<close>

theorem in_order_end_rejected:
  fixes x :: ext and from_dev :: device_id and s :: send_node
  assumes plan: "plan_transfer_envelopes ser senv src to p = TransferHeader h # chunks @ [TransferEnd e]"
    and small: "length (pl_entries p) < 2 ^ 32" and version: "pl_version p = SEND_PAYLOAD_VERSION"
    and some: "pl_entries p \<noteq> []"
  defines "s' \<equiv> deliver x from_dev (TransferHeader h # chunks) s"
  shows "sn_spawned s' = sn_spawned s @ [(from_dev, p)] \<and>
    handle_envelope x from_dev (TransferEnd e) s' = (s', Err (unknown_transfer x ''end'' (pl_transfer_id p)))"
proof -
  have e: "te_transfer_id e = pl_transfer_id p"
    using plan_shape [OF plan small] by (metis (no_types, lifting) append1_eq_conv send_envelope.inject(4) send_transfer_end.select_convs(1))
  have "sn_spawned s' = sn_spawned s @ [(from_dev, p)] \<and> sn_pending s' (pl_transfer_id p) = None"
    unfolding s'_def
    by (rule chunked_delivered [OF plan small version some]) auto
  with e show ?thesis by (simp add: handle_envelope_def Let_def)
qed

lemma in_order_end_rejected_witness:
  "snd (handle_envelope sample_ext (DeviceId 1) sample_end (deliver sample_ext (DeviceId 1)
     [TransferHeader sample_header, sample_chunk 0, sample_chunk 1, sample_chunk 2]
     (send_node_new coordinator_new))) = Err (unknown_transfer sample_ext ''end'' 77)"
proof -
  have plan: "plan_transfer_envelopes sample_ser sample_writer (DeviceId 1) (DeviceId 2) sample_payload =
      TransferHeader sample_header # [sample_chunk 0, sample_chunk 1, sample_chunk 2] @
      [TransferEnd \<lparr>te_transfer_id = 77, te_chunk_count = 3\<rparr>]"
    using sample_plan by (simp add: sample_end_def)
  show ?thesis
    using in_order_end_rejected [OF plan, where x = sample_ext and from_dev = "DeviceId 1" and
        s = "send_node_new coordinator_new"]
    by (simp add: sample_payload_def SEND_PAYLOAD_VERSION_def sample_end_def)
qed

end
