(* ===== verification/Send_Files.thy ===== *)
theory Send_Files
  imports Send_Feature "HOL-Library.List_Lexorder" "HOL-Library.Char_ord"
begin

text \<open>
  What is sent under which name (\<open>failsafe-send/src/files.rs\<close>). \<open>file_system\<close> answers for the
  operating system; \<open>walkdir\<close> yields entries in an order of its own, each with the flag whether
  it is a file. Names sort by their bytes.
\<close>

section \<open>The file system\<close>

datatype file_kind = IsFile u64 | IsDir | IsOther

record file_system =
  fs_exists :: "path \<Rightarrow> bool"
  fs_metadata :: "path \<Rightarrow> (string, file_kind) result"
  fs_walk :: "path \<Rightarrow> (string, path \<times> bool) result list"
  fs_read_dir :: "path \<Rightarrow> (string, (string, path \<times> bool) result list) result"
  fs_read :: "path \<Rightarrow> (string, u8 list) result"
  fs_current_dir :: "(string, string) result"
  fs_canonicalize :: "string \<Rightarrow> (string, string) result"
  fs_utf8 :: "string \<Rightarrow> bool"
  fs_lossy :: "string \<Rightarrow> string"

record file_preview =
  fp_name :: string
  fp_size :: u64

section \<open>Labels and resolution\<close>

text \<open>The loop over \<open>Path::components\<close>: empty components and \<open>.\<close> do not occur in it.\<close>

fun label_parts :: "file_system \<Rightarrow> string list \<Rightarrow> string list \<Rightarrow> string list" where
  "label_parts fs [] parts = parts"
| "label_parts fs (c # cs) parts =
     label_parts fs cs (if c = ''..'' then butlast parts else parts @ [fs_lossy fs c])"

definition normalize_path_label :: "file_system \<Rightarrow> string \<Rightarrow> string" where
  "normalize_path_label fs path = join_with ''/'' (label_parts fs (path_components path) [])"

definition resolve_send_path :: "file_system \<Rightarrow> string \<Rightarrow> (string, string) result" where
  "resolve_send_path fs path =
     and_then (if starts_with path ''/'' then Ok path
               else map_ok (\<lambda>cwd. cwd @ ''/'' @ path)
                 (map_err (\<lambda>e. ''failed to get current directory: '' @ e) (fs_current_dir fs)))
       (\<lambda>resolved. map_err (\<lambda>e. ''failed to resolve '' @ path @ '': '' @ e) (fs_canonicalize fs resolved))"

definition prepare_send_paths :: "file_system \<Rightarrow> string list \<Rightarrow> (string, send_path_spec list) result" where
  "prepare_send_paths fs paths =
     collect_res (\<lambda>path. map_ok (\<lambda>local. \<lparr>sp_local = local, sp_label = normalize_path_label fs path\<rparr>)
       (resolve_send_path fs path)) paths"

section \<open>Collecting the files\<close>

definition trim_start_slashes :: "string \<Rightarrow> string" where
  "trim_start_slashes s = dropWhile (\<lambda>c. c = CHR ''/'') s"

definition backslash_to_slash :: "string \<Rightarrow> string" where
  "backslash_to_slash s = map (\<lambda>c. if c = CHR 0x5C then CHR ''/'' else c) s"

text \<open>\<open>Path::strip_prefix\<close> on lists of components.\<close>

fun strip_path :: "path \<Rightarrow> path \<Rightarrow> path option" where
  "strip_path [] p = Some p"
| "strip_path (b # bs) [] = None"
| "strip_path (b # bs) (p # ps) = (if b = p then strip_path bs ps else None)"

definition join_archive_path :: "file_system \<Rightarrow> string \<Rightarrow> path \<Rightarrow> (string, string) result" where
  "join_archive_path fs label relative =
     (let text = join_with ''/'' relative in
      if \<not> fs_utf8 fs text then Err (''non-utf8 path: '' @ text)
      else
       (let relative' = trim_start_slashes (backslash_to_slash text) in
        if relative' = [] then Err ''encountered empty relative path while walking directory''
        else if label = [] then Ok relative'
        else Ok (label @ ''/'' @ relative')))"

fun walk_sources :: "(path \<Rightarrow> (string, string) result) \<Rightarrow> path \<Rightarrow> (string, path \<times> bool) result list
    \<Rightarrow> (string, (string \<times> path) list) result" where
  "walk_sources name_of local [] = Ok []"
| "walk_sources name_of local (Err e # es) = Err (''failed to walk '' @ show_path local @ '': '' @ e)"
| "walk_sources name_of local (Ok (p, is_file) # es) =
     (if \<not> is_file then walk_sources name_of local es
      else and_then (name_of p) (\<lambda>name. map_ok (\<lambda>ss. (name, p) # ss) (walk_sources name_of local es)))"

definition relativized :: "path \<Rightarrow> path \<Rightarrow> (string, path) result" where
  "relativized base p = ok_or (strip_path base p) ''failed to relativize path: prefix not found''"

definition existing_metadata :: "file_system \<Rightarrow> path \<Rightarrow> (string, file_kind) result" where
  "existing_metadata fs local =
     (if \<not> fs_exists fs local then Err (''path does not exist: '' @ show_path local)
      else map_err (\<lambda>e. ''failed to stat '' @ show_path local @ '': '' @ e) (fs_metadata fs local))"

definition collect_path_sources_legacy :: "file_system \<Rightarrow> path \<Rightarrow> (string, (string \<times> path) list) result" where
  "collect_path_sources_legacy fs local =
     and_then (existing_metadata fs local) (\<lambda>kind.
       case kind of
         IsFile _ \<Rightarrow>
           Ok [(if local \<noteq> [] \<and> fs_utf8 fs (last local) then last local else ''file'', local)]
       | IsDir \<Rightarrow>
           (if local = [] then Err (''directory has no parent: '' @ show_path local)
            else walk_sources (\<lambda>p. and_then (relativized (butlast local) p) (\<lambda>relative.
                   let text = join_with ''/'' relative in
                   if fs_utf8 fs text then Ok (trim_start_slashes text)
                   else Err (''non-utf8 path: '' @ text))) local (fs_walk fs local))
       | IsOther \<Rightarrow> Ok [])"

definition collect_path_sources :: "file_system \<Rightarrow> send_path_spec \<Rightarrow> (string, (string \<times> path) list) result" where
  "collect_path_sources fs spec =
     (let local = read_path (sp_local spec) in
      if sp_label spec = [] then collect_path_sources_legacy fs local
      else
        and_then (existing_metadata fs local) (\<lambda>kind.
          case kind of
            IsFile _ \<Rightarrow> Ok [(sp_label spec, local)]
          | IsDir \<Rightarrow>
              walk_sources (\<lambda>p. and_then (relativized local p) (join_archive_path fs (sp_label spec)))
                local (fs_walk fs local)
          | IsOther \<Rightarrow> Ok []))"

definition collect_import_sources :: "file_system \<Rightarrow> send_path_spec list \<Rightarrow> (string, (string \<times> path) list) result" where
  "collect_import_sources fs paths =
     and_then (collect_res (collect_path_sources fs) paths) (\<lambda>per_path.
       let sources = concat per_path in
       if sources = [] then Err ''no files to send'' else Ok (sort_key fst sources))"

definition file_len :: "file_system \<Rightarrow> path \<Rightarrow> u64" where
  "file_len fs p = (case fs_metadata fs p of Ok (IsFile n) \<Rightarrow> n | _ \<Rightarrow> 0)"

definition collect_file_preview :: "file_system \<Rightarrow> send_path_spec list \<Rightarrow> (string, file_preview list) result" where
  "collect_file_preview fs paths =
     map_ok (map (\<lambda>(name, p). \<lparr>fp_name = name, fp_size = file_len fs p\<rparr>)) (collect_import_sources fs paths)"

section \<open>Reading the files\<close>

text \<open>The progress calls so far, the bytes read so far and the files read so far.\<close>

record read_state =
  re_calls :: "(u64 \<times> u64 \<times> string) list"
  re_done :: u64
  re_files :: "(string \<times> u8 list) list"

definition read_single_file_by_name :: "file_system \<Rightarrow> clipboard_limits \<Rightarrow> u64 \<Rightarrow> string \<Rightarrow> path \<Rightarrow> read_state
    \<Rightarrow> read_state \<times> (string, unit) result" where
  "read_single_file_by_name fs limits total_bytes name p s =
     (let s1 = s\<lparr>re_calls := re_calls s @ [(re_done s, total_bytes, name)]\<rparr> in
      case and_then (map_err (\<lambda>e. ''failed to read '' @ show_path p @ '': '' @ e) (fs_read fs p))
             (\<lambda>data. map_ok (\<lambda>_. data) (validate_blob limits (length data))) of
        Err e \<Rightarrow> (s1, Err e)
      | Ok data \<Rightarrow>
         (let n = sat_add (re_done s1) (byte_len data) in
          (\<lparr>re_calls = re_calls s1 @ [(n, total_bytes, name)], re_done = n,
            re_files = re_files s1 @ [(name, data)]\<rparr>, Ok ())))"

fun read_dir_entries :: "file_system \<Rightarrow> clipboard_limits \<Rightarrow> u64 \<Rightarrow> send_path_spec \<Rightarrow> path
    \<Rightarrow> (string, path \<times> bool) result list \<Rightarrow> read_state \<Rightarrow> read_state \<times> (string, unit) result" where
  "read_dir_entries fs limits total_bytes spec local [] s = (s, Ok ())"
| "read_dir_entries fs limits total_bytes spec local (Err e # es) s =
     (s, Err (''failed to read dir entry in '' @ show_path local @ '': '' @ e))"
| "read_dir_entries fs limits total_bytes spec local (Ok (p, is_file) # es) s =
     (if \<not> is_file then read_dir_entries fs limits total_bytes spec local es s
      else
       (case and_then (relativized local p) (join_archive_path fs (sp_label spec)) of
          Err e \<Rightarrow> (s, Err e)
        | Ok name \<Rightarrow>
            (case read_single_file_by_name fs limits total_bytes name p s of
               (s', Err e) \<Rightarrow> (s', Err e)
             | (s', Ok _) \<Rightarrow> read_dir_entries fs limits total_bytes spec local es s')))"

definition read_path_files :: "file_system \<Rightarrow> clipboard_limits \<Rightarrow> u64 \<Rightarrow> send_path_spec \<Rightarrow> read_state
    \<Rightarrow> read_state \<times> (string, unit) result" where
  "read_path_files fs limits total_bytes spec s =
     (let local = read_path (sp_local spec) in
      case existing_metadata fs local of
        Err e \<Rightarrow> (s, Err e)
      | Ok (IsFile _) \<Rightarrow> read_single_file_by_name fs limits total_bytes (sp_label spec) local s
      | Ok IsDir \<Rightarrow>
          (case map_err (\<lambda>e. ''failed to read dir '' @ show_path local @ '': '' @ e) (fs_read_dir fs local) of
             Err e \<Rightarrow> (s, Err e)
           | Ok es \<Rightarrow> read_dir_entries fs limits total_bytes spec local es s)
      | Ok IsOther \<Rightarrow> (s, Ok ()))"

fun read_each_path :: "file_system \<Rightarrow> clipboard_limits \<Rightarrow> u64 \<Rightarrow> send_path_spec list \<Rightarrow> read_state
    \<Rightarrow> read_state \<times> (string, unit) result" where
  "read_each_path fs limits total_bytes [] s = (s, Ok ())"
| "read_each_path fs limits total_bytes (spec # specs) s =
     (case read_path_files fs limits total_bytes spec s of
        (s', Err e) \<Rightarrow> (s', Err e)
      | (s', Ok _) \<Rightarrow> read_each_path fs limits total_bytes specs s')"

definition read_files_from_paths :: "file_system \<Rightarrow> clipboard_limits \<Rightarrow> send_path_spec list
    \<Rightarrow> (u64 \<times> u64 \<times> string) list \<times> (string, (string \<times> u8 list) list) result" where
  "read_files_from_paths fs limits paths =
     (case collect_file_preview fs paths of
        Err e \<Rightarrow> ([], Err e)
      | Ok previews \<Rightarrow>
          (case read_each_path fs limits (sum_u64 (map fp_size previews)) paths
                  \<lparr>re_calls = [], re_done = 0, re_files = []\<rparr> of
             (s, Err e) \<Rightarrow> (re_calls s, Err e)
           | (s, Ok _) \<Rightarrow>
               (re_calls s,
                if re_files s = [] then Err ''no readable files found''
                else map_ok (\<lambda>_. re_files s) (validate_files limits (re_files s)))))"

text \<open>\<open>show_tenths n d\<close> is \<open>format!("{:.1}", n as f64 / d as f64)\<close>.\<close>

definition format_bytes :: "(u64 \<Rightarrow> u64 \<Rightarrow> string) \<Rightarrow> u64 \<Rightarrow> string" where
  "format_bytes show_tenths sz =
     (let kb = 1024; mb = kb * 1024; gb = mb * 1024 in
      if sz \<ge> gb then show_tenths sz gb @ '' GB''
      else if sz \<ge> mb then show_tenths sz mb @ '' MB''
      else if sz \<ge> kb then show_tenths sz kb @ '' KB''
      else show_u64 sz @ '' B'')"

section \<open>Names the receiver accepts\<close>

text \<open>
  A component the receiver lets through; \<open>good_name\<close> is a name all of whose components are.
\<close>

definition good_component :: "string \<Rightarrow> bool" where
  "good_component c \<longleftrightarrow> c \<noteq> [] \<and> c \<noteq> ''.'' \<and> c \<noteq> ''..'' \<and> CHR ''/'' \<notin> set c"

definition good_name :: "string \<Rightarrow> bool" where
  "good_name n \<longleftrightarrow> list_all (\<lambda>c. c \<noteq> [] \<and> c \<noteq> ''.'' \<and> c \<noteq> ''..'') (split_char (CHR ''/'') n)"

lemma good_name_export: "good_name n \<Longrightarrow> export_target dest n = Ok (dest @ split_char (CHR ''/'') n)"
  by (simp add: good_name_def export_target_Ok list_all_iff)

lemma split_join_good:
  "cs \<noteq> [] \<Longrightarrow> list_all good_component cs \<Longrightarrow> split_char (CHR ''/'') (join_with ''/'' cs) = cs"
proof (induction cs)
  case (Cons c cs)
  then show ?case
    by (cases cs) (auto simp: good_component_def split_char_id split_char_append)
qed simp

lemma good_name_join: "cs \<noteq> [] \<Longrightarrow> list_all good_component cs \<Longrightarrow> good_name (join_with ''/'' cs)"
  using split_join_good [of cs] by (auto simp: good_name_def good_component_def list_all_iff)

lemma join_with_append: "xs \<noteq> [] \<Longrightarrow> ys \<noteq> [] \<Longrightarrow> join_with s (xs @ ys) = join_with s xs @ s @ join_with s ys"
proof (induction xs)
  case (Cons x xs)
  then show ?case by (cases xs; cases ys) auto
qed simp

lemma join_good_text:
  assumes "cs \<noteq> []" "list_all good_component cs"
  shows "join_with ''/'' cs \<noteq> []" "hd (join_with ''/'' cs) \<noteq> CHR ''/''"
proof -
  from assms obtain c cs' where c: "cs = c # cs'" "good_component c" by (cases cs) auto
  then obtain x xs where "c = x # xs" "x \<noteq> CHR ''/''" by (cases c) (auto simp: good_component_def)
  with c show "join_with ''/'' cs \<noteq> []" "hd (join_with ''/'' cs) \<noteq> CHR ''/''" by (cases cs'; simp)+
qed

lemma trim_start_slashes_id: "s = [] \<or> hd s \<noteq> CHR ''/'' \<Longrightarrow> trim_start_slashes s = s"
  by (cases s) (auto simp: trim_start_slashes_def)

lemma backslash_to_slash_id: "CHR 0x5C \<notin> set s \<Longrightarrow> backslash_to_slash s = s"
  by (induction s) (auto simp: backslash_to_slash_def)

lemma set_join: "x \<in> set (join_with s cs) \<Longrightarrow> x \<in> set s \<or> (\<exists>c \<in> set cs. x \<in> set c)"
  by (induction s cs rule: join_with.induct) auto

lemma strip_path_Some: "strip_path b p = Some r \<longleftrightarrow> p = b @ r"
  by (induction b p rule: strip_path.induct) auto

text \<open>What the operating system's answers look like: proper components below the walked directory.\<close>

definition proper_walk :: "file_system \<Rightarrow> bool" where
  "proper_walk fs \<longleftrightarrow>
     (\<forall>d p. Ok (p, True) \<in> set (fs_walk fs d) \<longrightarrow>
        (\<exists>r. p = d @ r \<and> r \<noteq> [] \<and> list_all (\<lambda>c. good_component c \<and> CHR 0x5C \<notin> set c) r)) \<and>
     (\<forall>c. good_component c \<longrightarrow> good_component (fs_lossy fs c))"

lemma label_parts_good:
  "proper_walk fs \<Longrightarrow> \<forall>c \<in> set cs. c = ''..'' \<or> good_component c \<Longrightarrow> list_all good_component parts \<Longrightarrow>
     list_all good_component (label_parts fs cs parts)"
proof (induction fs cs parts rule: label_parts.induct)
  case (2 fs c cs parts)
  have "list_all good_component (if c = ''..'' then butlast parts else parts @ [fs_lossy fs c])"
  proof (cases "c = ''..''")
    case True
    with "2.prems"(3) show ?thesis by (auto simp: list_all_iff dest: in_set_butlastD)
  next
    case False
    with "2.prems" have "good_component (fs_lossy fs c)" by (simp add: proper_walk_def)
    with False "2.prems"(3) show ?thesis by simp
  qed
  with 2 show ?case by simp
qed simp

lemma components_good: "c \<in> set (path_components p) \<Longrightarrow> c = ''..'' \<or> good_component c"
  using split_char_no_sep by (auto simp: path_components_def good_component_def)

lemma normalized_label:
  assumes "proper_walk fs"
  shows "normalize_path_label fs p = [] \<or>
    (\<exists>cs. cs \<noteq> [] \<and> list_all good_component cs \<and> normalize_path_label fs p = join_with ''/'' cs)"
proof -
  have "list_all good_component (label_parts fs (path_components p) [])"
    using components_good by (intro label_parts_good [OF assms]) auto
  then show ?thesis by (cases "label_parts fs (path_components p) []") (auto simp: normalize_path_label_def)
qed

lemma walk_sources_names:
  "walk_sources name_of local es = Ok ss \<Longrightarrow> (n, p) \<in> set ss \<Longrightarrow> Ok (p, True) \<in> set es \<and> name_of p = Ok n"
  by (induction name_of local es arbitrary: ss rule: walk_sources.induct)
    (auto simp: and_then_eq_Inr map_ok_eq_Inr split: if_splits)

lemma read_path_good: "list_all (\<lambda>c. c = ''..'' \<or> good_component c) (read_path s)"
  using components_good by (auto simp: list_all_iff read_path_def)

lemma source_name_good:
  assumes "proper_walk fs" "collect_path_sources fs spec = Ok ss" "(n, p) \<in> set ss"
    and "sp_label spec = [] \<or> (\<exists>cs. cs \<noteq> [] \<and> list_all good_component cs \<and> sp_label spec = join_with ''/'' cs)"
    and "''..'' \<notin> set (read_path (sp_local spec))"
  shows "good_name n"
proof -
  let ?local = "read_path (sp_local spec)"
  have lg: "list_all good_component ?local"
    using read_path_good [of "sp_local spec"] assms(5) by (auto simp: list_all_iff)
  show ?thesis
  proof (cases "sp_label spec = []")
    case True
    with assms(2) obtain kind where kind: "existing_metadata fs ?local = Ok kind"
      "collect_path_sources_legacy fs ?local = Ok ss"
      by (auto simp: collect_path_sources_def collect_path_sources_legacy_def and_then_eq_Inr Let_def)
    show ?thesis
    proof (cases kind)
      case (IsFile sz)
      with kind assms(3) have "n = (if ?local \<noteq> [] \<and> fs_utf8 fs (last ?local) then last ?local else ''file'')"
        by (auto simp: collect_path_sources_legacy_def)
      moreover have "good_component ''file''" by (simp add: good_component_def)
      moreover have "?local \<noteq> [] \<Longrightarrow> good_component (last ?local)" using lg by (auto simp: list_all_iff)
      ultimately have "good_component n" by auto
      with good_name_join [of "[n]"] show ?thesis by simp
    next
      case IsDir
      with kind assms(3) walk_sources_names have w: "Ok (p, True) \<in> set (fs_walk fs ?local)" "?local \<noteq> []"
        "and_then (relativized (butlast ?local) p) (\<lambda>relative. let text = join_with ''/'' relative in
           if fs_utf8 fs text then Ok (trim_start_slashes text) else Err (''non-utf8 path: '' @ text)) = Ok n"
        by (auto simp: collect_path_sources_legacy_def split: if_splits)
      then obtain r where r: "p = ?local @ r" "list_all good_component r"
        using assms(1) unfolding proper_walk_def list_all_iff by blast
      let ?r = "last ?local # r"
      have g: "list_all good_component ?r" using lg w(2) r(2) by (auto simp: list_all_iff)
      have "p = butlast ?local @ ?r" using r w(2) by (simp add: append_butlast_last_id [symmetric])
      then have "relativized (butlast ?local) p = Ok ?r" by (simp add: relativized_def strip_path_Some)
      with w(3) have "n = trim_start_slashes (join_with ''/'' ?r)" by (simp add: Let_def split: if_splits)
      with trim_start_slashes_id join_good_text [OF _ g] good_name_join [OF _ g] show ?thesis by simp
    next
      case IsOther
      with kind assms(3) show ?thesis by (auto simp: collect_path_sources_legacy_def)
    qed
  next
    case False
    with assms(4) obtain cs where cs: "cs \<noteq> []" "list_all good_component cs" "sp_label spec = join_with ''/'' cs"
      by blast
    from False assms(2) obtain kind where kind: "existing_metadata fs ?local = Ok kind"
      by (auto simp: collect_path_sources_def and_then_eq_Inr Let_def)
    show ?thesis
    proof (cases kind)
      case (IsFile sz)
      with False kind assms(2,3) have "n = sp_label spec" by (auto simp: collect_path_sources_def Let_def)
      with cs good_name_join show ?thesis by simp
    next
      case IsDir
      with False kind assms(2,3) walk_sources_names
      have w: "Ok (p, True) \<in> set (fs_walk fs ?local)"
        "and_then (relativized ?local p) (join_archive_path fs (sp_label spec)) = Ok n"
        by (auto simp: collect_path_sources_def Let_def)
      then obtain r where r: "p = ?local @ r" "r \<noteq> []" "list_all (\<lambda>c. good_component c \<and> CHR 0x5C \<notin> set c) r"
        using assms(1) by (auto simp: proper_walk_def)
      then have g: "list_all good_component r" and b: "CHR 0x5C \<notin> set (join_with ''/'' r)"
        by (auto simp: list_all_iff dest: set_join)
      from w(2) r(1) have "join_archive_path fs (sp_label spec) r = Ok n"
        by (auto simp: relativized_def strip_path_Some and_then_eq_Inr)
      with False backslash_to_slash_id [OF b] join_good_text [OF r(2) g]
      have "n = sp_label spec @ ''/'' @ join_with ''/'' r"
        by (simp add: join_archive_path_def Let_def trim_start_slashes_id split: if_splits)
      with cs r(2) have "n = join_with ''/'' (cs @ r)" by (simp add: join_with_append)
      with cs g r(2) good_name_join [of "cs @ r"] show ?thesis by simp
    next
      case IsOther
      with False kind assms(2,3) show ?thesis by (auto simp: collect_path_sources_def Let_def)
    qed
  qed
qed


definition sample_fs :: file_system where
  "sample_fs =
     \<lparr>fs_exists = (\<lambda>_. True), fs_metadata = (\<lambda>p. Ok (if last p = ''d'' then IsDir else IsFile 3)),
      fs_walk = (\<lambda>d. [Ok (d, False), Ok (d @ [''x.txt''], True)]), fs_read_dir = (\<lambda>_. Ok []),
      fs_read = (\<lambda>_. Ok [1, 2, 3]), fs_current_dir = Ok ''/w'', fs_canonicalize = (\<lambda>_. Ok ''/w/d''),
      fs_utf8 = (\<lambda>_. True), fs_lossy = id\<rparr>"


text \<open>
  Different files can get the same name; the collection then has two entries of one name, and
  the later one overwrites the earlier at the receiver.
\<close>

lemma labels_collide:
  "normalize_path_label sample_fs ''./x'' = ''x''" "normalize_path_label sample_fs ''../x'' = ''x''"
  by (simp_all add: normalize_path_label_def path_components_def sample_fs_def)

lemma backslash_name_refused:
  "join_archive_path sample_fs ''d'' [[CHR ''a'', CHR 0x5C]] = Ok ''d/a/''"
  "\<not> is_ok (export_target dest ''d/a/'')"
proof -
  show "join_archive_path sample_fs ''d'' [[CHR ''a'', CHR 0x5C]] = Ok ''d/a/''"
    by (simp add: join_archive_path_def sample_fs_def backslash_to_slash_def trim_start_slashes_def Let_def)
  show "\<not> is_ok (export_target dest ''d/a/'')"
    by (simp add: export_target_def)
qed

end
