(* ===== verification/Send_Control.thy ===== *)
theory Send_Control
  imports Send_Files Control_Io
begin

text \<open>
  The sending side of file transfers: the progress reporter (\<open>failsafe-send/src/progress.rs\<close>),
  the preparation of a payload (\<open>outbound.rs\<close>) and the control handler behind \<open>failsafe send\<close>
  (\<open>control.rs\<close>). The cancellation token is a function from the points at which the code reads
  it; the wait for the acknowledgement is a list of turns of the \<open>select!\<close>.
\<close>

section \<open>The progress reporter\<close>

type_synonym snapshot = "send_phase \<times> u64 \<times> u64 \<times> string option"

record reporter =
  rp_sequence :: u64
  rp_pending :: "snapshot option"
  rp_closed :: bool
  rp_sent :: "control_event list"

definition reporter_new :: reporter where
  "reporter_new = \<lparr>rp_sequence = 0, rp_pending = None, rp_closed = False, rp_sent = []\<rparr>"

fun progress_event :: "u64 \<Rightarrow> snapshot \<Rightarrow> control_event" where
  "progress_event n (phase, bytes_done, total_bytes, file) = SendProgress n phase bytes_done total_bytes file"

definition try_emit :: "snapshot \<Rightarrow> reporter \<Rightarrow> reporter" where
  "try_emit s r = r\<lparr>rp_pending := Some s\<rparr>"

definition emit :: "snapshot \<Rightarrow> reporter \<Rightarrow> reporter" where
  "emit s r =
     (let n = rp_sequence r + 1 in
      r\<lparr>rp_pending := None, rp_sequence := n, rp_sent := rp_sent r @ [progress_event n s]\<rparr>)"

text \<open>One turn of the flush task, a while after it was notified.\<close>

definition flush :: "reporter \<Rightarrow> reporter" where
  "flush r =
     (if rp_closed r then r
      else (case rp_pending r of
              None \<Rightarrow> r
            | Some s \<Rightarrow> emit s r))"

definition reporter_close :: "reporter \<Rightarrow> reporter" where
  "reporter_close r = r\<lparr>rp_pending := None, rp_closed := True\<rparr>"

text \<open>The progress calls of the preparation; \<open>flushes\<close> says after which of them the task runs.\<close>

fun try_emit_all :: "(nat \<Rightarrow> bool) \<Rightarrow> nat \<Rightarrow> snapshot list \<Rightarrow> reporter \<Rightarrow> reporter" where
  "try_emit_all flushes i [] r = r"
| "try_emit_all flushes i (s # ss) r =
     try_emit_all flushes (Suc i) ss (if flushes i then flush (try_emit s r) else try_emit s r)"

section \<open>Preparing the payload\<close>

record ('t, 'b) send_world =
  sw_transport :: 't
  sw_blobs :: 'b
  sw_sends :: "send_transfer_state state_dir"
  sw_receives :: "receive_transfer_state state_dir"
  sw_coordinator :: coordinator

definition entry_of_preview :: "file_preview \<Rightarrow> file_entry" where
  "entry_of_preview p = \<lparr>fe_name = fp_name p, fe_size = fp_size p\<rparr>"

definition load_or_init_send_state :: "ext \<Rightarrow> file_system \<Rightarrow> send_path_spec list \<Rightarrow> device_id \<Rightarrow> uuid \<Rightarrow> bool
    \<Rightarrow> send_transfer_state state_dir
    \<Rightarrow> send_transfer_state state_dir \<times> (string, send_path_spec list \<times> send_transfer_state) result" where
  "load_or_init_send_state x fs paths target tid resume d =
     (if resume then
       (case load_send_state x tid d of
          (d', Err e) \<Rightarrow> (d', Err e)
        | (d', Ok saved) \<Rightarrow>
            (if sst_stage saved = SendStageComplete then (d', Err ''transfer already completed'')
             else (d', Ok (sst_paths saved, saved))))
      else
       (case collect_file_preview fs paths of
          Err e \<Rightarrow> (d, Err e)
        | Ok previews \<Rightarrow>
            (d, Ok (paths,
              \<lparr>sst_transfer_id = tid, sst_target = target, sst_paths = paths, sst_stage = Importing,
               sst_collection_hash = None, sst_entries = map entry_of_preview previews, sst_bytes_done = 0,
               sst_bytes_total = sum_u64 (map fp_size previews), sst_error = None\<rparr>))))"

definition collection_import_needed :: "'b blob_ops \<Rightarrow> string option \<Rightarrow> u64 \<Rightarrow> 'b \<Rightarrow> bool" where
  "collection_import_needed bops h total_bytes b =
     (case h of
        None \<Rightarrow> True
      | Some root \<Rightarrow> (case bt_collection_status bops root total_bytes b of
                        Ok (_, _, complete) \<Rightarrow> \<not> complete
                      | Err _ \<Rightarrow> True))"

definition import_snapshot :: "blob_progress \<Rightarrow> snapshot" where
  "import_snapshot p = (Preparing, bp_bytes_done p, bp_bytes_total p, bp_current_file p)"

text \<open>A cancelled import is dropped, with the progress and the effects it has had.\<close>

definition run_collection_import :: "'b blob_ops \<Rightarrow> (string \<times> path) list \<Rightarrow> bool \<Rightarrow> 'b
    \<Rightarrow> 'b \<times> snapshot list \<times> (string, string \<times> imported_file list) result" where
  "run_collection_import bops sources cancelled b =
     (case bt_import_sources bops sources b of
        (b', ps, r) \<Rightarrow>
          (b', map import_snapshot ps,
           if cancelled then Err ''transfer cancelled'' else map_err blob_error_display r))"

definition prepared_progress :: "u64 \<Rightarrow> snapshot list" where
  "prepared_progress total_bytes =
     [(Preparing, total_bytes, total_bytes, None), (Storing, total_bytes, total_bytes, None)]"

text \<open>The import branch: the new hash and entries are saved in the state before it goes on.\<close>

definition import_for_send :: "file_system \<Rightarrow> 'b blob_ops \<Rightarrow> bool \<Rightarrow> send_path_spec list \<Rightarrow> send_transfer_state
    \<Rightarrow> ('t, 'b) send_world
    \<Rightarrow> ('t, 'b) send_world \<times> snapshot list \<times> (string, send_transfer_state) result" where
  "import_for_send fs bops cancelled send_paths state w =
     (let total_bytes = sst_bytes_total state; state1 = state\<lparr>sst_stage := Importing\<rparr> in
      case save_send_state state1 (sw_sends w) of
        (d1, Err e) \<Rightarrow> (w\<lparr>sw_sends := d1\<rparr>, [], Err e)
      | (d1, Ok _) \<Rightarrow>
     (let start = [(Preparing, 0, total_bytes, None)]; w1 = w\<lparr>sw_sends := d1\<rparr> in
      case collect_import_sources fs send_paths of
        Err e \<Rightarrow> (w1, start, Err e)
      | Ok sources \<Rightarrow>
     (case run_collection_import bops sources cancelled (sw_blobs w1) of
        (b', ps, Err e) \<Rightarrow> (w1\<lparr>sw_blobs := b'\<rparr>, start @ ps, Err e)
      | (b', ps, Ok (h, imported)) \<Rightarrow>
     (let state2 = state1\<lparr>sst_collection_hash := Some h,
            sst_entries := map (\<lambda>f. \<lparr>fe_name = if_name f, fe_size = if_size f\<rparr>) imported,
            sst_bytes_done := total_bytes, sst_stage := ReadyToSend\<rparr> in
      case save_send_state state2 (sw_sends w1) of
        (d2, Err e) \<Rightarrow> (w1\<lparr>sw_blobs := b', sw_sends := d2\<rparr>, start @ ps, Err e)
      | (d2, Ok _) \<Rightarrow>
          (w1\<lparr>sw_blobs := b', sw_sends := d2\<rparr>, start @ ps @ [(Storing, total_bytes, total_bytes, None)],
           Ok state2)))))"

text \<open>
  \<open>cancelled\<close> is read at three points: at the start (0), during the import (1) and after it (2).
\<close>

definition prepare_send_payload :: "ext \<Rightarrow> file_system \<Rightarrow> 'b blob_ops \<Rightarrow> clipboard_limits \<Rightarrow> string
    \<Rightarrow> (nat \<Rightarrow> bool) \<Rightarrow> send_path_spec list \<Rightarrow> device_id \<Rightarrow> uuid \<Rightarrow> bool \<Rightarrow> ('t, 'b) send_world
    \<Rightarrow> ('t, 'b) send_world \<times> snapshot list \<times> (string, send_payload) result" where
  "prepare_send_payload x fs bops limits sender_name cancelled paths target tid resume w =
     (if cancelled 0 then (w, [], Err ''transfer cancelled'')
      else
     (case load_or_init_send_state x fs paths target tid resume (sw_sends w) of
        (d0, Err e) \<Rightarrow> (w\<lparr>sw_sends := d0\<rparr>, [], Err e)
      | (d0, Ok (send_paths, state)) \<Rightarrow>
     (case validate_entries limits (map (\<lambda>e. (fe_name e, fe_size e)) (sst_entries state)) of
        Err e \<Rightarrow> (w\<lparr>sw_sends := d0\<rparr>, [], Err e)
      | Ok _ \<Rightarrow>
     (case save_send_state state d0 of
        (d1, Err e) \<Rightarrow> (w\<lparr>sw_sends := d1\<rparr>, [], Err e)
      | (d1, Ok _) \<Rightarrow>
     (let w1 = w\<lparr>sw_sends := d1\<rparr>; total_bytes = sst_bytes_total state in
      case (if collection_import_needed bops (sst_collection_hash state) total_bytes (sw_blobs w1)
            then import_for_send fs bops (cancelled 1) send_paths state w1
            else (w1, prepared_progress total_bytes, Ok state)) of
        (w2, ps, Err e) \<Rightarrow> (w2, ps, Err e)
      | (w2, ps, Ok state2) \<Rightarrow>
          (if cancelled 2 then (w2, ps, Err ''transfer cancelled'')
           else
            (case save_send_state (state2\<lparr>sst_stage := WaitingAck\<rparr>) (sw_sends w2) of
               (d3, Err e) \<Rightarrow> (w2\<lparr>sw_sends := d3\<rparr>, ps, Err e)
             | (d3, Ok _) \<Rightarrow>
                 (w2\<lparr>sw_sends := d3\<rparr>, ps,
                  map_ok (\<lambda>h. \<lparr>pl_version = SEND_PAYLOAD_VERSION, pl_transfer_id = tid,
                      pl_sender_name = sender_name, pl_collection_hash = h, pl_entries = sst_entries state2\<rparr>)
                    (ok_or (sst_collection_hash state2) ''collection hash missing after import'')))))))))"

section \<open>Waiting for the acknowledgement\<close>

text \<open>
  What can happen while the sender waits: messages, cancellations and further sends handled by
  other tasks, and the turns of its own loop.
\<close>

datatype wait_turn =
    AckMessage send_ack
  | ProgressMessage send_progress
  | CancelAllSends
  | OtherSend uuid
  | TurnCancelled
  | TurnDeadline
  | TurnAck
  | TurnProgress

definition progress_snapshot :: "send_progress \<Rightarrow> snapshot" where
  "progress_snapshot p = (pr_phase p, pr_bytes_done p, pr_bytes_total p, pr_current_file p)"

text \<open>\<open>cancels\<close> says whether the token can be cancelled here at all, \<open>h\<close> is the waiter's handle, \<open>n\<close> the progress messages already taken; \<open>None\<close> is still waiting.\<close>

fun wait_for_send_ack :: "bool \<Rightarrow> nat \<Rightarrow> nat \<Rightarrow> wait_turn list \<Rightarrow> coordinator \<Rightarrow> reporter
    \<Rightarrow> coordinator \<times> reporter \<times> (string, unit) result option" where
  "wait_for_send_ack cancels h n [] c r = (c, r, None)"
| "wait_for_send_ack cancels h n (t # ts) c r =
     (case t of
        AckMessage a \<Rightarrow> wait_for_send_ack cancels h n ts (complete_ack a c) r
      | ProgressMessage p \<Rightarrow> wait_for_send_ack cancels h n ts (report_progress p c) r
      | CancelAllSends \<Rightarrow> wait_for_send_ack cancels h n ts (coordinator_cancel_all c) r
      | OtherSend i \<Rightarrow> wait_for_send_ack cancels h n ts (fst (coordinator_register i c)) r
      | TurnCancelled \<Rightarrow>
          (if cancels then (c, r, Some (Err ''transfer cancelled''))
           else wait_for_send_ack cancels h n ts c r)
      | TurnDeadline \<Rightarrow> (c, r, Some (Err ''timed out waiting for receiver acknowledgement''))
      | TurnAck \<Rightarrow>
          (case ack_poll h c of
             AckResult a \<Rightarrow> (c, r, Some a)
           | AckClosed \<Rightarrow> (c, r, Some (Err ''transfer acknowledgement channel closed''))
           | AckWaiting \<Rightarrow> wait_for_send_ack cancels h n ts c r)
      | TurnProgress \<Rightarrow>
          (if n < length (co_progress c h)
           then wait_for_send_ack cancels h (Suc n) ts c (emit (progress_snapshot (co_progress c h ! n)) r)
           else wait_for_send_ack cancels h n ts c r))"

section \<open>The control handler\<close>

record send_files_request =
  sf_target :: device_id
  sf_paths :: "send_path_spec list"
  sf_transfer_id :: uuid
  sf_resume :: bool

datatype send_control_body = SendFiles send_files_request | CancelAll

text \<open>
  What is fixed for one daemon; and what one run of the handler meets. The task that reads the
  client's side cancels a child token when that side closes, and the handler reads the parent
  token: whether the parent sees it is up to the token library and a parameter,
  \<open>sc_child_cancels_parent\<close>, which the documentation of \<open>tokio_util\<close> says is false.
\<close>

record ('t, 'b) send_control =
  sc_ext :: ext
  sc_child_cancels_parent :: bool
  sc_transport :: "'t transport_ops"
  sc_blobs :: "'b blob_ops"
  sc_device_name :: string
  sc_limits :: clipboard_limits
  sc_message_encode :: "feature_message \<Rightarrow> (string, u8 list) result"
  sc_envelope_encode :: "send_envelope \<Rightarrow> u8 list"

record send_run =
  su_files :: file_system
  su_client_closed :: "nat \<Rightarrow> bool"
  su_flushes :: "nat \<Rightarrow> bool"
  su_turns :: "wait_turn list"

definition cancelled_at :: "('t, 'b) send_control \<Rightarrow> send_run \<Rightarrow> nat \<Rightarrow> bool" where
  "cancelled_at sc run i \<longleftrightarrow> sc_child_cancels_parent sc \<and> su_client_closed run i"

definition file_send_not_enabled_here :: string where
  "file_send_not_enabled_here = ''file_send is not enabled on this device; enable it in the web UI or with `failsafe devices features`, then wait for the daemon to sync''"

definition validate_preconditions :: "('t, 'b) send_control \<Rightarrow> control_context \<Rightarrow> device_id \<Rightarrow> control_io
    \<Rightarrow> ('t, 'b) send_world \<Rightarrow> control_io \<times> bool" where
  "validate_preconditions sc ctx target io w =
     (if send_id \<notin> set (cc_local_features ctx)
      then (fst (respond (ErrorResp file_send_not_enabled_here) io), False)
      else if \<not> is_feature_enabled target send_id (cc_peers ctx)
      then (fst (respond (ErrorResp (''file_send is not enabled on device '' @
              device_id_display (sc_ext sc) target @ ''; enable it on both devices'')) io), False)
      else if target \<notin> set (tr_connected_peers (sc_transport sc) (sw_transport w))
      then (fst (respond (ErrorResp (''device '' @ device_id_display (sc_ext sc) target @
              '' is offline or unreachable'')) io), False)
      else (io, True))"

fun send_envelopes :: "('t, 'b) send_control \<Rightarrow> device_id \<Rightarrow> send_envelope list \<Rightarrow> 't
    \<Rightarrow> 't \<times> (string, unit) result" where
  "send_envelopes sc target [] t = (t, Ok ())"
| "send_envelopes sc target (e # es) t =
     (case tr_send (sc_transport sc) (feature_message_new (tr_local_device_id (sc_transport sc) t) target send_id
              (sc_envelope_encode sc e)) t of
        (t', Err err) \<Rightarrow> (t', Err (transport_error_display (sc_ext sc) err))
      | (t', Ok _) \<Rightarrow> send_envelopes sc target es t')"

text \<open>
  The inner \<open>async\<close> block, after the waiter \<open>h\<close> is registered; the token is read after the
  preparation (3) and after the first event (4).
\<close>

definition send_body :: "('t, 'b) send_control \<Rightarrow> send_run \<Rightarrow> send_files_request \<Rightarrow> nat
    \<Rightarrow> ('t, 'b) send_world \<Rightarrow> reporter
    \<Rightarrow> ('t, 'b) send_world \<times> reporter \<times> (string, unit) result option" where
  "send_body sc run request h w r =
     (case prepare_send_payload (sc_ext sc) (su_files run) (sc_blobs sc) (sc_limits sc) (sc_device_name sc)
             (cancelled_at sc run) (sf_paths request) (sf_target request) (sf_transfer_id request)
             (sf_resume request) w of
        (w1, ps, prepared) \<Rightarrow>
     (let r1 = try_emit_all (su_flushes run) 0 ps r in
      case prepared of
        Err e \<Rightarrow> (w1, r1, Some (Err e))
      | Ok payload \<Rightarrow>
     (if cancelled_at sc run 3 then (w1, r1, Some (Err ''transfer cancelled''))
      else
     (let total_bytes = sum_u64 (map fe_size (pl_entries payload));
          r2 = emit (Sending, total_bytes, total_bytes, None) r1 in
      if cancelled_at sc run 4 then (w1, r2, Some (Err ''transfer cancelled''))
      else
     (case send_envelopes sc (sf_target request)
             (plan_transfer_envelopes (sc_message_encode sc) (sc_envelope_encode sc)
                (tr_local_device_id (sc_transport sc) (sw_transport w1)) (sf_target request) payload)
             (sw_transport w1) of
        (t', Err e) \<Rightarrow> (w1\<lparr>sw_transport := t'\<rparr>, r2, Some (Err e))
      | (t', Ok _) \<Rightarrow>
     (case wait_for_send_ack (sc_child_cancels_parent sc) h 0 (su_turns run) (sw_coordinator w1)
             (emit (WaitingForAck, 0, total_bytes, None) r2) of
        (c', r3, result) \<Rightarrow> (w1\<lparr>sw_transport := t', sw_coordinator := c'\<rparr>, r3, result)))))))"

text \<open>The writing task: the events in order, until a write fails.\<close>

fun write_events :: "control_event list \<Rightarrow> control_io \<Rightarrow> control_io" where
  "write_events [] io = io"
| "write_events (e # es) io =
     (case emit_event e io of
        (io', Ok _) \<Rightarrow> write_events es io'
      | (io', Err _) \<Rightarrow> io')"

text \<open>
  After the block: the last reading of the token (5), the end of the reporter, the transfer state
  and the final event. \<open>None\<close> is a handler that is still waiting.
\<close>

definition finish_send :: "('t, 'b) send_control \<Rightarrow> bool \<Rightarrow> uuid \<Rightarrow> (string, unit) result \<Rightarrow> control_io
    \<Rightarrow> reporter \<Rightarrow> ('t, 'b) send_world \<Rightarrow> control_io \<times> ('t, 'b) send_world" where
  "finish_send sc cancelled tid result io r w =
     (let w1 = (if cancelled then w\<lparr>sw_coordinator := coordinator_cancel tid (sw_coordinator w)\<rparr> else w);
          result1 = (if cancelled then Err ''transfer cancelled'' else result);
          io1 = write_events (rp_sent (reporter_close r)) io in
      case result1 of
        Ok _ \<Rightarrow> (fst (emit_event (SendComplete tid) io1),
                 w1\<lparr>sw_sends := fst (mark_send_complete (sc_ext sc) tid (sw_sends w1))\<rparr>)
      | Err m \<Rightarrow> (fst (emit_event (SendFailed m) io1),
                 w1\<lparr>sw_sends := fst (mark_send_failed (sc_ext sc) tid m (sw_sends w1))\<rparr>))"

definition handle_send_files :: "('t, 'b) send_control \<Rightarrow> send_run \<Rightarrow> control_context \<Rightarrow> send_files_request
    \<Rightarrow> control_io \<Rightarrow> ('t, 'b) send_world
    \<Rightarrow> control_io \<times> ('t, 'b) send_world \<times> (control_error, unit) result option" where
  "handle_send_files sc run ctx request io w =
     (case validate_preconditions sc ctx (sf_target request) io w of
        (io1, False) \<Rightarrow> (io1, w, Some (Ok ()))
      | (io1, True) \<Rightarrow>
     (case respond Ready io1 of
        (io2, Err _) \<Rightarrow> (io2, w, Some (Ok ()))
      | (io2, Ok _) \<Rightarrow>
     (case coordinator_register (sf_transfer_id request) (sw_coordinator w) of
        (c', h) \<Rightarrow>
     (case send_body sc run request h (w\<lparr>sw_coordinator := c'\<rparr>) reporter_new of
        (w2, r, None) \<Rightarrow> (write_events (rp_sent r) io2, w2, None)
      | (w2, r, Some result) \<Rightarrow>
          (case finish_send sc (cancelled_at sc run 5) (sf_transfer_id request) result io2 r w2 of
             (io3, w3) \<Rightarrow> (io3, w3, Some (Ok ())))))))"

definition handle_cancel_all :: "control_io \<Rightarrow> ('t, 'b) send_world
    \<Rightarrow> control_io \<times> ('t, 'b) send_world \<times> (control_error, unit) result" where
  "handle_cancel_all io w =
     (case cancel_all_incomplete_sends (sw_coordinator w) (sw_sends w) of
        (c', d', Err m) \<Rightarrow>
          (case respond (ErrorResp m) io of (io', r) \<Rightarrow> (io', w\<lparr>sw_coordinator := c', sw_sends := d'\<rparr>, r))
      | (c', d', Ok sends) \<Rightarrow>
          (let w1 = w\<lparr>sw_coordinator := c', sw_sends := d'\<rparr> in
           case cancel_all_incomplete_receives (sw_receives w1) of
             (e', Err m) \<Rightarrow>
               (case respond (ErrorResp m) io of (io', r) \<Rightarrow> (io', w1\<lparr>sw_receives := e'\<rparr>, r))
           | (e', Ok receives) \<Rightarrow>
               (case respond (CancelTransfers sends receives) io of
                  (io', r) \<Rightarrow> (io', w1\<lparr>sw_receives := e'\<rparr>, r))))"

definition send_handle_control :: "('t, 'b) send_control \<Rightarrow> ('v \<Rightarrow> (string, send_control_body) result) \<Rightarrow> send_run
    \<Rightarrow> control_context \<Rightarrow> 'v \<Rightarrow> control_io \<Rightarrow> ('t, 'b) send_world
    \<Rightarrow> control_io \<times> ('t, 'b) send_world \<times> (control_error, unit) result option" where
  "send_handle_control sc parse run ctx body io w =
     (case parse body of
        Err e \<Rightarrow> (io, w, Some (Err (ConfigError (''invalid file send control request: '' @ e))))
      | Ok (SendFiles request) \<Rightarrow> handle_send_files sc run ctx request io w
      | Ok CancelAll \<Rightarrow> (case handle_cancel_all io w of (io', w', r) \<Rightarrow> (io', w', Some r)))"

section \<open>What the client sees\<close>

definition numbered :: "snapshot list \<Rightarrow> control_event list" where
  "numbered ss = map (\<lambda>(n, s). progress_event (of_nat n) s) (enumerate 1 ss)"

definition reporter_ok :: "reporter \<Rightarrow> bool" where
  "reporter_ok r \<longleftrightarrow> (\<exists>ss. rp_sent r = numbered ss \<and> rp_sequence r = of_nat (length ss))"

lemma numbered_append: "numbered (ss @ [s]) = numbered ss @ [progress_event (of_nat (Suc (length ss))) s]"
  by (simp add: numbered_def enumerate_append_eq)

lemma reporter_ok_new: "reporter_ok reporter_new"
  unfolding reporter_ok_def by (rule exI [of _ "[]"]) (simp add: reporter_new_def numbered_def)

lemma reporter_ok_emit: "reporter_ok r \<Longrightarrow> reporter_ok (emit s r)"
proof -
  assume "reporter_ok r"
  then obtain ss where "rp_sent r = numbered ss" "rp_sequence r = of_nat (length ss)"
    by (auto simp: reporter_ok_def)
  then show ?thesis unfolding reporter_ok_def
    by (intro exI [of _ "ss @ [s]"]) (simp add: emit_def Let_def numbered_append add.commute)
qed

lemma reporter_ok_try_emit: "reporter_ok (try_emit s r) = reporter_ok r"
  by (simp add: reporter_ok_def try_emit_def)

lemma reporter_ok_flush: "reporter_ok r \<Longrightarrow> reporter_ok (flush r)"
  by (simp add: flush_def reporter_ok_emit split: option.split)

lemma reporter_ok_try_emit_all: "reporter_ok r \<Longrightarrow> reporter_ok (try_emit_all flushes i ss r)"
  by (induction flushes i ss r rule: try_emit_all.induct)
    (simp_all add: reporter_ok_flush reporter_ok_try_emit)

lemma reporter_ok_wait:
  "reporter_ok r \<Longrightarrow> wait_for_send_ack cancels h n ts c r = (c', r', result) \<Longrightarrow> reporter_ok r'"
  by (induction cancels h n ts c r rule: wait_for_send_ack.induct)
    (auto simp: reporter_ok_emit split: wait_turn.splits ack_status.splits if_splits)

section \<open>Success means an acknowledgement\<close>

text \<open>The waiter \<open>h\<close> belongs to the transfer \<open>i\<close>, alone.\<close>

definition waits_for :: "uuid \<Rightarrow> nat \<Rightarrow> coordinator \<Rightarrow> bool" where
  "waits_for i h c \<longleftrightarrow> coordinator_inv c \<and> h < co_next c \<and> (\<forall>j. (j, h) \<in> set (co_pending c) \<longrightarrow> j = i)"

definition acked :: "uuid \<Rightarrow> wait_turn list \<Rightarrow> bool" where
  "acked i ts \<longleftrightarrow> (\<exists>a. AckMessage a \<in> set ts \<and> ack_transfer_id a = i \<and> ack_ok a)"

lemma waits_for_register:
  "coordinator_inv c \<Longrightarrow> coordinator_register i c = (c', h) \<Longrightarrow>
     waits_for i h c' \<and> co_acks c' h = None"
proof -
  assume inv: "coordinator_inv c" and reg: "coordinator_register i c = (c', h)"
  have "coordinator_inv c'" using coordinator_inv_register [OF inv, of i] reg by simp
  moreover have "\<forall>j. (j, h) \<notin> set (co_pending c)" "co_acks c (co_next c) = None"
    using inv reg by (fastforce simp: coordinator_inv_def coordinator_register_def)+
  moreover have "distinct (map fst (co_pending c))" using inv by (simp add: coordinator_inv_def)
  ultimately show ?thesis using reg
    by (auto simp: waits_for_def coordinator_register_def set_map_insert)
qed

lemma waits_for_other:
  assumes "waits_for i h c"
  shows "waits_for i h (fst (coordinator_register j c))"
    "co_acks (fst (coordinator_register j c)) = co_acks c"
proof -
  have "distinct (map fst (co_pending c))" using assms by (simp add: waits_for_def coordinator_inv_def)
  then show "waits_for i h (fst (coordinator_register j c))"
    using assms coordinator_inv_register [of c j]
    by (auto simp: waits_for_def coordinator_register_def set_map_insert)
  show "co_acks (fst (coordinator_register j c)) = co_acks c" by (simp add: coordinator_register_def)
qed

lemma waits_for_complete:
  assumes "waits_for i h c"
  shows "waits_for i h (coordinator_complete j r c)"
    "co_acks (coordinator_complete j r c) h = co_acks c h \<or>
       (j = i \<and> co_acks (coordinator_complete j r c) h = Some r)"
proof -
  have inv: "coordinator_inv (coordinator_complete j r c)"
    using assms by (simp add: waits_for_def coordinator_inv_complete)
  have "set (AList.delete j (co_pending c)) \<subseteq> set (co_pending c)"
    by (auto simp: AList.delete_eq)
  with inv assms show "waits_for i h (coordinator_complete j r c)"
    by (auto simp: waits_for_def coordinator_complete_def split: option.splits)
  show "co_acks (coordinator_complete j r c) h = co_acks c h \<or>
       (j = i \<and> co_acks (coordinator_complete j r c) h = Some r)"
    using assms by (auto simp: waits_for_def coordinator_complete_def dest: map_of_SomeD split: option.split)
qed

lemma waits_for_cancels:
  "waits_for i h c \<Longrightarrow> co_acks c h \<noteq> Some (Ok ()) \<Longrightarrow>
     waits_for i h (fold coordinator_cancel js c) \<and> co_acks (fold coordinator_cancel js c) h \<noteq> Some (Ok ())"
proof (induction js arbitrary: c)
  case (Cons j js)
  show ?case using Cons.IH [of "coordinator_cancel j c"] Cons.prems
      waits_for_complete [OF Cons.prems(1), of j "Err ''transfer cancelled''"]
    by (auto simp: coordinator_cancel_def)
qed simp

lemma waits_for_progress:
  "waits_for i h c \<Longrightarrow> waits_for i h (report_progress p c)" "co_acks (report_progress p c) = co_acks c"
  by (auto simp: waits_for_def coordinator_inv_progress) (auto simp: report_progress_def split: option.splits)

lemma wait_acked:
  assumes "wait_for_send_ack cancels h n ts c r = (c', r', Some (Ok ()))" "waits_for i h c"
    "co_acks c h \<noteq> Some (Ok ())"
  shows "acked i ts"
  using assms
proof (induction cancels h n ts c r rule: wait_for_send_ack.induct)
  case (2 cancels h n t ts c r)
  note step = waits_for_complete [OF "2.prems"(2)] waits_for_cancels [OF "2.prems"(2,3)]
    waits_for_progress(1) [OF "2.prems"(2)] waits_for_progress(2) waits_for_other [OF "2.prems"(2)]
  show ?case
  proof (cases t)
    case (AckMessage a)
    show ?thesis
    proof (cases "co_acks (complete_ack a c) h = Some (Ok ())")
      case True
      then have "ack_transfer_id a = i \<and> ack_result a = Ok ()"
        using step(2) [of "ack_transfer_id a" "ack_result a"] "2.prems"(3) by (auto simp: complete_ack_def)
      then show ?thesis using AckMessage by (auto simp: acked_def ack_result_def split: if_splits)
    next
      case False
      then have "acked i ts" using 2(1) [OF AckMessage] "2.prems"(1) AckMessage step(1)
        by (simp add: complete_ack_def)
      then show ?thesis by (auto simp: acked_def)
    qed
  next
    case TurnAck
    show ?thesis
    proof (cases "ack_poll h c")
      case AckWaiting
      then have "acked i ts" using 2(6) [OF TurnAck AckWaiting] "2.prems" TurnAck by simp
      then show ?thesis by (auto simp: acked_def)
    next
      case (AckResult res)
      then have "co_acks c h = Some (Ok ())"
        using "2.prems"(1) TurnAck by (simp add: ack_poll_def split: option.splits if_splits)
      with "2.prems"(3) show ?thesis by simp
    next
      case AckClosed
      then show ?thesis using "2.prems"(1) TurnAck by simp
    qed
  next
    case CancelAllSends
    then have "acked i ts" using 2(3) "2.prems"(1) step(3) by (simp add: coordinator_cancel_all_def)
    then show ?thesis by (auto simp: acked_def)
  next
    case (ProgressMessage p)
    then have "acked i ts" using 2(2) "2.prems"(1,3) step(4,5) by simp
    then show ?thesis by (auto simp: acked_def)
  next
    case (OtherSend j)
    then have "acked i ts" using 2(4) "2.prems"(1,3) step(6,7) by simp
    then show ?thesis by (auto simp: acked_def)
  next
    case TurnCancelled
    then have "acked i ts" using 2(5) "2.prems" by (simp split: if_splits)
    then show ?thesis by (auto simp: acked_def)
  next
    case TurnDeadline
    then show ?thesis using "2.prems"(1) by simp
  next
    case TurnProgress
    then have "acked i ts" using 2(7,8) "2.prems" by (simp split: if_splits)
    then show ?thesis by (auto simp: acked_def)
  qed
qed simp

lemma import_for_send_coordinator:
  "import_for_send fs bops cancelled paths s w = (w', ps, res) \<Longrightarrow> sw_coordinator w' = sw_coordinator w"
  unfolding import_for_send_def Let_def
  by (auto split: prod.splits sum.splits)

lemma prepare_coordinator:
  assumes "prepare_send_payload x fs bops limits name cancelled paths target tid resume w = (w', ps, res)"
  shows "sw_coordinator w' = sw_coordinator w"
  using assms unfolding prepare_send_payload_def Let_def
  by (auto split: prod.splits sum.splits if_splits dest!: import_for_send_coordinator)

lemma send_body_spec:
  assumes "send_body sc run request h w r = (w', r', res)" "reporter_ok r"
  shows "reporter_ok r'"
    "res = Some (Ok ()) \<Longrightarrow> waits_for i h (sw_coordinator w) \<Longrightarrow> co_acks (sw_coordinator w) h = None \<Longrightarrow>
       acked i (su_turns run)"
proof -
  obtain w1 ps prepared where prep: "prepare_send_payload (sc_ext sc) (su_files run) (sc_blobs sc) (sc_limits sc)
      (sc_device_name sc) (cancelled_at sc run) (sf_paths request) (sf_target request)
      (sf_transfer_id request) (sf_resume request) w = (w1, ps, prepared)" by (metis prod_cases3)
  note body = assms(1) [unfolded send_body_def prep Let_def prod.case]
  note ok = reporter_ok_try_emit_all [OF assms(2)]
  show "reporter_ok r'" using body ok reporter_ok_emit
    by (auto split: sum.splits prod.splits if_splits dest!: reporter_ok_wait [rotated])
  assume res: "res = Some (Ok ())" and waiting: "waits_for i h (sw_coordinator w)"
    "co_acks (sw_coordinator w) h = None"
  show "acked i (su_turns run)" using body res waiting prepare_coordinator [OF prep]
    by (auto split: sum.splits prod.splits if_splits dest: wait_acked [where i = i])
qed

lemma write_events_spec:
  assumes "ci_faults io = []"
  shows "ci_events (write_events es io) = ci_events io @ es"
    "ci_faults (write_events es io) = []"
    "ci_responses (write_events es io) = ci_responses io"
proof -
  have "ci_events (write_events es io) = ci_events io @ es \<and> ci_faults (write_events es io) = [] \<and>
    ci_responses (write_events es io) = ci_responses io"
    using assms by (induction es arbitrary: io) (simp_all add: emit_event_def next_control_fault_def)
  then show "ci_events (write_events es io) = ci_events io @ es" "ci_faults (write_events es io) = []"
    "ci_responses (write_events es io) = ci_responses io" by simp_all
qed

lemma finish_send_events:
  assumes "finish_send sc cancelled tid result io r w = (io', w')" "ci_faults io = []"
  shows "ci_events io' = ci_events io @ rp_sent r @
     [if cancelled then SendFailed ''transfer cancelled''
      else case result of Ok _ \<Rightarrow> SendComplete tid | Err m \<Rightarrow> SendFailed m]"
    "ci_responses io' = ci_responses io"
  using assms unfolding finish_send_def Let_def
  by (auto simp: write_events_spec reporter_close_def emit_event_def next_control_fault_def
      split: sum.splits if_splits)

text \<open>A client that gets \<open>Ready\<close> gets numbered progress and then one final event.\<close>

lemma send_run_events:
  assumes "handle_send_files sc run ctx request io w = (io', w', Some res)"
    "coordinator_inv (sw_coordinator w)" "ci_faults io = []" "ci_responses io' = ci_responses io @ [Ready]"
  shows "\<exists>ss last. ci_events io' = ci_events io @ numbered ss @ [last] \<and>
     (last = SendComplete (sf_transfer_id request) \<and> acked (sf_transfer_id request) (su_turns run) \<or>
      (\<exists>m. last = SendFailed m))"
proof -
  let ?tid = "sf_transfer_id request"
  obtain io1 valid where v: "validate_preconditions sc ctx (sf_target request) io w = (io1, valid)"
    by force
  have valid
    using v assms(1,4) unfolding validate_preconditions_def handle_send_files_def
    by (auto simp: respond_def next_control_fault_def assms(3) split: if_splits)
  then have io1: "io1 = io"
    using v unfolding validate_preconditions_def by (auto split: if_splits)
  obtain c' h where reg: "coordinator_register ?tid (sw_coordinator w) = (c', h)" by force
  note waiting = waits_for_register [OF assms(2) reg]
  obtain w2 r result where body: "send_body sc run request h (w\<lparr>sw_coordinator := c'\<rparr>) reporter_new = (w2, r, result)"
    by (metis prod_cases3)
  let ?io2 = "io\<lparr>ci_responses := ci_responses io @ [Ready]\<rparr>"
  have handler: "handle_send_files sc run ctx request io w =
     (case result of None \<Rightarrow> (write_events (rp_sent r) ?io2, w2, None)
      | Some result \<Rightarrow> (case finish_send sc (cancelled_at sc run 5) ?tid result ?io2 r w2 of
          (io3, w3) \<Rightarrow> (io3, w3, Some (Ok ()))))"
    using v \<open>valid\<close> io1 reg body assms(3)
    by (simp add: handle_send_files_def respond_def next_control_fault_def split: option.split)
  then obtain outcome where outcome: "result = Some outcome"
    using assms(1) by (cases result) auto
  then have "finish_send sc (cancelled_at sc run 5) ?tid outcome ?io2 r w2 = (io', w')"
    using handler assms(1) by (auto split: prod.splits)
  from finish_send_events(1) [OF this] assms(3)
  have events: "ci_events io' = ci_events io @ rp_sent r @
     [if cancelled_at sc run 5 then SendFailed ''transfer cancelled''
      else case outcome of Ok _ \<Rightarrow> SendComplete ?tid | Err m \<Rightarrow> SendFailed m]" by simp
  obtain ss where "rp_sent r = numbered ss"
    using send_body_spec(1) [OF body reporter_ok_new] by (auto simp: reporter_ok_def)
  moreover have "outcome = Ok () \<Longrightarrow> acked ?tid (su_turns run)"
    using send_body_spec(2) [OF body reporter_ok_new, of ?tid] waiting outcome by simp
  ultimately show ?thesis using events
    by (intro exI [of _ ss]) (auto split: sum.splits)
qed


definition recording_transport :: "feature_message list transport_ops" where
  "recording_transport = \<lparr>tr_local_device_id = (\<lambda>_. DeviceId 1), tr_send = (\<lambda>m t. (t @ [m], Ok ())),
     tr_connected_peers = (\<lambda>_. [DeviceId 7]), tr_try_recv = (\<lambda>t. (t, Ok None))\<rparr>"

definition sample_send_control :: "(feature_message list, mock_state) send_control" where
  "sample_send_control = \<lparr>sc_ext = sample_ext, sc_child_cancels_parent = False,
     sc_transport = recording_transport, sc_blobs = mock_ops \<lparr>me_hash = hex, me_len = (\<lambda>_. 3),
       me_read = (\<lambda>_. Ok [1, 2, 3]), me_write = (\<lambda>_. None)\<rparr>,
     sc_device_name = ''a'', sc_limits = limits_default, sc_message_encode = (\<lambda>_. Ok [1]),
     sc_envelope_encode = (\<lambda>_. [1])\<rparr>"

definition sample_send_run :: send_run where
  "sample_send_run = \<lparr>su_files = sample_fs, su_client_closed = (\<lambda>_. True), su_flushes = (\<lambda>_. False),
     su_turns = [TurnAck, AckMessage \<lparr>ack_transfer_id = 5, ack_ok = True, ack_error = None\<rparr>, TurnAck]\<rparr>"

definition sample_send_request :: send_files_request where
  "sample_send_request = \<lparr>sf_target = DeviceId 7, sf_paths = [\<lparr>sp_local = ''/w/x'', sp_label = ''x''\<rparr>],
     sf_transfer_id = 5, sf_resume = False\<rparr>"

definition sample_send_world :: "(feature_message list, mock_state) send_world" where
  "sample_send_world = \<lparr>sw_transport = [],
     sw_blobs = \<lparr>ms_blobs = (\<lambda>_. None), ms_collections = (\<lambda>_. None), ms_downloaded = {}, ms_disk = []\<rparr>,
     sw_sends = \<lparr>sd_available = True, sd_files = [], sd_faults = []\<rparr>,
     sw_receives = \<lparr>sd_available = True, sd_files = [], sd_faults = []\<rparr>, sw_coordinator = coordinator_new\<rparr>"

definition sample_send_context :: control_context where
  "sample_send_context = \<lparr>cc_peers = sample_directory, cc_local_features = [send_id]\<rparr>"

definition sample_send_io :: control_io where
  "sample_send_io = \<lparr>ci_responses = [], ci_events = [], ci_faults = []\<rparr>"

lemmas sample_send_simps =
  sample_send_control_def sample_send_run_def sample_send_request_def sample_send_world_def

lemma sample_send_prepared:
  "\<exists>w' ps pl. prepare_send_payload (sc_ext sample_send_control) (su_files sample_send_run)
      (sc_blobs sample_send_control) (sc_limits sample_send_control) (sc_device_name sample_send_control)
      (cancelled_at sample_send_control sample_send_run) (sf_paths sample_send_request)
      (sf_target sample_send_request) (sf_transfer_id sample_send_request) (sf_resume sample_send_request)
      (sample_send_world\<lparr>sw_coordinator := c\<rparr>) = (w', ps, Ok pl) \<and> sw_coordinator w' = c"
  by (simp add: sample_send_simps prepare_send_payload_def cancelled_at_def load_or_init_send_state_def
    collect_file_preview_def collect_import_sources_def collect_path_sources_def sample_fs_def
    read_path_def path_components_def existing_metadata_def file_len_def Let_def validate_entries_def
    limits_default_def save_send_state_def save_state_def next_fault_def collection_import_needed_def
    import_for_send_def run_collection_import_def mock_ops_def mock_import_sources_def
    mock_store_files_def mock_collection_status_def entry_of_preview_def sat_add_def)

lemma recording_envelopes:
  "\<exists>t'. send_envelopes sample_send_control d es t = (t', Ok ())"
  by (induction es arbitrary: t) (simp_all add: sample_send_control_def recording_transport_def)

lemma try_emit_all_unflushed: "rp_sent (try_emit_all (\<lambda>_. False) i ss r) = rp_sent r"
  by (induction ss arbitrary: i r) (simp_all add: try_emit_def)

lemma sample_send_runs:
  "\<exists>io' w'. handle_send_files sample_send_control sample_send_run sample_send_context sample_send_request
     sample_send_io sample_send_world = (io', w', Some (Ok ())) \<and> ci_responses io' = [Ready] \<and>
     last (ci_events io') = SendComplete 5 \<and> length (ci_events io') = 3"
proof -
  obtain c' h where reg: "coordinator_register 5 coordinator_new = (c', h)"
    "c' = fst (coordinator_register 5 coordinator_new)" "h = 0" by (simp add: coordinator_register_def coordinator_new_def)
  obtain w1 ps pl where prep: "prepare_send_payload (sc_ext sample_send_control) (su_files sample_send_run)
      (sc_blobs sample_send_control) (sc_limits sample_send_control) (sc_device_name sample_send_control)
      (cancelled_at sample_send_control sample_send_run) (sf_paths sample_send_request)
      (sf_target sample_send_request) (sf_transfer_id sample_send_request) (sf_resume sample_send_request)
      (sample_send_world\<lparr>sw_coordinator := c'\<rparr>) = (w1, ps, Ok pl)" "sw_coordinator w1 = c'"
    using sample_send_prepared [of c'] by blast
  have f: "\<not> cancelled_at sample_send_control sample_send_run i" "sf_transfer_id sample_send_request = 5"
    "sw_coordinator sample_send_world = coordinator_new" "ci_faults sample_send_io = []"
    "ci_responses sample_send_io = []"
    "ci_events sample_send_io = []" for i
    by (simp_all add: sample_send_simps cancelled_at_def sample_send_io_def)
  have "snd (snd (wait_for_send_ack b 0 0 (su_turns sample_send_run) c' r)) = Some (Ok ()) \<and>
      fst (snd (wait_for_send_ack b 0 0 (su_turns sample_send_run) c' r)) = r" for b r
    by (simp add: sample_send_run_def reg coordinator_register_def coordinator_new_def ack_poll_def
        complete_ack_def coordinator_complete_def map_insert_def ack_result_def)
  then have wait: "\<exists>c2. wait_for_send_ack b 0 0 (su_turns sample_send_run) c' r = (c2, r, Some (Ok ()))" for b r
    by (metis prod.collapse)
  obtain w2 r where body: "send_body sample_send_control sample_send_run sample_send_request 0
      (sample_send_world\<lparr>sw_coordinator := c'\<rparr>) reporter_new = (w2, r, Some (Ok ()))"
    "length (rp_sent r) = 2"
  proof -
    let ?es = "plan_transfer_envelopes (sc_message_encode sample_send_control) (sc_envelope_encode sample_send_control)
                (tr_local_device_id (sc_transport sample_send_control) (sw_transport w1)) (sf_target sample_send_request) pl"
    obtain t' where "send_envelopes sample_send_control (sf_target sample_send_request) ?es (sw_transport w1) = (t', Ok ())"
      using recording_envelopes by blast
    moreover define r1 where "r1 = emit (WaitingForAck, 0, sum_u64 (map fe_size (pl_entries pl)), None)
      (emit (Sending, sum_u64 (map fe_size (pl_entries pl)), sum_u64 (map fe_size (pl_entries pl)), None)
        (try_emit_all (su_flushes sample_send_run) 0 ps reporter_new))"
    moreover obtain c2 where "wait_for_send_ack (sc_child_cancels_parent sample_send_control) 0 0
        (su_turns sample_send_run) c' r1 = (c2, r1, Some (Ok ()))"
      using wait by blast
    moreover have "length (rp_sent r1) = 2"
      by (simp add: r1_def emit_def Let_def sample_send_run_def try_emit_all_unflushed reporter_new_def)
    ultimately show thesis using that by (simp add: send_body_def prep f(1) Let_def)
  qed
  have "validate_preconditions sample_send_control sample_send_context (sf_target sample_send_request)
      sample_send_io sample_send_world = (sample_send_io, True)"
    by (simp add: validate_preconditions_def sample_send_context_def sample_send_simps recording_transport_def
        is_feature_enabled_def sample_directory_def replace_peers_def peer_directory_new_def)
  then show ?thesis
    using f by (simp add: handle_send_files_def respond_def next_control_fault_def reg(1,3) body finish_send_def
        Let_def emit_event_def write_events_spec reporter_close_def split: prod.splits)
qed


text \<open>
  The token the handler reads is the parent of the one the reading task cancels: as long as the
  parent does not see that, a client that goes away changes nothing, and the transfer runs on.
\<close>

lemma send_ignores_closed_client:
  assumes "\<not> sc_child_cancels_parent sc"
  shows "handle_send_files sc (run\<lparr>su_client_closed := closed\<rparr>) ctx request io w =
    handle_send_files sc run ctx request io w"
proof -
  have "cancelled_at sc (run\<lparr>su_client_closed := closed\<rparr>) = cancelled_at sc run"
    using assms by (simp add: cancelled_at_def fun_eq_iff)
  moreover from this have "send_body sc (run\<lparr>su_client_closed := closed\<rparr>) request h w' r =
      send_body sc run request h w' r" for h w' r
    by (cases run) (simp only: send_body_def send_run.simps)
  ultimately show ?thesis by (simp only: handle_send_files_def)
qed

text \<open>
  A waiter is only removed by an answer or a cancellation: the one of a send that failed before it
  reached the receiver stays registered for good.
\<close>

lemma failed_send_keeps_waiter:
  assumes "prepare_send_payload (sc_ext sc) (su_files run) (sc_blobs sc) (sc_limits sc) (sc_device_name sc)
     (cancelled_at sc run) (sf_paths request) (sf_target request) (sf_transfer_id request) (sf_resume request)
     (w\<lparr>sw_coordinator := fst (coordinator_register (sf_transfer_id request) (sw_coordinator w))\<rparr>) = (w1, ps, Err e)"
    "handle_send_files sc run ctx request io w = (io', w', Some res)" "\<not> cancelled_at sc run 5"
    "ci_responses io' = ci_responses io @ [Ready]" "ci_faults io = []"
  shows "sf_transfer_id request \<in> fst ` set (co_pending (sw_coordinator w'))"
proof -
  note prep = prepare_coordinator [OF assms(1)]
  have "sw_coordinator w' = fst (coordinator_register (sf_transfer_id request) (sw_coordinator w))"
    using assms prep
    by (auto simp: handle_send_files_def send_body_def validate_preconditions_def finish_send_def
        respond_def next_control_fault_def coordinator_register_def split: if_splits)
  then show ?thesis by (simp add: coordinator_register_def)
qed

end
