(* ===== verification/Cli_Send.thy ===== *)
theory Cli_Send
  imports Cli_Util Send_Control
begin

text \<open>
  The command \<open>failsafe send\<close> (\<open>failsafe/src/cli/commands/send.rs\<close>), up to the loop that follows
  the daemon's events. What it prints is left out, the calls on the progress bar are kept.
\<close>

section \<open>The target and the confirmation\<close>

definition resolve_send_target :: "'h cli \<Rightarrow> string option \<Rightarrow> device_id option \<Rightarrow> device_id \<Rightarrow> device_info list
    \<Rightarrow> (daemon_error raised, device_info) result" where
  "resolve_send_target cl device target self devices =
     (case (device, target) of
        (Some name, _) \<Rightarrow> map_err Raised (resolve_device_target (cl_ext cl) name self devices)
      | (None, Some i) \<Rightarrow>
          map_err Raised
            (and_then (ok_or (List.find (\<lambda>e. di_device_id e = i) devices)
                 (DConfig (''resume target device '' @ device_id_display (cl_ext cl) i @ '' is not in your device list'')))
              (\<lambda>e. resolve_device_target (cl_ext cl) (di_name e) self devices))
      | (None, None) \<Rightarrow> select_device_interactive cl self devices)"

definition require_tty_or_yes :: "'h cli \<Rightarrow> bool \<Rightarrow> (daemon_error, unit) result" where
  "require_tty_or_yes cl yes =
     (if \<not> yes \<and> \<not> cl_terminal cl
      then Err (DConfig ''confirmation required when stdin is not a terminal; pass --yes'') else Ok ())"

definition confirm_send :: "'h cli \<Rightarrow> (u64 \<Rightarrow> string) \<Rightarrow> (string \<times> u64) list \<Rightarrow> u64 \<Rightarrow> string \<Rightarrow> bool
    \<Rightarrow> (daemon_error, bool) result" where
  "confirm_send cl show_bytes previews total_bytes target_name yes =
     (if yes then Ok True
      else and_then (require_tty_or_yes cl False) (\<lambda>_.
        map_err DConfig (cl_confirm cl (''Send '' @ show_nat (length previews) @ '' file(s) ('' @ show_bytes total_bytes @
          '') to '' @ target_name @ ''?''))))"

section \<open>Following the daemon\<close>

datatype bar_call =
    SetLength u64
  | SetPosition u64
  | SteadyTick bool
  | SetMessage string
  | FinishWith string
  | AbandonWith string

definition show_progress :: "u64 \<Rightarrow> snapshot \<Rightarrow> u64 \<times> bar_call list" where
  "show_progress transfer_total s =
     (case s of (phase, bytes_done, bytes_total, file) \<Rightarrow>
        (if phase = WaitingForAck
         then (let t = max bytes_total transfer_total in
               (t, [SetLength (max t 1), SetPosition (min bytes_done t),
                    SteadyTick (bytes_total = 0 \<or> bytes_done \<ge> bytes_total),
                    SetMessage (send_phase_label phase file)]))
         else (transfer_total,
               SteadyTick False #
               (if bytes_total > 0 then [SetLength bytes_total, SetPosition (min bytes_done bytes_total)] else []) @
               [SetMessage (send_phase_label phase file)])))"

text \<open>\<open>None\<close> is a loop that waits for the next event.\<close>

fun progress_loop :: "ext \<Rightarrow> uuid \<Rightarrow> u64 \<Rightarrow> u64 \<Rightarrow> (control_error, control_event) result list \<Rightarrow> bar_call list
    \<Rightarrow> bar_call list \<times> (daemon_error, unit) result option" where
  "progress_loop x tid seen transfer_total [] calls = (calls, None)"
| "progress_loop x tid seen transfer_total (r # rs) calls =
     (case r of
        Err e \<Rightarrow> (calls, Some (Err (DControl e)))
      | Ok (SendProgress n phase bytes_done bytes_total file) \<Rightarrow>
          (if n \<le> seen then progress_loop x tid seen transfer_total rs calls
           else (case show_progress transfer_total (phase, bytes_done, bytes_total, file) of
                   (t, cs) \<Rightarrow> progress_loop x tid n t rs (calls @ cs)))
      | Ok (SendComplete _) \<Rightarrow>
          (calls @ [SteadyTick False] @ (if transfer_total > 0 then [SetPosition transfer_total] else []) @
             [FinishWith ''done''], Some (Ok ()))
      | Ok (SendFailed m) \<Rightarrow>
          (if m = ''transfer cancelled''
           then (calls @ [SteadyTick False, AbandonWith ''cancelled''], Some (Err (DConfig m)))
           else (calls @ [SteadyTick False, AbandonWith ''failed''],
                 Some (Err (DConfig (m @ [CHR 0x0A] @ ''Resume with: failsafe send --resume '' @ uuid_display x tid))))))"

definition run_send_progress_loop :: "ext \<Rightarrow> uuid \<Rightarrow> u64 \<Rightarrow> (control_error, control_event) result list
    \<Rightarrow> bar_call list \<times> (daemon_error, unit) result option" where
  "run_send_progress_loop x tid total_bytes events =
     progress_loop x tid 0 total_bytes events [SetLength (max total_bytes 1)]"

section \<open>The command\<close>

record send_args =
  sa_config :: "string option"
  sa_server_url :: "string option"
  sa_paths :: "string list"
  sa_resume :: "uuid option"
  sa_device :: "string option"
  sa_yes :: bool
  sa_cancel_all :: bool

record 'h send_outcome =
  so_disk :: disk
  so_http :: 'h
  so_sends :: "send_transfer_state state_dir"
  so_request :: "send_control_body option"
  so_bar :: "bar_call list"
  so_result :: "(daemon_error raised, unit) result option"

definition expect_cancel_transfers_response :: "control_link \<Rightarrow> (daemon_error, unit) result" where
  "expect_cancel_transfers_response k =
     and_then (map_err DControl (kl_response k)) (\<lambda>r.
       case r of
         CancelTransfers _ _ \<Rightarrow> Ok ()
       | Ready \<Rightarrow> Err (DConfig ''unexpected ready response for cancel transfers'')
       | ErrorResp m \<Rightarrow> Err (DConfig m))"

definition cancel_all_transfers :: "'h cli \<Rightarrow> control_link \<Rightarrow> bool \<Rightarrow> send_control_body option \<times> (daemon_error, unit) result" where
  "cancel_all_transfers cl k yes =
     (case (if yes then Ok True
            else and_then (require_tty_or_yes cl False) (\<lambda>_.
              map_err DConfig (cl_confirm cl ''Cancel all incomplete sends and receives?''))) of
        Err e \<Rightarrow> (None, Err e)
      | Ok False \<Rightarrow> (None, Ok ())
      | Ok True \<Rightarrow>
          (case connect_and_request k of
             Err e \<Rightarrow> (None, Err e)
           | Ok _ \<Rightarrow> (Some CancelAll, expect_cancel_transfers_response k)))"

definition load_devices :: "'h cli \<Rightarrow> string option \<Rightarrow> string option \<Rightarrow> disk \<Rightarrow> 'h
    \<Rightarrow> disk \<times> 'h \<times> (daemon_error, config \<times> device_info list) result" where
  "load_devices cl config_path server_url d h =
     (case config_path_or_default cl config_path of
        Err e \<Rightarrow> (d, h, Err e)
      | Ok path \<Rightarrow>
     (case load_config cl path server_url False d of
        (d1, Err e) \<Rightarrow> (d1, h, Err e)
      | (d1, Ok c) \<Rightarrow>
     (case server_client_from_config cl (Some path) server_url d1 of
        (d2, Err e) \<Rightarrow> (d2, h, Err e)
      | (d2, Ok client) \<Rightarrow>
          (case client_list_devices (cl_toml cl) (cl_http cl) client h of
             (client', h', r) \<Rightarrow> (sc_disk client', h', map_ok (\<lambda>devices. (c, devices)) r)))))"

text \<open>
  What is sent: the saved state of a resumed transfer, or the paths given under a new id.
\<close>

definition send_source :: "'h cli \<Rightarrow> file_system \<Rightarrow> uuid \<Rightarrow> send_args \<Rightarrow> send_transfer_state state_dir
    \<Rightarrow> send_transfer_state state_dir \<times> (daemon_error, uuid \<times> bool \<times> send_path_spec list \<times> device_id option) result" where
  "send_source cl fs fresh args sends =
     (case sa_resume args of
        Some tid \<Rightarrow>
          (case load_send_state (cl_ext cl) tid sends of
             (sends', r) \<Rightarrow>
               (sends', map_ok (\<lambda>s. (tid, True, sst_paths s, Some (sst_target s))) (map_err DConfig r)))
      | None \<Rightarrow>
          (sends, map_ok (\<lambda>ps. (fresh, False, ps, None)) (map_err DConfig (prepare_send_paths fs (sa_paths args)))))"

text \<open>From the confirmation on: the request to the daemon and its events.\<close>

definition send_confirmed :: "'h cli \<Rightarrow> control_link \<Rightarrow> send_path_spec list \<Rightarrow> uuid \<Rightarrow> bool \<Rightarrow> device_info \<Rightarrow> u64
    \<Rightarrow> send_control_body option \<times> bar_call list \<times> (daemon_error, unit) result option" where
  "send_confirmed cl k paths tid resume target total_bytes =
     (let request = SendFiles \<lparr>sf_target = di_device_id target, sf_paths = paths, sf_transfer_id = tid, sf_resume = resume\<rparr> in
      case connect_and_request k of
        Err e \<Rightarrow> (None, [], Some (Err e))
      | Ok _ \<Rightarrow>
     (case expect_ready_response k of
        Err e \<Rightarrow> (Some request, [], Some (Err e))
      | Ok _ \<Rightarrow>
          (case run_send_progress_loop (cl_ext cl) tid total_bytes (kl_events k) of
             (calls, r) \<Rightarrow> (Some request, calls, r))))"

definition send_new_or_resumed :: "'h cli \<Rightarrow> control_link \<Rightarrow> file_system \<Rightarrow> (u64 \<Rightarrow> string) \<Rightarrow> send_args
    \<Rightarrow> uuid \<times> bool \<times> send_path_spec list \<times> device_id option \<Rightarrow> send_transfer_state state_dir \<Rightarrow> disk \<Rightarrow> 'h \<Rightarrow> 'h send_outcome" where
  "send_new_or_resumed cl k fs show_bytes args source sends d h =
     (case source of (tid, resume, paths, saved_target) \<Rightarrow>
     (case load_devices cl (sa_config args) (sa_server_url args) d h of (d1, h1, loaded) \<Rightarrow>
     (let out = (\<lambda>req calls r. \<lparr>so_disk = d1, so_http = h1, so_sends = sends, so_request = req,
            so_bar = calls, so_result = r\<rparr>);
          stop = (\<lambda>e. out None [] (Some (Err e))) in
      case loaded of
        Err e \<Rightarrow> stop (Raised e)
      | Ok (c, devices) \<Rightarrow>
     (case resolve_send_target cl (sa_device args) saved_target (cf_device_id c) devices of
        Err e \<Rightarrow> stop e
      | Ok target \<Rightarrow>
     (if \<not> di_online target then stop (Raised (DConfig (''device '' @ di_name target @ '' is offline'')))
      else case collect_file_preview fs paths of
        Err e \<Rightarrow> stop (Raised (DConfig e))
      | Ok previews \<Rightarrow>
     (let total_bytes = sum_u64 (map fp_size previews) in
      case confirm_send cl show_bytes (map (\<lambda>p. (fp_name p, fp_size p)) previews) total_bytes (di_name target) (sa_yes args) of
        Err e \<Rightarrow> stop (Raised e)
      | Ok False \<Rightarrow> out None [] (Some (Ok ()))
      | Ok True \<Rightarrow>
          (case send_confirmed cl k paths tid resume target total_bytes of
             (req, calls, r) \<Rightarrow> out req calls (map_option (map_err Raised) r))))))))"

definition send_command :: "'h cli \<Rightarrow> control_link \<Rightarrow> file_system \<Rightarrow> (u64 \<Rightarrow> string) \<Rightarrow> uuid \<Rightarrow> send_args
    \<Rightarrow> send_transfer_state state_dir \<Rightarrow> disk \<Rightarrow> 'h \<Rightarrow> 'h send_outcome" where
  "send_command cl k fs show_bytes fresh args sends d h =
     (let out = (\<lambda>s req r. \<lparr>so_disk = d, so_http = h, so_sends = s, so_request = req, so_bar = [],
            so_result = Some (map_err Raised r)\<rparr>) in
      if sa_cancel_all args then (case cancel_all_transfers cl k (sa_yes args) of (req, r) \<Rightarrow> out sends req r)
      else if sa_resume args = None \<and> sa_paths args = []
      then (case list_incomplete_sends sends of (s', r) \<Rightarrow> out s' None (map_ok (\<lambda>_. ()) (map_err DConfig r)))
      else (case send_source cl fs fresh args sends of
              (s', Err e) \<Rightarrow> out s' None (Err e)
            | (s', Ok source) \<Rightarrow> send_new_or_resumed cl k fs show_bytes args source s' d h))"

section \<open>The loop ends with the transfer\<close>

lemma numbered_from:
  "length ss + n < 2 ^ 64 \<Longrightarrow>
   \<exists>calls' t. progress_loop x tid (of_nat n) tot
       (map (\<lambda>(i, s). Ok (progress_event (of_nat i) s)) (enumerate (Suc n) ss) @ rest) calls =
     progress_loop x tid (of_nat (n + length ss)) t rest calls' \<and>
     length (filter (\<lambda>c. \<exists>m. c = SetMessage m) calls') = length (filter (\<lambda>c. \<exists>m. c = SetMessage m) calls) + length ss"
proof (induction ss arbitrary: n tot calls)
  case Nil
  show ?case by (rule exI [of _ calls], rule exI [of _ tot]) simp
next
  case (Cons s ss)
  obtain phase bytes_done bytes_total current where s: "s = (phase, bytes_done, bytes_total, current)"
    by (metis prod_cases4)
  obtain t cs where p: "show_progress tot s = (t, cs)" by fastforce
  have cs: "length (filter (\<lambda>c. \<exists>m. c = SetMessage m) cs) = 1"
    using p by (auto simp: show_progress_def s Let_def split: if_splits)
  have u: "unat (of_nat j :: u64) = j" if "j < 2 ^ 64" for j
    using that by (simp add: unsigned_of_nat take_bit_nat_eq_self)
  have "\<not> (of_nat (Suc n) :: u64) \<le> of_nat n"
    using Cons.prems u [of n] u [of "Suc n"] by (simp add: word_le_nat_alt del: of_nat_Suc)
  then have "progress_loop x tid (of_nat n) tot (map (\<lambda>(i, s). Ok (progress_event (of_nat i) s))
        (enumerate (Suc n) (s # ss)) @ rest) calls =
      progress_loop x tid (of_nat (Suc n)) t (map (\<lambda>(i, s). Ok (progress_event (of_nat i) s))
        (enumerate (Suc (Suc n)) ss) @ rest) (calls @ cs)"
    using p by (simp add: s del: of_nat_Suc)
  with Cons.IH [of "Suc n" t "calls @ cs"] Cons.prems cs show ?case by auto
qed

lemma loop_ends:
  assumes "length ss < 2 ^ 64" "ending = SendComplete i \<or> ending = SendFailed m"
  shows "\<exists>calls r. run_send_progress_loop x tid tot (map Ok (numbered ss @ [ending])) = (calls, Some r) \<and>
     (r = Ok () \<longleftrightarrow> ending = SendComplete i) \<and>
     length (filter (\<lambda>c. \<exists>m. c = SetMessage m) calls) = length ss"
proof -
  let ?n = "\<lambda>calls :: bar_call list. length (filter (\<lambda>c. \<exists>m. c = SetMessage m) calls)"
  have e: "map Ok (numbered ss @ [ending]) =
      map (\<lambda>(i, s). Ok (progress_event (of_nat i) s)) (enumerate (Suc 0) ss) @ [Ok ending]"
    by (simp add: numbered_def case_prod_beta comp_def)
  obtain calls t where l: "run_send_progress_loop x tid tot (map Ok (numbered ss @ [ending])) =
      progress_loop x tid (of_nat (0 + length ss)) t [Ok ending] calls" "?n calls = length ss"
    using numbered_from [of ss 0 x tid tot "[Ok ending]" "[SetLength (max tot 1)]"] assms(1)
    unfolding e run_send_progress_loop_def by auto
  from assms(2) l show ?thesis by auto
qed

lemma numbered_length [simp]: "length (numbered ss) = length ss"
  by (simp add: numbered_def)

lemma take_enumerate: "take j (enumerate n xs) = enumerate n (take j xs)"
  by (induction xs arbitrary: n j) (auto simp: take_Cons split: nat.split)

lemma numbered_no_ending: "SendComplete i \<notin> set (numbered ss)"
proof
  assume "SendComplete i \<in> set (numbered ss)"
  then obtain n s where "SendComplete i = progress_event n s" by (auto simp: numbered_def)
  then show False by (cases s) simp
qed



end
