(* ===== verification/Clipboard.thy ===== *)
theory Clipboard
  imports Limits Blobs Network
begin

text \<open>
  The clipboard feature (\<open>failsafe-clipboard/src/payload.rs\<close>, \<open>feature/\<close>, \<open>io/\<close>): the wire
  payload, the conversion between it and the contents of the system clipboard, the message
  handler and one turn of the polling watcher. \<open>clip_env\<close> collects what lies outside: JSON,
  blake3, PNG, UTF-8 validation, the cache directory, the answers of file writes and the stream
  of fresh session ids. Paths of the clipboard are the text of their \<open>PathBuf\<close>.
\<close>

section \<open>Payloads and contents\<close>

definition CLIPBOARD_PAYLOAD_VERSION :: u32 where "CLIPBOARD_PAYLOAD_VERSION = 2"
definition INLINE_HTML_THRESHOLD :: nat where "INLINE_HTML_THRESHOLD = 64 * 1024"

record clip_file_entry =
  cfe_name :: string
  cfe_size :: u64

datatype payload_content =
    PText string
  | PHtml string string
  | PHtmlBlob string string
  | PImage string u32 u32 string
  | PFiles string "clip_file_entry list"

record clipboard_payload =
  cp_version :: u32
  cp_content :: payload_content

record image_data =
  img_width :: u32
  img_height :: u32
  img_rgba :: "u8 list"

datatype clipboard_content =
    CText string
  | CHtml string string
  | CImage image_data
  | CFiles "string list"

datatype clipboard_io_error = Unavailable string

fun clipboard_io_error_display :: "clipboard_io_error \<Rightarrow> string" where
  "clipboard_io_error_display (Unavailable m) = ''clipboard unavailable: '' @ m"

record clip_env =
  ce_ext :: ext
  ce_limits :: clipboard_limits
  ce_encode :: "clipboard_payload \<Rightarrow> u8 list"
  ce_parse :: "u8 list \<Rightarrow> clipboard_payload option"
  ce_parse_legacy :: "u8 list \<Rightarrow> (string, string) result"
  ce_blake3 :: "u8 list \<Rightarrow> u8 list"
  ce_png_encode :: "image_data \<Rightarrow> (string, u8 list) result"
  ce_png_decode :: "u8 list \<Rightarrow> (string, image_data) result"
  ce_from_utf8 :: "u8 list \<Rightarrow> (string, string) result"
  ce_cache_dir :: "string option"
  ce_write_fails :: "string \<Rightarrow> u8 list \<Rightarrow> string option"
  ce_uuid :: "nat \<Rightarrow> uuid"

definition clip_failed :: "string \<Rightarrow> feature_error" where
  "clip_failed m = Failed clipboard_id m"

definition clip_decode :: "clip_env \<Rightarrow> u8 list \<Rightarrow> (feature_error, clipboard_payload) result" where
  "clip_decode env bytes =
     (case ce_parse env bytes of
        Some payload \<Rightarrow> Ok payload
      | None \<Rightarrow>
          map_ok (\<lambda>text. \<lparr>cp_version = 1, cp_content = PText text\<rparr>)
            (map_err (\<lambda>e. clip_failed (''invalid clipboard payload: '' @ e)) (ce_parse_legacy env bytes)))"

definition payload_fingerprint :: "clip_env \<Rightarrow> clipboard_payload \<Rightarrow> string" where
  "payload_fingerprint env payload = hex (ce_blake3 env (ce_encode env payload))"

section \<open>The clipboard as a trait object\<close>

record 'k clipboard_ops =
  ck_read :: "'k \<Rightarrow> 'k \<times> (clipboard_io_error, clipboard_content option) result"
  ck_write :: "clipboard_content \<Rightarrow> 'k \<Rightarrow> 'k \<times> (clipboard_io_error, unit) result"

text \<open>What echo suppression needs of a clipboard: it shows what was written to it last.\<close>

locale clipboard_io =
  fixes ops :: "'k clipboard_ops"
  assumes write_shows: "ck_write ops c k = (k', Ok ()) \<Longrightarrow> snd (ck_read ops k') = Ok (Some c)"
    and read_keeps: "snd (ck_read ops (fst (ck_read ops k))) = snd (ck_read ops k)"

text \<open>\<open>MockClipboardIo\<close> (\<open>io/mock.rs\<close>).\<close>

definition mock_clipboard :: "clipboard_content option clipboard_ops" where
  "mock_clipboard = \<lparr>ck_read = (\<lambda>k. (k, Ok k)), ck_write = (\<lambda>c k. (Some c, Ok ()))\<rparr>"

interpretation mockclip: clipboard_io mock_clipboard
  by unfold_locales (auto simp: mock_clipboard_def)

section \<open>The system clipboard\<close>

datatype arboard_error = ContentNotAvailable | ArboardError string

fun arboard_error_display :: "string \<Rightarrow> arboard_error \<Rightarrow> string" where
  "arboard_error_display unavailable ContentNotAvailable = unavailable"
| "arboard_error_display unavailable (ArboardError m) = m"

text \<open>
  The \<open>arboard\<close> crate: opening the clipboard, the getters (an image has \<open>usize\<close> dimensions) and
  the setters.
\<close>

record 'a arboard_ops =
  ab_new :: "'a \<Rightarrow> (string, unit) result"
  ab_file_list :: "'a \<Rightarrow> (arboard_error, string list) result"
  ab_image :: "'a \<Rightarrow> (arboard_error, nat \<times> nat \<times> u8 list) result"
  ab_html :: "'a \<Rightarrow> (arboard_error, string) result"
  ab_text :: "'a \<Rightarrow> (arboard_error, string) result"
  ab_set_text :: "string \<Rightarrow> 'a \<Rightarrow> 'a \<times> (string, unit) result"
  ab_set_html :: "string \<Rightarrow> string \<Rightarrow> 'a \<Rightarrow> 'a \<times> (string, unit) result"
  ab_set_image :: "nat \<Rightarrow> nat \<Rightarrow> u8 list \<Rightarrow> 'a \<Rightarrow> 'a \<times> (string, unit) result"
  ab_set_file_list :: "string list \<Rightarrow> 'a \<Rightarrow> 'a \<times> (string, unit) result"

fun strip_tags_from :: "bool \<Rightarrow> string \<Rightarrow> string" where
  "strip_tags_from in_tag [] = []"
| "strip_tags_from in_tag (c # cs) =
     (if c = CHR ''<'' then strip_tags_from True cs
      else if c = CHR ''>'' then strip_tags_from False cs
      else if \<not> in_tag then c # strip_tags_from in_tag cs
      else strip_tags_from in_tag cs)"

definition strip_html_tags :: "string \<Rightarrow> string" where
  "strip_html_tags html = strip_tags_from False html"

text \<open>
  \<open>io/linux_files.rs\<close>: a list of paths, one per line, or nothing at all; \<open>percent\<close> is
  percent-decoding followed by UTF-8 validation.
\<close>

definition parse_path_line :: "(string \<Rightarrow> string option) \<Rightarrow> string \<Rightarrow> string option" where
  "parse_path_line percent line =
     (case strip_prefix ''file://'' line of
        Some uri \<Rightarrow> percent uri
      | None \<Rightarrow> if starts_with line ''/'' then Some line else None)"

definition parse_file_paths_from_clipboard_text :: "(string \<Rightarrow> string option) \<Rightarrow> string \<Rightarrow> string list" where
  "parse_file_paths_from_clipboard_text percent text =
     (let lines = filter (\<lambda>l. l \<noteq> []) (map trim (str_lines text));
          lines = (case lines of l # ls \<Rightarrow> if l = ''copy'' \<or> l = ''cut'' then ls else lines | [] \<Rightarrow> []);
          paths = map (parse_path_line percent) lines in
      if None \<in> set paths then [] else map the paths)"

definition read_clipboard_files :: "(string \<Rightarrow> string option) \<Rightarrow> (string \<Rightarrow> bool) \<Rightarrow> 'a arboard_ops \<Rightarrow> 'a
    \<Rightarrow> string list option" where
  "read_clipboard_files percent exists ab a =
     (let listed = (case ab_file_list ab a of Err _ \<Rightarrow> [] | Ok files \<Rightarrow> filter exists files) in
      if listed \<noteq> [] then Some listed
      else
       (let parsed = (case ab_text ab a of Err _ \<Rightarrow> []
              | Ok text \<Rightarrow> filter exists (parse_file_paths_from_clipboard_text percent text)) in
        if parsed \<noteq> [] then Some parsed else None))"

definition read_system_clipboard :: "string \<Rightarrow> (string \<Rightarrow> string option) \<Rightarrow> (string \<Rightarrow> bool) \<Rightarrow> 'a arboard_ops \<Rightarrow> 'a
    \<Rightarrow> (clipboard_io_error, clipboard_content option) result" where
  "read_system_clipboard unavailable percent exists ab a =
     (case ab_new ab a of
        Err e \<Rightarrow> Err (Unavailable e)
      | Ok _ \<Rightarrow>
     (case read_clipboard_files percent exists ab a of
        Some files \<Rightarrow> Ok (Some (CFiles files))
      | None \<Rightarrow>
     (case ab_image ab a of
        Ok (width, height, bytes) \<Rightarrow>
          Ok (Some (CImage \<lparr>img_width = of_nat width, img_height = of_nat height, img_rgba = bytes\<rparr>))
      | Err _ \<Rightarrow>
     (case ab_html ab a of
        Ok html \<Rightarrow>
          Ok (Some (CHtml html (case ab_text ab a of Ok plain \<Rightarrow> plain | Err _ \<Rightarrow> strip_html_tags html)))
      | Err _ \<Rightarrow>
     (case ab_text ab a of
        Ok text \<Rightarrow> Ok (Some (CText text))
      | Err ContentNotAvailable \<Rightarrow> Ok None
      | Err e \<Rightarrow> Err (Unavailable (arboard_error_display unavailable e)))))))"

definition write_system_clipboard :: "'a arboard_ops \<Rightarrow> clipboard_content \<Rightarrow> 'a
    \<Rightarrow> 'a \<times> (clipboard_io_error, unit) result" where
  "write_system_clipboard ab content a =
     (case ab_new ab a of
        Err e \<Rightarrow> (a, Err (Unavailable e))
      | Ok _ \<Rightarrow>
          (case (case content of
              CText text \<Rightarrow> ab_set_text ab text a
            | CHtml html plain \<Rightarrow> ab_set_html ab html plain a
            | CImage img \<Rightarrow> ab_set_image ab (unat (img_width img)) (unat (img_height img)) (img_rgba img) a
            | CFiles paths \<Rightarrow> ab_set_file_list ab paths a) of
             (a', r) \<Rightarrow> (a', map_err Unavailable r)))"

text \<open>\<open>SystemClipboardIo\<close>.\<close>

definition system_clipboard :: "string \<Rightarrow> (string \<Rightarrow> string option) \<Rightarrow> (string \<Rightarrow> bool) \<Rightarrow> 'a arboard_ops
    \<Rightarrow> 'a clipboard_ops" where
  "system_clipboard unavailable percent exists ab =
     \<lparr>ck_read = (\<lambda>a. (a, read_system_clipboard unavailable percent exists ab a)),
      ck_write = write_system_clipboard ab\<rparr>"

section \<open>State and world\<close>

record clip_state =
  cs_last_emitted :: "string option"
  cs_last_failed :: "string option"
  cs_applying_remote :: bool
  cs_watching :: bool

definition clip_state_new :: clip_state where
  "clip_state_new = \<lparr>cs_last_emitted = None, cs_last_failed = None, cs_applying_remote = False,
     cs_watching = False\<rparr>"

text \<open>
  What the feature shares with the rest of the daemon: \<open>kw_files\<close> has the existing paths with
  what reading them answers; \<open>kw_sessions\<close> counts the session ids drawn.
\<close>

record ('t, 'b, 'k) clip_world =
  kw_transport :: 't
  kw_peers :: peer_directory
  kw_blobs :: 'b
  kw_clipboard :: 'k
  kw_files :: "string \<rightharpoonup> (string, u8 list) result"
  kw_sessions :: nat

section \<open>Receiving\<close>

definition path_entry :: "string \<Rightarrow> string \<Rightarrow> string" where
  "path_entry dir name = dir @ ''/'' @ name"

text \<open>The files of a directory, laid over the file system.\<close>

definition place :: "string \<Rightarrow> (string \<rightharpoonup> u8 list) \<Rightarrow> (string \<rightharpoonup> (string, u8 list) result)
    \<Rightarrow> string \<rightharpoonup> (string, u8 list) result" where
  "place dir entries fs =
     (\<lambda>p. case strip_prefix (dir @ ''/'') p of
        None \<Rightarrow> fs p
      | Some name \<Rightarrow> (case entries name of None \<Rightarrow> fs p | Some data \<Rightarrow> Some (Ok data)))"

definition write_received_files :: "clip_env \<Rightarrow> (string \<times> u8 list) list \<Rightarrow> ('t, 'b, 'k, 'm) clip_world_scheme
    \<Rightarrow> ('t, 'b, 'k, 'm) clip_world_scheme \<times> (clipboard_io_error, string list) result" where
  "write_received_files env files w =
     (case ce_cache_dir env of
        None \<Rightarrow> (w, Err (Unavailable ''clipboard cache dir unavailable''))
      | Some cache \<Rightarrow>
         (let session = path_entry (cache @ ''/failsafe/clipboard'')
                (uuid_display (ce_ext env) (ce_uuid env (kw_sessions w))) in
          case write_named_files (\<lambda>n d. ce_write_fails env (path_entry session n) d) Map.empty files of
            (entries, r) \<Rightarrow>
              (w\<lparr>kw_sessions := Suc (kw_sessions w), kw_files := place session entries (kw_files w)\<rparr>,
               map_ok (map (path_entry session)) (map_err Unavailable r))))"

definition resolve_payload_to_content :: "clip_env \<Rightarrow> 'b blob_ops \<Rightarrow> clipboard_payload \<Rightarrow> device_id
    \<Rightarrow> ('t, 'b, 'k, 'm) clip_world_scheme
    \<Rightarrow> ('t, 'b, 'k, 'm) clip_world_scheme \<times> (string, clipboard_content) result" where
  "resolve_payload_to_content env bops payload peer w =
     (case cp_content payload of
        PText text \<Rightarrow> (w, Ok (CText text))
      | PHtml html plain \<Rightarrow> (w, Ok (CHtml html plain))
      | PHtmlBlob h plain \<Rightarrow>
          (case bt_fetch_bytes bops peer h (kw_blobs w) of
             (b', r) \<Rightarrow>
               (w\<lparr>kw_blobs := b'\<rparr>,
                and_then (map_err blob_error_display r) (\<lambda>data.
                and_then (validate_blob (ce_limits env) (length data)) (\<lambda>_.
                map_ok (\<lambda>html. CHtml html plain)
                  (map_err (\<lambda>e. ''clipboard html blob is not valid utf-8: '' @ e) (ce_from_utf8 env data))))))
      | PImage h width height _ \<Rightarrow>
          (case bt_fetch_bytes bops peer h (kw_blobs w) of
             (b', r) \<Rightarrow>
               (w\<lparr>kw_blobs := b'\<rparr>,
                and_then (map_err blob_error_display r) (\<lambda>data.
                and_then (validate_blob (ce_limits env) (length data)) (\<lambda>_.
                map_ok (\<lambda>img. CImage (img\<lparr>img_width := width, img_height := height\<rparr>))
                  (ce_png_decode env data)))))
      | PFiles collection_hash _ \<Rightarrow>
          (case bt_fetch_collection_files bops peer collection_hash (kw_blobs w) of
             (b', Err e) \<Rightarrow> (w\<lparr>kw_blobs := b'\<rparr>, Err (blob_error_display e))
           | (b', Ok files) \<Rightarrow>
               (case validate_files (ce_limits env) files of
                  Err e \<Rightarrow> (w\<lparr>kw_blobs := b'\<rparr>, Err e)
                | Ok _ \<Rightarrow>
                    (case write_received_files env files (w\<lparr>kw_blobs := b'\<rparr>) of
                       (w', r) \<Rightarrow> (w', map_ok CFiles (map_err clipboard_io_error_display r))))))"

text \<open>
  \<open>handle_message\<close> in the two pieces the watcher can run between: the payload is resolved and
  \<open>applying_remote\<close> set; the content is written, its fingerprint noted and the flag cleared.
\<close>

definition begin_apply :: "clip_env \<Rightarrow> 'b blob_ops \<Rightarrow> feature_message \<Rightarrow> clip_state
    \<Rightarrow> ('t, 'b, 'k, 'm) clip_world_scheme
    \<Rightarrow> clip_state \<times> ('t, 'b, 'k, 'm) clip_world_scheme \<times>
       (feature_error, clipboard_payload \<times> clipboard_content) result" where
  "begin_apply env bops message s w =
     (case clip_decode env (fm_payload message) of
        Err e \<Rightarrow> (s, w, Err e)
      | Ok payload \<Rightarrow>
          (case resolve_payload_to_content env bops payload (fm_from message) w of
             (w', Err e) \<Rightarrow> (s, w', Err (clip_failed e))
           | (w', Ok content) \<Rightarrow> (s\<lparr>cs_applying_remote := True\<rparr>, w', Ok (payload, content))))"

definition finish_apply :: "clip_env \<Rightarrow> 'k clipboard_ops \<Rightarrow> clipboard_payload \<Rightarrow> clipboard_content
    \<Rightarrow> clip_state \<Rightarrow> ('t, 'b, 'k, 'm) clip_world_scheme
    \<Rightarrow> clip_state \<times> ('t, 'b, 'k, 'm) clip_world_scheme \<times> (feature_error, unit) result" where
  "finish_apply env kops payload content s w =
     (case ck_write kops content (kw_clipboard w) of
        (k', r) \<Rightarrow>
          (s\<lparr>cs_last_emitted := Some (payload_fingerprint env payload), cs_applying_remote := False\<rparr>,
           w\<lparr>kw_clipboard := k'\<rparr>,
           map_err (\<lambda>e. clip_failed (clipboard_io_error_display e)) r))"

definition clip_handle_message :: "clip_env \<Rightarrow> 'b blob_ops \<Rightarrow> 'k clipboard_ops \<Rightarrow> feature_message
    \<Rightarrow> clip_state \<Rightarrow> ('t, 'b, 'k, 'm) clip_world_scheme
    \<Rightarrow> clip_state \<times> ('t, 'b, 'k, 'm) clip_world_scheme \<times> (feature_error, unit) result" where
  "clip_handle_message env bops kops message s w =
     (case begin_apply env bops message s w of
        (s', w', Err e) \<Rightarrow> (s', w', Err e)
      | (s', w', Ok (payload, content)) \<Rightarrow> finish_apply env kops payload content s' w')"

section \<open>Sending\<close>

text \<open>The files of the clipboard that exist, with their contents; the first unreadable one is an error.\<close>

fun read_clipboard_paths :: "clip_env \<Rightarrow> (string \<rightharpoonup> (string, u8 list) result) \<Rightarrow> string list
    \<Rightarrow> (string, (string \<times> u8 list) list) result" where
  "read_clipboard_paths env fs [] = Ok []"
| "read_clipboard_paths env fs (p # paths) =
     (case fs p of
        None \<Rightarrow> read_clipboard_paths env fs paths
      | Some (Err e) \<Rightarrow> Err (''failed to read '' @ p @ '': '' @ e)
      | Some (Ok data) \<Rightarrow>
          (let name = (case path_file_name p of None \<Rightarrow> ''file''
                 | Some v \<Rightarrow> (case ce_from_utf8 env (bytes_of v) of Ok s \<Rightarrow> s | Err _ \<Rightarrow> ''file'')) in
           map_ok (\<lambda>files. (name, data) # files) (read_clipboard_paths env fs paths)))"

definition content_to_payload :: "clip_env \<Rightarrow> 'b blob_ops \<Rightarrow> clipboard_content
    \<Rightarrow> ('t, 'b, 'k, 'm) clip_world_scheme
    \<Rightarrow> ('t, 'b, 'k, 'm) clip_world_scheme \<times> (string, clipboard_payload) result" where
  "content_to_payload env bops content w =
     (let payload = (\<lambda>c. \<lparr>cp_version = CLIPBOARD_PAYLOAD_VERSION, cp_content = c\<rparr>) in
      case content of
        CText text \<Rightarrow> (w, Ok (payload (PText text)))
      | CHtml html plain \<Rightarrow>
          (if length html \<le> INLINE_HTML_THRESHOLD then (w, Ok (payload (PHtml html plain)))
           else
            (case validate_blob (ce_limits env) (length html) of
               Err e \<Rightarrow> (w, Err e)
             | Ok _ \<Rightarrow>
                 (case bt_store_bytes bops (bytes_of html) (kw_blobs w) of
                    (b', r) \<Rightarrow> (w\<lparr>kw_blobs := b'\<rparr>,
                      map_ok (\<lambda>h. payload (PHtmlBlob h plain)) (map_err blob_error_display r)))))
      | CImage img \<Rightarrow>
          (case and_then (ce_png_encode env img)
                  (\<lambda>png. map_ok (\<lambda>_. png) (validate_blob (ce_limits env) (length png))) of
             Err e \<Rightarrow> (w, Err e)
           | Ok png \<Rightarrow>
               (case bt_store_bytes bops png (kw_blobs w) of
                  (b', r) \<Rightarrow> (w\<lparr>kw_blobs := b'\<rparr>,
                    map_ok (\<lambda>h. payload (PImage h (img_width img) (img_height img) ''image/png''))
                      (map_err blob_error_display r))))
      | CFiles paths \<Rightarrow>
          (case read_clipboard_paths env (kw_files w) paths of
             Err e \<Rightarrow> (w, Err e)
           | Ok files \<Rightarrow>
               (if files = [] then (w, Err ''clipboard file paths are missing or unreadable'')
                else
                 (case validate_files (ce_limits env) files of
                    Err e \<Rightarrow> (w, Err e)
                  | Ok _ \<Rightarrow>
                      (case bt_store_files bops files (kw_blobs w) of
                         (b', r) \<Rightarrow> (w\<lparr>kw_blobs := b'\<rparr>,
                           map_ok (\<lambda>h. payload (PFiles h
                             (map (\<lambda>(name, data). \<lparr>cfe_name = name, cfe_size = byte_len data\<rparr>) files)))
                             (map_err blob_error_display r)))))))"

definition content_seed :: "clip_env \<Rightarrow> clipboard_content \<Rightarrow> string" where
  "content_seed env content =
     (case content of
        CText text \<Rightarrow> ''text:'' @ text
      | CHtml html plain \<Rightarrow> ''html:'' @ html @ [CHR 0x00] @ plain
      | CImage img \<Rightarrow> ''image:'' @ show_nat (unat (img_width img)) @ ''x'' @
          show_nat (unat (img_height img)) @ '':'' @ hex (ce_blake3 env (img_rgba img))
      | CFiles paths \<Rightarrow> ''files:'' @ join_with [CHR 0x00] paths)"

definition fingerprint_content :: "clip_env \<Rightarrow> clipboard_content \<Rightarrow> string" where
  "fingerprint_content env content = hex (ce_blake3 env (bytes_of (content_seed env content)))"

text \<open>One turn of \<open>watch_clipboard\<close>.\<close>

definition watch_tick :: "clip_env \<Rightarrow> 't transport_ops \<Rightarrow> 'b blob_ops \<Rightarrow> 'k clipboard_ops \<Rightarrow> clip_state
    \<Rightarrow> ('t, 'b, 'k, 'm) clip_world_scheme \<Rightarrow> clip_state \<times> ('t, 'b, 'k, 'm) clip_world_scheme" where
  "watch_tick env tops bops kops s w =
     (if cs_applying_remote s then (s, w)
      else
       (case ck_read kops (kw_clipboard w) of
          (k', Err _) \<Rightarrow> (s, w\<lparr>kw_clipboard := k'\<rparr>)
        | (k', Ok None) \<Rightarrow> (s, w\<lparr>kw_clipboard := k'\<rparr>)
        | (k', Ok (Some content)) \<Rightarrow>
           (let w1 = w\<lparr>kw_clipboard := k'\<rparr>; content_fp = fingerprint_content env content in
            case content_to_payload env bops content w1 of
              (w2, Err _) \<Rightarrow>
                (if cs_last_failed s = Some content_fp then (s, w2)
                 else (s\<lparr>cs_last_failed := Some content_fp\<rparr>, w2))
            | (w2, Ok payload) \<Rightarrow>
               (let s1 = s\<lparr>cs_last_failed := None\<rparr>; fp = payload_fingerprint env payload in
                if cs_last_emitted s1 = Some fp then (s1, w2)
                else
                 (s1\<lparr>cs_last_emitted := Some fp\<rparr>,
                  w2\<lparr>kw_transport := fst (publish (ce_ext env) tops (kw_peers w2)
                     \<lparr>om_feature = clipboard_id, om_payload = ce_encode env payload\<rparr> (kw_transport w2))\<rparr>)))))"

section \<open>Life of the feature\<close>

definition clip_start :: "clip_state \<Rightarrow> 'w \<Rightarrow> clip_state \<times> 'w \<times> (feature_error, unit) result" where
  "clip_start s w = (if cs_watching s then (s, w, Ok ()) else (s\<lparr>cs_watching := True\<rparr>, w, Ok ()))"

definition clip_stop :: "clip_state \<Rightarrow> 'w \<Rightarrow> clip_state \<times> 'w \<times> (feature_error, unit) result" where
  "clip_stop s w = (s\<lparr>cs_watching := False\<rparr>, w, Ok ())"

text \<open>The watcher task turns only while it is running.\<close>

definition clip_tick :: "clip_env \<Rightarrow> 't transport_ops \<Rightarrow> 'b blob_ops \<Rightarrow> 'k clipboard_ops \<Rightarrow> clip_state
    \<Rightarrow> ('t, 'b, 'k, 'm) clip_world_scheme \<Rightarrow> clip_state \<times> ('t, 'b, 'k, 'm) clip_world_scheme" where
  "clip_tick env tops bops kops s w = (if cs_watching s then watch_tick env tops bops kops s w else (s, w))"

fun clip_ticks :: "nat \<Rightarrow> clip_env \<Rightarrow> 't transport_ops \<Rightarrow> 'b blob_ops \<Rightarrow> 'k clipboard_ops \<Rightarrow> clip_state
    \<Rightarrow> ('t, 'b, 'k, 'm) clip_world_scheme \<Rightarrow> clip_state \<times> ('t, 'b, 'k, 'm) clip_world_scheme" where
  "clip_ticks 0 env tops bops kops s w = (s, w)"
| "clip_ticks (Suc n) env tops bops kops s w =
     (case clip_tick env tops bops kops s w of (s', w') \<Rightarrow> clip_ticks n env tops bops kops s' w')"

section \<open>Echo suppression\<close>

text \<open>
  Payloads that travel inside the message and that \<open>content_to_payload\<close> builds again from the
  content they stand for.
\<close>

definition inline_content :: "payload_content \<Rightarrow> clipboard_content \<Rightarrow> bool" where
  "inline_content p c \<longleftrightarrow>
     (case p of PText t \<Rightarrow> c = CText t
      | PHtml html plain \<Rightarrow> length html \<le> INLINE_HTML_THRESHOLD \<and> c = CHtml html plain
      | _ \<Rightarrow> False)"

lemma inline_rebuilt:
  "inline_content p c \<Longrightarrow>
     content_to_payload env bops c w = (w, Ok \<lparr>cp_version = CLIPBOARD_PAYLOAD_VERSION, cp_content = p\<rparr>)"
  by (auto simp: inline_content_def content_to_payload_def Let_def split: payload_content.splits)

lemma inline_resolved:
  "inline_content p c \<Longrightarrow> cp_content payload = p \<Longrightarrow>
     resolve_payload_to_content env bops payload peer w = (w, Ok c)"
  by (auto simp: inline_content_def resolve_payload_to_content_def split: payload_content.splits)

text \<open>The watcher is at rest: what the clipboard shows is what was emitted last.\<close>

definition at_rest :: "clip_env \<Rightarrow> 'k clipboard_ops \<Rightarrow> clipboard_content \<Rightarrow> payload_content \<Rightarrow> clip_state
    \<Rightarrow> ('t, 'b, 'k, 'm) clip_world_scheme \<Rightarrow> bool" where
  "at_rest env kops c p s w \<longleftrightarrow> snd (ck_read kops (kw_clipboard w)) = Ok (Some c) \<and>
     cs_last_emitted s =
       Some (payload_fingerprint env \<lparr>cp_version = CLIPBOARD_PAYLOAD_VERSION, cp_content = p\<rparr>)"

lemma ticks_applying: "cs_applying_remote s \<Longrightarrow> clip_ticks n env tops bops kops s w = (s, w)"
  by (induction n) (simp_all add: clip_tick_def watch_tick_def)

context clipboard_io
begin

lemma tick_at_rest:
  assumes "inline_content p c" "at_rest env ops c p s w"
  shows "at_rest env ops c p (fst (clip_tick env tops bops ops s w)) (snd (clip_tick env tops bops ops s w))"
    and "kw_transport (snd (clip_tick env tops bops ops s w)) = kw_transport w"
proof -
  obtain k' where k: "ck_read ops (kw_clipboard w) = (k', Ok (Some c))"
    using assms(2) by (metis at_rest_def prod.collapse)
  then have k': "snd (ck_read ops k') = Ok (Some c)" using read_keeps [of "kw_clipboard w"] by simp
  show "at_rest env ops c p (fst (clip_tick env tops bops ops s w)) (snd (clip_tick env tops bops ops s w))"
    "kw_transport (snd (clip_tick env tops bops ops s w)) = kw_transport w"
    using assms k k'
    by (auto simp: clip_tick_def watch_tick_def at_rest_def Let_def inline_rebuilt [OF assms(1)])
qed

lemma ticks_at_rest:
  assumes "inline_content p c"
  shows "at_rest env ops c p s w \<Longrightarrow>
     kw_transport (snd (clip_ticks n env tops bops ops s w)) = kw_transport w"
proof (induction n arbitrary: s w)
  case (Suc n)
  note t = tick_at_rest [OF assms Suc.prems, of tops bops]
  obtain s' w' where st: "clip_tick env tops bops ops s w = (s', w')" by fastforce
  with t have "at_rest env ops c p s' w'" "kw_transport w' = kw_transport w" by simp_all
  with Suc.IH st show ?case by simp
qed simp

lemma finish_at_rest:
  assumes "finish_apply env ops payload c s w = (s', w', Ok ())"
    "cp_version payload = CLIPBOARD_PAYLOAD_VERSION"
  shows "at_rest env ops c (cp_content payload) s' w'" "kw_transport w' = kw_transport w"
proof -
  have pl: "payload = \<lparr>cp_version = CLIPBOARD_PAYLOAD_VERSION, cp_content = cp_content payload\<rparr>"
    using assms(2) by (cases payload) simp
  from assms(1) obtain k' where "ck_write ops c (kw_clipboard w) = (k', Ok ())"
    by (auto simp: finish_apply_def split: prod.splits)
  with assms(1) write_shows have "snd (ck_read ops (kw_clipboard w')) = Ok (Some c)"
    and "cs_last_emitted s' = Some (payload_fingerprint env payload)"
    and "kw_transport w' = kw_transport w"
    by (auto simp: finish_apply_def)
  then show "at_rest env ops c (cp_content payload) s' w'" "kw_transport w' = kw_transport w"
    using pl by (auto simp: at_rest_def)
qed

lemma tick_then_at_rest:
  assumes "inline_content p c" "cs_watching s" "\<not> cs_applying_remote s"
    "snd (ck_read ops (kw_clipboard w)) = Ok (Some c)"
  shows "at_rest env ops c p (fst (clip_tick env tops bops ops s w)) (snd (clip_tick env tops bops ops s w))"
proof -
  obtain k' where k: "ck_read ops (kw_clipboard w) = (k', Ok (Some c))"
    using assms(4) by (metis prod.collapse)
  then have "snd (ck_read ops k') = Ok (Some c)" using read_keeps [of "kw_clipboard w"] by simp
  with k assms show ?thesis
    by (auto simp: clip_tick_def watch_tick_def at_rest_def Let_def inline_rebuilt [OF assms(1)])
qed

lemma applied_not_echoed:
  assumes "begin_apply env bops m s w = (s1, w1, Ok (payload, c))"
    and "clip_ticks j env tops bops ops s1 w1 = (s2, w2)"
    and "finish_apply env ops payload c s2 w2 = (s3, w3, Ok ())"
    and "cp_version payload = CLIPBOARD_PAYLOAD_VERSION" "inline_content (cp_content payload) c"
  shows "kw_transport (snd (clip_ticks n env tops bops ops s3 w3)) = kw_transport w"
proof -
  from assms(1) have app: "cs_applying_remote s1"
    and r: "resolve_payload_to_content env bops payload (fm_from m) w = (w1, Ok c)"
    by (auto simp: begin_apply_def split: sum.splits prod.splits)
  from r have "w1 = w" by (simp add: inline_resolved [OF assms(5) refl])
  moreover have "s2 = s1" "w2 = w1" using assms(2) by (simp_all add: ticks_applying [OF app])
  ultimately show ?thesis
    using ticks_at_rest [OF assms(5) finish_at_rest(1) [OF assms(3,4)]] finish_at_rest(2) [OF assms(3,4)]
    by simp
qed

end


definition sample_payload_writer :: "clipboard_payload \<Rightarrow> u8 list" where
  "sample_payload_writer p = ucast (cp_version p) # (case cp_content p of PText t \<Rightarrow> bytes_of t | _ \<Rightarrow> [])"

definition sample_clip_env :: clip_env where
  "sample_clip_env =
     \<lparr>ce_ext = sample_ext, ce_limits = limits_default, ce_encode = sample_payload_writer,
      ce_parse = (\<lambda>bs. case bs of [] \<Rightarrow> None
        | v # bs \<Rightarrow> if v = 2 then Some \<lparr>cp_version = 2, cp_content = PText (map (\<lambda>b. char_of (unat b)) bs)\<rparr>
                   else None),
      ce_parse_legacy = (\<lambda>bs. Ok (map (\<lambda>b. char_of (unat b)) bs)), ce_blake3 = id,
      ce_png_encode = (\<lambda>_. Err []), ce_png_decode = (\<lambda>_. Err []),
      ce_from_utf8 = (\<lambda>bs. Ok (map (\<lambda>b. char_of (unat b)) bs)), ce_cache_dir = Some ''/cache'',
      ce_write_fails = (\<lambda>_ _. None), ce_uuid = of_nat\<rparr>"

definition sample_mock_env :: mock_env where
  "sample_mock_env = \<lparr>me_hash = hex, me_len = (\<lambda>_. 0), me_read = (\<lambda>_. Err []), me_write = (\<lambda>_. None)\<rparr>"

definition sample_mock_state :: mock_state where
  "sample_mock_state = \<lparr>ms_blobs = Map.empty, ms_collections = Map.empty, ms_downloaded = {}, ms_disk = []\<rparr>"

definition sample_clip_world :: "(net_state, mock_state, clipboard_content option) clip_world" where
  "sample_clip_world =
     \<lparr>kw_transport = sample_publish_net, kw_peers = sample_directory, kw_blobs = sample_mock_state,
      kw_clipboard = None, kw_files = Map.empty, kw_sessions = 0\<rparr>"

definition sample_clip_state :: clip_state where
  "sample_clip_state = clip_state_new\<lparr>cs_watching := True\<rparr>"

definition sample_clip_message :: "u8 list \<Rightarrow> feature_message" where
  "sample_clip_message bs = feature_message_new (DeviceId 7) (DeviceId 1) clipboard_id bs"


text \<open>
  A payload in the old format is sent out again: the message handler notes the fingerprint of
  the payload it decoded, which carries version 1, while the watcher builds version 2.
\<close>

lemma legacy_payload_echoed:
  assumes "clip_decode env (fm_payload m) = Ok \<lparr>cp_version = 1, cp_content = PText t\<rparr>"
    and "ck_write kops (CText t) (kw_clipboard w) = (k', Ok ())" "ck_read kops k' = (k', Ok (Some (CText t)))"
    and "payload_fingerprint env \<lparr>cp_version = 1, cp_content = PText t\<rparr> \<noteq>
         payload_fingerprint env \<lparr>cp_version = 2, cp_content = PText t\<rparr>"
    and "cs_watching s"
    and "clip_handle_message env bops kops m s w = (s', w', Ok ())"
  shows "kw_transport (snd (clip_tick env tops bops kops s' w')) =
     fst (publish (ce_ext env) tops (kw_peers w)
       \<lparr>om_feature = clipboard_id, om_payload = ce_encode env \<lparr>cp_version = 2, cp_content = PText t\<rparr>\<rparr>
       (kw_transport w))"
  using assms
  by (auto simp: clip_handle_message_def begin_apply_def resolve_payload_to_content_def finish_apply_def
      clip_tick_def watch_tick_def content_to_payload_def Let_def CLIPBOARD_PAYLOAD_VERSION_def)

text \<open>
  On Linux a text that names an existing file is read back as that file. So a device that
  receives such a text as a clipboard text answers it by publishing the contents of its own
  file of that name.
\<close>

lemma path_text_read_as_file:
  assumes "str_lines t = [t]" "trim t = t" "starts_with t ''/''" "exists t"
    and "ab_new ab a = Ok ()" "ab_text ab a = Ok t"
    and "\<And>files. ab_file_list ab a = Ok files \<Longrightarrow> filter exists files = []"
  shows "read_system_clipboard unavailable percent exists ab a = Ok (Some (CFiles [t]))"
proof -
  have ne: "t \<noteq> []" "t \<noteq> ''copy''" "t \<noteq> ''cut''" "strip_prefix ''file://'' t = None"
    using assms(3) by (cases t; auto simp: starts_with_def)+
  have "parse_file_paths_from_clipboard_text percent t = [t]"
    using assms(1-3) ne by (simp add: parse_file_paths_from_clipboard_text_def parse_path_line_def)
  then have "read_clipboard_files percent exists ab a = Some [t]"
    using assms(4,6,7) by (auto simp: read_clipboard_files_def split: sum.splits)
  then show ?thesis using assms(5) by (simp add: read_system_clipboard_def)
qed

lemma path_text_publishes_file:
  assumes "snd (read_clip (kw_clipboard w)) = Ok (Some (CFiles [t]))"
    and "ck_read kops = read_clip" "cs_watching s" "\<not> cs_applying_remote s"
    and "kw_files w t = Some (Ok data)" "path_file_name t = Some n" "ce_from_utf8 env (bytes_of n) = Ok n"
    and "validate_files (ce_limits env) [(n, data)] = Ok ()"
    and "bt_store_files bops [(n, data)] (kw_blobs w) = (b', Ok h)"
    and "cs_last_emitted s \<noteq> Some (payload_fingerprint env \<lparr>cp_version = CLIPBOARD_PAYLOAD_VERSION,
           cp_content = PFiles h [\<lparr>cfe_name = n, cfe_size = byte_len data\<rparr>]\<rparr>)"
  shows "kw_transport (snd (clip_tick env tops bops kops s w)) =
     fst (publish (ce_ext env) tops (kw_peers w)
       \<lparr>om_feature = clipboard_id, om_payload = ce_encode env \<lparr>cp_version = CLIPBOARD_PAYLOAD_VERSION,
          cp_content = PFiles h [\<lparr>cfe_name = n, cfe_size = byte_len data\<rparr>]\<rparr>\<rparr> (kw_transport w))"
proof -
  obtain k' where "ck_read kops (kw_clipboard w) = (k', Ok (Some (CFiles [t])))"
    using assms(1,2) by (metis prod.collapse)
  with assms show ?thesis
    by (auto simp: clip_tick_def watch_tick_def content_to_payload_def Let_def)
qed

end
