(* ===== verification/Features.thy ===== *)
theory Features
  imports Registry Clipboard Send_Feature Shell_Port
begin

text \<open>
  The daemon's four features as one type and the registry built from them
  (\<open>failsafe-feature-registry/src/feature_registry.rs\<close>): \<open>Box<dyn Feature>\<close> is \<open>daemon_feature\<close>,
  the dispatch over it is \<open>daemon_ops\<close>. Everything the features share through \<open>Arc\<close> is a
  field of \<open>daemon_world\<close>.
\<close>

section \<open>Features and the world they share\<close>

datatype daemon_feature =
    ClipboardFeature clip_state
  | SendFeature
  | ShellFeature shell_feature
  | PortFeature port_feature

text \<open>
  \<open>dw_startups\<close> counts the startup tasks of the send feature that have not run yet;
  \<open>dw_watchers\<close> has the known peers of each of its resume watchers.
\<close>

record ('b, 'k) daemon_world = "(net_state, 'b, 'k) clip_world" +
  dw_send :: send_node
  dw_states :: "receive_transfer_state state_dir"
  dw_notified :: "(string \<times> nat \<times> path) list"
  dw_startups :: nat
  dw_watchers :: "device_id list list"

record ('b, 'k) daemon_env =
  de_clip :: clip_env
  de_blobs :: "'b blob_ops"
  de_clipboard :: "'k clipboard_ops"
  de_send_decode :: "u8 list \<Rightarrow> (string, send_envelope) result"
  de_send_encode :: "send_envelope \<Rightarrow> u8 list"
  de_message_encode :: "feature_message \<Rightarrow> (string, u8 list) result"
  de_recv :: recv_config

fun daemon_feature_id :: "daemon_feature \<Rightarrow> feature_id" where
  "daemon_feature_id (ClipboardFeature _) = clipboard_id"
| "daemon_feature_id SendFeature = send_id"
| "daemon_feature_id (ShellFeature _) = shell_id"
| "daemon_feature_id (PortFeature _) = port_id"

text \<open>Run an operation on the network inside the world.\<close>

definition on_net :: "('f \<Rightarrow> net_state \<Rightarrow> 'f \<times> net_state \<times> 'r) \<Rightarrow> ('f \<Rightarrow> daemon_feature) \<Rightarrow> 'f
    \<Rightarrow> ('b, 'k) daemon_world \<Rightarrow> daemon_feature \<times> ('b, 'k) daemon_world \<times> 'r" where
  "on_net op wrap f w = (case op f (kw_transport w) of
     (f', t', r) \<Rightarrow> (wrap f', w\<lparr>kw_transport := t'\<rparr>, r))"

text \<open>
  \<open>SendFeature::start\<close> spawns the startup resume and a watcher each time it is called;
  \<open>SendFeature::stop\<close> does nothing.
\<close>

definition send_start :: "('b, 'k) daemon_world \<Rightarrow> ('b, 'k) daemon_world \<times> (feature_error, unit) result" where
  "send_start w = (w\<lparr>dw_startups := Suc (dw_startups w), dw_watchers := dw_watchers w @ [[]]\<rparr>, Ok ())"

fun daemon_start :: "daemon_feature \<Rightarrow> ('b, 'k) daemon_world
    \<Rightarrow> daemon_feature \<times> ('b, 'k) daemon_world \<times> (feature_error, unit) result" where
  "daemon_start (ClipboardFeature c) w =
     (case clip_start c w of (c', w', r) \<Rightarrow> (ClipboardFeature c', w', r))"
| "daemon_start SendFeature w = (case send_start w of (w', r) \<Rightarrow> (SendFeature, w', r))"
| "daemon_start (ShellFeature f) w = on_net shell_start ShellFeature f w"
| "daemon_start (PortFeature f) w = on_net port_start PortFeature f w"

fun daemon_stop :: "daemon_feature \<Rightarrow> ('b, 'k) daemon_world
    \<Rightarrow> daemon_feature \<times> ('b, 'k) daemon_world \<times> (feature_error, unit) result" where
  "daemon_stop (ClipboardFeature c) w =
     (case clip_stop c w of (c', w', r) \<Rightarrow> (ClipboardFeature c', w', r))"
| "daemon_stop SendFeature w = (SendFeature, w, Ok ())"
| "daemon_stop (ShellFeature f) w = on_net shell_stop ShellFeature f w"
| "daemon_stop (PortFeature f) w = on_net port_stop PortFeature f w"

fun daemon_handle :: "('b, 'k) daemon_env \<Rightarrow> daemon_feature \<Rightarrow> feature_message \<Rightarrow> ('b, 'k) daemon_world
    \<Rightarrow> daemon_feature \<times> ('b, 'k) daemon_world \<times> (feature_error, unit) result" where
  "daemon_handle env (ClipboardFeature c) m w =
     (case clip_handle_message (de_clip env) (de_blobs env) (de_clipboard env) m c w of
        (c', w', r) \<Rightarrow> (ClipboardFeature c', w', r))"
| "daemon_handle env SendFeature m w =
     (case send_handle_message (ce_ext (de_clip env)) (de_send_decode env) m (dw_send w) of
        (n, r) \<Rightarrow> (SendFeature, w\<lparr>dw_send := n\<rparr>, r))"
| "daemon_handle env (ShellFeature f) m w = (ShellFeature f, w, Ok ())"
| "daemon_handle env (PortFeature f) m w = (PortFeature f, w, Ok ())"

definition daemon_ops :: "('b, 'k) daemon_env \<Rightarrow> (daemon_feature, ('b, 'k) daemon_world) feature_ops" where
  "daemon_ops env = \<lparr>f_id = daemon_feature_id, f_start = daemon_start, f_stop = daemon_stop,
     f_handle = daemon_handle env\<rparr>"

lemma on_net_id: "(\<And>f. daemon_feature_id (wrap f) = i) \<Longrightarrow> daemon_feature_id (fst (on_net op wrap f w)) = i"
  by (simp add: on_net_def split: prod.splits)

interpretation daemon: feature_impl "daemon_ops env"
proof
  show "f_id (daemon_ops env) (fst (f_start (daemon_ops env) f w)) = f_id (daemon_ops env) f" for f w
    by (cases f) (simp_all add: daemon_ops_def on_net_id split: prod.splits)
  show "f_id (daemon_ops env) (fst (f_stop (daemon_ops env) f w)) = f_id (daemon_ops env) f" for f w
    by (cases f) (simp_all add: daemon_ops_def on_net_id split: prod.splits)
  show "f_id (daemon_ops env) (fst (f_handle (daemon_ops env) f m w)) = f_id (daemon_ops env) f" for f m w
    by (cases f) (simp_all add: daemon_ops_def split: prod.splits)
qed

section \<open>Building the registry\<close>

fun register_all :: "('f, 'w) feature_ops \<Rightarrow> 'f list \<Rightarrow> 'f feature_registry
    \<Rightarrow> (feature_error, 'f feature_registry) result" where
  "register_all ops [] r = Ok r"
| "register_all ops (f # fs) r =
     (case registry_register ops f r of
        (r', Err e) \<Rightarrow> Err e
      | (r', Ok _) \<Rightarrow> register_all ops fs r')"

definition build_feature_registry :: "('b, 'k) daemon_env \<Rightarrow> bool
    \<Rightarrow> (feature_error, daemon_feature feature_registry) result" where
  "build_feature_registry env with_iroh =
     register_all (daemon_ops env)
       ([ClipboardFeature clip_state_new, SendFeature] @
        (if with_iroh then [ShellFeature shell_feature_new, PortFeature port_feature_new] else []))
       registry_new"

definition built_features :: "bool \<Rightarrow> feature_id \<rightharpoonup> daemon_feature" where
  "built_features with_iroh =
     (if with_iroh
      then [clipboard_id \<mapsto> ClipboardFeature clip_state_new, send_id \<mapsto> SendFeature,
            shell_id \<mapsto> ShellFeature shell_feature_new, port_id \<mapsto> PortFeature port_feature_new]
      else [clipboard_id \<mapsto> ClipboardFeature clip_state_new, send_id \<mapsto> SendFeature])"

lemma build_feature_registry_Ok:
  "build_feature_registry env with_iroh =
     Ok \<lparr>reg_features = built_features with_iroh, reg_enabled = []\<rparr>"
  by (simp add: build_feature_registry_def registry_register_def registry_new_def daemon_ops_def
      built_features_def Let_def feature_ids_distinct(2-7) [symmetric])

lemma built_inv:
  "build_feature_registry env with_iroh = Ok r \<Longrightarrow> registry_inv (daemon_ops env) r"
  by (auto simp: build_feature_registry_Ok registry_inv_def built_features_def daemon_ops_def
      split: if_splits)

section \<open>Runs of the registry\<close>

text \<open>The calls the daemon makes on its registry, and the registry and world they leave behind.\<close>

datatype registry_call =
    CallEnable feature_id
  | CallEnableStart feature_id
  | CallDisable feature_id
  | CallStartEnabled
  | CallDispatch feature_message

datatype 'e registry_answer = Done | Refused 'e

definition answer_of :: "('e, unit) result \<Rightarrow> 'e registry_answer" where
  "answer_of r = (case r of Ok _ \<Rightarrow> Done | Err e \<Rightarrow> Refused e)"

definition registry_call :: "('b, 'k) daemon_env \<Rightarrow> registry_call
    \<Rightarrow> daemon_feature feature_registry \<times> ('b, 'k) daemon_world
    \<Rightarrow> (daemon_feature feature_registry \<times> ('b, 'k) daemon_world) \<times> feature_error raised registry_answer" where
  "registry_call env c s =
     (case s of (r, w) \<Rightarrow>
       (case c of
          CallEnable i \<Rightarrow> (case registry_enable i r of (r', a) \<Rightarrow> ((r', w), answer_of (map_err Raised a)))
        | CallEnableStart i \<Rightarrow>
            (case registry_enable_and_start (daemon_ops env) i r w of (r', w', a) \<Rightarrow> ((r', w'), answer_of a))
        | CallDisable i \<Rightarrow> (registry_disable (daemon_ops env) i r w, Done)
        | CallStartEnabled \<Rightarrow> (case start_enabled (daemon_ops env) r w of (r', w', a) \<Rightarrow> ((r', w'), answer_of a))
        | CallDispatch m \<Rightarrow>
            (case dispatch (daemon_ops env) m r w of (r', w', a) \<Rightarrow> ((r', w'), answer_of (map_err Raised a)))))"

fun registry_calls :: "('b, 'k) daemon_env \<Rightarrow> registry_call list
    \<Rightarrow> daemon_feature feature_registry \<times> ('b, 'k) daemon_world
    \<Rightarrow> (daemon_feature feature_registry \<times> ('b, 'k) daemon_world) \<times> feature_error raised registry_answer list" where
  "registry_calls env [] s = (s, [])"
| "registry_calls env (c # cs) s =
     (case registry_call env c s of (s', a) \<Rightarrow>
       (case registry_calls env cs s' of (s'', as) \<Rightarrow> (s'', a # as)))"

lemma answer_of_Refused: "answer_of r = Refused e \<longleftrightarrow> r = Err e"
  by (cases r) (auto simp: answer_of_def)

lemma registry_call_inv:
  assumes "registry_inv (daemon_ops env) (fst s)"
  shows "registry_inv (daemon_ops env) (fst (fst (registry_call env c s)))"
    "snd (registry_call env c s) \<noteq> Refused (Panic p)"
proof -
  obtain r w where s: "s = (r, w)" by fastforce
  with assms have r: "registry_inv (daemon_ops env) r" by simp
  show "registry_inv (daemon_ops env) (fst (fst (registry_call env c s)))"
    using daemon.inv_enable [OF r] daemon.inv_enable_and_start [OF r] daemon.inv_disable [OF r]
      daemon.inv_start_enabled [OF r] daemon.inv_dispatch [OF r]
    by (cases c) (auto simp: registry_call_def s split: prod.splits; metis fst_conv)+
  show "snd (registry_call env c s) \<noteq> Refused (Panic p)"
  proof (cases c)
    case (CallEnableStart i)
    then show ?thesis using daemon.enable_and_start_no_panic [of env i r w p]
      by (auto simp: registry_call_def s answer_of_Refused split: prod.splits)
  next
    case CallStartEnabled
    then show ?thesis using daemon.start_enabled_no_panic [OF r, of w p]
      by (auto simp: registry_call_def s answer_of_Refused split: prod.splits)
  qed (auto simp: registry_call_def s answer_of_Refused map_err_def split: prod.splits sum.splits)
qed

lemma registry_calls_inv:
  "registry_inv (daemon_ops env) (fst s) \<Longrightarrow>
     registry_inv (daemon_ops env) (fst (fst (registry_calls env cs s))) \<and>
     Refused (Panic p) \<notin> set (snd (registry_calls env cs s))"
proof (induction cs arbitrary: s)
  case (Cons c cs)
  obtain s' a where s': "registry_call env c s = (s', a)" by fastforce
  with registry_call_inv(1) [OF Cons.prems, of c] registry_call_inv(2) [OF Cons.prems, of c p] have "registry_inv (daemon_ops env) (fst s')" "a \<noteq> Refused (Panic p)"
    by simp_all
  with Cons.IH [of s'] s' show ?case by (auto split: prod.splits)
qed simp

lemma registered_start_each:
  "dom (reg_features (fst (start_each (daemon_ops env) ids r w))) = dom (reg_features r)"
proof (induction ids arbitrary: r w)
  case (Cons i ids)
  obtain r' w' a where st: "start_registered (daemon_ops env) i r w = (r', w', a)" by (metis prod_cases3)
  then have "dom (reg_features r') = dom (reg_features r)"
    using daemon.dom_start_registered [of env i r w] by simp
  with Cons st show ?case by (auto split: sum.splits)
qed simp

lemma registered_call:
  "dom (reg_features (fst (fst (registry_call env c s)))) = dom (reg_features (fst s))"
proof -
  obtain r w where s: "s = (r, w)" by fastforce
  have st: "dom (reg_features (fst (registry_enable_and_start (daemon_ops env) i r w))) = dom (reg_features r)" for i
    by (auto simp: registry_enable_and_start_def registry_enable_def daemon.dom_start_registered)
  show ?thesis
  proof (cases c)
    case (CallEnableStart i)
    then show ?thesis using st [of i] by (simp add: registry_call_def s case_prod_beta)
  next
    case CallStartEnabled
    then show ?thesis using registered_start_each [of env "reg_enabled r" r w]
      by (simp add: registry_call_def s start_enabled_def case_prod_beta)
  qed (auto simp: registry_call_def s registry_enable_def registry_disable_def dispatch_def Let_def
        split: prod.splits option.splits)
qed

lemma registered_calls:
  "dom (reg_features (fst (fst (registry_calls env cs s)))) = dom (reg_features (fst s))"
proof (induction cs arbitrary: s)
  case (Cons c cs)
  obtain s' a where s': "registry_call env c s = (s', a)" by fastforce
  with registered_call [of env c s] have "dom (reg_features (fst s')) = dom (reg_features (fst s))" by simp
  with Cons.IH [of s'] s' show ?case by (simp add: case_prod_beta)
qed simp

text \<open>
  C32. The daemon's registry is well formed through its whole life: after any sequence of
  enabling, starting, disabling and dispatching, with any outcomes of the features themselves,
  the registered features are those it was built with, each filed under its own id, every
  enabled feature is registered, the code's \<open>expect\<close> has never panicked, and a message for a
  feature that is not enabled is refused without touching any feature.
\<close>

theorem registry_well_formed:
  assumes "build_feature_registry env with_iroh = Ok r"
    and "registry_calls env cs (r, w) = ((r', w'), answers)"
  shows "dom (reg_features r') = dom (built_features with_iroh) \<and>
    (reg_features r' i = Some f \<longrightarrow> daemon_feature_id f = i) \<and>
    set (reg_enabled r') \<subseteq> dom (reg_features r') \<and> distinct (reg_enabled r') \<and>
    Refused (Panic p) \<notin> set answers \<and>
    (fm_feature m \<notin> set (reg_enabled r') \<longrightarrow>
       dispatch (daemon_ops env) m r' w' = (r', w', Err (NotEnabled (fm_feature m))))"
proof -
  have "dom (reg_features r') = dom (built_features with_iroh)"
    using registered_calls [of env cs "(r, w)"] assms by (auto simp: build_feature_registry_Ok)
  moreover have "registry_inv (daemon_ops env) r' \<and> Refused (Panic p) \<notin> set answers"
    using registry_calls_inv [of env "(r, w)" cs p] built_inv [OF assms(1)] assms(2) by simp
  ultimately show ?thesis
    by (auto simp: registry_inv_def daemon_ops_def is_enabled_def dispatch_not_enabled)
qed

definition sample_env :: "(mock_state, clipboard_content option) daemon_env" where
  "sample_env = \<lparr>de_clip = sample_clip_env, de_blobs = mock_ops sample_mock_env, de_clipboard = mock_clipboard,
     de_send_decode = (\<lambda>_. Err []), de_send_encode = sample_writer, de_message_encode = (\<lambda>_. Ok []),
     de_recv = \<lparr>rc_limits = limits_unlimited, rc_downloads = None, rc_timestamp = [], rc_keep = (\<lambda>_. True)\<rparr>\<rparr>"

definition sample_world :: "(mock_state, clipboard_content option) daemon_world" where
  "sample_world =
     \<lparr>kw_transport = sample_publish_net, kw_peers = sample_directory, kw_blobs = sample_mock_state,
      kw_clipboard = None, kw_files = Map.empty, kw_sessions = 0,
      dw_send = send_node_new coordinator_new, dw_states = \<lparr>sd_available = True, sd_files = [], sd_faults = []\<rparr>,
      dw_notified = [], dw_startups = 0, dw_watchers = []\<rparr>"

lemma registry_well_formed_witness:
  "\<exists>r' w'. registry_calls sample_env [CallEnableStart shell_id, CallDisable shell_id, CallEnable (FeatureId ''x'')]
       (\<lparr>reg_features = built_features True, reg_enabled = []\<rparr>, sample_world) =
       ((r', w'), [Done, Done, Refused (Raised (NotRegistered (FeatureId ''x'')))]) \<and>
     dom (reg_features r') = dom (built_features True) \<and>
     dispatch (daemon_ops sample_env) (sample_clip_message [2]) r' w' = (r', w', Err (NotEnabled clipboard_id))"
proof -
  let ?r = "\<lparr>reg_features = built_features True, reg_enabled = []\<rparr>"
  let ?cs = "[CallEnableStart shell_id, CallDisable shell_id, CallEnable (FeatureId ''x'')]"
  obtain r' w' as where c: "registry_calls sample_env ?cs (?r, sample_world) = ((r', w'), as)"
    by (metis prod.collapse)
  have as: "as = [Done, Done, Refused (Raised (NotRegistered (FeatureId ''x'')))] \<and> reg_enabled r' = []"
    using c by (auto simp: registry_call_def registry_enable_and_start_def registry_enable_def
        start_registered_def registry_disable_def built_features_def daemon_ops_def on_net_def shell_start_def
        shell_feature_new_def shell_stop_def answer_of_def Let_def clipboard_id_def send_id_def shell_id_def
        port_id_def)
  from registry_well_formed [OF build_feature_registry_Ok c, of _ _ _ "sample_clip_message [2]"] c as
  show ?thesis by (auto simp: sample_clip_message_def)
qed

end
