(* ===== verification/Sync.thy ===== *)
theory Sync
  imports Features Client
begin

text \<open>
  Taking over the server's policy (\<open>failsafe/src/sync.rs\<close>): name and features of this device,
  and for every other device of the account its address and the features both sides have on.
\<close>

section \<open>The device list\<close>

definition find_self_device :: "device_id \<Rightarrow> device_info list \<Rightarrow> device_info option" where
  "find_self_device self devices = List.find (\<lambda>d. di_device_id d = self) devices"

fun addresses_of :: "device_id \<Rightarrow> device_info list \<Rightarrow> (device_id \<times> string) list \<Rightarrow> (device_id \<times> string) list" where
  "addresses_of self [] acc = acc"
| "addresses_of self (d # ds) acc =
     addresses_of self ds
       (if di_device_id d = self then acc else map_insert (di_device_id d) (di_iroh_public_key d) acc)"

definition peer_address_book_from_devices :: "device_id \<Rightarrow> device_info list \<Rightarrow> peer_address_book" where
  "peer_address_book_from_devices self devices = book_from_map (addresses_of self devices [])"

section \<open>Features of this device\<close>

fun sync_each :: "('b, 'k) daemon_env \<Rightarrow> feature_id list \<Rightarrow> bool \<Rightarrow> feature_id list
    \<Rightarrow> daemon_feature feature_registry \<Rightarrow> ('b, 'k) daemon_world
    \<Rightarrow> daemon_feature feature_registry \<times> ('b, 'k) daemon_world \<times> (feature_error raised, unit) result" where
  "sync_each env target start_new [] r w = (r, w, Ok ())"
| "sync_each env target start_new (i # ids) r w =
     (if \<not> is_registered r i then sync_each env target start_new ids r w
      else if i \<in> set target \<and> \<not> is_enabled r i
      then (if start_new
            then (case registry_enable_and_start (daemon_ops env) i r w of
                    (r', w', Err e) \<Rightarrow> (r', w', Err e)
                  | (r', w', Ok _) \<Rightarrow> sync_each env target start_new ids r' w')
            else (case registry_enable i r of
                    (r', Err e) \<Rightarrow> (r', w, Err (Raised e))
                  | (r', Ok _) \<Rightarrow> sync_each env target start_new ids r' w))
      else if i \<notin> set target \<and> is_enabled r i
      then (case registry_disable (daemon_ops env) i r w of
              (r', w') \<Rightarrow> sync_each env target start_new ids r' w')
      else sync_each env target start_new ids r w)"

text \<open>A panic of the registry is one of the daemon; the other errors become feature errors.\<close>

definition sync_features_to_registry :: "('b, 'k) daemon_env \<Rightarrow> feature_id list \<Rightarrow> bool
    \<Rightarrow> daemon_feature feature_registry \<Rightarrow> ('b, 'k) daemon_world
    \<Rightarrow> daemon_feature feature_registry \<times> ('b, 'k) daemon_world \<times> (daemon_error raised, unit) result" where
  "sync_features_to_registry env target start_new r w =
     (case sync_each env target start_new all_ids r w of
        (r', w', res) \<Rightarrow>
          (r', w', map_err (\<lambda>e. case e of Raised f \<Rightarrow> Raised (DFeature f) | Panic m \<Rightarrow> Panic m) res))"

record local_policy =
  lp_device_name :: string
  lp_features :: "feature_id list"
  lp_config :: config
  lp_disk :: disk

definition apply_self_from_server :: "('b, 'k) daemon_env \<Rightarrow> toml \<Rightarrow> string \<Rightarrow> device_id \<Rightarrow> device_info list \<Rightarrow> bool
    \<Rightarrow> local_policy \<Rightarrow> daemon_feature feature_registry \<Rightarrow> ('b, 'k) daemon_world
    \<Rightarrow> local_policy \<times> daemon_feature feature_registry \<times> ('b, 'k) daemon_world \<times> (daemon_error raised, bool) result" where
  "apply_self_from_server env tm path self devices start_new p r w =
     (case find_self_device self devices of
        None \<Rightarrow> (p, r, w, Ok False)
      | Some d \<Rightarrow>
         (let server_features = remdups (di_enabled_features d);
              name_changed = (di_name d \<noteq> lp_device_name p);
              features_changed = (set server_features \<noteq> set (lp_features p));
              policy_changed = (name_changed \<or> features_changed);
              p1 = (if name_changed then p\<lparr>lp_device_name := di_name d\<rparr> else p);
              p2 = (if features_changed then p1\<lparr>lp_features := server_features\<rparr> else p1) in
          case (if features_changed
                then sync_features_to_registry env (lp_features p2) start_new r w
                else (r, w, Ok ())) of
            (r', w', Err e) \<Rightarrow> (p2, r', w', Err e)
          | (r', w', Ok _) \<Rightarrow>
              (if policy_changed
               then (case apply_server_policy tm path (di_name d) (di_enabled_features d) (lp_config p2) (lp_disk p2) of
                       (c', d', res) \<Rightarrow>
                         (p2\<lparr>lp_config := c', lp_disk := d'\<rparr>, r', w',
                          map_ok (\<lambda>_. policy_changed) (map_err Raised res)))
               else (p2, r', w', Ok policy_changed))))"

section \<open>The other devices\<close>

definition set_policy :: "device_id \<Rightarrow> feature_id list \<Rightarrow> feature_id list \<Rightarrow> peer_directory \<Rightarrow> peer_directory" where
  "set_policy device here there peers =
     fold (\<lambda>f. set_feature_enabled device f (f \<in> set here \<and> f \<in> set there)) all_ids peers"

definition apply_policies :: "device_id \<Rightarrow> feature_id list \<Rightarrow> device_info list \<Rightarrow> peer_directory \<Rightarrow> peer_directory" where
  "apply_policies self here devices peers =
     fold (\<lambda>d. if di_device_id d = self then id else set_policy (di_device_id d) here (di_enabled_features d))
       devices peers"

definition peer_ids :: "device_id \<Rightarrow> device_info list \<Rightarrow> device_id list" where
  "peer_ids self devices = map di_device_id (filter (\<lambda>d. di_device_id d \<noteq> self) devices)"

definition apply_server_devices :: "(string \<Rightarrow> (string, string) result) \<Rightarrow> device_id \<Rightarrow> feature_id list
    \<Rightarrow> device_info list \<Rightarrow> ('b, 'k) daemon_world \<Rightarrow> ('b, 'k) daemon_world" where
  "apply_server_devices pk self here devices w =
     w\<lparr>kw_peers := replace_peers (peer_ids self devices) (apply_policies self here devices (kw_peers w)),
       kw_transport := update_peer_addresses pk (peer_address_book_from_devices self devices) (kw_transport w)\<rparr>"

section \<open>The policy the directory has afterwards\<close>

lemma set_policy_disabled:
  "set (pd_disabled (set_policy device here there peers)) =
     set (pd_disabled peers) - {device} \<times> set all_ids \<union>
     {device} \<times> {f \<in> set all_ids. f \<notin> set here \<or> f \<notin> set there}"
proof -
  have "set (pd_disabled (fold (\<lambda>f. set_feature_enabled device f (P f)) ids peers)) =
      set (pd_disabled peers) - {device} \<times> set ids \<union> {device} \<times> {f \<in> set ids. \<not> P f}" for ids P
  proof (induction ids arbitrary: peers)
    case (Cons i ids)
    then show ?case by (cases "P i") auto
  qed simp
  from this [of "\<lambda>f. f \<in> set here \<and> f \<in> set there" all_ids] show ?thesis by (simp add: set_policy_def)
qed

lemma apply_policies_disabled:
  assumes "distinct (map di_device_id devices)" "f \<in> set all_ids"
  shows "(p, f) \<in> set (pd_disabled (apply_policies self here devices peers)) \<longleftrightarrow>
     (case List.find (\<lambda>d. di_device_id d = p \<and> p \<noteq> self) devices of
        None \<Rightarrow> (p, f) \<in> set (pd_disabled peers)
      | Some d \<Rightarrow> f \<notin> set here \<or> f \<notin> set (di_enabled_features d))"
  using assms(1) unfolding apply_policies_def
proof (induction devices arbitrary: peers)
  case (Cons d devices)
  note IH = Cons.IH [OF Cons.prems [unfolded list.map distinct.simps, THEN conjunct2]]
  show ?case
  proof (cases "di_device_id d = p \<and> p \<noteq> self")
    case True
    have "List.find (\<lambda>d. di_device_id d = p \<and> p \<noteq> self) devices = None"
      using Cons.prems True by (auto simp: find_None_iff image_iff)
    with IH True assms(2) show ?thesis by (auto simp: set_policy_disabled)
  next
    case False
    with IH show ?thesis by (auto simp: set_policy_disabled split: option.splits)
  qed
qed simp

lemma map_of_addresses:
  assumes "distinct (map di_device_id devices)"
  shows "map_of (addresses_of self devices acc) p =
     (case List.find (\<lambda>d. di_device_id d = p \<and> p \<noteq> self) devices of
        None \<Rightarrow> map_of acc p | Some d \<Rightarrow> Some (di_iroh_public_key d))"
  using assms
proof (induction devices arbitrary: acc)
  case (Cons d devices)
  show ?case
  proof (cases "di_device_id d = p \<and> p \<noteq> self")
    case True
    have "List.find (\<lambda>d. di_device_id d = p \<and> p \<noteq> self) devices = None"
      using Cons.prems True by (auto simp: find_None_iff image_iff)
    with Cons True show ?thesis by auto
  next
    case False
    with Cons show ?thesis by (auto split: option.splits)
  qed
qed simp

lemma find_peer:
  assumes "distinct (map di_device_id devices)"
  shows "List.find (\<lambda>d. di_device_id d = p \<and> p \<noteq> self) devices = Some d \<longleftrightarrow>
     d \<in> set devices \<and> di_device_id d = p \<and> p \<noteq> self"
proof
  assume "List.find (\<lambda>d. di_device_id d = p \<and> p \<noteq> self) devices = Some d"
  then show "d \<in> set devices \<and> di_device_id d = p \<and> p \<noteq> self" by (auto simp: find_Some_iff)
next
  assume d: "d \<in> set devices \<and> di_device_id d = p \<and> p \<noteq> self"
  then obtain e where e: "List.find (\<lambda>d. di_device_id d = p \<and> p \<noteq> self) devices = Some e"
    by (cases "List.find (\<lambda>d. di_device_id d = p \<and> p \<noteq> self) devices") (auto simp: find_None_iff)
  then have "e \<in> set devices" "di_device_id e = p" by (auto simp: find_Some_iff)
  with d assms have "e = d" by (auto dest: inj_onD [OF conjunct2 [OF iffD1 [OF distinct_map]]] simp: distinct_map inj_on_def)
  with e show "List.find (\<lambda>d. di_device_id d = p \<and> p \<noteq> self) devices = Some d" by simp
qed

lemma policy_enabled:
  assumes "distinct (map di_device_id devices)" "f \<in> set all_ids"
  shows "is_feature_enabled p f (replace_peers (peer_ids self devices) (apply_policies self here devices peers)) \<longleftrightarrow>
     (\<exists>d \<in> set devices. di_device_id d = p \<and> p \<noteq> self \<and> f \<in> set here \<and> f \<in> set (di_enabled_features d))"
proof (cases "\<exists>d \<in> set devices. di_device_id d = p \<and> p \<noteq> self")
  case True
  then obtain d where d: "d \<in> set devices \<and> di_device_id d = p \<and> p \<noteq> self" by blast
  then have m: "p \<in> set (peer_ids self devices)" by (auto simp: peer_ids_def)
  have u: "e = d" if "e \<in> set devices" "di_device_id e = p" for e
    using that d assms(1) by (auto simp: distinct_map inj_on_def)
  have "List.find (\<lambda>d. di_device_id d = p \<and> p \<noteq> self) devices = Some d"
    using find_peer [OF assms(1)] d by blast
  with apply_policies_disabled [OF assms, of p self here peers] d m u show ?thesis
    by (auto simp: is_feature_enabled_def)
next
  case False
  then have "p \<notin> set (peer_ids self devices)" by (auto simp: peer_ids_def)
  with False show ?thesis by (auto simp: is_feature_enabled_def)
qed

lemma address_of_peer:
  assumes "distinct (map di_device_id devices)" "d \<in> set devices" "di_device_id d \<noteq> self"
  shows "book_get (di_device_id d) (peer_address_book_from_devices self devices) = Some (di_iroh_public_key d)"
  using map_of_addresses [OF assms(1), of self "[]" "di_device_id d"] find_peer [OF assms(1), of "di_device_id d" self d] assms
  by (simp add: book_get_def peer_address_book_from_devices_def book_from_map_def)

text \<open>
  C34. After a sync the peer directory is exactly what the server's list says: a known feature is
  on towards a device if and only if the device is in the list, is not this one, and both this
  device and that one have the feature enabled, whatever the directory held before. So messages
  of a feature go only to such devices, and each of them is in the new address book under its
  own key.
\<close>

theorem directory_is_intersection:
  assumes "distinct (map di_device_id devices)" "f \<in> set all_ids"
    and "w' = apply_server_devices pk self here devices w"
  shows "(is_feature_enabled p f (kw_peers w') \<longleftrightarrow>
     (\<exists>d \<in> set devices. di_device_id d = p \<and> p \<noteq> self \<and> f \<in> set here \<and> f \<in> set (di_enabled_features d) \<and>
        book_get p (peer_address_book_from_devices self devices) = Some (di_iroh_public_key d))) \<and>
    set (publish_recipients tops (kw_peers w') f t) =
       {p \<in> set (tr_connected_peers tops t). is_feature_enabled p f (kw_peers w')}"
proof
  have "is_feature_enabled p f (kw_peers w') \<longleftrightarrow>
     (\<exists>d \<in> set devices. di_device_id d = p \<and> p \<noteq> self \<and> f \<in> set here \<and> f \<in> set (di_enabled_features d))"
    using policy_enabled [OF assms(1,2)] assms(3) by (simp add: apply_server_devices_def)
  with address_of_peer [OF assms(1)] show "is_feature_enabled p f (kw_peers w') \<longleftrightarrow>
     (\<exists>d \<in> set devices. di_device_id d = p \<and> p \<noteq> self \<and> f \<in> set here \<and> f \<in> set (di_enabled_features d) \<and>
        book_get p (peer_address_book_from_devices self devices) = Some (di_iroh_public_key d))" by blast
  show "set (publish_recipients tops (kw_peers w') f t) =
       {p \<in> set (tr_connected_peers tops t). is_feature_enabled p f (kw_peers w')}"
    by (auto simp: publish_recipients_iff)
qed

section \<open>Features of this device reach the server's set\<close>

lemma daemon_start_Ok: "snd (snd (daemon_start f w)) = Ok ()"
  by (cases f) (auto simp: clip_start_def send_start_def on_net_def shell_start_def port_start_def)

lemma daemon_enable_and_start:
  assumes "is_registered r i"
  obtains r' w' where "registry_enable_and_start (daemon_ops env) i r w = (r', w', Ok ())"
    "dom (reg_features r') = dom (reg_features r)" "set (reg_enabled r') = insert i (set (reg_enabled r))"
proof -
  from assms obtain f where f: "reg_features r i = Some f" by (auto simp: is_registered_def)
  obtain f' w' where "daemon_start f w = (f', w', Ok ())" using daemon_start_Ok [of f w] by (metis prod.collapse)
  with f that show thesis
    by (auto simp: registry_enable_and_start_def registry_enable_def start_registered_def daemon_ops_def)
qed

lemma sync_each_exact:
  assumes "distinct (reg_enabled r)" "distinct ids"
  shows "\<exists>r' w'. sync_each env target start_new ids r w = (r', w', Ok ()) \<and>
     dom (reg_features r') = dom (reg_features r) \<and>
     (\<forall>i. is_enabled r' i \<longleftrightarrow> (if i \<in> set ids \<and> is_registered r i then i \<in> set target else is_enabled r i))"
  using assms
proof (induction ids arbitrary: r w)
  case (Cons i ids)
  have reg: "is_registered s j \<longleftrightarrow> is_registered r j" if "dom (reg_features s) = dom (reg_features r)"
    for s :: "daemon_feature feature_registry" and j
    using that by (auto simp: is_registered_def dom_def set_eq_iff)
  have next_one: "\<exists>r' w'. sync_each env target start_new (i # ids) r w = (r', w', Ok ()) \<and>
      dom (reg_features r') = dom (reg_features r) \<and>
      (\<forall>j. is_enabled r' j \<longleftrightarrow> (if j \<in> set (i # ids) \<and> is_registered r j then j \<in> set target else is_enabled r j))"
    if st: "sync_each env target start_new (i # ids) r w = sync_each env target start_new ids r1 w1"
      and r1: "dom (reg_features r1) = dom (reg_features r)" "distinct (reg_enabled r1)"
        "\<And>j. is_enabled r1 j \<longleftrightarrow> (if j = i \<and> is_registered r i then i \<in> set target else is_enabled r j)" for r1 w1
  proof -
    from Cons.IH [OF r1(2)] Cons.prems(2) obtain r' w' where
      r': "sync_each env target start_new ids r1 w1 = (r', w', Ok ())" "dom (reg_features r') = dom (reg_features r1)"
        "\<And>j. is_enabled r' j \<longleftrightarrow> (if j \<in> set ids \<and> is_registered r1 j then j \<in> set target else is_enabled r1 j)"
      by fastforce
    with st r1 reg [OF r1(1)] Cons.prems(2) show ?thesis by auto
  qed
  consider (skip) "\<not> is_registered r i" | (on) "is_registered r i" "i \<in> set target" "\<not> is_enabled r i"
    | (off) "is_registered r i" "i \<notin> set target" "is_enabled r i"
    | (same) "is_registered r i" "i \<in> set target \<longleftrightarrow> is_enabled r i" by blast
  then show ?case
  proof cases
    case skip
    with Cons.prems show ?thesis by (intro next_one [of r w]) auto
  next
    case same
    with Cons.prems show ?thesis by (intro next_one [of r w]) auto
  next
    case on
    show ?thesis
    proof (cases start_new)
      case True
      obtain r1 w1 where s: "registry_enable_and_start (daemon_ops env) i r w = (r1, w1, Ok ())"
        "dom (reg_features r1) = dom (reg_features r)" "set (reg_enabled r1) = insert i (set (reg_enabled r))"
        using daemon_enable_and_start [OF on(1)] by blast
      have "distinct (reg_enabled r1)"
        using s(1) Cons.prems(1) daemon.enabled_start_registered [of env i "fst (registry_enable i r)" w]
        by (auto simp: registry_enable_and_start_def registry_enable_def split: if_splits)
      with s on True show ?thesis by (intro next_one [of r1 w1]) (auto simp: is_enabled_def)
    next
      case False
      let ?r1 = "r\<lparr>reg_enabled := List.insert i (reg_enabled r)\<rparr>"
      from on(1) have "registry_enable i r = (?r1, Ok ())"
        by (simp add: registry_enable_def is_registered_def)
      with on False Cons.prems show ?thesis by (intro next_one [of ?r1 w]) (auto simp: is_enabled_def)
    qed
  next
    case off
    obtain r1 w1 where s: "registry_disable (daemon_ops env) i r w = (r1, w1)" by fastforce
    then have "dom (reg_features r1) = dom (reg_features r)" "reg_enabled r1 = remove1 i (reg_enabled r)"
      by (auto simp: registry_disable_def Let_def split: option.splits prod.splits if_splits)
    with s off Cons.prems show ?thesis by (intro next_one [of r1 w1]) (auto simp: is_enabled_def)
  qed
qed simp

lemma sync_each_inv:
  "registry_inv (daemon_ops env) r \<Longrightarrow>
     registry_inv (daemon_ops env) (fst (sync_each env target start_new ids r w))"
proof (induction ids arbitrary: r w)
  case (Cons i ids)
  then show ?case
    using daemon.inv_enable_and_start [of env r i w] daemon.inv_enable [of env r i]
      daemon.inv_disable [of env r i w]
    by (auto split: prod.split sum.split)
qed simp

lemma sync_lands:
  assumes "registry_inv (daemon_ops env) r" "dom (reg_features r) \<subseteq> set all_ids"
  shows "\<exists>r' w'. sync_features_to_registry env target start_new r w = (r', w', Ok ()) \<and>
     registry_inv (daemon_ops env) r' \<and> dom (reg_features r') = dom (reg_features r) \<and>
     set (reg_enabled r') = set target \<inter> dom (reg_features r)"
proof -
  have d: "distinct (reg_enabled r)" "set (reg_enabled r) \<subseteq> dom (reg_features r)"
    using assms(1) by (simp_all add: registry_inv_def)
  from sync_each_exact [OF d(1), of all_ids env target start_new w] obtain r' w' where
    s: "sync_each env target start_new all_ids r w = (r', w', Ok ())"
      "dom (reg_features r') = dom (reg_features r)"
      "\<And>i. is_enabled r' i \<longleftrightarrow> (if i \<in> set all_ids \<and> is_registered r i then i \<in> set target else is_enabled r i)"
    by auto
  have inv: "registry_inv (daemon_ops env) r'"
    using sync_each_inv [OF assms(1), of target start_new all_ids w] s(1) by simp
  have "i \<in> set (reg_enabled r') \<longleftrightarrow> i \<in> set target \<and> i \<in> dom (reg_features r)" for i
  proof (cases "i \<in> dom (reg_features r)")
    case True
    then have "i \<in> set all_ids" using assms(2) by blast
    with True s(3) [of i] show ?thesis by (simp add: is_enabled_def is_registered_def domIff)
  next
    case False
    then have "i \<notin> set (reg_enabled r)" using d(2) by blast
    with False s(3) [of i] show ?thesis by (simp add: is_enabled_def is_registered_def domIff)
  qed
  then have "set (reg_enabled r') = set target \<inter> dom (reg_features r)" by blast
  with s(1,2) inv show ?thesis by (simp add: sync_features_to_registry_def)
qed

text \<open>
  C35. Taking over the server's features always succeeds and lands exactly on them: from any
  well-formed registry of the daemon's features, afterwards the enabled features are those of
  the server's set that are registered here, no more and no fewer.
\<close>

theorem sync_reaches_target:
  assumes "registry_inv (daemon_ops env) r" "dom (reg_features r) \<subseteq> set all_ids"
  shows "\<exists>r' w'. sync_features_to_registry env target start_new r w = (r', w', Ok ()) \<and>
     set (reg_enabled r') = set target \<inter> dom (reg_features r)"
  using sync_lands [OF assms, of target start_new w] by blast

lemma sync_reaches_target_witness:
  "\<exists>r' w'. sync_features_to_registry sample_env [shell_id, FeatureId ''x''] True
       \<lparr>reg_features = built_features True, reg_enabled = [clipboard_id]\<rparr> sample_world = (r', w', Ok ()) \<and>
     set (reg_enabled r') = {shell_id}"
proof -
  let ?r = "\<lparr>reg_features = built_features True, reg_enabled = [clipboard_id]\<rparr>"
  have "registry_inv (daemon_ops sample_env) \<lparr>reg_features = built_features True, reg_enabled = []\<rparr>"
    by (rule built_inv) (rule build_feature_registry_Ok)
  then have "registry_inv (daemon_ops sample_env) ?r"
    by (auto simp: registry_inv_def built_features_def split: if_splits)
  moreover have d: "dom (reg_features ?r) = set all_ids"
    by (auto simp: built_features_def all_ids_def)
  moreover have "set [shell_id, FeatureId ''x''] \<inter> dom (reg_features ?r) = {shell_id}"
    unfolding d by (auto simp: all_ids_def clipboard_id_def shell_id_def send_id_def port_id_def)
  ultimately show ?thesis using sync_reaches_target [of sample_env ?r "[shell_id, FeatureId ''x'']" True sample_world]
    by simp
qed

definition sample_devices :: "device_info list" where
  "sample_devices =
     [\<lparr>di_device_id = DeviceId 1, di_name = ''a'', di_iroh_public_key = ''k1'', di_enabled_features = [clipboard_id],
       di_last_seen = None, di_online = True\<rparr>,
      \<lparr>di_device_id = DeviceId 7, di_name = ''b'', di_iroh_public_key = ''k7'',
       di_enabled_features = [clipboard_id, shell_id], di_last_seen = None, di_online = True\<rparr>]"

lemma directory_is_intersection_witness:
  "is_feature_enabled (DeviceId 7) clipboard_id
     (kw_peers (apply_server_devices Ok (DeviceId 1) [clipboard_id] sample_devices sample_world)) \<and>
   \<not> is_feature_enabled (DeviceId 7) shell_id
     (kw_peers (apply_server_devices Ok (DeviceId 1) [clipboard_id] sample_devices sample_world))"
proof -
  have d: "distinct (map di_device_id sample_devices)" by (simp add: sample_devices_def)
  have f: "clipboard_id \<in> set all_ids" "shell_id \<in> set all_ids" by (simp_all add: all_ids_def)
  have b: "book_get (DeviceId 7) (peer_address_book_from_devices (DeviceId 1) sample_devices) = Some ''k7''"
    by (simp add: book_get_def peer_address_book_from_devices_def book_from_map_def sample_devices_def)
  show ?thesis
    unfolding directory_is_intersection [OF d f(1) refl, THEN conjunct1]
      directory_is_intersection [OF d f(2) refl, THEN conjunct1]
    using b by (auto simp: sample_devices_def feature_ids_distinct(2) [symmetric])
qed

text \<open>
  The policy is written to the configuration file only when it has changed in memory: when that
  write fails, the next sync with the same answer sees no change and does not try again.
\<close>

lemma failed_policy_save_not_retried:
  assumes "apply_self_from_server env tm path self devices start_new p r w = (p', r', w', Err (Raised (DIo e)))"
  shows "\<exists>r'' w''. apply_self_from_server env tm path self devices start_new p' r' w' = (p', r'', w'', Ok False)"
proof -
  have s: "sync_features_to_registry env t n r w \<noteq> (a, b, Err (Raised (DIo e)))" for t n a b
    by (auto simp: sync_features_to_registry_def map_err_def split: prod.splits sum.splits raised.splits)
  from assms obtain d where d: "find_self_device self devices = Some d"
    by (auto simp: apply_self_from_server_def split: option.splits)
  with assms s have "lp_device_name p' = di_name d" "set (lp_features p') = set (di_enabled_features d)"
    by (auto simp: apply_self_from_server_def Let_def split: if_splits prod.splits sum.splits)
  with d show ?thesis by (simp add: apply_self_from_server_def Let_def)
qed

end
