(* ===== verification/Control_Server.thy ===== *)
theory Control_Server
  imports Control_Io
begin

text \<open>
  The control server of the daemon (\<open>failsafe/src/control_server.rs\<close>): one connection, from its
  first envelope to the handler of the feature it names. A \<open>Box<dyn FeatureControl>\<close> is a record
  of its methods; \<open>'v\<close> is a JSON value, \<open>'w\<close> the state the handlers share.
\<close>

record ('v, 'w) control_ops =
  co_id :: feature_id
  co_handle :: "control_context \<Rightarrow> 'v \<Rightarrow> control_io \<Rightarrow> 'w \<Rightarrow> control_io \<times> 'w \<times> (control_error, unit) result"

record ('v, 'w) control_server =
  cs_token :: string
  cs_handlers :: "('v, 'w) control_ops list"

definition unknown_feature :: "feature_id \<Rightarrow> control_response" where
  "unknown_feature f = ErrorResp (''unknown feature `'' @ feature_str f @ ''`'')"

definition dispatch_request :: "('v, 'w) control_server \<Rightarrow> control_context \<Rightarrow> 'v control_request
    \<Rightarrow> control_io \<Rightarrow> 'w \<Rightarrow> control_io \<times> 'w" where
  "dispatch_request cs ctx request io w =
     (case List.find (\<lambda>h. co_id h = cr_feature request) (cs_handlers cs) of
        Some h \<Rightarrow> (case co_handle h ctx (cr_body request) io w of (io', w', _) \<Rightarrow> (io', w'))
      | None \<Rightarrow> (fst (respond (unknown_feature (cr_feature request)) io), w))"

text \<open>\<open>envelope\<close> is what \<open>recv_envelope\<close> made of the connection's first message.\<close>

definition handle_connection :: "(control_error \<Rightarrow> string) \<Rightarrow> ('v, 'w) control_server \<Rightarrow> control_context
    \<Rightarrow> (control_error, 'v control_envelope) result \<Rightarrow> control_io \<Rightarrow> 'w \<Rightarrow> control_io \<times> 'w" where
  "handle_connection show_error cs ctx envelope io w =
     (case envelope of
        Err e \<Rightarrow> (fst (respond (ErrorResp (show_error e)) io), w)
      | Ok e \<Rightarrow>
          (if ce_token e = cs_token cs then dispatch_request cs ctx (ce_request e) io w
           else (fst (respond (ErrorResp ''unauthorized'') io), w)))"

text \<open>Nothing happens for a connection that does not present the token.\<close>

lemma wrong_token_does_nothing:
  assumes "\<And>e. envelope = Ok e \<Longrightarrow> ce_token e \<noteq> cs_token cs"
  shows "snd (handle_connection show_error cs ctx envelope io w) = w"
    "ci_events (fst (handle_connection show_error cs ctx envelope io w)) = ci_events io"
    "\<exists>m. fst (handle_connection show_error cs ctx envelope io w) = fst (respond (ErrorResp m) io)"
  using assms by (auto simp: handle_connection_def respond_events split: sum.splits)

end
