(* ===== verification/Daemon.thy ===== *)
theory Daemon
  imports Sync Control_Server Send_Control
begin

text \<open>
  The daemon (\<open>failsafe/src/daemon.rs\<close>): its builder, the calls it makes on the account server, the
  loop of \<open>run\<close> and the shutdown, with the control handlers of \<open>failsafe-feature-registry\<close> behind
  its control server. The transport is the Iroh transport inside \<open>daemon_world\<close>; the turns of
  \<open>select!\<close> are a list of events.
\<close>

section \<open>The control handlers\<close>

text \<open>
  What the handlers share, and what one connection meets: the relays' turns and streams, the
  forward's events, the file system and the acknowledgements.
\<close>

record ('b, 'k) control_world =
  cw_world :: "('b, 'k) daemon_world"
  cw_sends :: "send_transfer_state state_dir"

record 'v connection =
  cn_shell :: "'v \<Rightarrow> (string, open_shell_request) result"
  cn_port :: "'v \<Rightarrow> (string, open_port_forward_request) result"
  cn_send :: "'v \<Rightarrow> (string, send_control_body) result"
  cn_events :: "relay_event list"
  cn_input :: recv_stream
  cn_recv :: recv_stream
  cn_bind :: "u16 \<Rightarrow> (string, unit) result"
  cn_forward :: "forward_event list"
  cn_run :: send_run
  cn_child_cancels :: bool

record control_build =
  cb_device_name :: string
  cb_send_limits :: clipboard_limits

definition to_send_world :: "('b, 'k) control_world \<Rightarrow> (net_state, 'b) send_world" where
  "to_send_world w =
     \<lparr>sw_transport = kw_transport (cw_world w), sw_blobs = kw_blobs (cw_world w), sw_sends = cw_sends w,
      sw_receives = dw_states (cw_world w), sw_coordinator = sn_coordinator (dw_send (cw_world w))\<rparr>"

definition from_send_world :: "('b, 'k) control_world \<Rightarrow> (net_state, 'b) send_world \<Rightarrow> ('b, 'k) control_world" where
  "from_send_world w s =
     \<lparr>cw_world = (cw_world w)\<lparr>kw_transport := sw_transport s, kw_blobs := sw_blobs s, dw_states := sw_receives s,
        dw_send := (dw_send (cw_world w))\<lparr>sn_coordinator := sw_coordinator s\<rparr>\<rparr>,
      cw_sends = sw_sends s\<rparr>"

definition send_control_of :: "('b, 'k) daemon_env \<Rightarrow> bool \<Rightarrow> control_build \<Rightarrow> (net_state, 'b) send_control" where
  "send_control_of env child_cancels b =
     \<lparr>sc_ext = ce_ext (de_clip env), sc_child_cancels_parent = child_cancels,
      sc_transport = iroh_ops (de_message_encode env), sc_blobs = de_blobs env,
      sc_device_name = cb_device_name b, sc_limits = cb_send_limits b,
      sc_message_encode = de_message_encode env, sc_envelope_encode = de_send_encode env\<rparr>"

text \<open>A handler that is still waiting has no answer yet; the server ignores the answer.\<close>

definition build_control_handlers :: "('b, 'k) daemon_env \<Rightarrow> control_build \<Rightarrow> 'v connection
    \<Rightarrow> ('v, ('b, 'k) control_world) control_ops list" where
  "build_control_handlers env b cn =
     [\<lparr>co_id = shell_id, co_handle = (\<lambda>ctx body io w.
         case shell_handle_control (ce_ext (de_clip env)) (cn_shell cn) ctx body (cn_events cn) (cn_input cn)
                (cn_recv cn) io (kw_transport (cw_world w)) of
           (io', t', _, r) \<Rightarrow> (io', w\<lparr>cw_world := (cw_world w)\<lparr>kw_transport := t'\<rparr>\<rparr>, r))\<rparr>,
      \<lparr>co_id = port_id, co_handle = (\<lambda>ctx body io w.
         case port_handle_control (ce_ext (de_clip env)) (cn_port cn) (cn_bind cn) ctx body (cn_forward cn) io
                (kw_transport (cw_world w)) of
           (io', t', _, r) \<Rightarrow> (io', w\<lparr>cw_world := (cw_world w)\<lparr>kw_transport := t'\<rparr>\<rparr>, r))\<rparr>,
      \<lparr>co_id = send_id, co_handle = (\<lambda>ctx body io w.
         case send_handle_control (send_control_of env (cn_child_cancels cn) b) (cn_send cn) (cn_run cn) ctx body
                io (to_send_world w) of
           (io', s', r) \<Rightarrow> (io', from_send_world w s', case r of None \<Rightarrow> Ok () | Some r \<Rightarrow> r))\<rparr>]"

section \<open>The daemon and its builder\<close>

record daemon =
  dm_registry :: "daemon_feature feature_registry"
  dm_client :: "server_client option"
  dm_features :: "feature_id list"
  dm_device_name :: string
  dm_public_key :: "string option"
  dm_iroh :: bool
  dm_send_limits :: clipboard_limits
  dm_config_path :: "string option"
  dm_config :: "config option"

text \<open>Of the builder, what \<open>build\<close> reads: \<open>bd_transport\<close> and \<open>bd_peer_updater\<close> say whether they were given.\<close>

record daemon_builder =
  bd_transport :: bool
  bd_peer_updater :: bool
  bd_features :: "feature_id list"
  bd_client :: "server_client option"
  bd_device_name :: string
  bd_public_key :: "string option"
  bd_iroh :: bool

definition builder_new :: daemon_builder where
  "builder_new = \<lparr>bd_transport = False, bd_peer_updater = False, bd_features = [], bd_client = None,
     bd_device_name = ''my-device'', bd_public_key = None, bd_iroh = False\<rparr>"

definition enable_features :: "feature_id list \<Rightarrow> daemon_builder \<Rightarrow> daemon_builder" where
  "enable_features ids b = b\<lparr>bd_features := fold List.insert ids (bd_features b)\<rparr>"

fun enable_registered :: "feature_id list \<Rightarrow> daemon_feature feature_registry
    \<Rightarrow> (feature_error, daemon_feature feature_registry) result" where
  "enable_registered [] r = Ok r"
| "enable_registered (i # ids) r =
     (if is_registered r i
      then (case registry_enable i r of
              (r', Err e) \<Rightarrow> Err e
            | (r', Ok _) \<Rightarrow> enable_registered ids r')
      else enable_registered ids r)"

definition build :: "('b, 'k) daemon_env \<Rightarrow> daemon_builder \<Rightarrow> (daemon_error, daemon) result" where
  "build env b =
     (if \<not> bd_transport b then Err (DConfig ''transport is required'')
      else if \<not> bd_peer_updater b then Err (DConfig ''peer updater is required'')
      else and_then (map_err DFeature (and_then (build_feature_registry env (bd_iroh b)) (enable_registered (bd_features b))))
        (\<lambda>r. Ok \<lparr>dm_registry = r, dm_client = bd_client b, dm_features = bd_features b,
           dm_device_name = bd_device_name b, dm_public_key = bd_public_key b, dm_iroh = bd_iroh b,
           dm_send_limits = limits_unlimited, dm_config_path = None, dm_config = None\<rparr>))"

definition from_config :: "('b, 'k) daemon_env \<Rightarrow> string \<Rightarrow> config \<Rightarrow> string option \<Rightarrow> bool \<Rightarrow> server_client option
    \<Rightarrow> (daemon_error, daemon) result" where
  "from_config env path c public_key with_iroh client =
     (let b = (enable_features (enabled_feature_set c)
               (builder_new\<lparr>bd_transport := True, bd_peer_updater := True\<rparr>))
               \<lparr>bd_device_name := cf_device_name c, bd_public_key := public_key, bd_iroh := with_iroh\<rparr> in
      map_ok (\<lambda>d. d\<lparr>dm_config_path := Some path, dm_config := Some c\<rparr>)
        (build env (case client of Some cl \<Rightarrow> b\<lparr>bd_client := Some cl\<rparr> | None \<Rightarrow> b)))"

section \<open>Calls on the account server\<close>

definition daemon_device_id :: "('b, 'k) daemon_world \<Rightarrow> device_id" where
  "daemon_device_id w = tr_local_device_id (iroh_ops (\<lambda>_. Ok [])) (kw_transport w)"

definition require_server_client :: "daemon \<Rightarrow> (daemon_error, server_client) result" where
  "require_server_client d =
     ok_or (dm_client d) (DConfig ''credentials are required; pair this device first'')"

definition register_transport_with_server :: "ext \<Rightarrow> toml \<Rightarrow> 'h http_client \<Rightarrow> device_id \<Rightarrow> daemon \<Rightarrow> 'h
    \<Rightarrow> daemon \<times> 'h \<times> (daemon_error, unit) result" where
  "register_transport_with_server x tm hc self d h =
     (case require_server_client d of
        Err e \<Rightarrow> (d, h, Err e)
      | Ok client \<Rightarrow>
     (case dm_public_key d of
        None \<Rightarrow> (d, h, Err (DConfig ''iroh public key is required''))
      | Some key \<Rightarrow>
     (case client_upsert_device x tm hc \<lparr>du_device_id = self, du_name = dm_device_name d,
             du_iroh_public_key = key, du_enabled_features = dm_features d\<rparr> client h of
        (client', h', r) \<Rightarrow> (d\<lparr>dm_client := Some client'\<rparr>, h', r))))"

definition heartbeat_with_server :: "ext \<Rightarrow> toml \<Rightarrow> 'h http_client \<Rightarrow> device_id \<Rightarrow> daemon \<Rightarrow> 'h
    \<Rightarrow> daemon \<times> 'h \<times> (daemon_error, unit) result" where
  "heartbeat_with_server x tm hc self d h =
     (case require_server_client d of
        Err e \<Rightarrow> (d, h, Err e)
      | Ok client \<Rightarrow>
          (case client_heartbeat_device x tm hc self client h of
             (client', h', r) \<Rightarrow> (d\<lparr>dm_client := Some client'\<rparr>, h', r)))"

text \<open>
  The part that concerns this device, when the daemon knows its configuration: it works on the
  policy fields of the daemon and on the disk the client's credentials are on.
\<close>

definition apply_self :: "('b, 'k) daemon_env \<Rightarrow> toml \<Rightarrow> device_id \<Rightarrow> device_info list \<Rightarrow> bool \<Rightarrow> server_client
    \<Rightarrow> daemon \<Rightarrow> ('b, 'k) daemon_world
    \<Rightarrow> daemon \<times> ('b, 'k) daemon_world \<times> (daemon_error raised, unit) result" where
  "apply_self env tm self devices start_new client d w =
     (case (dm_config_path d, dm_config d) of
        (Some path, Some c) \<Rightarrow>
          (case apply_self_from_server env tm path self devices start_new
                  \<lparr>lp_device_name = dm_device_name d, lp_features = dm_features d, lp_config = c,
                   lp_disk = sc_disk client\<rparr> (dm_registry d) w of
             (p, r, w', res) \<Rightarrow>
               (d\<lparr>dm_registry := r, dm_features := lp_features p, dm_device_name := lp_device_name p,
                  dm_config := Some (lp_config p), dm_client := Some (client\<lparr>sc_disk := lp_disk p\<rparr>)\<rparr>,
                w', map_ok (\<lambda>_. ()) res))
      | _ \<Rightarrow> (d, w, Ok ()))"

definition sync_from_server :: "('b, 'k) daemon_env \<Rightarrow> toml \<Rightarrow> 'h http_client \<Rightarrow> (string \<Rightarrow> (string, string) result)
    \<Rightarrow> bool \<Rightarrow> daemon \<Rightarrow> ('b, 'k) daemon_world \<Rightarrow> 'h
    \<Rightarrow> daemon \<times> ('b, 'k) daemon_world \<times> 'h \<times> (daemon_error raised, unit) result" where
  "sync_from_server env tm hc pk start_new d w h =
     (case require_server_client d of
        Err e \<Rightarrow> (d, w, h, Err (Raised e))
      | Ok client \<Rightarrow>
     (case client_list_devices tm hc client h of
        (client', h', Err e) \<Rightarrow> (d\<lparr>dm_client := Some client'\<rparr>, w, h', Err (Raised e))
      | (client', h', Ok devices) \<Rightarrow>
     (case apply_self env tm (daemon_device_id w) devices start_new client' (d\<lparr>dm_client := Some client'\<rparr>) w of
        (d', w', Err e) \<Rightarrow> (d', w', h', Err e)
      | (d', w', Ok _) \<Rightarrow>
          (d', apply_server_devices pk (daemon_device_id w) (dm_features d') devices w', h', Ok ()))))"

section \<open>The loop\<close>

definition handle_transport_message :: "('b, 'k) daemon_env \<Rightarrow> feature_message \<Rightarrow> daemon \<Rightarrow> ('b, 'k) daemon_world
    \<Rightarrow> daemon \<times> ('b, 'k) daemon_world" where
  "handle_transport_message env m d w =
     (case dispatch (daemon_ops env) m (dm_registry d) w of (r, w', _) \<Rightarrow> (d\<lparr>dm_registry := r\<rparr>, w'))"

text \<open>
  A running daemon: \<open>rn_shared\<close> are the features the control server goes by, \<open>rn_build\<close> what its
  handlers were built with.
\<close>

record ('b, 'k, 'h) running =
  rn_daemon :: daemon
  rn_control :: "('b, 'k) control_world"
  rn_http :: 'h
  rn_shared :: "feature_id list"
  rn_build :: control_build
  rn_token :: string

definition handle_sync_tick :: "('b, 'k) daemon_env \<Rightarrow> toml \<Rightarrow> 'h http_client \<Rightarrow> (string \<Rightarrow> (string, string) result)
    \<Rightarrow> ('b, 'k, 'h) running \<Rightarrow> ('b, 'k, 'h) running \<times> (daemon_error raised, unit) result" where
  "handle_sync_tick env tm hc pk s =
     (let w = cw_world (rn_control s) in
      case heartbeat_with_server (ce_ext (de_clip env)) tm hc (daemon_device_id w) (rn_daemon s) (rn_http s) of
        (d1, h1, r1) \<Rightarrow>
     (if r1 = Err DeviceRemoved then (s\<lparr>rn_daemon := d1, rn_http := h1\<rparr>, Err (Raised DeviceRemoved))
      else
     (case sync_from_server env tm hc pk True d1 w h1 of
        (d2, w2, h2, r2) \<Rightarrow>
     (let s' = s\<lparr>rn_daemon := d2, rn_control := (rn_control s)\<lparr>cw_world := w2\<rparr>, rn_http := h2\<rparr> in
      case r2 of
        Ok _ \<Rightarrow> (s'\<lparr>rn_shared := dm_features d2\<rparr>, Ok ())
      | Err (Raised _) \<Rightarrow> (s', Ok ())
      | Err (Panic m) \<Rightarrow> (s', Err (Panic m))))))"

datatype 'v daemon_event =
    Inbound feature_message
  | ReaderStopped transport_error
  | Accepted "'v connection" "(control_error, 'v control_envelope) result" control_io
  | SyncTick
  | CtrlC "string option"

definition control_context_of :: "('b, 'k, 'h) running \<Rightarrow> control_context" where
  "control_context_of s = \<lparr>cc_peers = kw_peers (cw_world (rn_control s)), cc_local_features = rn_shared s\<rparr>"

text \<open>The control server exists only beside the Iroh transport.\<close>

definition handle_accepted :: "('b, 'k) daemon_env \<Rightarrow> 'v connection \<Rightarrow> (control_error, 'v control_envelope) result
    \<Rightarrow> control_io \<Rightarrow> ('b, 'k, 'h) running \<Rightarrow> ('b, 'k, 'h) running \<times> control_io" where
  "handle_accepted env cn envelope io s =
     (if dm_iroh (rn_daemon s)
      then (case handle_connection control_error_display
               \<lparr>cs_token = rn_token s, cs_handlers = build_control_handlers env (rn_build s) cn\<rparr>
               (control_context_of s) envelope io (rn_control s) of
              (io', w') \<Rightarrow> (s\<lparr>rn_control := w'\<rparr>, io'))
      else (s, io))"

definition disable_all :: "('b, 'k) daemon_env \<Rightarrow> feature_id list \<Rightarrow> daemon_feature feature_registry
    \<Rightarrow> ('b, 'k) daemon_world \<Rightarrow> daemon_feature feature_registry \<times> ('b, 'k) daemon_world" where
  "disable_all env ids r w = fold (\<lambda>i (r, w). registry_disable (daemon_ops env) i r w) ids (r, w)"

definition shutdown :: "('b, 'k) daemon_env \<Rightarrow> ('b, 'k, 'h) running \<Rightarrow> ('b, 'k, 'h) running" where
  "shutdown env s =
     (let d = rn_daemon s in
      case disable_all env (reg_enabled (dm_registry d)) (dm_registry d) (cw_world (rn_control s)) of
        (r, w) \<Rightarrow> s\<lparr>rn_daemon := d\<lparr>dm_registry := r\<rparr>, rn_control := (rn_control s)\<lparr>cw_world := w\<rparr>\<rparr>)"

text \<open>\<open>None\<close> is a loop that is still running.\<close>

fun daemon_loop :: "('b, 'k) daemon_env \<Rightarrow> toml \<Rightarrow> 'h http_client \<Rightarrow> (string \<Rightarrow> (string, string) result)
    \<Rightarrow> 'v daemon_event list \<Rightarrow> ('b, 'k, 'h) running
    \<Rightarrow> ('b, 'k, 'h) running \<times> (daemon_error raised, unit) result option" where
  "daemon_loop env tm hc pk [] s = (s, None)"
| "daemon_loop env tm hc pk (e # es) s =
     (case e of
        Inbound m \<Rightarrow>
          (case handle_transport_message env m (rn_daemon s) (cw_world (rn_control s)) of
             (d, w) \<Rightarrow> daemon_loop env tm hc pk es
                (s\<lparr>rn_daemon := d, rn_control := (rn_control s)\<lparr>cw_world := w\<rparr>\<rparr>))
      | ReaderStopped err \<Rightarrow> (s, Some (Err (Raised (DTransport err))))
      | Accepted cn envelope io \<Rightarrow> daemon_loop env tm hc pk es (fst (handle_accepted env cn envelope io s))
      | SyncTick \<Rightarrow>
          (case handle_sync_tick env tm hc pk s of
             (s', Err err) \<Rightarrow> (s', Some (Err err))
           | (s', Ok _) \<Rightarrow> daemon_loop env tm hc pk es s')
      | CtrlC (Some err) \<Rightarrow> (s, Some (Err (Raised (DIo err))))
      | CtrlC None \<Rightarrow> (shutdown env s, Some (Ok ())))"

text \<open>
  \<open>run\<close> up to the loop; \<open>control\<close> is the outcome of creating and binding the control server, its
  token or the error.
\<close>

definition start_sync :: "('b, 'k) daemon_env \<Rightarrow> toml \<Rightarrow> 'h http_client \<Rightarrow> (string \<Rightarrow> (string, string) result)
    \<Rightarrow> ('b, 'k, 'h) running \<Rightarrow> ('b, 'k, 'h) running \<times> (daemon_error raised, unit) result" where
  "start_sync env tm hc pk s =
     (case sync_from_server env tm hc pk False (rn_daemon s) (cw_world (rn_control s)) (rn_http s) of
        (d, w, h, r) \<Rightarrow> (s\<lparr>rn_daemon := d, rn_control := (rn_control s)\<lparr>cw_world := w\<rparr>, rn_http := h\<rparr>, r))"

definition start_register :: "('b, 'k) daemon_env \<Rightarrow> toml \<Rightarrow> 'h http_client
    \<Rightarrow> ('b, 'k, 'h) running \<Rightarrow> ('b, 'k, 'h) running \<times> (daemon_error raised, unit) result" where
  "start_register env tm hc s =
     (case register_transport_with_server (ce_ext (de_clip env)) tm hc (daemon_device_id (cw_world (rn_control s)))
             (rn_daemon s) (rn_http s) of
        (d, h, r) \<Rightarrow> (s\<lparr>rn_daemon := d, rn_http := h\<rparr>, map_err Raised r))"

definition start_features :: "('b, 'k) daemon_env \<Rightarrow> ('b, 'k, 'h) running
    \<Rightarrow> ('b, 'k, 'h) running \<times> (daemon_error raised, unit) result" where
  "start_features env s =
     (case start_enabled (daemon_ops env) (dm_registry (rn_daemon s)) (cw_world (rn_control s)) of
        (r, w, res) \<Rightarrow>
          (s\<lparr>rn_daemon := (rn_daemon s)\<lparr>dm_registry := r\<rparr>, rn_control := (rn_control s)\<lparr>cw_world := w\<rparr>\<rparr>,
           map_err (\<lambda>e. case e of Raised f \<Rightarrow> Raised (DFeature f) | Panic m \<Rightarrow> Panic m) res))"

definition start_control :: "(daemon_error, string) result \<Rightarrow> ('b, 'k, 'h) running
    \<Rightarrow> ('b, 'k, 'h) running \<times> (daemon_error raised, unit) result" where
  "start_control control s =
     (let s1 = s\<lparr>rn_shared := dm_features (rn_daemon s)\<rparr> in
      if dm_iroh (rn_daemon s)
      then (case control of
              Err e \<Rightarrow> (s1, Err (Raised e))
            | Ok token \<Rightarrow>
                (s1\<lparr>rn_token := token, rn_build := \<lparr>cb_device_name = dm_device_name (rn_daemon s),
                    cb_send_limits = dm_send_limits (rn_daemon s)\<rparr>\<rparr>, Ok ()))
      else (s1, Ok ()))"

text \<open>The steps of the start, each only after the success of the one before.\<close>

fun run_steps :: "('s \<Rightarrow> 's \<times> ('e, unit) result) list \<Rightarrow> 's \<Rightarrow> 's \<times> ('e, unit) result" where
  "run_steps [] s = (s, Ok ())"
| "run_steps (f # fs) s =
     (case f s of
        (s', Err e) \<Rightarrow> (s', Err e)
      | (s', Ok _) \<Rightarrow> run_steps fs s')"

definition start_up :: "('b, 'k) daemon_env \<Rightarrow> toml \<Rightarrow> 'h http_client \<Rightarrow> (string \<Rightarrow> (string, string) result)
    \<Rightarrow> (daemon_error, string) result \<Rightarrow> ('b, 'k, 'h) running
    \<Rightarrow> ('b, 'k, 'h) running \<times> (daemon_error raised, unit) result" where
  "start_up env tm hc pk control s =
     (if dm_client (rn_daemon s) = None
      then (s, Err (Raised (DConfig
             ''server_url and credentials are required; run `failsafe register`, `failsafe login`, or `failsafe pair --code`'')))
      else run_steps [start_sync env tm hc pk, start_register env tm hc, start_sync env tm hc pk,
             start_features env, start_control control] s)"

definition run :: "('b, 'k) daemon_env \<Rightarrow> toml \<Rightarrow> 'h http_client \<Rightarrow> (string \<Rightarrow> (string, string) result)
    \<Rightarrow> (daemon_error, string) result \<Rightarrow> 'v daemon_event list \<Rightarrow> ('b, 'k, 'h) running
    \<Rightarrow> ('b, 'k, 'h) running \<times> (daemon_error raised, unit) result option" where
  "run env tm hc pk control es s =
     (case start_up env tm hc pk control s of
        (s', Err e) \<Rightarrow> (s', Some (Err e))
      | (s', Ok _) \<Rightarrow> daemon_loop env tm hc pk es s')"

definition running_new :: "daemon \<Rightarrow> ('b, 'k) control_world \<Rightarrow> 'h \<Rightarrow> ('b, 'k, 'h) running" where
  "running_new d w h = \<lparr>rn_daemon = d, rn_control = w, rn_http = h, rn_shared = [],
     rn_build = \<lparr>cb_device_name = dm_device_name d, cb_send_limits = dm_send_limits d\<rparr>, rn_token = []\<rparr>"

definition register_local_device :: "ext \<Rightarrow> toml \<Rightarrow> 'h http_client \<Rightarrow> path option \<Rightarrow> (path \<Rightarrow> (daemon_error, string) result)
    \<Rightarrow> config \<Rightarrow> credentials \<Rightarrow> disk \<Rightarrow> 'h \<Rightarrow> server_client option \<times> 'h \<times> (daemon_error, unit) result" where
  "register_local_device x tm hc config_dir public_key_hex c creds disk h =
     (case default_secret_key_path config_dir of
        None \<Rightarrow> (None, h, Err (DConfig ''could not determine iroh secret key path''))
      | Some path \<Rightarrow>
     (case public_key_hex path of
        Err e \<Rightarrow> (None, h, Err e)
      | Ok key \<Rightarrow>
          (case client_upsert_device x tm hc \<lparr>du_device_id = cf_device_id c, du_name = cf_device_name c,
                  du_iroh_public_key = key, du_enabled_features = cf_enabled_features c\<rparr>
                (server_client_new (cf_server_url c) creds None disk) h of
             (client, h', r) \<Rightarrow> (Some client, h', r))))"

section \<open>The features that are on\<close>

text \<open>
  The registry is well formed, holds the features it was built with and has on exactly those the
  daemon's set names.
\<close>

definition daemon_inv :: "('b, 'k) daemon_env \<Rightarrow> daemon \<Rightarrow> bool" where
  "daemon_inv env d \<longleftrightarrow> registry_inv (daemon_ops env) (dm_registry d) \<and>
     dom (reg_features (dm_registry d)) = dom (built_features (dm_iroh d)) \<and>
     set (reg_enabled (dm_registry d)) = set (dm_features d) \<inter> dom (built_features (dm_iroh d))"

lemma built_ids: "dom (built_features with_iroh) \<subseteq> set all_ids"
  by (auto simp: built_features_def all_ids_def split: if_splits)

lemma enable_registered_spec:
  "registry_inv (daemon_ops env) r \<Longrightarrow>
     \<exists>r'. enable_registered ids r = Ok r' \<and> registry_inv (daemon_ops env) r' \<and>
       reg_features r' = reg_features r \<and>
       set (reg_enabled r') = set (reg_enabled r) \<union> (set ids \<inter> dom (reg_features r))"
proof (induction ids arbitrary: r)
  case (Cons i ids)
  show ?case
  proof (cases "is_registered r i")
    case True
    let ?r = "r\<lparr>reg_enabled := List.insert i (reg_enabled r)\<rparr>"
    have "registry_enable i r = (?r, Ok ())" using True by (simp add: registry_enable_def is_registered_def)
    moreover from this have "registry_inv (daemon_ops env) ?r"
      using daemon.inv_enable [OF Cons.prems, of i] by simp
    ultimately show ?thesis using Cons.IH [of ?r] True by (auto simp: is_registered_def)
  next
    case False
    then show ?thesis using Cons.IH [OF Cons.prems] by (auto simp: is_registered_def)
  qed
qed simp

lemma build_inv: "build env b = Ok d \<Longrightarrow> daemon_inv env d"
proof -
  assume b: "build env b = Ok d"
  let ?r = "\<lparr>reg_features = built_features (bd_iroh b), reg_enabled = []\<rparr>"
  have "registry_inv (daemon_ops env) ?r" by (rule built_inv [OF build_feature_registry_Ok])
  from enable_registered_spec [OF this, of "bd_features b"] b show ?thesis
    by (auto simp: build_def build_feature_registry_Ok daemon_inv_def split: if_splits)
qed

lemma from_config_inv: "from_config env path c key with_iroh client = Ok d \<Longrightarrow> daemon_inv env d"
proof -
  assume "from_config env path c key with_iroh client = Ok d"
  then obtain b d0 where "build env b = Ok d0" "d = d0\<lparr>dm_config_path := Some path, dm_config := Some c\<rparr>"
    by (auto simp: from_config_def Let_def map_ok_eq_Inr)
  with build_inv [of env b d0] show ?thesis by (simp add: daemon_inv_def)
qed

lemma daemon_inv_simps [simp]:
  "daemon_inv env (d\<lparr>dm_client := c\<rparr>) = daemon_inv env d"
  "daemon_inv env (d\<lparr>dm_device_name := n\<rparr>) = daemon_inv env d"
  "daemon_inv env (d\<lparr>dm_config := f\<rparr>) = daemon_inv env d"
  by (simp_all add: daemon_inv_def)

lemma daemon_inv_sync:
  assumes "registry_inv (daemon_ops env) r" "dom (reg_features r) = dom (built_features (dm_iroh d))"
    "set (reg_enabled r) = set fs \<inter> dom (built_features (dm_iroh d))"
  shows "daemon_inv env (d\<lparr>dm_registry := r, dm_features := fs\<rparr>)"
  using assms by (simp add: daemon_inv_def)

text \<open>Taking over the policy keeps the invariant, whether or not the configuration could be saved.\<close>

lemma apply_self_from_server_inv:
  assumes "daemon_inv env d"
    "apply_self_from_server env tm path self devices start_new p (dm_registry d) w = (p', r', w', res)"
    "lp_features p = dm_features d"
  shows "daemon_inv env (d\<lparr>dm_registry := r', dm_features := lp_features p'\<rparr>)"
proof (cases "find_self_device self devices")
  case None
  with assms show ?thesis by (auto simp: apply_self_from_server_def)
next
  case (Some dev)
  have inv: "registry_inv (daemon_ops env) (dm_registry d)"
    and dom: "dom (reg_features (dm_registry d)) = dom (built_features (dm_iroh d))"
    using assms(1) by (simp_all add: daemon_inv_def)
  then have "dom (reg_features (dm_registry d)) \<subseteq> set all_ids" using built_ids by simp
  with sync_lands [OF inv, of "remdups (di_enabled_features dev)" start_new w] obtain r1 w1 where
    s: "sync_features_to_registry env (remdups (di_enabled_features dev)) start_new (dm_registry d) w = (r1, w1, Ok ())"
      "registry_inv (daemon_ops env) r1" "dom (reg_features r1) = dom (built_features (dm_iroh d))"
      "set (reg_enabled r1) = set (di_enabled_features dev) \<inter> dom (built_features (dm_iroh d))"
    unfolding dom set_remdups by blast
  show ?thesis
  proof (cases "set (remdups (di_enabled_features dev)) \<noteq> set (dm_features d)")
    case True
    then have "lp_features p' = remdups (di_enabled_features dev) \<and> r' = r1"
      using assms(2,3) Some s(1)
      by (auto simp: apply_self_from_server_def Let_def split: if_splits prod.splits)
    with s(2-4) show ?thesis by (intro daemon_inv_sync) auto
  next
    case False
    then have "lp_features p' = dm_features d \<and> r' = dm_registry d"
      using assms(2,3) Some by (auto simp: apply_self_from_server_def Let_def split: if_splits prod.splits)
    with assms(1) show ?thesis by simp
  qed
qed

lemma apply_self_inv:
  assumes "daemon_inv env d" "apply_self env tm self devices start_new client d w = (d', w', r)"
  shows "daemon_inv env d' \<and> dm_iroh d' = dm_iroh d"
proof (cases "\<exists>path c. dm_config_path d = Some path \<and> dm_config d = Some c")
  case True
  then obtain path c where c: "dm_config_path d = Some path" "dm_config d = Some c" by blast
  obtain p' r' w1 res where a: "apply_self_from_server env tm path self devices start_new
      \<lparr>lp_device_name = dm_device_name d, lp_features = dm_features d, lp_config = c, lp_disk = sc_disk client\<rparr>
      (dm_registry d) w = (p', r', w1, res)" by (metis prod_cases4)
  from apply_self_from_server_inv [OF assms(1) a] assms(2) c a show ?thesis
    by (auto simp: apply_self_def)
next
  case False
  with assms show ?thesis by (auto simp: apply_self_def split: option.splits)
qed

lemma sync_from_server_inv:
  assumes "daemon_inv env d" "sync_from_server env tm hc pk start_new d w h = (d', w', h', r)"
  shows "daemon_inv env d' \<and> dm_iroh d' = dm_iroh d"
proof -
  have up: "daemon_inv env (d\<lparr>dm_client := c\<rparr>)" for c using assms(1) by simp
  show ?thesis using assms(2) apply_self_inv [OF up] assms(1)
    by (auto simp: sync_from_server_def split: sum.splits prod.splits)
qed

lemma client_calls_inv:
  "daemon_inv env d \<Longrightarrow> register_transport_with_server x tm hc self d h = (d', h', r) \<Longrightarrow>
     daemon_inv env d' \<and> dm_iroh d' = dm_iroh d"
  "daemon_inv env d \<Longrightarrow> heartbeat_with_server x tm hc self d h = (d', h', r) \<Longrightarrow>
     daemon_inv env d' \<and> dm_iroh d' = dm_iroh d"
  by (auto simp: register_transport_with_server_def heartbeat_with_server_def
      split: sum.splits option.splits prod.splits)

lemma daemon_dispatch_frame:
  "dispatch ops m r w = (r', w', a) \<Longrightarrow>
     reg_enabled r' = reg_enabled r \<and> dom (reg_features r') = dom (reg_features r)"
  by (auto simp: dispatch_def Let_def split: if_splits option.splits prod.splits)

lemma handle_transport_message_inv:
  assumes "daemon_inv env d" "handle_transport_message env m d w = (d', w')"
  shows "daemon_inv env d' \<and> dm_iroh d' = dm_iroh d"
proof -
  obtain r' a where disp: "dispatch (daemon_ops env) m (dm_registry d) w = (r', w', a)"
    and d': "d' = d\<lparr>dm_registry := r'\<rparr>"
    using assms(2) by (auto simp: handle_transport_message_def split: prod.splits)
  have "registry_inv (daemon_ops env) (dm_registry d)" using assms(1) by (simp add: daemon_inv_def)
  from daemon.inv_dispatch [OF this, of m w] have "registry_inv (daemon_ops env) r'" by (simp add: disp)
  with daemon_dispatch_frame [OF disp] assms(1) d' show ?thesis by (simp add: daemon_inv_def)
qed

lemma handle_sync_tick_inv:
  assumes "daemon_inv env (rn_daemon s)" "handle_sync_tick env tm hc pk s = (s', r)"
  shows "daemon_inv env (rn_daemon s') \<and> dm_iroh (rn_daemon s') = dm_iroh (rn_daemon s)"
proof -
  obtain d1 h1 r1 where hb: "heartbeat_with_server (ce_ext (de_clip env)) tm hc
      (daemon_device_id (cw_world (rn_control s))) (rn_daemon s) (rn_http s) = (d1, h1, r1)"
    by (metis prod_cases3)
  note d1 = client_calls_inv(2) [OF assms(1) hb]
  obtain d2 w2 h2 r2 where sy: "sync_from_server env tm hc pk True d1 (cw_world (rn_control s)) h1 = (d2, w2, h2, r2)"
    by (metis prod_cases4)
  note d2 = sync_from_server_inv [OF conjunct1 [OF d1] sy]
  from assms(2) hb sy d1 d2 show ?thesis
    by (auto simp: handle_sync_tick_def Let_def split: if_splits sum.splits raised.splits)
qed

lemma handle_accepted_daemon: "rn_daemon (fst (handle_accepted env cn envelope io s)) = rn_daemon s"
  by (simp add: handle_accepted_def split: prod.split)

lemma registry_disable_frame:
  "registry_disable (daemon_ops env) i r w = (r', w') \<Longrightarrow>
     reg_enabled r' = remove1 i (reg_enabled r) \<and> dom (reg_features r') = dom (reg_features r)"
  by (auto simp: registry_disable_def Let_def split: option.splits prod.splits if_splits)

lemma disable_all_spec:
  "registry_inv (daemon_ops env) r \<Longrightarrow> disable_all env ids r w = (r', w') \<Longrightarrow>
     registry_inv (daemon_ops env) r' \<and> dom (reg_features r') = dom (reg_features r) \<and>
     set (reg_enabled r') = set (reg_enabled r) - set ids"
proof (induction ids arbitrary: r w)
  case Nil
  then show ?case by (simp add: disable_all_def)
next
  case (Cons i ids)
  obtain r1 w1 where d: "registry_disable (daemon_ops env) i r w = (r1, w1)" by fastforce
  have inv: "registry_inv (daemon_ops env) r1" using daemon.inv_disable [OF Cons.prems(1), of i w] d by simp
  have "disable_all env ids r1 w1 = (r', w')" using Cons.prems(2) d by (simp add: disable_all_def)
  from Cons.IH [OF inv this] registry_disable_frame [OF d] Cons.prems(1) show ?case
    by (auto simp: registry_inv_def)
qed

lemma shutdown_spec:
  assumes "daemon_inv env (rn_daemon s)"
  shows "reg_enabled (dm_registry (rn_daemon (shutdown env s))) = []"
    "dom (reg_features (dm_registry (rn_daemon (shutdown env s)))) = dom (built_features (dm_iroh (rn_daemon s)))"
    "registry_inv (daemon_ops env) (dm_registry (rn_daemon (shutdown env s)))"
proof -
  let ?r = "dm_registry (rn_daemon s)"
  obtain r' w' where d: "disable_all env (reg_enabled ?r) ?r (cw_world (rn_control s)) = (r', w')" by fastforce
  have "registry_inv (daemon_ops env) ?r" using assms by (simp add: daemon_inv_def)
  from disable_all_spec [OF this d] d assms show
    "reg_enabled (dm_registry (rn_daemon (shutdown env s))) = []"
    "dom (reg_features (dm_registry (rn_daemon (shutdown env s)))) = dom (built_features (dm_iroh (rn_daemon s)))"
    "registry_inv (daemon_ops env) (dm_registry (rn_daemon (shutdown env s)))"
    by (simp_all add: shutdown_def Let_def daemon_inv_def)
qed

text \<open>A daemon that is still running has the invariant; one that was told to stop has nothing on.\<close>

definition daemon_outcome :: "('b, 'k) daemon_env \<Rightarrow> ('b, 'k, 'h) running \<Rightarrow> (daemon_error raised, unit) result option
    \<Rightarrow> bool" where
  "daemon_outcome env s r \<longleftrightarrow>
     (if r = Some (Ok ())
      then registry_inv (daemon_ops env) (dm_registry (rn_daemon s)) \<and> reg_enabled (dm_registry (rn_daemon s)) = []
      else daemon_inv env (rn_daemon s))"

lemma daemon_loop_inv:
  "daemon_inv env (rn_daemon s) \<Longrightarrow> daemon_loop env tm hc pk es s = (s', r) \<Longrightarrow> daemon_outcome env s' r"
proof (induction es arbitrary: s)
  case Nil
  then show ?case by (simp add: daemon_outcome_def)
next
  case (Cons e es)
  show ?case
  proof (cases e)
    case (Inbound m)
    obtain d w where h: "handle_transport_message env m (rn_daemon s) (cw_world (rn_control s)) = (d, w)"
      by fastforce
    from handle_transport_message_inv [OF Cons.prems(1) h] Cons.prems(2) h Inbound show ?thesis
      using Cons.IH [of "s\<lparr>rn_daemon := d, rn_control := (rn_control s)\<lparr>cw_world := w\<rparr>\<rparr>"] by simp
  next
    case (ReaderStopped err)
    then show ?thesis using Cons.prems by (auto simp: daemon_outcome_def)
  next
    case (Accepted cn envelope io)
    then show ?thesis using Cons.IH [of "fst (handle_accepted env cn envelope io s)"] Cons.prems
      by (simp add: handle_accepted_daemon)
  next
    case SyncTick
    obtain s1 r1 where t: "handle_sync_tick env tm hc pk s = (s1, r1)" by fastforce
    from handle_sync_tick_inv [OF Cons.prems(1) t] Cons.IH [of s1] Cons.prems(2) t SyncTick show ?thesis
      by (cases r1) (auto simp: daemon_outcome_def)
  next
    case (CtrlC err)
    then show ?thesis using Cons.prems shutdown_spec [OF Cons.prems(1)]
      by (auto simp: daemon_outcome_def split: option.splits)
  qed
qed

lemma run_steps_inv:
  "\<forall>f \<in> set fs. \<forall>s s' r. P s \<longrightarrow> f s = (s', r) \<longrightarrow> P s' \<Longrightarrow> P s \<Longrightarrow> run_steps fs s = (s', r) \<Longrightarrow> P s'"
proof (induction fs arbitrary: s)
  case (Cons f fs)
  obtain s1 r1 where f: "f s = (s1, r1)" by fastforce
  have "P s1" by (rule Cons.prems(1) [rule_format, OF list.set_intros(1) Cons.prems(2) f])
  show ?case
  proof (cases r1)
    case (Inl e)
    with Cons.prems(3) f \<open>P s1\<close> show ?thesis by simp
  next
    case (Inr u)
    with Cons.prems(3) f have run: "run_steps fs s1 = (s', r)" by simp
    show ?thesis
    proof (rule Cons.IH [OF _ \<open>P s1\<close> run])
      show "\<forall>f \<in> set fs. \<forall>s s' r. P s \<longrightarrow> f s = (s', r) \<longrightarrow> P s'"
        using Cons.prems(1) unfolding list.set ball_simps by (rule conjunct2)
    qed
  qed
qed simp

lemma start_step_inv:
  "daemon_inv env (rn_daemon s) \<Longrightarrow> start_sync env tm hc pk s = (s', r) \<Longrightarrow> daemon_inv env (rn_daemon s')"
  "daemon_inv env (rn_daemon s) \<Longrightarrow> start_register env tm hc s = (s', r) \<Longrightarrow> daemon_inv env (rn_daemon s')"
  "daemon_inv env (rn_daemon s) \<Longrightarrow> start_features env s = (s', r) \<Longrightarrow> daemon_inv env (rn_daemon s')"
  "daemon_inv env (rn_daemon s) \<Longrightarrow> start_control control s = (s', r) \<Longrightarrow> daemon_inv env (rn_daemon s')"
proof -
  assume inv: "daemon_inv env (rn_daemon s)"
  show "start_sync env tm hc pk s = (s', r) \<Longrightarrow> daemon_inv env (rn_daemon s')"
    by (auto simp: start_sync_def split: prod.splits dest!: sync_from_server_inv [OF inv])
  show "start_register env tm hc s = (s', r) \<Longrightarrow> daemon_inv env (rn_daemon s')"
    by (auto simp: start_register_def split: prod.splits dest!: client_calls_inv(1) [OF inv])
  show "start_control control s = (s', r) \<Longrightarrow> daemon_inv env (rn_daemon s')"
    using inv by (auto simp: start_control_def Let_def split: sum.splits if_splits)
  assume st: "start_features env s = (s', r)"
  obtain r1 w1 a where e: "start_enabled (daemon_ops env) (dm_registry (rn_daemon s)) (cw_world (rn_control s)) = (r1, w1, a)"
    by (metis prod_cases3)
  have reg: "registry_inv (daemon_ops env) (dm_registry (rn_daemon s))" using inv by (simp add: daemon_inv_def)
  have "reg_enabled (fst (start_each (daemon_ops env) ids r w)) = reg_enabled r" for ids r w
  proof (induction ids arbitrary: r w)
    case (Cons i ids)
    then show ?case using daemon.enabled_start_registered [of env i r w]
      by (auto split: prod.split sum.split)
  qed simp
  from this [of "reg_enabled (dm_registry (rn_daemon s))" "dm_registry (rn_daemon s)" "cw_world (rn_control s)"]
    registered_start_each [of env "reg_enabled (dm_registry (rn_daemon s))" "dm_registry (rn_daemon s)"
      "cw_world (rn_control s)"] e
  have "reg_enabled r1 = reg_enabled (dm_registry (rn_daemon s))"
    "dom (reg_features r1) = dom (reg_features (dm_registry (rn_daemon s)))"
    by (simp_all add: start_enabled_def)
  moreover have "registry_inv (daemon_ops env) r1"
    using daemon.inv_start_enabled [OF reg, of "cw_world (rn_control s)"] e by simp
  moreover have "rn_daemon s' = (rn_daemon s)\<lparr>dm_registry := r1\<rparr>"
    using st e by (auto simp: start_features_def)
  ultimately show "daemon_inv env (rn_daemon s')" using inv by (simp add: daemon_inv_def)
qed

lemma start_up_inv:
  assumes "daemon_inv env (rn_daemon s)" "start_up env tm hc pk control s = (s', r)"
  shows "daemon_inv env (rn_daemon s')"
proof (cases "dm_client (rn_daemon s) = None")
  case True
  with assms show ?thesis by (simp add: start_up_def)
next
  case False
  let ?fs = "[start_sync env tm hc pk, start_register env tm hc, start_sync env tm hc pk, start_features env,
    start_control control]"
  show ?thesis
  proof (rule run_steps_inv [of ?fs "\<lambda>s. daemon_inv env (rn_daemon s)" s s' r])
    show "run_steps ?fs s = (s', r)" using assms(2) False by (simp add: start_up_def)
    show "\<forall>f \<in> set ?fs. \<forall>s s' r. daemon_inv env (rn_daemon s) \<longrightarrow> f s = (s', r) \<longrightarrow> daemon_inv env (rn_daemon s')"
      using start_step_inv by auto
  qed (rule assms(1))
qed

lemma run_outcome:
  assumes "from_config env path c key with_iroh client = Ok d"
    "run env tm hc pk control es (running_new d w h) = (s, r)"
  shows "daemon_outcome env s r"
proof -
  have inv: "daemon_inv env (rn_daemon (running_new d w h :: (_, _, _) running))"
    using from_config_inv [OF assms(1)] by (simp add: running_new_def)
  obtain s1 r1 where up: "start_up env tm hc pk control (running_new d w h) = (s1, r1)" by fastforce
  note inv1 = start_up_inv [OF inv up]
  show ?thesis
  proof (cases r1)
    case (Inl e)
    with up assms(2) inv1 show ?thesis by (auto simp: run_def daemon_outcome_def)
  next
    case (Inr u)
    with up assms(2) have "daemon_loop env tm hc pk es s1 = (s, r)" by (simp add: run_def)
    from daemon_loop_inv [OF inv1 this] show ?thesis .
  qed
qed

lemma dispatch_off:
  assumes "set (reg_enabled (dm_registry d)) \<subseteq> set (dm_features d)" "fm_feature m \<notin> set (dm_features d)"
  shows "handle_transport_message env m d w = (d, w)"
proof -
  have "\<not> is_enabled (dm_registry d) (fm_feature m)" using assms by (auto simp: is_enabled_def)
  then show ?thesis by (simp add: handle_transport_message_def dispatch_not_enabled)
qed

text \<open>
  C38. Through the whole life of the daemon, from its configuration and through every start, message,
  control connection, synchronisation and failure of any of them, the features that are on are
  exactly those of its feature set it was built with, and a message for a feature outside the set
  changes nothing; once it was told to stop, no feature is on.
\<close>

theorem enabled_features_follow_policy:
  assumes "from_config env path c key with_iroh client = Ok d"
    and "run env tm hc pk control es (running_new d w h) = (s, r)"
  shows "registry_inv (daemon_ops env) (dm_registry (rn_daemon s)) \<and>
    (if r = Some (Ok ()) then reg_enabled (dm_registry (rn_daemon s)) = []
     else set (reg_enabled (dm_registry (rn_daemon s))) =
            set (dm_features (rn_daemon s)) \<inter> dom (built_features (dm_iroh (rn_daemon s)))) \<and>
    (fm_feature m \<notin> set (dm_features (rn_daemon s)) \<longrightarrow>
       handle_transport_message env m (rn_daemon s) w' = (rn_daemon s, w'))"
proof -
  have out: "daemon_outcome env s r" by (rule run_outcome [OF assms])
  then have "set (reg_enabled (dm_registry (rn_daemon s))) \<subseteq> set (dm_features (rn_daemon s))"
    by (auto simp: daemon_outcome_def daemon_inv_def split: if_splits)
  from dispatch_off [OF this] out show ?thesis
    by (auto simp: daemon_outcome_def daemon_inv_def split: if_splits)
qed

definition sample_config :: config where
  "sample_config = \<lparr>cf_device_id = DeviceId 1, cf_device_name = ''a'', cf_server_url = ''http://s'',
     cf_enabled_features = [clipboard_id, shell_id], cf_blob_store_path = None,
     cf_clipboard_max_file_bytes = 100\<rparr>"

definition sample_http_ok :: "unit http_client" where
  "sample_http_ok = \<lparr>hc_send = (\<lambda>r h. (h, Ok \<lparr>rs_status = 200, rs_text = Ok []\<rparr>)), hc_status_text = (\<lambda>_. []),
     hc_auth = (\<lambda>_. Err []), hc_devices = (\<lambda>_. Ok sample_devices), hc_device = (\<lambda>_. Err []),
     hc_pairing = (\<lambda>_. Err [])\<rparr>"

definition sample_saved_client :: server_client where
  "sample_saved_client = server_client_new ''http://s'' \<lparr>cr_auth_token = [], cr_refresh_token = None\<rparr> None
     \<lparr>dk_files = Map.empty, dk_private = {}, dk_not_found = [], dk_faults = []\<rparr>"

text \<open>The server has turned the shell off: after the start only the clipboard is on.\<close>

lemma sample_daemon_runs:
  "case from_config sample_env ''c'' sample_config (Some ''k1'') True (Some sample_saved_client) of
     Err _ \<Rightarrow> False
   | Ok d \<Rightarrow> (case run sample_env sample_toml sample_http_ok Ok (Ok ''t'') ([] :: unit daemon_event list)
       (running_new d \<lparr>cw_world = sample_world, cw_sends = sample_send_dir\<rparr> ()) of
       (s, r) \<Rightarrow> Option.is_none r \<and> dm_features (rn_daemon s) = [clipboard_id] \<and> dm_iroh (rn_daemon s))"
  by code_simp

lemma enabled_features_follow_policy_witness:
  "\<exists>d s. from_config sample_env ''c'' sample_config (Some ''k1'') True (Some sample_saved_client) = Ok d \<and>
     run sample_env sample_toml sample_http_ok Ok (Ok ''t'') ([] :: unit daemon_event list)
       (running_new d \<lparr>cw_world = sample_world, cw_sends = sample_send_dir\<rparr> ()) = (s, None) \<and>
     set (reg_enabled (dm_registry (rn_daemon s))) = {clipboard_id}"
proof -
  obtain d where d: "from_config sample_env ''c'' sample_config (Some ''k1'') True (Some sample_saved_client) = Ok d"
    using sample_daemon_runs by (auto split: sum.splits)
  then obtain s where s: "run sample_env sample_toml sample_http_ok Ok (Ok ''t'') ([] :: unit daemon_event list)
       (running_new d \<lparr>cw_world = sample_world, cw_sends = sample_send_dir\<rparr> ()) = (s, None)"
    "dm_features (rn_daemon s) = [clipboard_id]" "dm_iroh (rn_daemon s)"
    using sample_daemon_runs by (auto simp: Option.is_none_def split: prod.splits)
  from enabled_features_follow_policy [OF d s(1), of "sample_clip_message []" sample_world] s
  have "set (reg_enabled (dm_registry (rn_daemon s))) = {clipboard_id} \<inter> dom (built_features True)" by simp
  then have "set (reg_enabled (dm_registry (rn_daemon s))) = {clipboard_id}" by (simp add: built_features_def)
  with d s(1) show ?thesis by blast
qed

end
