(* ===== verification/Cli.thy ===== *)
theory Cli
  imports Cli_Send Daemon
begin

text \<open>
  The other commands of \<open>failsafe\<close> (\<open>failsafe/src/cli/commands\<close>): \<open>register\<close> and \<open>login\<close>, \<open>pair\<close>,
  \<open>devices\<close>, \<open>shell\<close>, \<open>port\<close> and \<open>run\<close> up to the daemon. A command takes the disk and the network
  and returns them with its result; what it prints is left out.
\<close>

section \<open>Devices\<close>

definition with_client :: "'h cli \<Rightarrow> string option \<Rightarrow> string option
    \<Rightarrow> (server_client \<Rightarrow> 'h \<Rightarrow> server_client \<times> 'h \<times> (daemon_error, 'a) result)
    \<Rightarrow> disk \<Rightarrow> 'h \<Rightarrow> disk \<times> 'h \<times> (daemon_error, 'a) result" where
  "with_client cl config_path server_url f d h =
     (case server_client_from_config cl config_path server_url d of
        (d1, Err e) \<Rightarrow> (d1, h, Err e)
      | (d1, Ok client) \<Rightarrow> (case f client h of (client', h', r) \<Rightarrow> (sc_disk client', h', r)))"

definition devices_list :: "'h cli \<Rightarrow> string option \<Rightarrow> string option \<Rightarrow> disk \<Rightarrow> 'h
    \<Rightarrow> disk \<times> 'h \<times> (daemon_error, device_info list) result" where
  "devices_list cl config_path server_url =
     with_client cl config_path server_url (client_list_devices (cl_toml cl) (cl_http cl))"

text \<open>Whether the note that the running daemon will notice is printed; loading may save the URL.\<close>

definition local_device_sync_note :: "'h cli \<Rightarrow> string option \<Rightarrow> string option \<Rightarrow> device_id \<Rightarrow> disk \<Rightarrow> disk \<times> bool" where
  "local_device_sync_note cl config_path server_url device d =
     (case config_path_or_default cl config_path of
        Err _ \<Rightarrow> (d, False)
      | Ok path \<Rightarrow>
          (case load_config cl path server_url False d of
             (d', Err _) \<Rightarrow> (d', False)
           | (d', Ok c) \<Rightarrow> (d', cf_device_id c = device)))"

text \<open>A policy change of a device and the note after it.\<close>

definition patch_and_note :: "'h cli \<Rightarrow> string option \<Rightarrow> string option \<Rightarrow> string
    \<Rightarrow> (daemon_error, device_patch_request) result \<Rightarrow> disk \<Rightarrow> 'h \<Rightarrow> disk \<times> 'h \<times> (daemon_error, bool) result" where
  "patch_and_note cl config_path server_url i request d h =
     (case with_client cl config_path server_url (\<lambda>client h.
         case and_then (parse_device_id cl i) (\<lambda>device. map_ok (Pair device) request) of
           Err e \<Rightarrow> (client, h, Err e)
         | Ok (device, r) \<Rightarrow>
             (case client_patch_device (cl_ext cl) (cl_toml cl) (cl_http cl) device r client h of
                (client', h', res) \<Rightarrow> (client', h', map_ok (\<lambda>_. device) res))) d h of
        (d1, h1, Err e) \<Rightarrow> (d1, h1, Err e)
      | (d1, h1, Ok device) \<Rightarrow>
          (case local_device_sync_note cl config_path server_url device d1 of (d2, note) \<Rightarrow> (d2, h1, Ok note)))"

definition devices_rename :: "'h cli \<Rightarrow> string option \<Rightarrow> string option \<Rightarrow> string \<Rightarrow> string \<Rightarrow> disk \<Rightarrow> 'h
    \<Rightarrow> disk \<times> 'h \<times> (daemon_error, bool) result" where
  "devices_rename cl config_path server_url i name =
     patch_and_note cl config_path server_url i
       (if trim name = [] then Err (DConfig ''name cannot be empty'')
        else Ok \<lparr>dp_name = Some (trim name), dp_enabled_features = None\<rparr>)"

definition devices_features :: "'h cli \<Rightarrow> string option \<Rightarrow> string option \<Rightarrow> string \<Rightarrow> string \<Rightarrow> disk \<Rightarrow> 'h
    \<Rightarrow> disk \<times> 'h \<times> (daemon_error, bool) result" where
  "devices_features cl config_path server_url i features =
     patch_and_note cl config_path server_url i
       (map_ok (\<lambda>fs. \<lparr>dp_name = None, dp_enabled_features = Some fs\<rparr>) (parse_feature_list features))"

text \<open>\<open>Ok False\<close> is a removal that was not confirmed.\<close>

definition confirm_removal :: "'h cli \<Rightarrow> bool \<Rightarrow> (daemon_error, bool) result" where
  "confirm_removal cl skip_confirm =
     (if \<not> skip_confirm \<and> cl_terminal cl
      then map_ok (\<lambda>l. let answer = map to_ascii_lowercase_char (trim l) in answer = ''y'' \<or> answer = ''yes'')
             (map_err DIo (cl_read_line cl))
      else Ok True)"

definition devices_remove :: "'h cli \<Rightarrow> string option \<Rightarrow> string option \<Rightarrow> string \<Rightarrow> bool \<Rightarrow> disk \<Rightarrow> 'h
    \<Rightarrow> disk \<times> 'h \<times> (daemon_error, bool) result" where
  "devices_remove cl config_path server_url i skip_confirm =
     with_client cl config_path server_url (\<lambda>client h.
       case and_then (parse_device_id cl i) (\<lambda>device. map_ok (Pair device) (confirm_removal cl skip_confirm)) of
         Err e \<Rightarrow> (client, h, Err e)
       | Ok (device, False) \<Rightarrow> (client, h, Ok False)
       | Ok (device, True) \<Rightarrow>
           (case client_delete_device (cl_ext cl) (cl_toml cl) (cl_http cl) device client h of
              (client', h', r) \<Rightarrow> (client', h', map_ok (\<lambda>_. True) r)))"

section \<open>Accounts and pairing\<close>

definition tokens_of :: "string \<Rightarrow> string \<Rightarrow> auth_response \<Rightarrow> (daemon_error, credentials) result" where
  "tokens_of no_token no_refresh r =
     and_then (ok_or (ar_token r) (DConfig no_token)) (\<lambda>t.
     and_then (ok_or (ar_refresh_token r) (DConfig no_refresh)) (\<lambda>rt.
       Ok \<lparr>cr_auth_token = t, cr_refresh_token = Some rt\<rparr>))"

definition auth_tokens :: "'h cli \<Rightarrow> string \<Rightarrow> string option \<Rightarrow> auth_response \<Rightarrow> 'h
    \<Rightarrow> 'h \<times> (daemon_error, credentials) result" where
  "auth_tokens cl base_url totp response h =
     (let tokens = tokens_of ''server response missing auth token'' ''server response missing refresh token'' in
      if \<not> ar_mfa_required response then (h, tokens response)
      else
       (case and_then (ok_or (ar_mfa_token response) (DConfig ''server response missing MFA token'')) (\<lambda>mfa.
               map_ok (Pair mfa) (case totp of
                   Some code \<Rightarrow> Ok code
                 | None \<Rightarrow> map_err (\<lambda>e. DConfig (''failed to read two-factor code: '' @ e)) (cl_prompt cl ''Two-factor code:''))) of
          Err e \<Rightarrow> (h, Err e)
        | Ok (mfa, code) \<Rightarrow>
            (case client_login_mfa (cl_http cl) base_url mfa code h of (h', r) \<Rightarrow> (h', and_then r tokens))))"

text \<open>The credentials are saved before the device is registered.\<close>

definition save_and_register :: "'h cli \<Rightarrow> config \<Rightarrow> string \<Rightarrow> credentials \<Rightarrow> disk \<Rightarrow> 'h
    \<Rightarrow> disk \<times> 'h \<times> (daemon_error, unit) result" where
  "save_and_register cl c path creds d h =
     (case credentials_save (cl_toml cl) path creds d of
        (d1, Err e) \<Rightarrow> (d1, h, Err e)
      | (d1, Ok _) \<Rightarrow>
          (case register_local_device (cl_ext cl) (cl_toml cl) (cl_http cl) (cl_config_dir cl) (cl_key_hex cl) c creds d1 h of
             (_, h', r) \<Rightarrow> (d1, h', r)))"

definition authenticate :: "'h cli \<Rightarrow> string option \<Rightarrow> string option \<Rightarrow> string \<Rightarrow> string option \<Rightarrow> string option
    \<Rightarrow> bool \<Rightarrow> disk \<Rightarrow> 'h \<Rightarrow> disk \<times> 'h \<times> (daemon_error, unit) result" where
  "authenticate cl config_path server_url email password totp register d h =
     (case config_path_or_default cl config_path of
        Err e \<Rightarrow> (d, h, Err e)
      | Ok path \<Rightarrow>
     (case load_config cl path server_url True d of
        (d1, Err e) \<Rightarrow> (d1, h, Err e)
      | (d1, Ok c) \<Rightarrow>
     (case (case password of Some p \<Rightarrow> Ok p
            | None \<Rightarrow> map_err (\<lambda>e. DConfig (''failed to read password: '' @ e)) (cl_prompt cl ''Password:'')) of
        Err e \<Rightarrow> (d1, h, Err e)
      | Ok pw \<Rightarrow>
     (case (if register then client_register (cl_http cl) (cf_server_url c) email pw h
            else client_login (cl_http cl) (cf_server_url c) email pw h) of
        (h1, Err e) \<Rightarrow> (d1, h1, Err e)
      | (h1, Ok response) \<Rightarrow>
     (case credentials_path cl of
        Err e \<Rightarrow> (d1, h1, Err e)
      | Ok cpath \<Rightarrow>
     (case auth_tokens cl (cf_server_url c) totp response h1 of
        (h2, Err e) \<Rightarrow> (d1, h2, Err e)
      | (h2, Ok creds) \<Rightarrow> save_and_register cl c cpath creds d1 h2))))))"

definition pair_host :: "'h cli \<Rightarrow> string \<Rightarrow> string option \<Rightarrow> disk \<Rightarrow> 'h
    \<Rightarrow> disk \<times> 'h \<times> (daemon_error, string \<times> string) result" where
  "pair_host cl path server_url d h =
     (case load_config cl path server_url True d of
        (d1, Err e) \<Rightarrow> (d1, h, Err e)
      | (d1, Ok c) \<Rightarrow>
     (case client_of_config cl c d1 of
        Err e \<Rightarrow> (d1, h, Err e)
      | Ok client \<Rightarrow>
          (case client_create_pairing_code (cl_toml cl) (cl_http cl) client h of
             (client', h', r) \<Rightarrow> (sc_disk client', h', r))))"

definition normalize_pairing_code :: "ext \<Rightarrow> string \<Rightarrow> string option" where
  "normalize_pairing_code x code =
     (let normalized = to_uppercase x (trim code) in
      if length normalized \<noteq> 8 then None
      else if \<not> list_all (\<lambda>c. is_ascii_uppercase c \<or> is_ascii_digit c) normalized then None
      else Some normalized)"

definition named_for_pairing :: "'h cli \<Rightarrow> string option \<Rightarrow> config \<Rightarrow> config" where
  "named_for_pairing cl device_name c =
     (case device_name of
        Some name \<Rightarrow> c\<lparr>cf_device_name := name\<rparr>
      | None \<Rightarrow> if cf_device_name c = ''my-device'' then c\<lparr>cf_device_name := cl_hostname cl\<rparr> else c)"

definition pair_join :: "'h cli \<Rightarrow> string \<Rightarrow> string option \<Rightarrow> string \<Rightarrow> string option \<Rightarrow> disk \<Rightarrow> 'h
    \<Rightarrow> disk \<times> 'h \<times> (daemon_error, unit) result" where
  "pair_join cl path server_url code device_name d h =
     (case load_config cl path server_url True d of
        (d1, Err e) \<Rightarrow> (d1, h, Err e)
      | (d1, Ok c0) \<Rightarrow>
     (let c = named_for_pairing cl device_name c0 in
      case ok_or (normalize_pairing_code (cl_ext cl) code)
             (DConfig ''pairing code must be 8 uppercase alphanumeric characters'') of
        Err e \<Rightarrow> (d1, h, Err e)
      | Ok normalized \<Rightarrow>
     (case and_then (ok_or (default_secret_key_path (cl_config_dir cl)) (DConfig ''could not determine iroh secret key path''))
             (cl_key_hex cl) of
        Err e \<Rightarrow> (d1, h, Err e)
      | Ok key \<Rightarrow>
     (case client_redeem_pairing_code (cl_http cl) (cf_server_url c) normalized
             (Some \<lparr>du_device_id = cf_device_id c, du_name = cf_device_name c, du_iroh_public_key = key,
                du_enabled_features = cf_enabled_features c\<rparr>) h of
        (h1, Err e) \<Rightarrow> (d1, h1, Err e)
      | (h1, Ok response) \<Rightarrow>
     (case and_then (credentials_path cl) (\<lambda>cpath. map_ok (Pair cpath)
             (tokens_of ''pairing response missing auth token'' ''pairing response missing refresh token'' response)) of
        Err e \<Rightarrow> (d1, h1, Err e)
      | Ok (cpath, creds) \<Rightarrow>
     (case credentials_save (cl_toml cl) cpath creds d1 of
        (d2, Err e) \<Rightarrow> (d2, h1, Err e)
      | (d2, Ok _) \<Rightarrow>
     (case config_save (cl_toml cl) path c d2 of
        (d3, Err e) \<Rightarrow> (d3, h1, Err e)
      | (d3, Ok _) \<Rightarrow>
          (case register_local_device (cl_ext cl) (cl_toml cl) (cl_http cl) (cl_config_dir cl) (cl_key_hex cl) c creds d3 h1 of
             (_, h2, r) \<Rightarrow> (d3, h2, r)))))))))"

definition pair_command :: "'h cli \<Rightarrow> string option \<Rightarrow> string option \<Rightarrow> string option \<Rightarrow> string option \<Rightarrow> disk \<Rightarrow> 'h
    \<Rightarrow> disk \<times> 'h \<times> (daemon_error, unit) result" where
  "pair_command cl config_path server_url code device_name d h =
     (case config_path_or_default cl config_path of
        Err e \<Rightarrow> (d, h, Err e)
      | Ok path \<Rightarrow>
          (case code of
             Some c \<Rightarrow> pair_join cl path server_url c device_name d h
           | None \<Rightarrow> (case pair_host cl path server_url d h of (d', h', r) \<Rightarrow> (d', h', map_ok (\<lambda>_. ()) r))))"

section \<open>Shell, port and run\<close>

definition choose_target :: "'h cli \<Rightarrow> string option \<Rightarrow> device_id \<Rightarrow> device_info list
    \<Rightarrow> (daemon_error raised, device_info) result" where
  "choose_target cl device self devices =
     and_then (case device of
         Some name \<Rightarrow> map_err Raised (resolve_device_target (cl_ext cl) name self devices)
       | None \<Rightarrow> select_device_interactive cl self devices)
       (\<lambda>target. if di_online target then Ok target
         else Err (Raised (DConfig (''device '' @ di_name target @ '' is offline''))))"

text \<open>\<open>size_of_terminal\<close> is \<open>crossterm\<close>'s answer, whose first component is the number of columns.\<close>

definition terminal_size :: "(string, u16 \<times> u16) result \<Rightarrow> u16 \<times> u16" where
  "terminal_size size_of_terminal = (case size_of_terminal of Ok s \<Rightarrow> s | Err _ \<Rightarrow> (24, 80))"

definition shell_request :: "(string, u16 \<times> u16) result \<Rightarrow> device_id \<Rightarrow> open_shell_request" where
  "shell_request size_of_terminal target =
     (case terminal_size size_of_terminal of
        (rows, cols) \<Rightarrow> \<lparr>os_target = target, os_rows = rows, os_cols = cols\<rparr>)"

text \<open>
  The request that was sent, if any, and the result; \<open>relay\<close> is the outcome of the session in raw
  mode, \<open>raw_mode\<close> that of switching to it.
\<close>

definition shell_command :: "'h cli \<Rightarrow> control_link \<Rightarrow> (string, u16 \<times> u16) result \<Rightarrow> (string, unit) result
    \<Rightarrow> (daemon_error, unit) result \<Rightarrow> string option \<Rightarrow> string option \<Rightarrow> string option \<Rightarrow> disk \<Rightarrow> 'h
    \<Rightarrow> disk \<times> 'h \<times> open_shell_request option \<times> (daemon_error raised, unit) result" where
  "shell_command cl k size_of_terminal raw_mode relay config_path server_url device d h =
     (case load_devices cl config_path server_url d h of
        (d1, h1, Err e) \<Rightarrow> (d1, h1, None, Err (Raised e))
      | (d1, h1, Ok (c, devices)) \<Rightarrow>
     (case choose_target cl device (cf_device_id c) devices of
        Err e \<Rightarrow> (d1, h1, None, Err e)
      | Ok target \<Rightarrow>
     (case connect_and_request k of
        Err e \<Rightarrow> (d1, h1, None, Err (Raised e))
      | Ok _ \<Rightarrow>
          (d1, h1, Some (shell_request size_of_terminal (di_device_id target)),
           map_err Raised (and_then (expect_ready_response k) (\<lambda>_.
             and_then (if cl_terminal cl then map_err DIo raw_mode else Ok ()) (\<lambda>_. relay)))))))"

definition port_argument :: "'h cli \<Rightarrow> string option \<Rightarrow> u16 option \<Rightarrow> (daemon_error, port_spec) result" where
  "port_argument cl port remote_port_override =
     (case port of
        Some v \<Rightarrow> parse_port_spec v remote_port_override
      | None \<Rightarrow>
          (if \<not> cl_terminal cl then Err (DConfig ''port required when stdin is not a terminal'')
           else and_then (map_err DConfig (cl_prompt cl ''Port to forward:'')) (\<lambda>input.
             parse_port_spec input remote_port_override)))"

definition port_command :: "'h cli \<Rightarrow> control_link \<Rightarrow> string option \<Rightarrow> string option \<Rightarrow> string option
    \<Rightarrow> string option \<Rightarrow> u16 option \<Rightarrow> string option \<Rightarrow> disk \<Rightarrow> 'h
    \<Rightarrow> disk \<times> 'h \<times> open_port_forward_request option \<times> (daemon_error raised, unit) result" where
  "port_command cl k config_path server_url port protocol remote_port_override device d h =
     (case load_devices cl config_path server_url d h of
        (d1, h1, Err e) \<Rightarrow> (d1, h1, None, Err (Raised e))
      | (d1, h1, Ok (c, devices)) \<Rightarrow>
     (case and_then (port_argument cl port remote_port_override) (\<lambda>spec. map_ok (Pair spec)
             (case protocol of Some p \<Rightarrow> parse_protocol p | None \<Rightarrow> Ok Tcp)) of
        Err e \<Rightarrow> (d1, h1, None, Err (Raised e))
      | Ok (spec, proto) \<Rightarrow>
     (if proto \<noteq> Tcp then (d1, h1, None, Err (Raised (DConfig ''only tcp port forwarding is supported'')))
      else case choose_target cl device (cf_device_id c) devices of
        Err e \<Rightarrow> (d1, h1, None, Err e)
      | Ok target \<Rightarrow>
     (case connect_and_request k of
        Err e \<Rightarrow> (d1, h1, None, Err (Raised e))
      | Ok _ \<Rightarrow>
          (d1, h1, Some \<lparr>op_target = di_device_id target, op_local_port = ps_local_port spec,
             op_remote_port = ps_remote_port spec, op_protocol = proto\<rparr>,
           map_err Raised (expect_ready_response k))))))"

text \<open>
  \<open>run\<close>: the daemon is built from the loaded configuration, on the peers' addresses the server has;
  \<open>start_transport\<close> starts the endpoint with an address book and returns its public key.
\<close>

definition run_command :: "'h cli \<Rightarrow> ('b, 'k) daemon_env
    \<Rightarrow> (config \<Rightarrow> peer_address_book \<Rightarrow> (daemon_error, string) result) \<Rightarrow> string option \<Rightarrow> string option \<Rightarrow> disk \<Rightarrow> 'h
    \<Rightarrow> disk \<times> 'h \<times> (daemon_error, daemon) result" where
  "run_command cl env start_transport config_path server_url d h =
     (case config_path_or_default cl config_path of
        Err e \<Rightarrow> (d, h, Err e)
      | Ok path \<Rightarrow>
     (case load_config cl path server_url True d of
        (d1, Err e) \<Rightarrow> (d1, h, Err e)
      | (d1, Ok c) \<Rightarrow>
     (case client_of_config cl c d1 of
        Err e \<Rightarrow> (d1, h, Err e)
      | Ok client \<Rightarrow>
     (case client_list_devices (cl_toml cl) (cl_http cl) client h of
        (client', h1, Err e) \<Rightarrow> (sc_disk client', h1, Err e)
      | (client', h1, Ok devices) \<Rightarrow>
          (sc_disk client', h1,
           and_then (start_transport c (peer_address_book_from_devices (cf_device_id c) devices)) (\<lambda>key.
             from_config env path c (Some key) True (Some client')))))))"

definition status_command :: "'h cli \<Rightarrow> string option \<Rightarrow> string option \<Rightarrow> disk \<Rightarrow> disk \<times> (daemon_error, config \<times> bool option) result" where
  "status_command cl config_path server_url d =
     (case config_path_or_default cl config_path of
        Err e \<Rightarrow> (d, Err e)
      | Ok path \<Rightarrow>
          (if dk_files d path = None then (d, Err (DConfig (''config file not found at '' @ path)))
           else (case load_config cl path server_url False d of
             (d1, r) \<Rightarrow> (d1, map_ok (\<lambda>c. (c, map_option (\<lambda>p. dk_files d1 (cl_path_text cl p) \<noteq> None)
                (credentials_default_path (cl_config_dir cl)))) r))))"

section \<open>What the arguments mean\<close>

lemma parse_port_number_range:
  "parse_port_number s = Ok p \<Longrightarrow> 1 \<le> p"
proof -
  assume "parse_port_number s = Ok p"
  then obtain q :: u32 where q: "1 \<le> q" "q \<le> 65535" "p = ucast q"
    by (auto simp: parse_port_number_def Let_def split: option.splits if_splits)
  then have "unat p = unat q" by (simp add: word_le_nat_alt unsigned_ucast_eq take_bit_nat_eq_self)
  with q(1) show ?thesis by (simp add: word_le_nat_alt)
qed

lemma parse_port_spec_range:
  assumes "parse_port_spec s r = Ok p"
  shows "1 \<le> ps_local_port p" "1 \<le> ps_remote_port p \<or> r = Some (ps_remote_port p)"
  using assms by (auto simp: parse_port_spec_def Let_def and_then_eq_Inr parse_port_number_range
    split: option.splits if_splits)

text \<open>A remote port of zero given by itself is not checked.\<close>

lemma remote_port_zero_accepted:
  "parse_port_spec ''80'' (Some 0) = Ok \<lparr>ps_local_port = 80, ps_remote_port = 0\<rparr>"
proof -
  have "trim ''80'' = ''80''" by code_simp
  then show ?thesis
    by (simp add: parse_port_spec_def parse_port_number_def parse_word_def parse_nat_def is_ascii_digit_def
        byte_of_def Let_def)
qed

text \<open>A target found by a name is a device other than this one, and the only one of that name.\<close>

lemma resolve_device_target_spec:
  assumes "resolve_device_target x s self devices = Ok d"
  shows "d \<in> set devices \<and> di_device_id d \<noteq> self \<and>
    (device_id_from_str x (trim s) = Some (di_device_id d) \<or>
     (device_id_from_str x (trim s) = None \<and>
      filter (\<lambda>e. di_device_id e \<noteq> self \<and>
        map to_ascii_lowercase_char (di_name e) = map to_ascii_lowercase_char (trim s)) devices = [d]))"
proof (cases "device_id_from_str x (trim s)")
  case (Some i)
  with assms show ?thesis
    by (auto simp: resolve_device_target_def Let_def and_then_eq_Inr ok_or_def find_Some_iff
        split: if_splits option.splits)
next
  case None
  with assms have f: "filter (\<lambda>e. di_device_id e \<noteq> self \<and>
        map to_ascii_lowercase_char (di_name e) = map to_ascii_lowercase_char (trim s)) devices = [d]"
    by (auto simp: resolve_device_target_def Let_def split: if_splits list.splits)
  have "d \<in> set (filter (\<lambda>e. di_device_id e \<noteq> self \<and>
        map to_ascii_lowercase_char (di_name e) = map to_ascii_lowercase_char (trim s)) devices)"
    unfolding f by simp
  then have "d \<in> set devices" "di_device_id d \<noteq> self" by simp_all
  with f None show ?thesis by simp
qed

text \<open>A resumed send looks its saved target up again by name, and can find it ambiguous.\<close>

definition twin_devices :: "device_info list" where
  "twin_devices = map (\<lambda>i. \<lparr>di_device_id = DeviceId i, di_name = ''b'', di_iroh_public_key = [],
     di_enabled_features = [], di_last_seen = None, di_online = True\<rparr>) [7, 8]"

lemma resume_target_ambiguous:
  assumes "uuid_parse (cl_ext cl) ''b'' = None"
  shows "\<not> is_ok (resolve_send_target cl None (Some (DeviceId 8)) (DeviceId 1) twin_devices)"
proof -
  have "trim ''b'' = ''b''" by code_simp
  with assms show ?thesis
    by (simp add: resolve_send_target_def twin_devices_def resolve_device_target_def device_id_from_str_def
        ok_or_def Let_def)
qed

text \<open>Of two devices with the same label the second cannot be chosen.\<close>

lemma second_twin_not_selectable:
  assumes "select_device_interactive cl (DeviceId 1) twin_devices = Ok d"
  shows "di_device_id d = DeviceId 7"
  using assms by (auto simp: select_device_interactive_def twin_devices_def Let_def ok_or_def
    device_label_def split: if_splits sum.splits option.splits)

text \<open>The columns of the terminal are sent as rows.\<close>

lemma terminal_size_swapped:
  "shell_request (Ok (cols, rows)) target = \<lparr>os_target = target, os_rows = cols, os_cols = rows\<rparr>"
  by (simp add: shell_request_def terminal_size_def)

end
