(* ===== verification/Server_Db.thy ===== *)
theory Server_Db
  imports Registry
begin

text \<open>
  The server's tables (\<open>failsafe-server/src/entity/\<close>, constraints from \<open>migration/\<close>) and its way
  of talking to them. A table is the list of its rows in insertion order. Every statement may
  fail: the connection carries a script of failures (\<open>sv_faults\<close>, an exhausted script means no
  more of them). Statements take the rest of the handler as a continuation, as \<open>?\<close> does: an error
  skips it. A transaction that ends in an error, at any statement or at the commit, leaves the
  tables as they were.
\<close>

section \<open>Errors\<close>

datatype auth_error = InvalidCredentials | InvalidToken | HashingFailed | Jwt string

datatype server_error =
    Unauthorized
  | Conflict string
  | BadRequest string
  | ServerNotFound
  | Forbidden
  | ForbiddenMessage string
  | Database string
  | Auth auth_error
  | Internal string

fun auth_error_display :: "auth_error \<Rightarrow> string" where
  "auth_error_display InvalidCredentials = ''invalid credentials''"
| "auth_error_display InvalidToken = ''invalid token''"
| "auth_error_display HashingFailed = ''password hashing failed''"
| "auth_error_display (Jwt e) = ''jwt error: '' @ e"

fun server_error_display :: "server_error \<Rightarrow> string" where
  "server_error_display Unauthorized = ''unauthorized''"
| "server_error_display (Conflict m) = ''conflict: '' @ m"
| "server_error_display (BadRequest m) = ''bad request: '' @ m"
| "server_error_display ServerNotFound = ''not found''"
| "server_error_display Forbidden = ''forbidden''"
| "server_error_display (ForbiddenMessage m) = ''forbidden: '' @ m"
| "server_error_display (Database e) = e"
| "server_error_display (Auth e) = auth_error_display e"
| "server_error_display (Internal m) = m"

text \<open>\<open>IntoResponse\<close>: status code and the message of the JSON body.\<close>

fun into_response :: "server_error \<Rightarrow> nat \<times> string" where
  "into_response Unauthorized = (401, server_error_display Unauthorized)"
| "into_response (Auth InvalidCredentials) = (401, server_error_display (Auth InvalidCredentials))"
| "into_response (Auth InvalidToken) = (401, server_error_display (Auth InvalidToken))"
| "into_response (Conflict m) = (409, m)"
| "into_response (BadRequest m) = (400, m)"
| "into_response ServerNotFound = (404, server_error_display ServerNotFound)"
| "into_response Forbidden = (403, server_error_display Forbidden)"
| "into_response (ForbiddenMessage m) = (403, server_error_display (ForbiddenMessage m))"
| "into_response (Database e) = (500, ''internal server error'')"
| "into_response (Auth HashingFailed) = (500, ''internal server error'')"
| "into_response (Auth (Jwt e)) = (500, ''internal server error'')"
| "into_response (Internal m) = (500, ''internal server error'')"

section \<open>Tables\<close>

text \<open>
  Instants are nanoseconds. The features column holds JSON: its decoded form, or the decoder's
  complaint for a value that is no list of feature ids.
\<close>

type_synonym instant = int

definition seconds :: "int \<Rightarrow> int" where "seconds n = n * 1000000000"

record account_row =
  ac_id :: uuid
  ac_email :: string
  ac_password_hash :: string
  ac_totp_secret :: "string option"
  ac_totp_enabled :: bool
  ac_created_at :: instant

record device_row =
  dv_device_id :: uuid
  dv_account_id :: uuid
  dv_name :: string
  dv_iroh_public_key :: string
  dv_enabled_features :: "(string, feature_id list) result"
  dv_last_seen :: "instant option"
  dv_created_at :: instant
  dv_deleted_at :: "instant option"

record pairing_row =
  pc_id :: uuid
  pc_account_id :: uuid
  pc_code :: string
  pc_expires_at :: instant
  pc_used_at :: "instant option"
  pc_created_at :: instant

record recovery_row =
  rc_id :: uuid
  rc_account_id :: uuid
  rc_code_hash :: string
  rc_used_at :: "instant option"
  rc_created_at :: instant

record refresh_row =
  rt_id :: uuid
  rt_account_id :: uuid
  rt_token_hash :: string
  rt_expires_at :: instant
  rt_revoked_at :: "instant option"
  rt_created_at :: instant

record db =
  accounts :: "account_row list"
  devices :: "device_row list"
  pairing_codes :: "pairing_row list"
  recovery_codes :: "recovery_row list"
  refresh_tokens :: "refresh_row list"

section \<open>Statements\<close>

text \<open>\<open>INSERT\<close> under a primary key and further unique columns.\<close>

definition insert_row :: "('r \<Rightarrow> uuid) \<Rightarrow> ('r \<Rightarrow> string option) \<Rightarrow> 'r \<Rightarrow> 'r list \<Rightarrow> (string, 'r list) result" where
  "insert_row pk uk r rows =
     (if list_ex (\<lambda>q. pk q = pk r \<or> (uk r \<noteq> None \<and> uk q = uk r)) rows
      then Err ''UNIQUE constraint failed'' else Ok (rows @ [r]))"

text \<open>\<open>ActiveModel::update\<close>: the row with the key gets the set columns and is read back.\<close>

definition update_row :: "('r \<Rightarrow> uuid) \<Rightarrow> uuid \<Rightarrow> ('r \<Rightarrow> 'r) \<Rightarrow> 'r list \<Rightarrow> (string, 'r list \<times> 'r) result" where
  "update_row pk i f rows =
     (case List.find (\<lambda>r. pk r = i) rows of
        None \<Rightarrow> Err ''None of the records are updated''
      | Some r \<Rightarrow> Ok (map (\<lambda>q. if pk q = i then f q else q) rows, f r))"

text \<open>\<open>update_many().filter(p)\<close> and the number of rows affected.\<close>

definition update_many :: "('r \<Rightarrow> bool) \<Rightarrow> ('r \<Rightarrow> 'r) \<Rightarrow> 'r list \<Rightarrow> 'r list \<times> nat" where
  "update_many p f rows = (map (\<lambda>q. if p q then f q else q) rows, length (filter p rows))"

definition foreign_key :: "uuid \<Rightarrow> db \<Rightarrow> (string, 'a) result \<Rightarrow> (string, 'a) result" where
  "foreign_key account d r =
     (if list_ex (\<lambda>a. ac_id a = account) (accounts d) then r else Err ''FOREIGN KEY constraint failed'')"

definition insert_account :: "account_row \<Rightarrow> db \<Rightarrow> (string, db) result" where
  "insert_account r d = map_ok (\<lambda>rows. d\<lparr>accounts := rows\<rparr>)
     (insert_row ac_id (\<lambda>a. Some (ac_email a)) r (accounts d))"

definition insert_device :: "device_row \<Rightarrow> db \<Rightarrow> (string, db) result" where
  "insert_device r d = foreign_key (dv_account_id r) d (map_ok (\<lambda>rows. d\<lparr>devices := rows\<rparr>)
     (insert_row dv_device_id (\<lambda>_. None) r (devices d)))"

definition insert_pairing :: "pairing_row \<Rightarrow> db \<Rightarrow> (string, db) result" where
  "insert_pairing r d = foreign_key (pc_account_id r) d (map_ok (\<lambda>rows. d\<lparr>pairing_codes := rows\<rparr>)
     (insert_row pc_id (\<lambda>p. Some (pc_code p)) r (pairing_codes d)))"

definition insert_recovery :: "recovery_row \<Rightarrow> db \<Rightarrow> (string, db) result" where
  "insert_recovery r d = foreign_key (rc_account_id r) d (map_ok (\<lambda>rows. d\<lparr>recovery_codes := rows\<rparr>)
     (insert_row rc_id (\<lambda>p. Some (rc_code_hash p)) r (recovery_codes d)))"

definition insert_refresh :: "refresh_row \<Rightarrow> db \<Rightarrow> (string, db) result" where
  "insert_refresh r d = foreign_key (rt_account_id r) d (map_ok (\<lambda>rows. d\<lparr>refresh_tokens := rows\<rparr>)
     (insert_row rt_id (\<lambda>p. Some (rt_token_hash p)) r (refresh_tokens d)))"

definition update_account :: "uuid \<Rightarrow> (account_row \<Rightarrow> account_row) \<Rightarrow> db \<Rightarrow> (string, db \<times> account_row) result" where
  "update_account i f d = map_ok (\<lambda>(rows, r). (d\<lparr>accounts := rows\<rparr>, r)) (update_row ac_id i f (accounts d))"

definition update_device :: "uuid \<Rightarrow> (device_row \<Rightarrow> device_row) \<Rightarrow> db \<Rightarrow> (string, db \<times> device_row) result" where
  "update_device i f d = map_ok (\<lambda>(rows, r). (d\<lparr>devices := rows\<rparr>, r)) (update_row dv_device_id i f (devices d))"

definition update_refresh :: "uuid \<Rightarrow> (refresh_row \<Rightarrow> refresh_row) \<Rightarrow> db \<Rightarrow> (string, db \<times> refresh_row) result" where
  "update_refresh i f d =
     map_ok (\<lambda>(rows, r). (d\<lparr>refresh_tokens := rows\<rparr>, r)) (update_row rt_id i f (refresh_tokens d))"

section \<open>The connection\<close>

record server =
  sv_db :: db
  sv_faults :: "string option list"

type_synonym 'a response = "server \<times> (server_error, 'a) result"

fun fault :: "string option list \<Rightarrow> string option \<times> string option list" where
  "fault [] = (None, [])"
| "fault (f # fs) = (f, fs)"

definition query :: "server \<Rightarrow> (server \<Rightarrow> 'a response) \<Rightarrow> 'a response" where
  "query s k = (case fault (sv_faults s) of
     (Some e, fs) \<Rightarrow> (s\<lparr>sv_faults := fs\<rparr>, Err (Database e))
   | (None, fs) \<Rightarrow> k (s\<lparr>sv_faults := fs\<rparr>))"

definition exec :: "(db \<Rightarrow> (string, db \<times> 'b) result) \<Rightarrow> server \<Rightarrow> (server \<Rightarrow> 'b \<Rightarrow> 'a response) \<Rightarrow> 'a response" where
  "exec f s k = query s (\<lambda>s'. case f (sv_db s') of
     Err e \<Rightarrow> (s', Err (Database e))
   | Ok (d, b) \<Rightarrow> k (s'\<lparr>sv_db := d\<rparr>) b)"

definition insert_stmt :: "(db \<Rightarrow> (string, db) result) \<Rightarrow> server \<Rightarrow> (server \<Rightarrow> 'a response) \<Rightarrow> 'a response" where
  "insert_stmt f s k = exec (\<lambda>d. map_ok (\<lambda>d'. (d', ())) (f d)) s (\<lambda>s' _. k s')"

definition transaction :: "server \<Rightarrow> (server \<Rightarrow> 'a response) \<Rightarrow> 'a response" where
  "transaction s body = query s (\<lambda>s1. case body s1 of
     (s2, Err e) \<Rightarrow> (s2\<lparr>sv_db := sv_db s\<rparr>, Err e)
   | (s2, Ok v) \<Rightarrow> (case fault (sv_faults s2) of
       (Some e, fs) \<Rightarrow> (s2\<lparr>sv_db := sv_db s, sv_faults := fs\<rparr>, Err (Database e))
     | (None, fs) \<Rightarrow> (s2\<lparr>sv_faults := fs\<rparr>, Ok v)))"

definition bind_resp :: "'b response \<Rightarrow> (server \<Rightarrow> 'b \<Rightarrow> 'a response) \<Rightarrow> 'a response" where
  "bind_resp r k = (case r of (s, Err e) \<Rightarrow> (s, Err e) | (s, Ok v) \<Rightarrow> k s v)"

definition require :: "(server_error, 'b) result \<Rightarrow> server \<Rightarrow> ('b \<Rightarrow> 'a response) \<Rightarrow> 'a response" where
  "require r s k = (case r of Err e \<Rightarrow> (s, Err e) | Ok v \<Rightarrow> k v)"

section \<open>Reasoning about handlers\<close>

text \<open>
  \<open>holds Q r\<close>: the tables and the answer of a response satisfy \<open>Q\<close>. The rules below follow the
  combinators, so that a handler is verified by going through it.
\<close>

definition holds :: "(db \<Rightarrow> (server_error, 'a) result \<Rightarrow> bool) \<Rightarrow> 'a response \<Rightarrow> bool" where
  "holds Q r = Q (sv_db (fst r)) (snd r)"

named_theorems vcg \<open>rules for the statement combinators\<close>

lemma holds_pair [simp]: "holds Q (s, r) = Q (sv_db s) r"
  by (simp add: holds_def)

lemma holds_mono: "holds Q r \<Longrightarrow> (\<And>d a. Q d a \<Longrightarrow> R d a) \<Longrightarrow> holds R r"
  by (simp add: holds_def)

lemma holds_query [vcg]:
  assumes "\<And>e. Q (sv_db s) (Err (Database e))" "\<And>s'. sv_db s' = sv_db s \<Longrightarrow> holds Q (k s')"
  shows "holds Q (query s k)"
  using assms by (simp add: query_def split: prod.split option.split)

lemma holds_exec [vcg]:
  assumes "\<And>e. Q (sv_db s) (Err (Database e))"
    "\<And>s' b. f (sv_db s) = Ok (sv_db s', b) \<Longrightarrow> holds Q (k s' b)"
  shows "holds Q (exec f s k)"
  unfolding exec_def by (rule holds_query) (use assms in \<open>auto split: sum.split prod.split\<close>)

lemma holds_exec_db:
  assumes "\<And>e. Q (sv_db s) (Err (Database e))"
    "\<And>s' d b. f (sv_db s) = Ok (d, b) \<Longrightarrow> sv_db s' = d \<Longrightarrow> holds Q (k s' b)"
  shows "holds Q (exec f s k)"
  by (rule holds_exec) (use assms in auto)

lemma holds_insert [vcg]:
  assumes "\<And>e. Q (sv_db s) (Err (Database e))"
    "\<And>s'. f (sv_db s) = Ok (sv_db s') \<Longrightarrow> holds Q (k s')"
  shows "holds Q (insert_stmt f s k)"
  unfolding insert_stmt_def by (rule holds_exec) (use assms in \<open>auto simp: map_ok_eq_Inr\<close>)

lemma holds_transaction:
  assumes "\<And>e. Q (sv_db s) (Err e)"
    "\<And>s'. sv_db s' = sv_db s \<Longrightarrow> holds (\<lambda>d r. is_ok r \<longrightarrow> Q d r) (body s')"
  shows "holds Q (transaction s body)"
  unfolding transaction_def
  by (rule holds_query)
    (use assms in \<open>fastforce simp: holds_def split: prod.split sum.split option.split\<close>)+

lemma holds_bind [vcg]:
  assumes "holds R r" "\<And>(s :: server) e. R (sv_db s) (Err e) \<Longrightarrow> Q (sv_db s) (Err e)"
    "\<And>(s :: server) v. R (sv_db s) (Ok v) \<Longrightarrow> holds Q (k s v)"
  shows "holds Q (bind_resp r k)"
proof (cases r)
  case (Pair s v)
  then show ?thesis using assms(1) assms(2,3) [of s] by (cases v) (simp_all add: bind_resp_def)
qed

lemma holds_require [vcg]:
  assumes "\<And>e. r = Err e \<Longrightarrow> Q (sv_db s) (Err e)" "\<And>v. r = Ok v \<Longrightarrow> holds Q (k v)"
  shows "holds Q (require r s k)"
  using assms by (simp add: require_def split: sum.split)

end
