(* ===== verification/Server_Auth.thy ===== *)
theory Server_Auth
  imports Server_Db
begin

text \<open>
  Credentials on the server: passwords and access tokens (\<open>failsafe-server/src/auth.rs\<close>), refresh
  tokens (\<open>refresh_token.rs\<close>), two-factor codes (\<open>totp.rs\<close>) and pairing codes (\<open>pairing.rs\<close>).
  The cryptographic crates are parameters (\<open>server_ctx\<close>); clock readings and random draws are
  inputs of the request (\<open>inputs\<close>), each call site of a handler taking a number of its own.
\<close>

section \<open>Parameters and inputs\<close>

record claims =
  cl_sub :: string
  cl_exp :: nat
  cl_iat :: nat
  cl_mfa_pending :: "bool option"

record server_ctx =
  cx_ext :: ext
  cx_jwt_secret :: string
  cx_encryption_key :: string
  cx_jwt_encode :: "string \<Rightarrow> claims \<Rightarrow> (string, string) result"
  cx_jwt_decode :: "string \<Rightarrow> instant \<Rightarrow> string \<Rightarrow> claims option"
  cx_argon_hash :: "string \<Rightarrow> string \<Rightarrow> string option"
  cx_argon_parse :: "string \<Rightarrow> bool"
  cx_argon_verify :: "string \<Rightarrow> string \<Rightarrow> bool"
  cx_sha256 :: "string \<Rightarrow> u8 list"
  cx_base64 :: "u8 list \<Rightarrow> string"
  cx_unbase64 :: "string \<Rightarrow> u8 list option"
  cx_aes_seal :: "u8 list \<Rightarrow> u8 list \<Rightarrow> string \<Rightarrow> u8 list option"
  cx_aes_open :: "u8 list \<Rightarrow> u8 list \<Rightarrow> u8 list \<Rightarrow> u8 list option"
  cx_from_utf8 :: "u8 list \<Rightarrow> string option"
  cx_totp_bytes :: "string \<Rightarrow> u8 list option"
  cx_totp_accepts :: "u8 list \<Rightarrow> string \<Rightarrow> bool"
  cx_totp_url :: "u8 list \<Rightarrow> string \<Rightarrow> string"
  cx_totp_check :: "u8 list \<Rightarrow> instant \<Rightarrow> string \<Rightarrow> bool option"
  cx_rfc3339 :: "instant \<Rightarrow> string"

record inputs =
  in_now :: "nat \<Rightarrow> instant"
  in_uuid :: "nat \<Rightarrow> uuid"
  in_bytes :: "nat \<Rightarrow> u8 list"
  in_salt :: string
  in_nonce :: "u8 list"
  in_draw :: "nat \<Rightarrow> u32"
  in_totp_secret :: string

section \<open>Passwords and access tokens\<close>

definition TOKEN_TTL :: nat where "TOKEN_TTL = 60 * 60"
definition MFA_TOKEN_TTL :: nat where "MFA_TOKEN_TTL = 5 * 60"

definition unix_now :: "instant \<Rightarrow> nat" where "unix_now now = nat (now div seconds 1)"

definition issue_with_ttl :: "server_ctx \<Rightarrow> instant \<Rightarrow> account_id \<Rightarrow> nat \<Rightarrow> bool option
    \<Rightarrow> (server_error, string) result" where
  "issue_with_ttl cx now account ttl mfa =
     map_err (\<lambda>e. Auth (Jwt e)) (cx_jwt_encode cx (cx_jwt_secret cx)
       \<lparr>cl_sub = account_id_display (cx_ext cx) account, cl_exp = unix_now now + ttl,
        cl_iat = unix_now now, cl_mfa_pending = mfa\<rparr>)"

definition jwt_issue :: "server_ctx \<Rightarrow> instant \<Rightarrow> account_id \<Rightarrow> (server_error, string) result" where
  "jwt_issue cx now account = issue_with_ttl cx now account TOKEN_TTL None"

definition issue_mfa_pending :: "server_ctx \<Rightarrow> instant \<Rightarrow> account_id \<Rightarrow> (server_error, string) result" where
  "issue_mfa_pending cx now account = issue_with_ttl cx now account MFA_TOKEN_TTL (Some True)"

definition jwt_validate :: "server_ctx \<Rightarrow> instant \<Rightarrow> string \<Rightarrow> (server_error, account_id) result" where
  "jwt_validate cx now token =
     and_then (ok_or (cx_jwt_decode cx (cx_jwt_secret cx) now token) (Auth InvalidToken)) (\<lambda>c.
       if cl_mfa_pending c = Some True then Err (Auth InvalidToken)
       else ok_or (account_id_from_str (cx_ext cx) (cl_sub c)) (Auth InvalidToken))"

definition validate_mfa_pending :: "server_ctx \<Rightarrow> instant \<Rightarrow> string \<Rightarrow> (server_error, account_id) result" where
  "validate_mfa_pending cx now token =
     and_then (ok_or (cx_jwt_decode cx (cx_jwt_secret cx) now token) (Auth InvalidToken)) (\<lambda>c.
       if cl_mfa_pending c \<noteq> Some True then Err (Auth InvalidToken)
       else ok_or (account_id_from_str (cx_ext cx) (cl_sub c)) (Auth InvalidToken))"

definition hash_password :: "server_ctx \<Rightarrow> string \<Rightarrow> string \<Rightarrow> (server_error, string) result" where
  "hash_password cx salt password = ok_or (cx_argon_hash cx salt password) (Auth HashingFailed)"

definition verify_password :: "server_ctx \<Rightarrow> string \<Rightarrow> string \<Rightarrow> (server_error, unit) result" where
  "verify_password cx password password_hash =
     (if \<not> cx_argon_parse cx password_hash then Err (Auth InvalidCredentials)
      else if cx_argon_verify cx password password_hash then Ok () else Err (Auth InvalidCredentials))"

section \<open>Refresh tokens\<close>

definition REFRESH_TOKEN_TTL :: int where "REFRESH_TOKEN_TTL = seconds (30 * 24 * 60 * 60)"

definition hash_token :: "server_ctx \<Rightarrow> string \<Rightarrow> string" where
  "hash_token cx raw = hex (cx_sha256 cx raw)"

definition generate_raw_token :: "u8 list \<Rightarrow> string" where
  "generate_raw_token bytes = hex bytes"

definition new_refresh_row :: "server_ctx \<Rightarrow> uuid \<Rightarrow> instant \<Rightarrow> string \<Rightarrow> account_id \<Rightarrow> refresh_row" where
  "new_refresh_row cx i now raw account =
     \<lparr>rt_id = i, rt_account_id = account_uuid account, rt_token_hash = hash_token cx raw,
      rt_expires_at = now + REFRESH_TOKEN_TTL, rt_revoked_at = None, rt_created_at = now\<rparr>"

definition issue_refresh :: "server_ctx \<Rightarrow> inputs \<Rightarrow> nat \<Rightarrow> account_id \<Rightarrow> server \<Rightarrow> string response" where
  "issue_refresh cx inp n account s =
     (let raw = generate_raw_token (in_bytes inp n) in
      insert_stmt (insert_refresh (new_refresh_row cx (in_uuid inp n) (in_now inp n) raw account)) s
        (\<lambda>s1. (s1, Ok raw)))"

definition find_token :: "server_ctx \<Rightarrow> string \<Rightarrow> db \<Rightarrow> refresh_row option" where
  "find_token cx raw d = List.find (\<lambda>r. rt_token_hash r = hash_token cx raw) (refresh_tokens d)"

definition find_valid_in_conn :: "server_ctx \<Rightarrow> instant \<Rightarrow> string \<Rightarrow> server \<Rightarrow> refresh_row response" where
  "find_valid_in_conn cx now raw s =
     query s (\<lambda>s1. require (ok_or (find_token cx raw (sv_db s1)) Unauthorized) s1 (\<lambda>r.
       if rt_revoked_at r \<noteq> None \<or> rt_expires_at r < now then (s1, Err Unauthorized)
       else query s1 (\<lambda>s2.
         if \<not> list_ex (\<lambda>a. ac_id a = rt_account_id r) (accounts (sv_db s2)) then (s2, Err Unauthorized)
         else (s2, Ok r))))"

definition revoke_record :: "instant \<Rightarrow> refresh_row \<Rightarrow> server \<Rightarrow> unit response" where
  "revoke_record now r s =
     exec (update_refresh (rt_id r) (\<lambda>q. q\<lparr>rt_revoked_at := Some now\<rparr>)) s (\<lambda>s1 _. (s1, Ok ()))"

definition issue_auth_response :: "server_ctx \<Rightarrow> inputs \<Rightarrow> nat \<Rightarrow> account_id \<Rightarrow> server
    \<Rightarrow> auth_response response" where
  "issue_auth_response cx inp n account s =
     require (jwt_issue cx (in_now inp n) account) s (\<lambda>token.
       bind_resp (issue_refresh cx inp (n + 1) account s) (\<lambda>s1 refresh.
         (s1, Ok (auth_authenticated token refresh))))"

definition rotate_in_transaction :: "server_ctx \<Rightarrow> inputs \<Rightarrow> string \<Rightarrow> server \<Rightarrow> auth_response response" where
  "rotate_in_transaction cx inp raw s =
     bind_resp (find_valid_in_conn cx (in_now inp 0) raw s) (\<lambda>s1 r.
     bind_resp (revoke_record (in_now inp 1) r s1) (\<lambda>s2 _.
       let account = AccountId (rt_account_id r); new_raw = generate_raw_token (in_bytes inp 2) in
       insert_stmt (insert_refresh (new_refresh_row cx (in_uuid inp 2) (in_now inp 2) new_raw account)) s2
         (\<lambda>s3. require (jwt_issue cx (in_now inp 3) account) s3 (\<lambda>token.
           (s3, Ok (auth_authenticated token new_raw))))))"

definition rotate_token :: "server_ctx \<Rightarrow> inputs \<Rightarrow> string \<Rightarrow> server \<Rightarrow> auth_response response" where
  "rotate_token cx inp raw s = transaction s (rotate_in_transaction cx inp raw)"

definition revoke_all_for_account :: "instant \<Rightarrow> account_id \<Rightarrow> server \<Rightarrow> unit response" where
  "revoke_all_for_account now account s =
     exec (\<lambda>d. case update_many (\<lambda>r. rt_account_id r = account_uuid account \<and> rt_revoked_at r = None)
             (\<lambda>r. r\<lparr>rt_revoked_at := Some now\<rparr>) (refresh_tokens d) of
           (rows, n) \<Rightarrow> Ok (d\<lparr>refresh_tokens := rows\<rparr>, n)) s (\<lambda>s1 _. (s1, Ok ()))"

definition logout_token :: "server_ctx \<Rightarrow> instant \<Rightarrow> string \<Rightarrow> server \<Rightarrow> unit response" where
  "logout_token cx now raw s =
     query s (\<lambda>s1. case find_token cx raw (sv_db s1) of
       Some r \<Rightarrow> (if rt_revoked_at r = None then revoke_record now r s1 else (s1, Ok ()))
     | None \<Rightarrow> (s1, Ok ()))"

section \<open>Two-factor codes\<close>

definition RECOVERY_CODE_COUNT :: nat where "RECOVERY_CODE_COUNT = 10"
definition RECOVERY_CODE_LENGTH :: nat where "RECOVERY_CODE_LENGTH = 8"
definition RECOVERY_CHARSET :: string where "RECOVERY_CHARSET = ''ABCDEFGHJKLMNPQRSTUVWXYZ23456789''"

definition hash_recovery_code :: "server_ctx \<Rightarrow> string \<Rightarrow> string" where
  "hash_recovery_code cx code = hex (cx_sha256 cx (to_uppercase (cx_ext cx) (trim code)))"

definition generate_recovery_codes :: "(nat \<Rightarrow> u32) \<Rightarrow> string list" where
  "generate_recovery_codes draw =
     map (\<lambda>i. map (\<lambda>j. RECOVERY_CHARSET ! (unat (draw (RECOVERY_CODE_LENGTH * i + j)) mod length RECOVERY_CHARSET))
       [0..<RECOVERY_CODE_LENGTH]) [0..<RECOVERY_CODE_COUNT]"

definition derive_encryption_key :: "server_ctx \<Rightarrow> string \<Rightarrow> u8 list" where
  "derive_encryption_key cx secret = cx_sha256 cx secret"

definition encrypt_secret :: "server_ctx \<Rightarrow> u8 list \<Rightarrow> string \<Rightarrow> (server_error, string) result" where
  "encrypt_secret cx nonce plaintext =
     map_ok (\<lambda>ciphertext. cx_base64 cx nonce @ '':'' @ cx_base64 cx ciphertext)
       (ok_or (cx_aes_seal cx (derive_encryption_key cx (cx_encryption_key cx)) nonce plaintext)
         (Auth HashingFailed))"

text \<open>A stored nonce that is not 12 bytes long makes \<open>Nonce::from_slice\<close> panic.\<close>

definition decrypt_secret :: "server_ctx \<Rightarrow> string \<Rightarrow> (server_error, string) result" where
  "decrypt_secret cx stored =
     and_then (ok_or (split_once_char (CHR '':'') stored) (Internal ''invalid encrypted secret format''))
       (\<lambda>(nonce_b64, ciphertext_b64).
     and_then (ok_or (cx_unbase64 cx nonce_b64) (Internal ''invalid encrypted secret nonce'')) (\<lambda>nonce.
     and_then (ok_or (cx_unbase64 cx ciphertext_b64) (Internal ''invalid encrypted secret ciphertext'')) (\<lambda>ct.
       if length nonce \<noteq> 12 then Err (Internal ''panic: nonce length'')
       else and_then (ok_or (cx_aes_open cx (derive_encryption_key cx (cx_encryption_key cx)) nonce ct)
              (Auth InvalidCredentials)) (\<lambda>plain.
            ok_or (cx_from_utf8 cx plain) (Auth InvalidCredentials)))))"

definition build_totp :: "server_ctx \<Rightarrow> string \<Rightarrow> string \<Rightarrow> (server_error, u8 list) result" where
  "build_totp cx email secret =
     and_then (ok_or (cx_totp_bytes cx secret) (Auth InvalidCredentials)) (\<lambda>bytes.
       if cx_totp_accepts cx bytes email then Ok bytes else Err (Auth InvalidCredentials))"

definition build_otpauth_uri :: "server_ctx \<Rightarrow> string \<Rightarrow> string \<Rightarrow> (server_error, string) result" where
  "build_otpauth_uri cx email secret = map_ok (\<lambda>bytes. cx_totp_url cx bytes email) (build_totp cx email secret)"

definition verify_totp :: "server_ctx \<Rightarrow> instant \<Rightarrow> string \<Rightarrow> string \<Rightarrow> string \<Rightarrow> (server_error, unit) result" where
  "verify_totp cx now email secret code =
     and_then (build_totp cx email secret) (\<lambda>bytes.
       let trimmed = trim code in
       if length trimmed \<noteq> 6 \<or> \<not> list_all is_ascii_digit trimmed then Err (Auth InvalidCredentials)
       else and_then (ok_or (cx_totp_check cx bytes now trimmed) (Auth InvalidCredentials)) (\<lambda>valid.
         if valid then Ok () else Err (Auth InvalidCredentials)))"

section \<open>Pairing codes\<close>

definition CODE_CHARSET :: string where "CODE_CHARSET = ''ABCDEFGHIJKLMNOPQRSTUVWXYZ0123456789''"
definition CODE_LEN :: nat where "CODE_LEN = 8"

definition generate_code :: "(nat \<Rightarrow> nat) \<Rightarrow> string" where
  "generate_code draw = map (\<lambda>j. CODE_CHARSET ! (draw j mod length CODE_CHARSET)) [0..<CODE_LEN]"

definition normalize_code :: "ext \<Rightarrow> string \<Rightarrow> string option" where
  "normalize_code x code =
     (let normalized = to_uppercase x (trim code) in
      if length normalized \<noteq> CODE_LEN then None
      else if \<not> list_all (\<lambda>c. is_ascii_uppercase c \<or> is_ascii_digit c) normalized then None
      else Some normalized)"

end
