(* ===== verification/Server_Accounts.thy ===== *)
theory Server_Accounts
  imports Server_Auth
begin

text \<open>
  The account handlers of the server (\<open>failsafe-server/src/routes/auth.rs\<close>): registration, login
  with and without a second factor, rotation and revocation of sessions, password change and
  two-factor setup.
\<close>

section \<open>Helpers of the handlers\<close>

definition validate_password_length :: "string \<Rightarrow> string \<Rightarrow> (server_error, unit) result" where
  "validate_password_length password message =
     (if length password < 8 then Err (BadRequest message) else Ok ())"

definition find_account :: "uuid \<Rightarrow> db \<Rightarrow> account_row option" where
  "find_account i d = List.find (\<lambda>a. ac_id a = i) (accounts d)"

definition find_email :: "string \<Rightarrow> db \<Rightarrow> account_row option" where
  "find_email e d = List.find (\<lambda>a. ac_email a = e) (accounts d)"

definition load_account :: "account_id \<Rightarrow> server \<Rightarrow> account_row response" where
  "load_account account s =
     query s (\<lambda>s1. (s1, ok_or (find_account (account_uuid account) (sv_db s1)) Unauthorized))"

definition consume_recovery_code :: "server_ctx \<Rightarrow> instant \<Rightarrow> account_id \<Rightarrow> string \<Rightarrow> server \<Rightarrow> bool response" where
  "consume_recovery_code cx now account code s =
     exec (\<lambda>d. case update_many (\<lambda>r. rc_account_id r = account_uuid account \<and>
               rc_code_hash r = hash_recovery_code cx code \<and> rc_used_at r = None)
             (\<lambda>r. r\<lparr>rc_used_at := Some now\<rparr>) (recovery_codes d) of
           (rows, n) \<Rightarrow> Ok (d\<lparr>recovery_codes := rows\<rparr>, n)) s (\<lambda>s1 n. (s1, Ok (n > 0)))"

definition verify_totp_or_recovery :: "server_ctx \<Rightarrow> inputs \<Rightarrow> nat \<Rightarrow> account_id \<Rightarrow> account_row \<Rightarrow> string
    \<Rightarrow> server \<Rightarrow> unit response" where
  "verify_totp_or_recovery cx inp n account row code s =
     (let recovery = (\<lambda>s. bind_resp (consume_recovery_code cx (in_now inp (n + 1)) account code s)
            (\<lambda>s1 used. if used then (s1, Ok ()) else (s1, Err Unauthorized))) in
      case ac_totp_secret row of
        Some encrypted \<Rightarrow>
          require (decrypt_secret cx encrypted) s (\<lambda>secret.
            if is_ok (verify_totp cx (in_now inp n) (ac_email row) secret code) then (s, Ok ())
            else recovery s)
      | None \<Rightarrow> recovery s)"

section \<open>Handlers\<close>

definition me :: "account_id \<Rightarrow> server \<Rightarrow> (string \<times> bool) response" where
  "me account s = bind_resp (load_account account s) (\<lambda>s1 a. (s1, Ok (ac_email a, ac_totp_enabled a)))"

definition register :: "server_ctx \<Rightarrow> inputs \<Rightarrow> string \<Rightarrow> string \<Rightarrow> server \<Rightarrow> auth_response response" where
  "register cx inp email password s =
     (if trim email = [] \<or> password = [] then (s, Err (BadRequest ''email and password are required''))
      else
       require (validate_password_length password ''password must be at least 8 characters'') s (\<lambda>_.
       query s (\<lambda>s1.
         let address = to_lowercase (cx_ext cx) (trim email) in
         if find_email address (sv_db s1) \<noteq> None then (s1, Err (Conflict ''email already registered''))
         else
          (let account = AccountId (in_uuid inp 0); now = in_now inp 0 in
           require (hash_password cx (in_salt inp) password) s1 (\<lambda>password_hash.
           insert_stmt (insert_account \<lparr>ac_id = account_uuid account, ac_email = address,
               ac_password_hash = password_hash, ac_totp_secret = None, ac_totp_enabled = False,
               ac_created_at = now\<rparr>) s1 (\<lambda>s2.
           issue_auth_response cx inp 1 account s2))))))"

definition login :: "server_ctx \<Rightarrow> inputs \<Rightarrow> string \<Rightarrow> string \<Rightarrow> server \<Rightarrow> auth_response response" where
  "login cx inp email password s =
     query s (\<lambda>s1.
     require (ok_or (find_email (to_lowercase (cx_ext cx) (trim email)) (sv_db s1)) Unauthorized) s1 (\<lambda>a.
     require (verify_password cx password (ac_password_hash a)) s1 (\<lambda>_.
       if ac_totp_enabled a then
         require (issue_mfa_pending cx (in_now inp 0) (AccountId (ac_id a))) s1 (\<lambda>token.
           (s1, Ok (auth_mfa_required token)))
       else issue_auth_response cx inp 0 (AccountId (ac_id a)) s1)))"

definition login_mfa :: "server_ctx \<Rightarrow> inputs \<Rightarrow> string \<Rightarrow> string \<Rightarrow> server \<Rightarrow> auth_response response" where
  "login_mfa cx inp mfa_token code s =
     (if trim mfa_token = [] \<or> trim code = [] then (s, Err (BadRequest ''mfa_token and code are required''))
      else
       require (validate_mfa_pending cx (in_now inp 0) (trim mfa_token)) s (\<lambda>account.
       bind_resp (load_account account s) (\<lambda>s1 a.
         if \<not> ac_totp_enabled a then (s1, Err Unauthorized)
         else
          bind_resp (verify_totp_or_recovery cx inp 1 account a (trim code) s1) (\<lambda>s2 _.
            issue_auth_response cx inp 3 account s2))))"

definition refresh :: "server_ctx \<Rightarrow> inputs \<Rightarrow> string \<Rightarrow> server \<Rightarrow> auth_response response" where
  "refresh cx inp token s =
     (if trim token = [] then (s, Err (BadRequest ''refresh_token is required''))
      else rotate_token cx inp (trim token) s)"

definition logout :: "server_ctx \<Rightarrow> inputs \<Rightarrow> string \<Rightarrow> server \<Rightarrow> unit response" where
  "logout cx inp token s =
     (if trim token = [] then (s, Ok ()) else logout_token cx (in_now inp 0) (trim token) s)"

definition change_password :: "server_ctx \<Rightarrow> inputs \<Rightarrow> account_id \<Rightarrow> string \<Rightarrow> string \<Rightarrow> server
    \<Rightarrow> unit response" where
  "change_password cx inp account current_password new_password s =
     (if current_password = [] \<or> new_password = []
      then (s, Err (BadRequest ''current_password and new_password are required''))
      else
       require (validate_password_length new_password ''new password must be at least 8 characters'') s (\<lambda>_.
       bind_resp (load_account account s) (\<lambda>s1 a.
       require (verify_password cx current_password (ac_password_hash a)) s1 (\<lambda>_.
       require (hash_password cx (in_salt inp) new_password) s1 (\<lambda>password_hash.
         transaction s1 (\<lambda>t.
           exec (update_account (ac_id a) (\<lambda>r. r\<lparr>ac_password_hash := password_hash\<rparr>)) t (\<lambda>t1 _.
             revoke_all_for_account (in_now inp 0) account t1)))))))"

definition totp_setup :: "server_ctx \<Rightarrow> inputs \<Rightarrow> account_id \<Rightarrow> server \<Rightarrow> (string \<times> string) response" where
  "totp_setup cx inp account s =
     bind_resp (load_account account s) (\<lambda>s1 a.
       if ac_totp_enabled a then (s1, Err (Conflict ''2FA is already enabled''))
       else
        (let secret = in_totp_secret inp in
         require (encrypt_secret cx (in_nonce inp) secret) s1 (\<lambda>encrypted.
         require (build_otpauth_uri cx (ac_email a) secret) s1 (\<lambda>uri.
         exec (update_account (ac_id a) (\<lambda>r. r\<lparr>ac_totp_secret := Some encrypted, ac_totp_enabled := False\<rparr>)) s1
           (\<lambda>s2 _. (s2, Ok (uri, secret)))))))"

fun insert_recovery_codes :: "server_ctx \<Rightarrow> inputs \<Rightarrow> instant \<Rightarrow> account_id \<Rightarrow> nat \<Rightarrow> string list \<Rightarrow> server
    \<Rightarrow> unit response" where
  "insert_recovery_codes cx inp now account n [] s = (s, Ok ())"
| "insert_recovery_codes cx inp now account n (code # codes) s =
     insert_stmt (insert_recovery \<lparr>rc_id = in_uuid inp n, rc_account_id = account_uuid account,
         rc_code_hash = hash_recovery_code cx code, rc_used_at = None, rc_created_at = now\<rparr>) s
       (\<lambda>s1. insert_recovery_codes cx inp now account (Suc n) codes s1)"

definition delete_recovery_codes :: "account_id \<Rightarrow> server \<Rightarrow> (server \<Rightarrow> 'a response) \<Rightarrow> 'a response" where
  "delete_recovery_codes account s k =
     exec (\<lambda>d. Ok (d\<lparr>recovery_codes := filter (\<lambda>r. rc_account_id r \<noteq> account_uuid account) (recovery_codes d)\<rparr>, ()))
       s (\<lambda>s1 _. k s1)"

definition totp_enable :: "server_ctx \<Rightarrow> inputs \<Rightarrow> account_id \<Rightarrow> string \<Rightarrow> server \<Rightarrow> string list response" where
  "totp_enable cx inp account code s =
     (if trim code = [] then (s, Err (BadRequest ''code is required''))
      else
       bind_resp (load_account account s) (\<lambda>s1 a.
         if ac_totp_enabled a then (s1, Err (Conflict ''2FA is already enabled''))
         else
          require (ok_or (ac_totp_secret a) (BadRequest ''call /auth/2fa/setup before enabling 2FA'')) s1 (\<lambda>encrypted.
          require (decrypt_secret cx encrypted) s1 (\<lambda>secret.
          require (verify_totp cx (in_now inp 0) (ac_email a) secret code) s1 (\<lambda>_.
            let codes = generate_recovery_codes (in_draw inp); now = in_now inp 1 in
            transaction s1 (\<lambda>t.
              delete_recovery_codes account t (\<lambda>t1.
              bind_resp (insert_recovery_codes cx inp now account 0 codes t1) (\<lambda>t2 _.
              exec (update_account (ac_id a) (\<lambda>r. r\<lparr>ac_totp_enabled := True\<rparr>)) t2 (\<lambda>t3 _.
                (t3, Ok codes))))))))))"

definition totp_disable :: "server_ctx \<Rightarrow> inputs \<Rightarrow> account_id \<Rightarrow> string \<Rightarrow> string \<Rightarrow> server \<Rightarrow> unit response" where
  "totp_disable cx inp account password code s =
     (if password = [] \<or> trim code = [] then (s, Err (BadRequest ''password and code are required''))
      else
       bind_resp (load_account account s) (\<lambda>s1 a.
         if \<not> ac_totp_enabled a then (s1, Err (BadRequest ''2FA is not enabled''))
         else
          require (verify_password cx password (ac_password_hash a)) s1 (\<lambda>_.
          bind_resp (verify_totp_or_recovery cx inp 0 account a (trim code) s1) (\<lambda>s2 _.
            transaction s2 (\<lambda>t.
              delete_recovery_codes account t (\<lambda>t1.
              exec (update_account (ac_id a) (\<lambda>r. r\<lparr>ac_totp_secret := None, ac_totp_enabled := False\<rparr>)) t1
                (\<lambda>t2 _. revoke_all_for_account (in_now inp 2) account t2)))))))"

end
