(* ===== verification/Server_Devices.thy ===== *)
theory Server_Devices
  imports Server_Auth
begin

text \<open>
  The device handlers (\<open>failsafe-server/src/routes/devices.rs\<close>, \<open>presence.rs\<close>) and pairing
  (\<open>routes/pairing.rs\<close>): registration of a device by upsert or by a pairing code, policy changes,
  removal, heartbeats, presence.
\<close>

section \<open>Presence and the wire form of a device\<close>

definition ONLINE_THRESHOLD_SECS :: int where "ONLINE_THRESHOLD_SECS = 90"

definition is_online :: "instant \<Rightarrow> instant option \<Rightarrow> bool" where
  "is_online now last_seen = (case last_seen of None \<Rightarrow> False
     | Some t \<Rightarrow> now - t \<le> seconds ONLINE_THRESHOLD_SECS)"

definition model_to_info :: "server_ctx \<Rightarrow> instant \<Rightarrow> device_row \<Rightarrow> (server_error, device_info) result" where
  "model_to_info cx now m =
     and_then (map_err (\<lambda>e. Internal (''invalid feature data: '' @ e)) (dv_enabled_features m)) (\<lambda>features.
       Ok \<lparr>di_device_id = DeviceId (dv_device_id m), di_name = dv_name m,
          di_iroh_public_key = dv_iroh_public_key m, di_enabled_features = features,
          di_last_seen = map_option (cx_rfc3339 cx) (dv_last_seen m),
          di_online = is_online now (dv_last_seen m)\<rparr>)"

fun check_features :: "feature_id list \<Rightarrow> (server_error, unit) result" where
  "check_features [] = Ok ()"
| "check_features (f # fs) =
     (if \<not> is_known_feature (feature_str f)
      then Err (BadRequest (''unknown feature `'' @ feature_str f @ ''`''))
      else check_features fs)"

definition features_to_json :: "feature_id list \<Rightarrow> (server_error, (string, feature_id list) result) result" where
  "features_to_json fs = and_then (check_features fs) (\<lambda>_. Ok (Ok fs))"

section \<open>Registration\<close>

datatype register_device_mode = Upsert | Pairing

definition find_device :: "uuid \<Rightarrow> db \<Rightarrow> device_row option" where
  "find_device i d = List.find (\<lambda>v. dv_device_id v = i) (devices d)"

definition register_device :: "inputs \<Rightarrow> nat \<Rightarrow> account_id \<Rightarrow> device_upsert_request \<Rightarrow> register_device_mode
    \<Rightarrow> server \<Rightarrow> device_row response" where
  "register_device inp n account r mode s =
     (if trim (du_name r) = [] \<or> trim (du_iroh_public_key r) = []
      then (s, Err (BadRequest ''name and iroh_public_key are required''))
      else
       (let i = device_uuid (du_device_id r); now = in_now inp n in
        query s (\<lambda>s1. case find_device i (sv_db s1) of
          Some e \<Rightarrow>
            (if dv_account_id e \<noteq> account_uuid account then (s1, Err Forbidden)
             else if dv_deleted_at e \<noteq> None then
              (case mode of
                 Upsert \<Rightarrow> (s1, Err (ForbiddenMessage ''device removed''))
               | Pairing \<Rightarrow>
                   require (features_to_json (du_enabled_features r)) s1 (\<lambda>features.
                   exec (update_device i (\<lambda>v. v\<lparr>dv_deleted_at := None, dv_name := trim (du_name r),
                       dv_iroh_public_key := trim (du_iroh_public_key r), dv_enabled_features := features,
                       dv_last_seen := Some now\<rparr>)) s1 (\<lambda>s2 v. (s2, Ok v))))
             else
               exec (update_device i (\<lambda>v. v\<lparr>dv_iroh_public_key := trim (du_iroh_public_key r),
                   dv_last_seen := Some now\<rparr>)) s1 (\<lambda>s2 v. (s2, Ok v)))
        | None \<Rightarrow>
            require (features_to_json (du_enabled_features r)) s1 (\<lambda>features.
            let v = \<lparr>dv_device_id = i, dv_account_id = account_uuid account, dv_name = trim (du_name r),
                dv_iroh_public_key = trim (du_iroh_public_key r), dv_enabled_features = features,
                dv_last_seen = Some now, dv_created_at = now, dv_deleted_at = None\<rparr> in
            insert_stmt (insert_device v) s1 (\<lambda>s2. (s2, Ok v))))))"

section \<open>Device handlers\<close>

definition list_devices :: "server_ctx \<Rightarrow> inputs \<Rightarrow> account_id \<Rightarrow> server \<Rightarrow> device_info list response" where
  "list_devices cx inp account s =
     query s (\<lambda>s1. (s1, collect_res (model_to_info cx (in_now inp 0))
       (filter (\<lambda>v. dv_account_id v = account_uuid account \<and> dv_deleted_at v = None) (devices (sv_db s1)))))"

definition upsert_device :: "server_ctx \<Rightarrow> inputs \<Rightarrow> account_id \<Rightarrow> uuid \<Rightarrow> device_upsert_request \<Rightarrow> server
    \<Rightarrow> device_info response" where
  "upsert_device cx inp account i r s =
     (if device_uuid (du_device_id r) \<noteq> i then (s, Err (BadRequest ''device_id in path and body must match''))
      else bind_resp (register_device inp 0 account r Upsert s) (\<lambda>s1 v.
        (s1, model_to_info cx (in_now inp 1) v)))"

definition load_active_device :: "uuid \<Rightarrow> account_id \<Rightarrow> server \<Rightarrow> device_row response" where
  "load_active_device i account s =
     query s (\<lambda>s1. require (ok_or (find_device i (sv_db s1)) ServerNotFound) s1 (\<lambda>e.
       if dv_account_id e \<noteq> account_uuid account then (s1, Err Forbidden)
       else if dv_deleted_at e \<noteq> None then (s1, Err ServerNotFound)
       else (s1, Ok e)))"

definition patch_device :: "server_ctx \<Rightarrow> inputs \<Rightarrow> account_id \<Rightarrow> uuid \<Rightarrow> device_patch_request \<Rightarrow> server
    \<Rightarrow> device_info response" where
  "patch_device cx inp account i r s =
     (if dp_name r = None \<and> dp_enabled_features r = None
      then (s, Err (BadRequest ''at least one of name or enabled_features is required''))
      else if (case dp_name r of Some name \<Rightarrow> trim name = [] | None \<Rightarrow> False)
      then (s, Err (BadRequest ''name cannot be empty''))
      else
       bind_resp (load_active_device i account s) (\<lambda>s1 e.
       require (case dp_enabled_features r of None \<Rightarrow> Ok (dv_enabled_features e)
                | Some features \<Rightarrow> features_to_json features) s1 (\<lambda>features.
       exec (update_device (dv_device_id e) (\<lambda>v. v
           \<lparr>dv_name := (case dp_name r of Some name \<Rightarrow> trim name | None \<Rightarrow> dv_name v),
            dv_enabled_features := (if dp_enabled_features r = None then dv_enabled_features v else features)\<rparr>)) s1
         (\<lambda>s2 v. (s2, model_to_info cx (in_now inp 0) v)))))"

definition delete_device :: "inputs \<Rightarrow> account_id \<Rightarrow> uuid \<Rightarrow> server \<Rightarrow> unit response" where
  "delete_device inp account i s =
     query s (\<lambda>s1. require (ok_or (find_device i (sv_db s1)) ServerNotFound) s1 (\<lambda>e.
       if dv_account_id e \<noteq> account_uuid account then (s1, Err Forbidden)
       else if dv_deleted_at e \<noteq> None then (s1, Err ServerNotFound)
       else exec (update_device (dv_device_id e) (\<lambda>v. v\<lparr>dv_deleted_at := Some (in_now inp 0)\<rparr>)) s1
         (\<lambda>s2 _. (s2, Ok ()))))"

definition heartbeat_device :: "server_ctx \<Rightarrow> inputs \<Rightarrow> account_id \<Rightarrow> uuid \<Rightarrow> server \<Rightarrow> device_info response" where
  "heartbeat_device cx inp account i s =
     bind_resp (load_active_device i account s) (\<lambda>s1 e.
     exec (update_device (dv_device_id e) (\<lambda>v. v\<lparr>dv_last_seen := Some (in_now inp 0)\<rparr>)) s1
       (\<lambda>s2 v. (s2, model_to_info cx (in_now inp 1) v)))"

section \<open>Pairing\<close>

definition PAIRING_TTL_MINUTES :: int where "PAIRING_TTL_MINUTES = 10"

text \<open>At most ten attempts to find a code not in use; any error of the insert is a retry.\<close>

fun try_codes :: "inputs \<Rightarrow> account_id \<Rightarrow> instant \<Rightarrow> nat list \<Rightarrow> server \<Rightarrow> string response" where
  "try_codes inp account now [] s = (s, Err (Internal ''failed to generate unique pairing code''))"
| "try_codes inp account now (k # ks) s =
     (let code = generate_code (\<lambda>j. unat (in_draw inp (CODE_LEN * k + j)));
          row = \<lparr>pc_id = in_uuid inp k, pc_account_id = account_uuid account, pc_code = code,
            pc_expires_at = now + seconds (PAIRING_TTL_MINUTES * 60), pc_used_at = None, pc_created_at = now\<rparr> in
      case insert_stmt (insert_pairing row) s (\<lambda>s1. (s1, Ok ())) of
        (s1, Ok _) \<Rightarrow> (s1, Ok code)
      | (s1, Err _) \<Rightarrow> try_codes inp account now ks s1)"

definition create_pairing_code :: "server_ctx \<Rightarrow> inputs \<Rightarrow> account_id \<Rightarrow> server \<Rightarrow> (string \<times> string) response" where
  "create_pairing_code cx inp account s =
     (let now = in_now inp 0; expires_at = now + seconds (PAIRING_TTL_MINUTES * 60) in
      bind_resp (try_codes inp account now [0..<10] s) (\<lambda>s1 code. (s1, Ok (code, cx_rfc3339 cx expires_at))))"

definition find_pairing :: "string \<Rightarrow> db \<Rightarrow> pairing_row option" where
  "find_pairing code d = List.find (\<lambda>p. pc_code p = code) (pairing_codes d)"

definition redeem_in_transaction :: "server_ctx \<Rightarrow> inputs \<Rightarrow> string \<Rightarrow> device_upsert_request option \<Rightarrow> server
    \<Rightarrow> account_id response" where
  "redeem_in_transaction cx inp code dev t =
     query t (\<lambda>t1. require (ok_or (find_pairing code (sv_db t1)) (BadRequest ''invalid pairing code'')) t1 (\<lambda>p.
       if pc_expires_at p < in_now inp 0 then (t1, Err (BadRequest ''pairing code expired''))
       else if pc_used_at p \<noteq> None then (t1, Err (BadRequest ''pairing code already used''))
       else
        (let account = AccountId (pc_account_id p) in
         bind_resp (case dev of None \<Rightarrow> (t1, Ok ())
             | Some r \<Rightarrow> bind_resp (register_device inp 1 account r Pairing t1) (\<lambda>t2 _. (t2, Ok ()))) (\<lambda>t2 _.
         exec (\<lambda>d. case update_many (\<lambda>q. pc_id q = pc_id p \<and> pc_used_at q = None)
               (\<lambda>q. q\<lparr>pc_used_at := Some (in_now inp 2)\<rparr>) (pairing_codes d) of
             (rows, n) \<Rightarrow> Ok (d\<lparr>pairing_codes := rows\<rparr>, n)) t2 (\<lambda>t3 n.
           if n = 0 then (t3, Err (BadRequest ''pairing code already used''))
           else (t3, Ok account))))))"

definition redeem_pairing_code :: "server_ctx \<Rightarrow> inputs \<Rightarrow> string \<Rightarrow> device_upsert_request option \<Rightarrow> server
    \<Rightarrow> auth_response response" where
  "redeem_pairing_code cx inp code dev s =
     require (ok_or (normalize_code (cx_ext cx) code)
         (BadRequest ''pairing code must be 8 uppercase alphanumeric characters'')) s (\<lambda>c.
     bind_resp (transaction s (redeem_in_transaction cx inp c dev)) (\<lambda>s1 account.
       issue_auth_response cx inp 3 account s1))"

end
