(* ===== verification/Server_Steps.thy ===== *)
theory Server_Steps
  imports Server_Accounts Server_Devices
begin

text \<open>
  What the handlers can do to the tables: every handler of an account is a sequence of the
  elementary changes \<open>db_step\<close>. The consistency of the tables and the isolation of accounts are
  then proved once over those changes, not once per handler.
\<close>

section \<open>Elementary changes\<close>

definition known_features :: "device_row \<Rightarrow> bool" where
  "known_features v = (case dv_enabled_features v of Err _ \<Rightarrow> False | Ok fs \<Rightarrow> set fs \<subseteq> set all_ids)"

inductive db_step :: "uuid \<Rightarrow> db \<Rightarrow> db \<Rightarrow> bool" for a where
  new_account: "insert_account r d = Ok d' \<Longrightarrow> ac_id r = a \<Longrightarrow> db_step a d d'"
| account_change: "update_account a f d = Ok (d', r) \<Longrightarrow>
    (\<And>q. ac_id (f q) = ac_id q \<and> ac_email (f q) = ac_email q) \<Longrightarrow> db_step a d d'"
| new_device: "insert_device v d = Ok d' \<Longrightarrow> dv_account_id v = a \<Longrightarrow> known_features v \<Longrightarrow> db_step a d d'"
| device_change: "update_device i f d = Ok (d', v) \<Longrightarrow> find_device i d = Some e \<Longrightarrow> dv_account_id e = a \<Longrightarrow>
    (\<And>q. dv_device_id (f q) = dv_device_id q \<and> dv_account_id (f q) = dv_account_id q \<and>
       (known_features q \<longrightarrow> known_features (f q))) \<Longrightarrow> db_step a d d'"
| new_token: "insert_refresh r d = Ok d' \<Longrightarrow> rt_account_id r = a \<Longrightarrow> db_step a d d'"
| revoke: "update_refresh (rt_id r) (\<lambda>q. q\<lparr>rt_revoked_at := Some now\<rparr>) d = Ok (d', q) \<Longrightarrow>
    r \<in> set (refresh_tokens d) \<Longrightarrow> rt_account_id r = a \<Longrightarrow> db_step a d d'"
| revoke_all: "d' = d\<lparr>refresh_tokens := fst (update_many (\<lambda>r. rt_account_id r = a \<and> rt_revoked_at r = None)
    (\<lambda>r. r\<lparr>rt_revoked_at := Some now\<rparr>) (refresh_tokens d))\<rparr> \<Longrightarrow> db_step a d d'"
| new_recovery: "insert_recovery r d = Ok d' \<Longrightarrow> rc_account_id r = a \<Longrightarrow> db_step a d d'"
| use_recovery: "d' = d\<lparr>recovery_codes := fst (update_many (\<lambda>r. rc_account_id r = a \<and> P r)
    (\<lambda>r. r\<lparr>rc_used_at := Some now\<rparr>) (recovery_codes d))\<rparr> \<Longrightarrow> db_step a d d'"
| drop_recovery: "d' = d\<lparr>recovery_codes := filter (\<lambda>r. rc_account_id r \<noteq> a) (recovery_codes d)\<rparr> \<Longrightarrow> db_step a d d'"
| new_pairing: "insert_pairing p d = Ok d' \<Longrightarrow> pc_account_id p = a \<Longrightarrow> db_step a d d'"
| use_pairing: "d' = d\<lparr>pairing_codes := fst (update_many (\<lambda>q. pc_id q = pc_id p \<and> pc_used_at q = None)
    (\<lambda>q. q\<lparr>pc_used_at := Some now\<rparr>) (pairing_codes d))\<rparr> \<Longrightarrow> p \<in> set (pairing_codes d) \<Longrightarrow>
    pc_account_id p = a \<Longrightarrow> db_step a d d'"

text \<open>\<open>within a d0 r\<close>: the response \<open>r\<close> leaves tables that changes of \<open>a\<close> reach from \<open>d0\<close>.\<close>

definition within :: "uuid \<Rightarrow> db \<Rightarrow> 'b response \<Rightarrow> bool" where
  "within a d0 r = holds (\<lambda>d _. (db_step a)\<^sup>*\<^sup>* d0 d) r"

lemma within_pair [simp]: "within a d0 (s, r) = (db_step a)\<^sup>*\<^sup>* d0 (sv_db s)"
  by (simp add: within_def)

lemma within_query:
  "(db_step a)\<^sup>*\<^sup>* d0 (sv_db s) \<Longrightarrow>
   (\<And>s'. sv_db s' = sv_db s \<Longrightarrow> (db_step a)\<^sup>*\<^sup>* d0 (sv_db s') \<Longrightarrow> within a d0 (k s')) \<Longrightarrow>
   within a d0 (query s k)"
  unfolding within_def by (rule holds_query) auto

lemma within_exec:
  "(db_step a)\<^sup>*\<^sup>* d0 (sv_db s) \<Longrightarrow> (\<And>d' b. f (sv_db s) = Ok (d', b) \<Longrightarrow> db_step a (sv_db s) d') \<Longrightarrow>
   (\<And>s' b. (db_step a)\<^sup>*\<^sup>* d0 (sv_db s') \<Longrightarrow> within a d0 (k s' b)) \<Longrightarrow> within a d0 (exec f s k)"
  unfolding within_def by (rule holds_exec) (auto intro: rtranclp.rtrancl_into_rtrancl)

lemma within_insert:
  "(db_step a)\<^sup>*\<^sup>* d0 (sv_db s) \<Longrightarrow> (\<And>d'. f (sv_db s) = Ok d' \<Longrightarrow> db_step a (sv_db s) d') \<Longrightarrow>
   (\<And>s'. (db_step a)\<^sup>*\<^sup>* d0 (sv_db s') \<Longrightarrow> within a d0 (k s')) \<Longrightarrow> within a d0 (insert_stmt f s k)"
  unfolding within_def by (rule holds_insert) (auto intro: rtranclp.rtrancl_into_rtrancl)

lemma within_require:
  "(db_step a)\<^sup>*\<^sup>* d0 (sv_db s) \<Longrightarrow> (\<And>v. r = Ok v \<Longrightarrow> within a d0 (k v)) \<Longrightarrow> within a d0 (require r s k)"
  unfolding within_def by (rule holds_require) auto

lemma within_bind:
  "within a d0 r \<Longrightarrow> (\<And>s v. (db_step a)\<^sup>*\<^sup>* d0 (sv_db s) \<Longrightarrow> within a d0 (k s v)) \<Longrightarrow> within a d0 (bind_resp r k)"
  unfolding within_def by (erule holds_bind) auto

lemma within_transaction:
  "(db_step a)\<^sup>*\<^sup>* d0 (sv_db s) \<Longrightarrow>
   (\<And>s'. sv_db s' = sv_db s \<Longrightarrow> (db_step a)\<^sup>*\<^sup>* d0 (sv_db s') \<Longrightarrow> within a d0 (body s')) \<Longrightarrow>
   within a d0 (transaction s body)"
  unfolding within_def by (rule holds_transaction) (auto simp: holds_def)

text \<open>A loader: the tables stay as they are and the row it answers satisfies \<open>P\<close>.\<close>

lemma within_load:
  "holds (\<lambda>d r. d = sv_db s \<and> (\<forall>e. r = Ok e \<longrightarrow> P e)) r \<Longrightarrow> (db_step a)\<^sup>*\<^sup>* d0 (sv_db s) \<Longrightarrow>
   (\<And>s' e. sv_db s' = sv_db s \<Longrightarrow> P e \<Longrightarrow> (db_step a)\<^sup>*\<^sup>* d0 (sv_db s') \<Longrightarrow> within a d0 (k s' e)) \<Longrightarrow>
   within a d0 (bind_resp r k)"
  unfolding within_def by (erule holds_bind) auto

lemmas within_rules = within_query within_exec within_insert within_require

section \<open>Loaders\<close>

lemma find_account_id: "find_account i d = Some e \<Longrightarrow> ac_id e = i \<and> e \<in> set (accounts d)"
  using find_Some_set [of "\<lambda>a. ac_id a = i" "accounts d" e] by (auto simp: find_account_def)

lemma load_account_spec:
  "holds (\<lambda>d r. d = sv_db s \<and> (\<forall>e. r = Ok e \<longrightarrow> find_account (account_uuid a) (sv_db s) = Some e \<and>
     ac_id e = account_uuid a)) (load_account a s)"
  unfolding load_account_def by (rule holds_query) (auto dest: find_account_id)

lemma find_email_set: "find_email m d = Some e \<Longrightarrow> ac_email e = m \<and> e \<in> set (accounts d)"
  using find_Some_set [of "\<lambda>a. ac_email a = m" "accounts d" e] by (auto simp: find_email_def)

lemma find_device_id: "find_device i d = Some e \<Longrightarrow> dv_device_id e = i \<and> e \<in> set (devices d)"
  using find_Some_set [of "\<lambda>a. dv_device_id a = i" "devices d" e] by (auto simp: find_device_def)

lemma find_token_hash:
  "find_token cx raw d = Some r \<Longrightarrow> rt_token_hash r = hash_token cx raw \<and> r \<in> set (refresh_tokens d)"
  using find_Some_set [of "\<lambda>r. rt_token_hash r = hash_token cx raw" "refresh_tokens d" r]
  by (auto simp: find_token_def)

lemma find_pairing_code: "find_pairing c d = Some p \<Longrightarrow> pc_code p = c \<and> p \<in> set (pairing_codes d)"
  using find_Some_set [of "\<lambda>p. pc_code p = c" "pairing_codes d" p] by (auto simp: find_pairing_def)

lemma load_active_device_spec:
  "holds (\<lambda>d r. d = sv_db s \<and> (\<forall>e. r = Ok e \<longrightarrow> find_device i (sv_db s) = Some e \<and>
      dv_account_id e = account_uuid a \<and> dv_deleted_at e = None)) (load_active_device i a s)"
  unfolding load_active_device_def by (intro holds_query holds_require) auto

lemma find_valid_spec:
  "holds (\<lambda>d r. d = sv_db s \<and> (\<forall>e. r = Ok e \<longrightarrow> find_token cx raw (sv_db s) = Some e \<and>
      rt_revoked_at e = None \<and> now \<le> rt_expires_at e \<and>
      rt_account_id e \<in> ac_id ` set (accounts (sv_db s)))) (find_valid_in_conn cx now raw s)"
  unfolding find_valid_in_conn_def
  by (intro holds_query holds_require) (auto simp: list_ex_iff image_iff intro!: holds_query, metis)

section \<open>Every handler is such a sequence\<close>

lemma within_update_account:
  "(db_step a)\<^sup>*\<^sup>* d0 (sv_db s) \<Longrightarrow> (\<And>q. ac_id (f q) = ac_id q \<and> ac_email (f q) = ac_email q) \<Longrightarrow>
   (\<And>s' b. (db_step a)\<^sup>*\<^sup>* d0 (sv_db s') \<Longrightarrow> within a d0 (k s' b)) \<Longrightarrow>
   within a d0 (exec (update_account a f) s k)"
  by (rule within_exec) (auto intro: account_change)

lemma within_update_device:
  "(db_step a)\<^sup>*\<^sup>* d0 (sv_db s) \<Longrightarrow> find_device i (sv_db s) = Some e \<Longrightarrow> dv_account_id e = a \<Longrightarrow>
   (\<And>q. dv_device_id (f q) = dv_device_id q \<and> dv_account_id (f q) = dv_account_id q \<and>
     (known_features q \<longrightarrow> known_features (f q))) \<Longrightarrow>
   (\<And>s' b. (db_step a)\<^sup>*\<^sup>* d0 (sv_db s') \<Longrightarrow> within a d0 (k s' b)) \<Longrightarrow>
   within a d0 (exec (update_device i f) s k)"
  by (rule within_exec) (auto intro: device_change)

lemma within_load_account:
  "(db_step a)\<^sup>*\<^sup>* d0 (sv_db s) \<Longrightarrow>
   (\<And>s' e. sv_db s' = sv_db s \<Longrightarrow> ac_id e = account_uuid b \<Longrightarrow>
     (db_step a)\<^sup>*\<^sup>* d0 (sv_db s') \<Longrightarrow> within a d0 (k s' e)) \<Longrightarrow>
   within a d0 (bind_resp (load_account b s) k)"
  by (rule within_load [OF load_account_spec]) auto

lemma within_issue_refresh:
  "(db_step (account_uuid a))\<^sup>*\<^sup>* d0 (sv_db s) \<Longrightarrow> within (account_uuid a) d0 (issue_refresh cx inp n a s)"
  unfolding issue_refresh_def Let_def
  by (rule within_insert) (auto intro!: new_token simp: new_refresh_row_def)

lemma within_issue_auth:
  "(db_step (account_uuid a))\<^sup>*\<^sup>* d0 (sv_db s) \<Longrightarrow> within (account_uuid a) d0 (issue_auth_response cx inp n a s)"
  unfolding issue_auth_response_def
  by (intro within_require within_bind within_issue_refresh) auto

lemma within_revoke_record:
  "(db_step (rt_account_id r))\<^sup>*\<^sup>* d0 (sv_db s) \<Longrightarrow> r \<in> set (refresh_tokens (sv_db s)) \<Longrightarrow>
   within (rt_account_id r) d0 (revoke_record now r s)"
  unfolding revoke_record_def by (rule within_exec) (auto intro: revoke)

lemma within_revoke_all:
  "(db_step (account_uuid a))\<^sup>*\<^sup>* d0 (sv_db s) \<Longrightarrow> within (account_uuid a) d0 (revoke_all_for_account now a s)"
  unfolding revoke_all_for_account_def
  by (rule within_exec) (auto intro!: revoke_all [where now = now] simp: update_many_def)

lemma within_consume:
  "(db_step (account_uuid a))\<^sup>*\<^sup>* d0 (sv_db s) \<Longrightarrow> within (account_uuid a) d0 (consume_recovery_code cx now a code s)"
  unfolding consume_recovery_code_def
  by (rule within_exec) (auto intro!: use_recovery [where now = now and P = "\<lambda>r. rc_code_hash r =
      hash_recovery_code cx code \<and> rc_used_at r = None"] simp: update_many_def)

lemma within_verify:
  "(db_step (account_uuid a))\<^sup>*\<^sup>* d0 (sv_db s) \<Longrightarrow>
   within (account_uuid a) d0 (verify_totp_or_recovery cx inp n a row code s)"
  unfolding verify_totp_or_recovery_def Let_def
  by (auto split: option.split intro!: within_require within_bind within_consume)

lemma within_register:
  "within (in_uuid inp 0) (sv_db s) (register cx inp email password s)"
  unfolding register_def Let_def
  by (auto intro!: within_rules new_account within_issue_auth [where a = "AccountId (in_uuid inp 0)", simplified])

lemma within_login:
  "find_email (to_lowercase (cx_ext cx) (trim email)) (sv_db s) = Some a \<Longrightarrow>
   within (ac_id a) (sv_db s) (login cx inp email password s)"
  unfolding login_def
  by (auto intro!: within_rules within_issue_auth [where a = "AccountId (ac_id a)", simplified])

lemmas bind_verify = within_bind [OF within_verify]

lemma within_login_mfa:
  "validate_mfa_pending cx (in_now inp 0) (trim t) = Ok a \<Longrightarrow>
   within (account_uuid a) (sv_db s) (login_mfa cx inp t code s)"
  unfolding login_mfa_def
  by (auto intro!: within_require within_load_account bind_verify within_issue_auth)

lemma within_rotate:
  assumes "find_token cx raw (sv_db s) = Some r"
  shows "within (rt_account_id r) (sv_db s) (rotate_token cx inp raw s)"
  unfolding rotate_token_def
proof (rule within_transaction)
  fix t :: server
  assume t: "sv_db t = sv_db s" "(db_step (rt_account_id r))\<^sup>*\<^sup>* (sv_db s) (sv_db t)"
  show "within (rt_account_id r) (sv_db s) (rotate_in_transaction cx inp raw t)"
    unfolding rotate_in_transaction_def Let_def
    by (rule within_load [OF find_valid_spec t(2)])
      (use t assms in \<open>auto dest: find_token_hash intro!: within_bind within_revoke_record within_insert
        within_require new_token simp: new_refresh_row_def\<close>)
qed simp

lemma within_logout:
  assumes "find_token cx (trim raw) (sv_db s) = Some r"
  shows "within (rt_account_id r) (sv_db s) (logout cx inp raw s)"
  unfolding logout_def logout_token_def
  using find_token_hash [OF assms] by (auto simp: assms intro!: within_query within_revoke_record)

lemma within_change_password:
  "within (account_uuid a) (sv_db s) (change_password cx inp a cur new s)"
  unfolding change_password_def
  by (auto intro!: within_require within_load_account within_transaction within_update_account within_revoke_all)

lemma within_totp_setup: "within (account_uuid a) (sv_db s) (totp_setup cx inp a s)"
  unfolding totp_setup_def Let_def
  by (auto intro!: within_require within_load_account within_update_account)

lemma within_insert_codes:
  "(db_step (account_uuid a))\<^sup>*\<^sup>* d0 (sv_db s) \<Longrightarrow>
   within (account_uuid a) d0 (insert_recovery_codes cx inp now a n codes s)"
  by (induction codes arbitrary: n s) (auto intro!: within_insert new_recovery)

lemmas bind_codes = within_bind [OF within_insert_codes]

lemma within_delete_codes:
  "(db_step (account_uuid a))\<^sup>*\<^sup>* d0 (sv_db s) \<Longrightarrow>
   (\<And>s'. (db_step (account_uuid a))\<^sup>*\<^sup>* d0 (sv_db s') \<Longrightarrow> within (account_uuid a) d0 (k s')) \<Longrightarrow>
   within (account_uuid a) d0 (delete_recovery_codes a s k)"
  unfolding delete_recovery_codes_def by (auto intro!: within_exec drop_recovery)

lemma within_totp_enable: "within (account_uuid a) (sv_db s) (totp_enable cx inp a code s)"
  unfolding totp_enable_def Let_def
  by (auto intro!: within_require within_load_account within_transaction within_delete_codes
      bind_codes within_update_account)

lemma within_totp_disable: "within (account_uuid a) (sv_db s) (totp_disable cx inp a password code s)"
  unfolding totp_disable_def
  by (auto intro!: within_require within_load_account bind_verify
      within_transaction within_delete_codes within_update_account within_revoke_all)

lemma check_features_known: "check_features fs = Ok () \<longleftrightarrow> set fs \<subseteq> set all_ids"
proof (induction fs)
  case (Cons f fs)
  have "is_known_feature (feature_str f) \<longleftrightarrow> f \<in> set all_ids"
    by (simp add: is_known_feature_iff)
  with Cons show ?case by auto
qed simp

lemma features_to_json_known: "features_to_json fs = Ok j \<Longrightarrow> j = Ok fs \<and> set fs \<subseteq> set all_ids"
  by (auto simp: features_to_json_def and_then_eq_Inr check_features_known)

lemma within_register_device:
  "(db_step (account_uuid a))\<^sup>*\<^sup>* d0 (sv_db s) \<Longrightarrow> within (account_uuid a) d0 (register_device inp n a r mode s)"
  unfolding register_device_def Let_def
  by (auto split: option.split register_device_mode.split dest!: features_to_json_known
      intro!: within_query within_require within_update_device within_insert new_device
      simp: known_features_def)

lemma within_list_devices: "within a (sv_db s) (list_devices cx inp b s)"
  unfolding list_devices_def by (auto intro!: within_query)

lemma within_upsert_device: "within (account_uuid a) (sv_db s) (upsert_device cx inp a i r s)"
  unfolding upsert_device_def by (auto intro!: within_bind within_register_device)

lemma within_load_device:
  "(db_step a)\<^sup>*\<^sup>* d0 (sv_db s) \<Longrightarrow>
   (\<And>s' e. sv_db s' = sv_db s \<Longrightarrow> find_device i (sv_db s') = Some e \<Longrightarrow> dv_device_id e = i \<Longrightarrow>
     dv_account_id e = account_uuid b \<Longrightarrow>
     (db_step a)\<^sup>*\<^sup>* d0 (sv_db s') \<Longrightarrow> within a d0 (k s' e)) \<Longrightarrow>
   within a d0 (bind_resp (load_active_device i b s) k)"
  by (rule within_load [OF load_active_device_spec [of s i b]]) (auto dest: find_device_id)

lemma within_patch_device: "within (account_uuid a) (sv_db s) (patch_device cx inp a i r s)"
proof -
  have "known_features (v\<lparr>dv_name := n, dv_enabled_features := j\<rparr>)"
    if "features_to_json fs = Ok j" for v n fs j
    using features_to_json_known [OF that] by (simp add: known_features_def)
  moreover have "known_features (v\<lparr>dv_name := n\<rparr>) = known_features v" for v n
    by (simp add: known_features_def)
  ultimately show ?thesis
    unfolding patch_device_def
    by (cases "dp_enabled_features r")
      (auto intro!: within_require within_load_device within_update_device)
qed

lemma within_update_found:
  "(db_step a)\<^sup>*\<^sup>* d0 (sv_db s) \<Longrightarrow> find_device j (sv_db s) = Some e \<Longrightarrow> dv_account_id e = a \<Longrightarrow>
   (\<And>q. dv_device_id (f q) = dv_device_id q \<and> dv_account_id (f q) = dv_account_id q \<and>
     (known_features q \<longrightarrow> known_features (f q))) \<Longrightarrow>
   (\<And>s' b. (db_step a)\<^sup>*\<^sup>* d0 (sv_db s') \<Longrightarrow> within a d0 (k s' b)) \<Longrightarrow>
   within a d0 (exec (update_device (dv_device_id e) f) s k)"
  by (rule within_update_device [of a d0 s _ e]) (auto dest: find_device_id)

lemma within_delete_device: "within (account_uuid a) (sv_db s) (delete_device inp a i s)"
  unfolding delete_device_def
  by (auto intro!: within_query within_require within_update_found
      simp: known_features_def)

lemma within_heartbeat_device: "within (account_uuid a) (sv_db s) (heartbeat_device cx inp a i s)"
  unfolding heartbeat_device_def
  by (auto intro!: within_load_device within_update_device simp: known_features_def)

lemma within_try_codes:
  "(db_step (account_uuid a))\<^sup>*\<^sup>* d0 (sv_db s) \<Longrightarrow> within (account_uuid a) d0 (try_codes inp a now ks s)"
proof (induction ks arbitrary: s)
  case (Cons k ks)
  let ?code = "generate_code (\<lambda>j. unat (in_draw inp (CODE_LEN * k + j)))"
  define row where "row = \<lparr>pc_id = in_uuid inp k, pc_account_id = account_uuid a, pc_code = ?code,
            pc_expires_at = now + seconds (PAIRING_TTL_MINUTES * 60), pc_used_at = None, pc_created_at = now\<rparr>"
  have "within (account_uuid a) d0 (insert_stmt (insert_pairing row) s (\<lambda>s1. (s1, Ok ())))"
    by (rule within_insert [OF Cons.prems]) (auto intro: new_pairing simp: row_def)
  then show ?case using Cons.IH
    by (auto simp: Let_def row_def split: prod.split sum.split)
qed simp

lemma within_create_pairing: "within (account_uuid a) (sv_db s) (create_pairing_code cx inp a s)"
  unfolding create_pairing_code_def Let_def by (auto intro!: within_bind within_try_codes simp del: try_codes.simps)

lemma register_device_pairing:
  "holds (\<lambda>d _. pairing_codes d = pairing_codes (sv_db s)) (register_device inp n a r mode s)"
  unfolding register_device_def Let_def
  by (auto split: option.split register_device_mode.split intro!: holds_query holds_require holds_exec holds_insert
      simp: update_device_def insert_device_def foreign_key_def map_ok_eq_Inr split: if_splits)

text \<open>A redemption acts for the account of the code, and answers that account.\<close>

lemma redeem_spec:
  assumes p: "find_pairing c (sv_db s) = Some p" and s': "sv_db s' = sv_db s"
  shows "holds (\<lambda>d r. (db_step (pc_account_id p))\<^sup>*\<^sup>* (sv_db s) d \<and>
      (\<forall>v. r = Ok v \<longrightarrow> v = AccountId (pc_account_id p))) (redeem_in_transaction cx inp c dev s')"
proof -
  let ?a = "AccountId (pc_account_id p)" and ?steps = "(db_step (pc_account_id p))\<^sup>*\<^sup>* (sv_db s)"
  have reg: "holds (\<lambda>d _. ?steps d \<and> pairing_codes d = pairing_codes (sv_db s))
      (case dev of None \<Rightarrow> (t, Ok ()) | Some r \<Rightarrow> bind_resp (register_device inp 1 ?a r Pairing t) (\<lambda>t2 _. (t2, Ok ())))"
    if t: "sv_db t = sv_db s" for t
  proof (cases dev)
    case (Some r)
    have "holds (\<lambda>d _. ?steps d \<and> pairing_codes d = pairing_codes (sv_db s)) (register_device inp 1 ?a r Pairing t)"
      using within_register_device [of ?a "sv_db s" t inp 1 r Pairing] register_device_pairing [of t inp 1 ?a r Pairing] t
      by (simp add: within_def holds_def)
    then show ?thesis unfolding Some option.case by (rule holds_bind) auto
  qed (use t in simp)
  have use: "?steps d'"
    if "(case update_many (\<lambda>q. pc_id q = pc_id p \<and> pc_used_at q = None)
          (\<lambda>q. q\<lparr>pc_used_at := Some now\<rparr>) (pairing_codes (sv_db t)) of
        (rows, n) \<Rightarrow> Ok (sv_db t\<lparr>pairing_codes := rows\<rparr>, n)) = Ok (d', b)"
      "pairing_codes (sv_db t) = pairing_codes (sv_db s)" "?steps (sv_db t)" for t :: server and d' b now
  proof -
    have "db_step (pc_account_id p) (sv_db t) d'"
      using that(1,2) find_pairing_code [OF p]
      by (auto intro!: use_pairing [where p = p and now = now] simp: update_many_def)
    with that(3) show ?thesis by (rule rtranclp.rtrancl_into_rtrancl)
  qed
  show ?thesis
    unfolding redeem_in_transaction_def Let_def
    by (intro holds_query holds_require)
      (use s' p in \<open>auto intro!: holds_bind [OF reg] holds_exec dest: use\<close>)
qed

lemma within_redeem:
  assumes "normalize_code (cx_ext cx) code = Some c" "find_pairing c (sv_db s) = Some p"
  shows "within (pc_account_id p) (sv_db s) (redeem_pairing_code cx inp code dev s)"
proof -
  have "holds (\<lambda>d r. (db_step (pc_account_id p))\<^sup>*\<^sup>* (sv_db s) d \<and>
      (\<forall>v. r = Ok v \<longrightarrow> v = AccountId (pc_account_id p))) (transaction s (redeem_in_transaction cx inp c dev))"
    by (rule holds_transaction) (auto intro: holds_mono [OF redeem_spec [OF assms(2)]])
  then show ?thesis
    unfolding redeem_pairing_code_def assms(1) ok_or_simps within_def require_def sum.case
    by (rule holds_bind)
      (auto intro!: within_issue_auth [where a = "AccountId (pc_account_id p)", simplified, unfolded within_def])
qed

end
