(* ===== verification/Server_Inv.thy ===== *)
theory Server_Inv
  imports Server_Steps
begin

text \<open>
  What every change of the tables keeps: keys and unique columns, references to accounts, the
  features of devices, the rows of other accounts, and the marks that make tokens and codes single
  use. Proved over \<open>db_step\<close>, so it holds for every handler.
\<close>

section \<open>The statements\<close>

lemma insert_row_Ok:
  "insert_row pk uk r rows = Ok rows' \<longleftrightarrow>
     rows' = rows @ [r] \<and> pk r \<notin> pk ` set rows \<and> (uk r \<noteq> None \<longrightarrow> uk r \<notin> uk ` set rows)"
  unfolding insert_row_def list_ex_iff image_iff by (cases "uk r") (auto, metis+)

lemma update_row_Ok:
  "update_row pk i f rows = Ok (rows', r) \<Longrightarrow> rows' = map (\<lambda>q. if pk q = i then f q else q) rows"
  by (auto simp: update_row_def split: option.splits)

lemmas statement_defs = insert_account_def insert_device_def insert_pairing_def insert_recovery_def
  insert_refresh_def update_account_def update_device_def update_refresh_def foreign_key_def

lemma map_keep: "(\<And>q. q \<in> set rows \<Longrightarrow> C q \<Longrightarrow> g (f q) = g q) \<Longrightarrow> map g (map (\<lambda>q. if C q then f q else q) rows) = map g rows"
  by (induction rows) auto

lemma filter_keep:
  "(\<And>q. q \<in> set rows \<Longrightarrow> C q \<Longrightarrow> \<not> P q \<and> \<not> P (f q)) \<Longrightarrow>
   filter P (map (\<lambda>q. if C q then f q else q) rows) = filter P rows"
  by (induction rows) auto

section \<open>Consistency\<close>

definition table_ok :: "('r \<Rightarrow> uuid) \<Rightarrow> ('r \<Rightarrow> 'k) \<Rightarrow> ('r \<Rightarrow> uuid) \<Rightarrow> uuid set \<Rightarrow> 'r list \<Rightarrow> bool" where
  "table_ok pk uk account ids rows \<longleftrightarrow>
     distinct (map pk rows) \<and> distinct (map uk rows) \<and> account ` set rows \<subseteq> ids"

definition db_inv :: "db \<Rightarrow> bool" where
  "db_inv d \<longleftrightarrow> (let ids = ac_id ` set (accounts d) in
     table_ok ac_id ac_email ac_id ids (accounts d) \<and>
     table_ok dv_device_id dv_device_id dv_account_id ids (devices d) \<and>
     table_ok pc_id pc_code pc_account_id ids (pairing_codes d) \<and>
     table_ok rc_id rc_code_hash rc_account_id ids (recovery_codes d) \<and>
     table_ok rt_id rt_token_hash rt_account_id ids (refresh_tokens d) \<and>
     list_all known_features (devices d))"

lemma table_ok_mono: "table_ok pk uk account ids rows \<Longrightarrow> ids \<subseteq> ids' \<Longrightarrow> table_ok pk uk account ids' rows"
  by (auto simp: table_ok_def)

lemma table_ok_insert:
  "table_ok pk uk account ids rows \<Longrightarrow> insert_row pk (\<lambda>r. Some (uk r)) r rows = Ok rows' \<Longrightarrow> account r \<in> ids \<Longrightarrow>
   table_ok pk uk account ids rows'"
  by (auto simp: table_ok_def insert_row_Ok image_iff)

lemma table_ok_insert_pk:
  "table_ok pk pk account ids rows \<Longrightarrow> insert_row pk (\<lambda>_. None) r rows = Ok rows' \<Longrightarrow> account r \<in> ids \<Longrightarrow>
   table_ok pk pk account ids rows'"
  by (auto simp: table_ok_def insert_row_Ok image_iff)

lemma table_ok_map:
  assumes "table_ok pk uk account ids rows"
    "\<And>q. pk (f q) = pk q" "\<And>q. uk (f q) = uk q" "\<And>q. account (f q) = account q"
  shows "table_ok pk uk account ids (map (\<lambda>q. if C q then f q else q) rows)"
proof -
  have "map g (map (\<lambda>q. if C q then f q else q) rows) = map g rows" if "\<And>q. g (f q) = g q" for g :: "'a \<Rightarrow> 'z"
    by (rule map_keep) (rule that)
  from this [of pk] this [of uk] show ?thesis
    using assms by (auto simp: table_ok_def simp del: map_map)
qed

lemma table_ok_filter: "table_ok pk uk account ids rows \<Longrightarrow> table_ok pk uk account ids (filter P rows)"
  by (auto simp: table_ok_def distinct_map_filter)

lemma account_ids_map: "(\<And>q. ac_id (f q) = ac_id q) \<Longrightarrow> ac_id ` set (map (\<lambda>q. if C q then f q else q) rows) = ac_id ` set rows"
  using map_keep [of rows C ac_id f] by (metis set_map)

abbreviation account_ids :: "db \<Rightarrow> uuid set" where "account_ids d \<equiv> ac_id ` set (accounts d)"

text \<open>What a successful insert has checked.\<close>

lemma foreign_key_Ok: "foreign_key i d r = Ok x \<longleftrightarrow> i \<in> account_ids d \<and> r = Ok x"
  by (auto simp: foreign_key_def list_ex_iff image_iff)

lemma insert_device_Ok: "insert_device r d = Ok d' \<Longrightarrow> \<exists>rows. d' = d\<lparr>devices := rows\<rparr> \<and> rows = devices d @ [r] \<and>
    insert_row dv_device_id (\<lambda>_. None) r (devices d) = Ok rows \<and> dv_account_id r \<in> account_ids d"
  by (auto simp: insert_device_def insert_pairing_def insert_recovery_def insert_refresh_def
      foreign_key_Ok map_ok_eq_Inr insert_row_Ok)

lemma insert_pairing_Ok: "insert_pairing r d = Ok d' \<Longrightarrow> \<exists>rows. d' = d\<lparr>pairing_codes := rows\<rparr> \<and>
    rows = pairing_codes d @ [r] \<and>
    insert_row pc_id (\<lambda>p. Some (pc_code p)) r (pairing_codes d) = Ok rows \<and> pc_account_id r \<in> account_ids d"
  by (auto simp: insert_device_def insert_pairing_def insert_recovery_def insert_refresh_def
      foreign_key_Ok map_ok_eq_Inr insert_row_Ok)

lemma insert_recovery_Ok: "insert_recovery r d = Ok d' \<Longrightarrow> \<exists>rows. d' = d\<lparr>recovery_codes := rows\<rparr> \<and>
    rows = recovery_codes d @ [r] \<and>
    insert_row rc_id (\<lambda>p. Some (rc_code_hash p)) r (recovery_codes d) = Ok rows \<and> rc_account_id r \<in> account_ids d"
  by (auto simp: insert_device_def insert_pairing_def insert_recovery_def insert_refresh_def
      foreign_key_Ok map_ok_eq_Inr insert_row_Ok)

lemma insert_refresh_Ok: "insert_refresh r d = Ok d' \<Longrightarrow> \<exists>rows. d' = d\<lparr>refresh_tokens := rows\<rparr> \<and>
    rows = refresh_tokens d @ [r] \<and>
    insert_row rt_id (\<lambda>p. Some (rt_token_hash p)) r (refresh_tokens d) = Ok rows \<and> rt_account_id r \<in> account_ids d"
  by (auto simp: insert_device_def insert_pairing_def insert_recovery_def insert_refresh_def
      foreign_key_Ok map_ok_eq_Inr insert_row_Ok)

lemma db_inv_devices: "db_inv d \<Longrightarrow> table_ok dv_device_id dv_device_id dv_account_id (account_ids d) rows \<Longrightarrow>
    list_all known_features rows \<Longrightarrow> db_inv (d\<lparr>devices := rows\<rparr>)"
  by (simp add: db_inv_def Let_def)

lemma db_inv_pairing: "db_inv d \<Longrightarrow> table_ok pc_id pc_code pc_account_id (account_ids d) rows \<Longrightarrow>
    db_inv (d\<lparr>pairing_codes := rows\<rparr>)"
  by (simp add: db_inv_def Let_def)

lemma db_inv_recovery: "db_inv d \<Longrightarrow> table_ok rc_id rc_code_hash rc_account_id (account_ids d) rows \<Longrightarrow>
    db_inv (d\<lparr>recovery_codes := rows\<rparr>)"
  by (simp add: db_inv_def Let_def)

lemma db_inv_refresh: "db_inv d \<Longrightarrow> table_ok rt_id rt_token_hash rt_account_id (account_ids d) rows \<Longrightarrow>
    db_inv (d\<lparr>refresh_tokens := rows\<rparr>)"
  by (simp add: db_inv_def Let_def)

lemma db_inv_tables:
  "db_inv d \<Longrightarrow> table_ok ac_id ac_email ac_id (account_ids d) (accounts d)"
  "db_inv d \<Longrightarrow> table_ok dv_device_id dv_device_id dv_account_id (account_ids d) (devices d)"
  "db_inv d \<Longrightarrow> table_ok pc_id pc_code pc_account_id (account_ids d) (pairing_codes d)"
  "db_inv d \<Longrightarrow> table_ok rc_id rc_code_hash rc_account_id (account_ids d) (recovery_codes d)"
  "db_inv d \<Longrightarrow> table_ok rt_id rt_token_hash rt_account_id (account_ids d) (refresh_tokens d)"
  "db_inv d \<Longrightarrow> list_all known_features (devices d)"
  by (simp_all add: db_inv_def Let_def)

lemma db_inv_step: "db_step a d d' \<Longrightarrow> db_inv d \<Longrightarrow> db_inv d'"
proof (induction rule: db_step.induct)
  case (new_account r d d')
  then have d': "d' = d\<lparr>accounts := accounts d @ [r]\<rparr>" and ins: "insert_row ac_id (\<lambda>a. Some (ac_email a)) r (accounts d) = Ok (accounts d @ [r])"
    by (auto simp: insert_account_def map_ok_eq_Inr insert_row_Ok)
  have mono: "table_ok pk uk acct (ac_id ` set (accounts d)) rows \<Longrightarrow>
      table_ok pk uk acct (ac_id ` set (accounts d @ [r])) rows" for pk acct and uk :: "'z \<Rightarrow> 'k" and rows
    by (erule table_ok_mono) auto
  have "table_ok ac_id ac_email ac_id (ac_id ` set (accounts d @ [r])) (accounts d @ [r])"
    by (rule table_ok_insert [OF mono ins]) (use new_account.prems in \<open>simp_all add: db_inv_def Let_def\<close>)
  then show ?case using new_account.prems unfolding d' by (simp add: db_inv_def Let_def mono del: set_append)
next
  case (account_change f d d' r)
  then obtain rows where d': "d' = d\<lparr>accounts := rows\<rparr>" and rows: "rows = map (\<lambda>q. if ac_id q = a then f q else q) (accounts d)"
    by (auto simp: update_account_def map_ok_eq_Inr dest!: update_row_Ok)
  have ids: "ac_id ` set rows = ac_id ` set (accounts d)"
    unfolding rows by (rule account_ids_map) (use account_change in simp)
  have "table_ok ac_id ac_email ac_id (ac_id ` set (accounts d)) rows"
    unfolding rows by (rule table_ok_map) (use account_change in \<open>simp_all add: db_inv_def Let_def\<close>)
  then show ?case using account_change.prems unfolding d' by (simp add: db_inv_def Let_def ids)
next
  case (device_change i f d d' v e)
  then obtain rows where d': "d' = d\<lparr>devices := rows\<rparr>" and rows: "rows = map (\<lambda>q. if dv_device_id q = i then f q else q) (devices d)"
    by (auto simp: update_device_def map_ok_eq_Inr dest!: update_row_Ok)
  show ?case
    unfolding d'
  proof (rule db_inv_devices [OF device_change.prems])
    show "table_ok dv_device_id dv_device_id dv_account_id (account_ids d) rows"
      unfolding rows by (rule table_ok_map [OF db_inv_tables(2) [OF device_change.prems]])
        (simp_all add: device_change.hyps(4))
    show "list_all known_features rows"
      using db_inv_tables(6) [OF device_change.prems] device_change.hyps(4)
      unfolding rows by (auto simp: list_all_iff)
  qed
next
  case (new_device v d d')
  obtain rows where d': "d' = d\<lparr>devices := rows\<rparr>" and ins: "rows = devices d @ [v]"
    "insert_row dv_device_id (\<lambda>_. None) v (devices d) = Ok rows" "dv_account_id v \<in> account_ids d"
    using insert_device_Ok [OF new_device.hyps(1)] by auto
  show ?case
    unfolding d'
  proof (rule db_inv_devices [OF new_device.prems])
    show "table_ok dv_device_id dv_device_id dv_account_id (account_ids d) rows"
      by (rule table_ok_insert_pk [OF db_inv_tables(2) [OF new_device.prems] ins(2,3)])
    show "list_all known_features rows"
      using db_inv_tables(6) [OF new_device.prems] new_device.hyps(3) by (simp add: ins(1))
  qed
next
  case (revoke r now d d' q)
  then obtain rows where d': "d' = d\<lparr>refresh_tokens := rows\<rparr>"
    and rows: "rows = map (\<lambda>q. if rt_id q = rt_id r then q\<lparr>rt_revoked_at := Some now\<rparr> else q) (refresh_tokens d)"
    by (auto simp: update_refresh_def map_ok_eq_Inr dest!: update_row_Ok)
  show ?case
    unfolding d' rows
    by (rule db_inv_refresh [OF revoke.prems], rule table_ok_map [OF db_inv_tables(5) [OF revoke.prems]]) simp_all
next
  case (new_token r d d')
  then show ?case using insert_refresh_Ok [OF new_token.hyps(1)]
    by (auto intro!: db_inv_refresh table_ok_insert [OF db_inv_tables(5)])
next
  case (new_recovery r d d')
  then show ?case using insert_recovery_Ok [OF new_recovery.hyps(1)]
    by (auto intro!: db_inv_recovery table_ok_insert [OF db_inv_tables(4)])
next
  case (new_pairing r d d')
  then show ?case using insert_pairing_Ok [OF new_pairing.hyps(1)]
    by (auto intro!: db_inv_pairing table_ok_insert [OF db_inv_tables(3)])
next
  case (revoke_all d' d now)
  then show ?case
    by (auto simp: update_many_def intro!: db_inv_refresh table_ok_map [OF db_inv_tables(5)])
next
  case (use_recovery d' d P now)
  then show ?case
    by (auto simp: update_many_def intro!: db_inv_recovery table_ok_map [OF db_inv_tables(4)])
next
  case (drop_recovery d' d)
  then show ?case
    by (auto intro!: db_inv_recovery table_ok_filter [OF db_inv_tables(4)])
next
  case (use_pairing d' d p now)
  then show ?case
    by (auto simp: update_many_def intro!: db_inv_pairing table_ok_map [OF db_inv_tables(3)])
qed

lemma db_inv_steps: "(db_step a)\<^sup>*\<^sup>* d d' \<Longrightarrow> db_inv d \<Longrightarrow> db_inv d'"
  by (induction rule: rtranclp_induct) (auto intro: db_inv_step)

section \<open>Isolation of accounts\<close>

text \<open>Everything in the tables that belongs to accounts other than \<open>a\<close>.\<close>

definition others :: "uuid \<Rightarrow> db \<Rightarrow> db" where
  "others a d = \<lparr>accounts = filter (\<lambda>r. ac_id r \<noteq> a) (accounts d),
     devices = filter (\<lambda>r. dv_account_id r \<noteq> a) (devices d),
     pairing_codes = filter (\<lambda>r. pc_account_id r \<noteq> a) (pairing_codes d),
     recovery_codes = filter (\<lambda>r. rc_account_id r \<noteq> a) (recovery_codes d),
     refresh_tokens = filter (\<lambda>r. rt_account_id r \<noteq> a) (refresh_tokens d)\<rparr>"

lemma distinct_key_eq: "distinct (map k xs) \<Longrightarrow> x \<in> set xs \<Longrightarrow> y \<in> set xs \<Longrightarrow> k x = k y \<Longrightarrow> x = y"
  by (auto simp: distinct_map inj_on_def)

lemma others_step: "db_step a d d' \<Longrightarrow> db_inv d \<Longrightarrow> others a d' = others a d"
proof (induction rule: db_step.induct)
  case (new_account r d d')
  then show ?case by (auto simp: insert_account_def map_ok_eq_Inr insert_row_Ok others_def)
next
  case (account_change f d d' r)
  then have "d' = d\<lparr>accounts := map (\<lambda>q. if ac_id q = a then f q else q) (accounts d)\<rparr>"
    by (auto simp: update_account_def map_ok_eq_Inr dest!: update_row_Ok)
  then show ?case using account_change.hyps(2) by (simp add: others_def filter_keep)
next
  case (device_change i f d d' v e)
  then have d': "d' = d\<lparr>devices := map (\<lambda>q. if dv_device_id q = i then f q else q) (devices d)\<rparr>"
    by (auto simp: update_device_def map_ok_eq_Inr dest!: update_row_Ok)
  have "dv_account_id q = a" if "q \<in> set (devices d)" "dv_device_id q = i" for q
    using distinct_key_eq [of dv_device_id "devices d" q e] that device_change.hyps(2,3) device_change.prems
    by (auto simp: table_ok_def dest!: db_inv_tables(2) find_device_id)
  then show ?case using device_change.hyps(4) unfolding d' by (simp add: others_def filter_keep)
next
  case (revoke r now d d' q)
  then have d': "d' = d\<lparr>refresh_tokens := map (\<lambda>q. if rt_id q = rt_id r then q\<lparr>rt_revoked_at := Some now\<rparr> else q) (refresh_tokens d)\<rparr>"
    by (auto simp: update_refresh_def map_ok_eq_Inr dest!: update_row_Ok)
  have "rt_account_id q = a" if "q \<in> set (refresh_tokens d)" "rt_id q = rt_id r" for q
    using distinct_key_eq [of rt_id "refresh_tokens d" q r] that revoke.hyps(2,3) revoke.prems
    by (auto simp: table_ok_def dest!: db_inv_tables(5))
  then show ?case unfolding d' by (simp add: others_def filter_keep)
next
  case (use_pairing d' p now d)
  have "pc_account_id q = a" if "q \<in> set (pairing_codes d)" "pc_id q = pc_id p" for q
    using distinct_key_eq [of pc_id "pairing_codes d" q p] that use_pairing.hyps(2,3) use_pairing.prems
    by (auto simp: table_ok_def dest!: db_inv_tables(3))
  then show ?case unfolding use_pairing.hyps(1) by (auto simp: others_def update_many_def intro!: filter_keep)
next
  case (revoke_all d' d now)
  then show ?case by (auto simp: others_def update_many_def intro!: filter_keep)
next
  case (use_recovery d' d P now)
  then show ?case by (auto simp: others_def update_many_def intro!: filter_keep)
qed (auto simp: others_def dest!: insert_device_Ok insert_refresh_Ok insert_recovery_Ok insert_pairing_Ok)

lemma others_steps: "(db_step a)\<^sup>*\<^sup>* d d' \<Longrightarrow> db_inv d \<Longrightarrow> others a d' = others a d"
  by (induction rule: rtranclp_induct) (auto simp: others_step db_inv_steps)

section \<open>Marks that stay\<close>

definition token_revoked :: "string \<Rightarrow> db \<Rightarrow> bool" where
  "token_revoked h d \<longleftrightarrow> list_ex (\<lambda>r. rt_token_hash r = h \<and> rt_revoked_at r \<noteq> None) (refresh_tokens d)"

definition pairing_used :: "string \<Rightarrow> db \<Rightarrow> bool" where
  "pairing_used c d \<longleftrightarrow> list_ex (\<lambda>p. pc_code p = c \<and> pc_used_at p \<noteq> None) (pairing_codes d)"

lemma list_ex_keep:
  "list_ex P rows \<Longrightarrow> (\<And>q. P q \<Longrightarrow> C q \<Longrightarrow> P (f q)) \<Longrightarrow> list_ex P (map (\<lambda>q. if C q then f q else q) rows)"
  by (induction rows) auto

lemma token_revoked_step: "db_step a d d' \<Longrightarrow> token_revoked h d \<Longrightarrow> token_revoked h d'"
proof (induction rule: db_step.induct)
  case (revoke r now d d' q)
  then show ?case
    by (auto simp: token_revoked_def update_refresh_def map_ok_eq_Inr intro!: list_ex_keep dest!: update_row_Ok)
next
  case (revoke_all d' d now)
  then show ?case by (auto simp: token_revoked_def update_many_def intro!: list_ex_keep)
qed (auto simp: token_revoked_def statement_defs map_ok_eq_Inr insert_row_Ok split: if_splits)

lemma token_revoked_steps: "(db_step a)\<^sup>*\<^sup>* d d' \<Longrightarrow> token_revoked h d \<Longrightarrow> token_revoked h d'"
  by (induction rule: rtranclp_induct) (auto intro: token_revoked_step)

lemma pairing_used_step: "db_step a d d' \<Longrightarrow> pairing_used c d \<Longrightarrow> pairing_used c d'"
proof (induction rule: db_step.induct)
  case (use_pairing d' p now d)
  then show ?case by (auto simp: pairing_used_def update_many_def intro!: list_ex_keep)
qed (auto simp: pairing_used_def statement_defs map_ok_eq_Inr insert_row_Ok split: if_splits)

lemma pairing_used_steps: "(db_step a)\<^sup>*\<^sup>* d d' \<Longrightarrow> pairing_used c d \<Longrightarrow> pairing_used c d'"
  by (induction rule: rtranclp_induct) (auto intro: pairing_used_step)

text \<open>Under the unique columns the row a lookup finds is the marked one.\<close>

lemma find_token_revoked:
  "db_inv d \<Longrightarrow> token_revoked (hash_token cx raw) d \<Longrightarrow> find_token cx raw d = Some r \<Longrightarrow> rt_revoked_at r \<noteq> None"
  using distinct_key_eq [of rt_token_hash "refresh_tokens d" r]
  by (auto simp: token_revoked_def list_ex_iff table_ok_def dest!: db_inv_tables(5) find_token_hash)

lemma find_pairing_used:
  "db_inv d \<Longrightarrow> pairing_used c d \<Longrightarrow> find_pairing c d = Some p \<Longrightarrow> pc_used_at p \<noteq> None"
  using distinct_key_eq [of pc_code "pairing_codes d" _ p]
  by (fastforce simp: pairing_used_def list_ex_iff table_ok_def dest!: db_inv_tables(3) find_pairing_code)

lemma find_device_features:
  "db_inv d \<Longrightarrow> find_device i d = Some v \<Longrightarrow> known_features v"
  by (auto simp: list_all_iff dest!: db_inv_tables(6) find_device_id)

end
