(* ===== verification/Rate_Limit.thy ===== *)
theory Rate_Limit
  imports Server_Db
begin

text \<open>
  The request limiter of the server (\<open>failsafe-server/src/rate_limit.rs\<close>): per key the instants of
  the requests it let through within the window.
\<close>

record rate_limiter =
  rl_max_requests :: nat
  rl_window :: int
  rl_entries :: "string \<Rightarrow> instant list"

definition rate_limiter_new :: "nat \<Rightarrow> int \<Rightarrow> rate_limiter" where
  "rate_limiter_new n w = \<lparr>rl_max_requests = n, rl_window = w, rl_entries = (\<lambda>_. [])\<rparr>"

text \<open>\<open>now.duration_since(t)\<close> is zero when \<open>t\<close> is later.\<close>

definition allow :: "instant \<Rightarrow> string \<Rightarrow> rate_limiter \<Rightarrow> rate_limiter \<times> bool" where
  "allow now key l =
     (let history = filter (\<lambda>t. max 0 (now - t) < rl_window l) (rl_entries l key) in
      if rl_max_requests l \<le> length history
      then (l\<lparr>rl_entries := (rl_entries l)(key := history)\<rparr>, False)
      else (l\<lparr>rl_entries := (rl_entries l)(key := history @ [now])\<rparr>, True))"

text \<open>A run of the limiter: the instants it let through for \<open>key\<close>, in order.\<close>

fun admitted :: "(instant \<times> string) list \<Rightarrow> string \<Rightarrow> rate_limiter \<Rightarrow> instant list" where
  "admitted [] key l = []"
| "admitted ((now, k) # calls) key l =
     (case allow now k l of (l', ok) \<Rightarrow>
       (if ok \<and> k = key then now # admitted calls key l' else admitted calls key l'))"

lemma allow_config [simp]:
  "rl_max_requests (fst (allow now k l)) = rl_max_requests l" "rl_window (fst (allow now k l)) = rl_window l"
  by (simp_all add: allow_def Let_def)

lemma allow_other: "k \<noteq> key \<Longrightarrow> rl_entries (fst (allow now k l)) key = rl_entries l key"
  by (auto simp: allow_def Let_def)

text \<open>
  What the history must hold after the instants \<open>past\<close> were let through: all of them that a
  request from now on can still see.
\<close>

definition remembers :: "instant \<Rightarrow> instant list \<Rightarrow> string \<Rightarrow> rate_limiter \<Rightarrow> bool" where
  "remembers now past key l \<longleftrightarrow>
     (\<forall>t. now \<le> t \<longrightarrow> filter (\<lambda>u. t - u < rl_window l) (rl_entries l key) =
        filter (\<lambda>u. t - u < rl_window l) past) \<and>
     (\<forall>u \<in> set past \<union> set (rl_entries l key). u \<le> now)"

lemma remembers_mono: "remembers now past key l \<Longrightarrow> now \<le> now' \<Longrightarrow> remembers now' past key l"
  unfolding remembers_def by (meson order_trans)

lemma remembers_allow:
  assumes r: "remembers now past key l" and w: "0 < rl_window l"
  shows "remembers now (if snd (allow now k l) \<and> k = key then past @ [now] else past) key (fst (allow now k l))"
proof (cases "k = key")
  case True
  define h where "h = filter (\<lambda>t. max 0 (now - t) < rl_window l) (rl_entries l key)"
  have h: "h = filter (\<lambda>u. now - u < rl_window l) (rl_entries l key)"
    unfolding h_def by (rule filter_cong) (use w in auto)
  have later: "filter (\<lambda>u. t - u < rl_window l) h = filter (\<lambda>u. t - u < rl_window l) past" if "now \<le> t" for t
  proof -
    have "filter (\<lambda>u. t - u < rl_window l) h = filter (\<lambda>u. t - u < rl_window l) (rl_entries l key)"
      unfolding h filter_filter by (rule filter_cong) (use that in auto)
    with r that show ?thesis by (simp add: remembers_def)
  qed
  have old: "\<forall>u \<in> set past \<union> set h. u \<le> now" using r by (auto simp: remembers_def h)
  have a: "allow now k l = (if rl_max_requests l \<le> length h then (l\<lparr>rl_entries := (rl_entries l)(key := h)\<rparr>, False)
      else (l\<lparr>rl_entries := (rl_entries l)(key := h @ [now])\<rparr>, True))"
    by (simp add: allow_def h_def True)
  show ?thesis
    unfolding a using later old True by (auto simp: remembers_def)
next
  case False
  then show ?thesis using r by (simp add: remembers_def allow_other)
qed

lemma allowed_room:
  assumes r: "remembers now past key l" and w: "0 < rl_window l" and ok: "snd (allow now key l)"
  shows "length (filter (\<lambda>u. now - u < rl_window l) (past @ [now])) \<le> rl_max_requests l"
proof -
  have "filter (\<lambda>t. max 0 (now - t) < rl_window l) (rl_entries l key) =
      filter (\<lambda>u. now - u < rl_window l) (rl_entries l key)"
    by (rule filter_cong) (use w in auto)
  also have "\<dots> = filter (\<lambda>u. now - u < rl_window l) past" using r by (simp add: remembers_def)
  finally show ?thesis using ok by (auto simp: allow_def Let_def split: if_splits)
qed

lemma admitted_window:
  assumes "remembers now past key l" "0 < rl_window l" "sorted (now # map fst calls)"
    "\<And>t. length (filter (\<lambda>u. t - rl_window l < u \<and> u \<le> t) past) \<le> rl_max_requests l"
  shows "length (filter (\<lambda>u. t - rl_window l < u \<and> u \<le> t) (past @ admitted calls key l)) \<le> rl_max_requests l"
  using assms
proof (induction calls arbitrary: now past l)
  case (Cons c calls)
  obtain now' k where c: "c = (now', k)" by (cases c)
  let ?l = "fst (allow now' k l)" and ?ok = "snd (allow now' k l) \<and> k = key"
  let ?past = "if ?ok then past @ [now'] else past"
  have r: "remembers now' past key l" using remembers_mono [OF Cons.prems(1)] Cons.prems(3) by (simp add: c)
  have room: "length (filter (\<lambda>u. t - rl_window l < u \<and> u \<le> t) ?past) \<le> rl_max_requests l" for t
  proof (cases ?ok)
    case True
    show ?thesis
    proof (cases "t - rl_window l < now' \<and> now' \<le> t")
      case inside: True
      have "length (filter (\<lambda>u. t - rl_window l < u \<and> u \<le> t) (past @ [now'])) \<le>
          length (filter (\<lambda>u. now' - u < rl_window l) (past @ [now']))"
        using inside by (induction past) auto
      also have "\<dots> \<le> rl_max_requests l" by (rule allowed_room [OF r Cons.prems(2)]) (use True in auto)
      finally show ?thesis using True by simp
    next
      case False
      then show ?thesis using Cons.prems(4) [of t] True by auto
    qed
  next
    case False
    then show ?thesis using Cons.prems(4) [of t] by auto
  qed
  have "length (filter (\<lambda>u. t - rl_window ?l < u \<and> u \<le> t) (?past @ admitted calls key ?l)) \<le> rl_max_requests ?l"
    by (rule Cons.IH [OF remembers_allow [OF r Cons.prems(2)]]) (use Cons.prems room in \<open>auto simp: c\<close>)
  moreover have "?past @ admitted calls key ?l = past @ admitted (c # calls) key l"
    by (auto simp: c split: prod.split)
  ultimately show ?case by (simp del: admitted.simps)
qed simp

text \<open>
  C26. The limiter keeps its bound: with a clock that does not run backwards, among any sequence
  of requests, on any keys, no half-open interval of the length of the window contains more than
  \<open>max_requests\<close> requests let through for one key.
\<close>

theorem rate_limit_window:
  assumes "0 < w" "sorted (map fst calls)"
  shows "length (filter (\<lambda>u. t - w < u \<and> u \<le> t) (admitted calls key (rate_limiter_new n w))) \<le> n"
proof (cases calls)
  case (Cons c cs)
  have "remembers (fst c) [] key (rate_limiter_new n w)"
    by (simp add: remembers_def rate_limiter_new_def)
  then show ?thesis
    using admitted_window [of "fst c" "[]" key "rate_limiter_new n w" calls t] assms Cons
    by (simp add: rate_limiter_new_def)
qed simp

lemma rate_limit_window_witness:
  "length (filter (\<lambda>u. 12 - 10 < u \<and> u \<le> 12)
     (admitted [(1, ''a''), (2, ''a''), (3, ''a''), (12, ''a''), (12, ''a''), (12, ''a'')] ''a''
       (rate_limiter_new 2 10))) \<le> 2 \<and>
   admitted [(1, ''a''), (2, ''a''), (3, ''a''), (12, ''a''), (12, ''a''), (12, ''a'')] ''a''
       (rate_limiter_new 2 10) = [1, 2, 12, 12]"
  using rate_limit_window [of 10 "[(1, ''a''), (2, ''a''), (3, ''a''), (12, ''a''), (12, ''a''), (12, ''a'')]" 12 "''a''" 2]
  by (simp add: allow_def Let_def rate_limiter_new_def)

end
