(* ===== verification/Server.thy ===== *)
theory Server
  imports Server_Inv Rate_Limit
begin

text \<open>
  The server as a whole (\<open>failsafe-server/src/lib.rs\<close>, \<open>middleware.rs\<close>, \<open>error.rs\<close>): requests as
  data, the authentication layer, the rate limits, the answers; and the properties of the server,
  over any sequence of requests.
\<close>

section \<open>Requests and answers\<close>

datatype public_request =
    Register string string
  | Login string string
  | LoginMfa string string
  | Refresh string
  | Logout string
  | ListFeatures
  | Redeem string "device_upsert_request option"
  | Health

datatype account_request =
    Me
  | ChangePassword string string
  | TotpSetup
  | TotpEnable string
  | TotpDisable string string
  | ListDevices
  | UpsertDevice uuid device_upsert_request
  | PatchDevice uuid device_patch_request
  | DeleteDevice uuid
  | HeartbeatDevice uuid
  | CreatePairingCode

text \<open>A request to a protected route comes with the text of its \<open>Authorization\<close> header, if any.\<close>

datatype request = Public public_request | Account "string option" account_request

datatype payload =
    NoBody
  | TextBody string
  | AuthBody auth_response
  | AccountBody string bool
  | TotpBody string string
  | CodesBody "string list"
  | DeviceBody device_info
  | DevicesBody "device_info list"
  | PairingBody string string
  | FeaturesBody "feature_info list"
  | ErrorBody string

definition reply :: "('a \<Rightarrow> nat \<times> payload) \<Rightarrow> 'a response \<Rightarrow> server \<times> nat \<times> payload" where
  "reply ok r = (case r of
     (s, Ok v) \<Rightarrow> (s, ok v)
   | (s, Err e) \<Rightarrow> (s, fst (into_response e), ErrorBody (snd (into_response e))))"

definition require_auth :: "server_ctx \<Rightarrow> instant \<Rightarrow> string option \<Rightarrow> server \<Rightarrow> account_id response" where
  "require_auth cx now header s =
     require (ok_or header Unauthorized) s (\<lambda>h.
     require (ok_or (strip_prefix ''Bearer '' h) Unauthorized) s (\<lambda>token.
     require (jwt_validate cx now token) s (\<lambda>account.
     query s (\<lambda>s1. if find_account (account_uuid account) (sv_db s1) = None then (s1, Err Unauthorized)
       else (s1, Ok account)))))"

fun serve_account :: "server_ctx \<Rightarrow> inputs \<Rightarrow> account_id \<Rightarrow> account_request \<Rightarrow> server \<Rightarrow> server \<times> nat \<times> payload" where
  "serve_account cx inp a Me s = reply (\<lambda>(e, t). (200, AccountBody e t)) (me a s)"
| "serve_account cx inp a (ChangePassword cur new) s = reply (\<lambda>_. (204, NoBody)) (change_password cx inp a cur new s)"
| "serve_account cx inp a TotpSetup s = reply (\<lambda>(u, k). (200, TotpBody u k)) (totp_setup cx inp a s)"
| "serve_account cx inp a (TotpEnable code) s = reply (\<lambda>cs. (200, CodesBody cs)) (totp_enable cx inp a code s)"
| "serve_account cx inp a (TotpDisable pw code) s = reply (\<lambda>_. (204, NoBody)) (totp_disable cx inp a pw code s)"
| "serve_account cx inp a ListDevices s = reply (\<lambda>ds. (200, DevicesBody ds)) (list_devices cx inp a s)"
| "serve_account cx inp a (UpsertDevice i r) s = reply (\<lambda>d. (200, DeviceBody d)) (upsert_device cx inp a i r s)"
| "serve_account cx inp a (PatchDevice i r) s = reply (\<lambda>d. (200, DeviceBody d)) (patch_device cx inp a i r s)"
| "serve_account cx inp a (DeleteDevice i) s = reply (\<lambda>_. (200, NoBody)) (delete_device inp a i s)"
| "serve_account cx inp a (HeartbeatDevice i) s = reply (\<lambda>d. (200, DeviceBody d)) (heartbeat_device cx inp a i s)"
| "serve_account cx inp a CreatePairingCode s = reply (\<lambda>(c, e). (200, PairingBody c e)) (create_pairing_code cx inp a s)"

fun serve_public :: "server_ctx \<Rightarrow> inputs \<Rightarrow> public_request \<Rightarrow> server \<Rightarrow> server \<times> nat \<times> payload" where
  "serve_public cx inp (Register email pw) s = reply (\<lambda>r. (200, AuthBody r)) (register cx inp email pw s)"
| "serve_public cx inp (Login email pw) s = reply (\<lambda>r. (200, AuthBody r)) (login cx inp email pw s)"
| "serve_public cx inp (LoginMfa t code) s = reply (\<lambda>r. (200, AuthBody r)) (login_mfa cx inp t code s)"
| "serve_public cx inp (Refresh t) s = reply (\<lambda>r. (200, AuthBody r)) (refresh cx inp t s)"
| "serve_public cx inp (Logout t) s = reply (\<lambda>_. (204, NoBody)) (logout cx inp t s)"
| "serve_public cx inp ListFeatures s = (s, 200, FeaturesBody catalog)"
| "serve_public cx inp (Redeem code dev) s = reply (\<lambda>r. (200, AuthBody r)) (redeem_pairing_code cx inp code dev s)"
| "serve_public cx inp Health s = (s, 200, TextBody ''ok'')"

text \<open>The limited routes: which limiter, and the path it counts.\<close>

datatype which_limiter = LoginLimiter | PairingLimiter

fun limited :: "public_request \<Rightarrow> (which_limiter \<times> string) option" where
  "limited (Register _ _) = Some (LoginLimiter, ''/register'')"
| "limited (Login _ _) = Some (LoginLimiter, ''/login'')"
| "limited (LoginMfa _ _) = Some (LoginLimiter, ''/login/mfa'')"
| "limited (Refresh _) = Some (LoginLimiter, ''/refresh'')"
| "limited (Logout _) = Some (LoginLimiter, ''/logout'')"
| "limited (Redeem _ _) = Some (PairingLimiter, ''/redeem'')"
| "limited _ = None"

record app =
  ap_server :: server
  ap_login_limiter :: rate_limiter
  ap_pairing_limiter :: rate_limiter

definition app_from_parts :: "string option list \<Rightarrow> app" where
  "app_from_parts faults =
     \<lparr>ap_server = \<lparr>sv_db = \<lparr>accounts = [], devices = [], pairing_codes = [], recovery_codes = [], refresh_tokens = []\<rparr>,
        sv_faults = faults\<rparr>,
      ap_login_limiter = rate_limiter_new 20 (seconds 60),
      ap_pairing_limiter = rate_limiter_new 10 (seconds 60)\<rparr>"

definition rate_limit :: "instant \<Rightarrow> public_request \<Rightarrow> app \<Rightarrow> app \<times> bool" where
  "rate_limit tick r ap = (case limited r of
     None \<Rightarrow> (ap, True)
   | Some (LoginLimiter, path) \<Rightarrow> (case allow tick path (ap_login_limiter ap) of
       (l, ok) \<Rightarrow> (ap\<lparr>ap_login_limiter := l\<rparr>, ok))
   | Some (PairingLimiter, path) \<Rightarrow> (case allow tick path (ap_pairing_limiter ap) of
       (l, ok) \<Rightarrow> (ap\<lparr>ap_pairing_limiter := l\<rparr>, ok)))"

definition serve :: "server_ctx \<Rightarrow> inputs \<Rightarrow> instant \<Rightarrow> request \<Rightarrow> app \<Rightarrow> app \<times> nat \<times> payload" where
  "serve cx inp tick req ap = (case req of
     Public r \<Rightarrow> (case rate_limit tick r ap of
       (ap', True) \<Rightarrow> (case serve_public cx inp r (ap_server ap') of (s, ans) \<Rightarrow> (ap'\<lparr>ap_server := s\<rparr>, ans))
     | (ap', False) \<Rightarrow> (ap', 429, ErrorBody ''rate limit exceeded''))
   | Account header r \<Rightarrow> (case require_auth cx (in_now inp 9) header (ap_server ap) of
       (s, Err e) \<Rightarrow> (ap\<lparr>ap_server := s\<rparr>, fst (into_response e), ErrorBody (snd (into_response e)))
     | (s, Ok account) \<Rightarrow> (case serve_account cx inp account r s of (s', ans) \<Rightarrow> (ap\<lparr>ap_server := s'\<rparr>, ans))))"

text \<open>One request, with any inputs and clock.\<close>

inductive server_step :: "server_ctx \<Rightarrow> app \<Rightarrow> app \<Rightarrow> bool" for cx where
  "serve cx inp tick req ap = (ap', ans) \<Longrightarrow> server_step cx ap ap'"

section \<open>Requests as sequences of changes\<close>

abbreviation tables :: "app \<Rightarrow> db" where "tables ap \<equiv> sv_db (ap_server ap)"

lemma reply_db [simp]: "sv_db (fst (reply ok r)) = sv_db (fst r)"
  by (simp add: reply_def split: prod.split sum.split)

lemma within_db: "within a d0 r \<Longrightarrow> (db_step a)\<^sup>*\<^sup>* d0 (sv_db (fst r))"
  by (simp add: within_def holds_def)

lemma within_me: "within a (sv_db s) (me b s)"
  unfolding me_def by (auto intro!: within_load_account)

lemma serve_account_steps:
  "(db_step (account_uuid a))\<^sup>*\<^sup>* (sv_db s) (sv_db (fst (serve_account cx inp a r s)))"
  by (cases r) (simp_all add: within_db within_me within_change_password within_totp_setup within_totp_enable
      within_totp_disable within_list_devices within_upsert_device within_patch_device within_delete_device
      within_heartbeat_device within_create_pairing)

lemma require_auth_spec:
  "holds (\<lambda>d r. d = sv_db s \<and> (\<forall>a. r = Ok a \<longrightarrow> (\<exists>t. header = Some (''Bearer '' @ t) \<and> jwt_validate cx now t = Ok a) \<and>
      account_uuid a \<in> account_ids (sv_db s))) (require_auth cx now header s)"
  unfolding require_auth_def
  by (intro holds_require holds_query) (auto simp: strip_prefix_Some dest!: find_account_id intro: rev_image_eqI)

text \<open>The account a public request acts for, when it gets to act.\<close>

definition acting :: "server_ctx \<Rightarrow> inputs \<Rightarrow> public_request \<Rightarrow> db \<Rightarrow> uuid" where
  "acting cx inp r d = (case r of
     Register _ _ \<Rightarrow> in_uuid inp 0
   | Login email _ \<Rightarrow> (case find_email (to_lowercase (cx_ext cx) (trim email)) d of Some a \<Rightarrow> ac_id a | None \<Rightarrow> 0)
   | LoginMfa t _ \<Rightarrow> (case validate_mfa_pending cx (in_now inp 0) (trim t) of Ok a \<Rightarrow> account_uuid a | Err _ \<Rightarrow> 0)
   | Refresh t \<Rightarrow> (case find_token cx (trim t) d of Some k \<Rightarrow> rt_account_id k | None \<Rightarrow> 0)
   | Logout t \<Rightarrow> (case find_token cx (trim t) d of Some k \<Rightarrow> rt_account_id k | None \<Rightarrow> 0)
   | Redeem code _ \<Rightarrow> (case normalize_code (cx_ext cx) code of None \<Rightarrow> 0
       | Some c \<Rightarrow> (case find_pairing c d of Some p \<Rightarrow> pc_account_id p | None \<Rightarrow> 0))
   | _ \<Rightarrow> 0)"

lemma holds_idle: "holds (\<lambda>d _. d = d0) r \<Longrightarrow> sv_db (fst r) = d0"
  by (simp add: holds_def)

lemma login_unknown: "find_email (to_lowercase (cx_ext cx) (trim e)) (sv_db s) = None \<Longrightarrow>
    sv_db (fst (login cx inp e pw s)) = sv_db s"
  unfolding login_def by (rule holds_idle) (auto intro!: holds_query simp: require_def)

lemma login_mfa_invalid: "validate_mfa_pending cx (in_now inp 0) (trim t) = Err e \<Longrightarrow>
    sv_db (fst (login_mfa cx inp t code s)) = sv_db s"
  by (simp add: login_mfa_def require_def)

lemma rotate_unknown:
  assumes "find_token cx raw (sv_db s) = None"
  shows "sv_db (fst (rotate_token cx inp raw s)) = sv_db s"
  unfolding rotate_token_def rotate_in_transaction_def
  by (rule holds_idle, rule holds_transaction)
    (use assms in \<open>auto intro!: holds_bind [OF find_valid_spec]\<close>)

lemma logout_unknown: "find_token cx (trim raw) (sv_db s) = None \<Longrightarrow>
    sv_db (fst (logout cx inp raw s)) = sv_db s"
  unfolding logout_def logout_token_def by (rule holds_idle) (auto intro!: holds_query)

lemma redeem_unknown:
  assumes "find_pairing c (sv_db s) = None"
  shows "holds (\<lambda>d r. d = sv_db s \<and> \<not> is_ok r) (transaction s (redeem_in_transaction cx inp c dev))"
  unfolding redeem_in_transaction_def
  by (rule holds_transaction) (use assms in \<open>auto intro!: holds_query simp: require_def\<close>)

lemma serve_public_steps:
  "(db_step (acting cx inp r (sv_db s)))\<^sup>*\<^sup>* (sv_db s) (sv_db (fst (serve_public cx inp r s)))"
proof (cases r)
  case (Register e pw)
  then show ?thesis by (simp add: acting_def within_db within_register)
next
  case (Login e pw)
  then show ?thesis
    by (cases "find_email (to_lowercase (cx_ext cx) (trim e)) (sv_db s)")
      (simp_all add: acting_def within_db within_login login_unknown)
next
  case (LoginMfa t code)
  then show ?thesis
    by (cases "validate_mfa_pending cx (in_now inp 0) (trim t)")
      (simp_all add: acting_def within_db within_login_mfa login_mfa_invalid)
next
  case (Refresh t)
  then show ?thesis
    by (cases "find_token cx (trim t) (sv_db s)")
      (simp_all add: acting_def refresh_def within_db within_rotate rotate_unknown)
next
  case (Logout t)
  then show ?thesis
    by (cases "find_token cx (trim t) (sv_db s)")
      (simp_all add: acting_def within_db within_logout logout_unknown)
next
  case (Redeem code dev)
  show ?thesis
  proof (cases "normalize_code (cx_ext cx) code")
    case None
    then show ?thesis by (simp add: Redeem redeem_pairing_code_def require_def)
  next
    case (Some c)
    show ?thesis
    proof (cases "find_pairing c (sv_db s)")
      case None
      have "holds (\<lambda>d _. d = sv_db s) (redeem_pairing_code cx inp code dev s)"
        unfolding redeem_pairing_code_def Some ok_or_simps require_def sum.case
        by (rule holds_bind [OF redeem_unknown [OF None]]) auto
      then show ?thesis by (simp add: Redeem holds_idle)
    next
      case p: (Some p)
      then show ?thesis using within_db [OF within_redeem [OF Some p]] by (simp add: Redeem acting_def Some)
    qed
  qed
qed simp_all

section \<open>Consistency over every run\<close>

lemma serve_tables:
  "\<exists>a. (db_step a)\<^sup>*\<^sup>* (tables ap) (tables (fst (serve cx inp tick req ap)))"
proof (cases req)
  case (Public r)
  obtain ap' ok where rl: "rate_limit tick r ap = (ap', ok)" by (cases "rate_limit tick r ap")
  have "ap_server ap' = ap_server ap"
    using rl by (auto simp: rate_limit_def split: option.splits prod.splits which_limiter.splits)
  then show ?thesis using serve_public_steps [of cx inp r "ap_server ap"]
    by (cases ok) (auto simp: serve_def Public rl split: prod.split)
next
  case (Account header r)
  obtain s res where ra: "require_auth cx (in_now inp 9) header (ap_server ap) = (s, res)"
    by (cases "require_auth cx (in_now inp 9) header (ap_server ap)")
  have "sv_db s = tables ap" using require_auth_spec [of "ap_server ap" header cx "in_now inp 9"] by (simp add: ra)
  then show ?thesis
  proof (cases res)
    case (Inr a)
    show ?thesis using serve_account_steps [of a s cx inp r] \<open>sv_db s = tables ap\<close>
      by (auto simp: serve_def Account ra Inr split: prod.split)
  qed (auto simp: serve_def Account ra)
qed

lemma server_step_tables: "server_step cx ap ap' \<Longrightarrow> \<exists>a. (db_step a)\<^sup>*\<^sup>* (tables ap) (tables ap')"
  by (auto elim!: server_step.cases) (metis fst_conv serve_tables)

lemma server_run_inv: "(server_step cx)\<^sup>*\<^sup>* ap ap' \<Longrightarrow> db_inv (tables ap) \<Longrightarrow> db_inv (tables ap')"
  by (induction rule: rtranclp_induct) (auto dest!: server_step_tables intro: db_inv_steps)

lemma server_run_revoked: "(server_step cx)\<^sup>*\<^sup>* ap ap' \<Longrightarrow> token_revoked h (tables ap) \<Longrightarrow> token_revoked h (tables ap')"
  by (induction rule: rtranclp_induct) (auto dest!: server_step_tables intro: token_revoked_steps)

lemma server_run_used: "(server_step cx)\<^sup>*\<^sup>* ap ap' \<Longrightarrow> pairing_used c (tables ap) \<Longrightarrow> pairing_used c (tables ap')"
  by (induction rule: rtranclp_induct) (auto dest!: server_step_tables intro: pairing_used_steps)

lemma app_inv: "db_inv (tables (app_from_parts faults))"
  by (simp add: app_from_parts_def db_inv_def table_ok_def)

text \<open>
  C17. From a fresh database, after any sequence of requests with any failing statements, keys,
  emails, pairing codes, recovery codes and token hashes are unique, every device, code and token
  belongs to an existing account, and every device lists only features of the catalog; so turning
  a stored device into its answer never fails.
\<close>

theorem tables_consistent:
  assumes "(server_step cx)\<^sup>*\<^sup>* (app_from_parts faults) ap"
  shows "db_inv (tables ap) \<and> (\<forall>v \<in> set (devices (tables ap)). is_ok (model_to_info cx' now v))"
proof -
  have inv: "db_inv (tables ap)" by (rule server_run_inv [OF assms app_inv])
  have "is_ok (model_to_info cx' now v)" if "v \<in> set (devices (tables ap))" for v
  proof -
    have "known_features v" using db_inv_tables(6) [OF inv] that by (simp add: list_all_iff)
    then obtain fs where "dv_enabled_features v = Ok fs" by (auto simp: known_features_def split: sum.splits)
    then show ?thesis by (simp add: model_to_info_def)
  qed
  with inv show ?thesis by blast
qed

lemma tables_consistent_witness:
  "\<forall>cx inp tick. db_inv (tables (fst (serve cx inp tick (Public (Register ''a@b'' ''password'')) (app_from_parts []))))"
proof (intro allI)
  fix cx inp tick
  have "(server_step cx)\<^sup>*\<^sup>* (app_from_parts [])
      (fst (serve cx inp tick (Public (Register ''a@b'' ''password'')) (app_from_parts [])))"
    by (rule r_into_rtranclp, rule server_step.intros) (rule prod.collapse [symmetric])
  from tables_consistent [OF this]
  show "db_inv (tables (fst (serve cx inp tick (Public (Register ''a@b'' ''password'')) (app_from_parts []))))"
    by blast
qed

section \<open>Sessions\<close>

lemma exec_revoke_marks:
  "update_refresh (rt_id r) (\<lambda>q. q\<lparr>rt_revoked_at := Some now\<rparr>) d = Ok (d', q) \<Longrightarrow> r \<in> set (refresh_tokens d) \<Longrightarrow>
   token_revoked (rt_token_hash r) d'"
  unfolding token_revoked_def list_ex_iff
  by (rule bexI [of _ "r\<lparr>rt_revoked_at := Some now\<rparr>"])
    (auto simp: update_refresh_def map_ok_eq_Inr dest!: update_row_Ok)

lemma rotate_marks:
  "holds (\<lambda>d r. is_ok r \<longrightarrow> token_revoked (hash_token cx raw) d) (rotate_token cx inp raw s)"
  unfolding rotate_token_def
proof (rule holds_transaction)
  fix s' :: server
  assume s': "sv_db s' = sv_db s"
  have revoke: "holds (\<lambda>d r. is_ok r \<longrightarrow> token_revoked (hash_token cx raw) d) (revoke_record now r t)"
    if "find_token cx raw (sv_db t) = Some r" for now r t
    unfolding revoke_record_def using find_token_hash [OF that]
    by (auto intro!: holds_exec dest: exec_revoke_marks)
  show "holds (\<lambda>d r. is_ok r \<longrightarrow> is_ok r \<longrightarrow> token_revoked (hash_token cx raw) d) (rotate_in_transaction cx inp raw s')"
    unfolding rotate_in_transaction_def Let_def
    by (auto intro!: holds_bind [OF find_valid_spec] holds_bind [OF revoke] holds_insert holds_require
        intro: token_revoked_step [OF new_token])
qed simp

lemma revoked_rejected:
  assumes "db_inv (sv_db s)" "token_revoked (hash_token cx raw) (sv_db s)"
  shows "holds (\<lambda>d r. d = sv_db s \<and> \<not> is_ok r) (rotate_token cx inp raw s)"
  unfolding rotate_token_def rotate_in_transaction_def
  by (rule holds_transaction)
    (use assms in \<open>auto intro!: holds_bind [OF find_valid_spec] dest!: find_token_revoked\<close>)

lemma rotate_tables: "\<exists>a. (db_step a)\<^sup>*\<^sup>* (sv_db s) (sv_db (fst (rotate_token cx inp raw s)))"
  by (cases "find_token cx raw (sv_db s)") (auto dest: within_db [OF within_rotate] simp: rotate_unknown)

text \<open>
  C18. A refresh token is good for one rotation. Once a rotation of it has succeeded, no later
  request to rotate it succeeds, whatever requests of anyone lie between, and the refused
  attempt changes nothing.
\<close>

theorem refresh_token_single_use:
  assumes inv: "db_inv (tables ap)" and ok: "rotate_token cx inp raw (ap_server ap) = (ap_server ap1, Ok resp)"
    and run: "(server_step cx)\<^sup>*\<^sup>* ap1 ap2"
  shows "\<exists>s e. rotate_token cx inp' raw (ap_server ap2) = (s, Err e) \<and> sv_db s = tables ap2"
proof -
  have "db_inv (tables ap1)"
    using rotate_tables [of "ap_server ap" cx inp raw] inv ok by (auto dest: db_inv_steps)
  then have inv2: "db_inv (tables ap2)" by (rule server_run_inv [OF run])
  have "token_revoked (hash_token cx raw) (tables ap1)"
    using rotate_marks [of cx raw inp "ap_server ap"] ok by simp
  then have "token_revoked (hash_token cx raw) (tables ap2)" by (rule server_run_revoked [OF run])
  from revoked_rejected [OF inv2 this, of inp'] show ?thesis
    by (cases "rotate_token cx inp' raw (ap_server ap2)"; cases "snd (rotate_token cx inp' raw (ap_server ap2))") auto
qed

section \<open>A concrete server\<close>

text \<open>UUIDs are shown in decimal here.\<close>

definition sample_server_ext :: ext where
  "sample_server_ext = \<lparr>uuid_display = (\<lambda>u. show_nat (unat u)), uuid_parse = parse_word,
     unicode_lower = id, unicode_upper = id\<rparr>"

definition sample_inputs :: "nat \<Rightarrow> inputs" where
  "sample_inputs k = \<lparr>in_now = (\<lambda>n. 1000 * int k + int n), in_uuid = (\<lambda>n. of_nat (100 * k + n)),
     in_bytes = (\<lambda>n. [of_nat k, of_nat n]), in_salt = ''salt'', in_nonce = replicate 12 58,
     in_draw = (\<lambda>n. of_nat (k + n)), in_totp_secret = ''totp''\<rparr>"

text \<open>Stand-ins for the cryptographic crates, for evaluating the model on an example.\<close>

definition sample_cx :: server_ctx where
  "sample_cx = \<lparr>cx_ext = sample_server_ext, cx_jwt_secret = ''s'', cx_encryption_key = ''k'',
     cx_jwt_encode = (\<lambda>_ c. Ok ((case cl_mfa_pending c of Some True \<Rightarrow> ''m'' | Some False \<Rightarrow> ''f'' | None \<Rightarrow> ''a'') @ cl_sub c)),
     cx_jwt_decode = (\<lambda>_ _ t. case t of c # sub \<Rightarrow> Some \<lparr>cl_sub = sub, cl_exp = 0, cl_iat = 0,
        cl_mfa_pending = (if c = CHR ''m'' then Some True else if c = CHR ''f'' then Some False else None)\<rparr> | [] \<Rightarrow> None),
     cx_argon_hash = (\<lambda>_ pw. Some pw), cx_argon_parse = (\<lambda>_. True), cx_argon_verify = (=),
     cx_sha256 = map (\<lambda>c. of_nat (byte_of c)), cx_base64 = map (\<lambda>b. char_of (unat b)),
     cx_unbase64 = (\<lambda>s. Some (map (\<lambda>c. of_nat (byte_of c)) s)),
     cx_aes_seal = (\<lambda>_ _ p. Some (map (\<lambda>c. of_nat (byte_of c)) p)), cx_aes_open = (\<lambda>_ _ c. Some c),
     cx_from_utf8 = (\<lambda>b. Some (map (\<lambda>b. char_of (unat b)) b)),
     cx_totp_bytes = (\<lambda>s. Some (map (\<lambda>c. of_nat (byte_of c)) s)), cx_totp_accepts = (\<lambda>_ _. True),
     cx_totp_url = (\<lambda>_ e. e), cx_totp_check = (\<lambda>_ _ code. Some (code = ''123456'')),
     cx_rfc3339 = (\<lambda>t. show_nat (nat t))\<rparr>"

definition sample_account :: account_row where
  "sample_account = \<lparr>ac_id = 1, ac_email = ''a@b'', ac_password_hash = ''password'', ac_totp_secret = None,
     ac_totp_enabled = False, ac_created_at = 0\<rparr>"

definition sample_token :: refresh_row where
  "sample_token = \<lparr>rt_id = 7, rt_account_id = 1, rt_token_hash = hash_token sample_cx ''t'',
     rt_expires_at = 100000, rt_revoked_at = None, rt_created_at = 0\<rparr>"

definition sample_app :: app where
  "sample_app = (app_from_parts [])\<lparr>ap_server := \<lparr>sv_db = \<lparr>accounts = [sample_account], devices = [],
     pairing_codes = [], recovery_codes = [], refresh_tokens = [sample_token]\<rparr>, sv_faults = []\<rparr>\<rparr>"

lemma sample_app_inv: "db_inv (tables sample_app)"
  by (simp add: sample_app_def db_inv_def table_ok_def sample_account_def sample_token_def)

lemma sample_rotate:
  "rotate_token sample_cx (sample_inputs 2) ''t'' (ap_server sample_app) =
     (fst (rotate_token sample_cx (sample_inputs 2) ''t'' (ap_server sample_app)),
      Ok (auth_authenticated ''a1'' ''0202''))"
  by code_simp

lemma refresh_token_single_use_witness:
  "\<exists>s e. rotate_token sample_cx (sample_inputs 3) ''t''
      (fst (rotate_token sample_cx (sample_inputs 2) ''t'' (ap_server sample_app))) = (s, Err e)"
proof -
  let ?ap1 = "sample_app\<lparr>ap_server := fst (rotate_token sample_cx (sample_inputs 2) ''t'' (ap_server sample_app))\<rparr>"
  have ok: "rotate_token sample_cx (sample_inputs 2) ''t'' (ap_server sample_app) =
      (ap_server ?ap1, Ok (auth_authenticated ''a1'' ''0202''))"
    using sample_rotate by simp
  show ?thesis
    using refresh_token_single_use [OF sample_app_inv ok rtranclp.rtrancl_refl, of "sample_inputs 3"] by auto
qed

section \<open>Password change\<close>

definition all_revoked :: "uuid \<Rightarrow> db \<Rightarrow> bool" where
  "all_revoked a d \<longleftrightarrow> list_all (\<lambda>t. rt_account_id t = a \<longrightarrow> rt_revoked_at t \<noteq> None) (refresh_tokens d)"

lemma revoke_all_spec:
  "holds (\<lambda>d r. is_ok r \<longrightarrow> all_revoked (account_uuid a) d \<and> accounts d = accounts (sv_db s))
     (revoke_all_for_account now a s)"
  unfolding revoke_all_for_account_def
  by (rule holds_exec_db) (auto simp: update_many_def all_revoked_def list_all_iff)

lemma update_account_find:
  "update_account i f d = Ok (d', r) \<Longrightarrow> (\<And>q. ac_id (f q) = ac_id q) \<Longrightarrow>
   find_account i d' = map_option f (find_account i d)"
proof -
  assume u: "update_account i f d = Ok (d', r)" and f: "\<And>q. ac_id (f q) = ac_id q"
  have "List.find (\<lambda>a. ac_id a = i) (map (\<lambda>q. if ac_id q = i then f q else q) rows) =
      map_option f (List.find (\<lambda>a. ac_id a = i) rows)" for rows
    by (induction rows) (auto simp: f)
  with u show ?thesis by (auto simp: update_account_def map_ok_eq_Inr find_account_def dest!: update_row_Ok)
qed

lemma change_password_spec:
  "holds (\<lambda>d r. if is_ok r then all_revoked (account_uuid a) d \<and> (\<exists>row h. find_account (account_uuid a) (sv_db s) = Some row \<and>
        verify_password cx cur (ac_password_hash row) = Ok () \<and> hash_password cx (in_salt inp) new = Ok h \<and>
        find_account (account_uuid a) d = Some (row\<lparr>ac_password_hash := h\<rparr>))
     else d = sv_db s) (change_password cx inp a cur new s)"
proof -
  have txn: "holds (\<lambda>d r. if is_ok r then all_revoked (account_uuid a) d \<and>
        find_account (account_uuid a) d = Some (row\<lparr>ac_password_hash := h\<rparr>) else d = sv_db t)
     (transaction t (\<lambda>t. exec (update_account (ac_id row) (\<lambda>r. r\<lparr>ac_password_hash := h\<rparr>)) t
        (\<lambda>t1 _. revoke_all_for_account now a t1)))"
    if "find_account (account_uuid a) (sv_db t) = Some row" "ac_id row = account_uuid a" for t row h now
  proof (rule holds_transaction)
    fix s' :: server
    assume "sv_db s' = sv_db t"
    then show "holds (\<lambda>d r. is_ok r \<longrightarrow> (if is_ok r then all_revoked (account_uuid a) d \<and>
        find_account (account_uuid a) d = Some (row\<lparr>ac_password_hash := h\<rparr>) else d = sv_db t))
      (exec (update_account (ac_id row) (\<lambda>r. r\<lparr>ac_password_hash := h\<rparr>)) s' (\<lambda>t1 _. revoke_all_for_account now a t1))"
      using that
      by (auto intro!: holds_exec holds_mono [OF revoke_all_spec] dest!: update_account_find simp: find_account_def)
  qed simp
  show ?thesis
    unfolding change_password_def
    by (auto intro!: holds_require holds_bind [OF load_account_spec] holds_mono [OF txn] split: if_splits)
qed

text \<open>
  C21. A password change is all or nothing. When it succeeds, the current password was right, the
  account has the new password's hash and every refresh token of the account is revoked; when it
  fails, at whatever statement, the tables are as before. Other accounts are untouched either way.
\<close>

theorem change_password_atomic:
  assumes "db_inv (sv_db s)" "change_password cx inp a cur new s = (s', r)"
  shows "others (account_uuid a) (sv_db s') = others (account_uuid a) (sv_db s) \<and>
    (case r of
       Err e \<Rightarrow> sv_db s' = sv_db s
     | Ok _ \<Rightarrow> all_revoked (account_uuid a) (sv_db s') \<and>
         (\<exists>row h. find_account (account_uuid a) (sv_db s) = Some row \<and>
            verify_password cx cur (ac_password_hash row) = Ok () \<and> hash_password cx (in_salt inp) new = Ok h \<and>
            find_account (account_uuid a) (sv_db s') = Some (row\<lparr>ac_password_hash := h\<rparr>)))"
  using change_password_spec [of a s cx cur inp new] within_change_password [of a s cx inp cur new] assms
  by (auto simp: within_def others_steps split: sum.split)

lemma change_password_atomic_witness:
  "all_revoked 1 (sv_db (fst (change_password sample_cx (sample_inputs 2) (AccountId 1) ''password'' ''new password''
     (ap_server sample_app))))"
proof -
  have r: "change_password sample_cx (sample_inputs 2) (AccountId 1) ''password'' ''new password'' (ap_server sample_app) =
      (fst (change_password sample_cx (sample_inputs 2) (AccountId 1) ''password'' ''new password'' (ap_server sample_app)), Ok ())"
    by code_simp
  show ?thesis using change_password_atomic [OF sample_app_inv r] by simp
qed

section \<open>Second factor\<close>

text \<open>
  What is relied on of the JWT crate: a token that was just encoded decodes, within its lifetime,
  to the claims that were encoded.
\<close>

definition jwt_roundtrip :: "server_ctx \<Rightarrow> bool" where
  "jwt_roundtrip cx \<longleftrightarrow> (\<forall>c token now. cx_jwt_encode cx (cx_jwt_secret cx) c = Ok token \<longrightarrow> unix_now now \<le> cl_exp c \<longrightarrow>
     (\<exists>c'. cx_jwt_decode cx (cx_jwt_secret cx) now token = Some c' \<and> cl_sub c' = cl_sub c \<and>
        cl_mfa_pending c' = cl_mfa_pending c))"

lemma mfa_token_no_access:
  assumes "jwt_roundtrip cx" "issue_mfa_pending cx now a = Ok token" "unix_now later \<le> unix_now now + MFA_TOKEN_TTL"
  shows "jwt_validate cx later token = Err (Auth InvalidToken)"
  using assms by (force simp: jwt_roundtrip_def issue_mfa_pending_def issue_with_ttl_def jwt_validate_def)

lemma login_totp_spec:
  assumes "find_email (to_lowercase (cx_ext cx) (trim email)) (sv_db s) = Some row" "ac_totp_enabled row"
  shows "holds (\<lambda>d r. d = sv_db s \<and> (\<forall>resp. r = Ok resp \<longrightarrow> (\<exists>token.
      issue_mfa_pending cx (in_now inp 0) (AccountId (ac_id row)) = Ok token \<and>
      verify_password cx password (ac_password_hash row) = Ok () \<and>
      resp = auth_mfa_required token))) (login cx inp email password s)"
  unfolding login_def
  by (intro holds_query holds_require) (use assms in \<open>auto simp: require_def split: sum.split\<close>)

text \<open>
  C22. For an account with two-factor authentication a password alone gives no session: a
  successful login writes nothing, carries neither access nor refresh token, and the pending token
  it carries is refused wherever an access token is asked for.
\<close>

theorem password_alone_gives_no_session:
  assumes "jwt_roundtrip cx"
    and "find_email (to_lowercase (cx_ext cx) (trim email)) (sv_db s) = Some row" "ac_totp_enabled row"
    and "login cx inp email password s = (s', Ok resp)"
  shows "sv_db s' = sv_db s \<and> ar_token resp = None \<and> ar_refresh_token resp = None \<and>
    (\<exists>token. ar_mfa_token resp = Some token \<and>
      (\<forall>now t. unix_now now \<le> unix_now (in_now inp 0) + MFA_TOKEN_TTL \<longrightarrow>
         snd (require_auth cx now (Some (''Bearer '' @ token)) t) = Err (Auth InvalidToken)))"
proof -
  obtain token where db: "sv_db s' = sv_db s" and i: "issue_mfa_pending cx (in_now inp 0) (AccountId (ac_id row)) = Ok token"
    and resp: "resp = auth_mfa_required token"
    using login_totp_spec [OF assms(2,3), of inp password] assms(4) by auto
  have "snd (require_auth cx now (Some (''Bearer '' @ token)) t) = Err (Auth InvalidToken)"
    if "unix_now now \<le> unix_now (in_now inp 0) + MFA_TOKEN_TTL" for now t
    using mfa_token_no_access [OF assms(1) i that]
    by (simp add: require_auth_def require_def strip_prefix_append del: append_Cons append.simps strip_prefix.simps)
  with db resp show ?thesis by (simp add: auth_mfa_required_def)
qed

end
