(* ===== verification/Server_Pairing.thy ===== *)
theory Server_Pairing
  imports Server
begin

text \<open>
  Properties of pairing codes: a code pairs once, and a redemption is all or nothing.
\<close>

section \<open>Pairing codes\<close>

lemma redeem_marks:
  "holds (\<lambda>d r. is_ok r \<longrightarrow> pairing_used c d) (redeem_in_transaction cx inp c dev s)"
proof -
  have upd: "pairing_used c d'"
    if "(case update_many (\<lambda>q. pc_id q = pc_id p \<and> pc_used_at q = None)
          (\<lambda>q. q\<lparr>pc_used_at := Some now\<rparr>) (pairing_codes d) of (rows, n) \<Rightarrow> Ok (d\<lparr>pairing_codes := rows\<rparr>, n)) = Ok (d', n)"
      "p \<in> set (pairing_codes d)" "pc_code p = c" for d d' n p now
  proof (cases "pc_used_at p")
    case None
    with that show ?thesis
      unfolding pairing_used_def list_ex_iff
      by (intro bexI [of _ "p\<lparr>pc_used_at := Some now\<rparr>"]) (auto simp: update_many_def)
  next
    case (Some t)
    with that show ?thesis
      unfolding pairing_used_def list_ex_iff by (intro bexI [of _ p]) (auto simp: update_many_def)
  qed
  have reg: "holds (\<lambda>d _. pairing_codes d = pairing_codes (sv_db t))
      (case dev of None \<Rightarrow> (t, Ok ()) | Some r \<Rightarrow> bind_resp (register_device inp 1 a r Pairing t) (\<lambda>t2 _. (t2, Ok ())))" for t a
    by (cases dev) (auto intro!: holds_bind [OF register_device_pairing])
  show ?thesis
    unfolding redeem_in_transaction_def Let_def
    by (intro holds_query holds_require) (auto dest!: find_pairing_code intro!: holds_bind [OF reg] holds_exec dest: upd)
qed

lemma used_code_rejected:
  assumes "db_inv (sv_db s)" "pairing_used c (sv_db s)" "normalize_code (cx_ext cx) code = Some c"
  shows "holds (\<lambda>d r. d = sv_db s \<and> \<not> is_ok r) (redeem_pairing_code cx inp code dev s)"
proof -
  have "holds (\<lambda>d r. d = sv_db s \<and> \<not> is_ok r) (transaction s (redeem_in_transaction cx inp c dev))"
    unfolding redeem_in_transaction_def
    by (rule holds_transaction)
      (use assms(1,2) in \<open>auto intro!: holds_query holds_require dest: find_pairing_used\<close>)
  then show ?thesis
    unfolding redeem_pairing_code_def assms(3) ok_or_simps require_def sum.case
    by (rule holds_bind) auto
qed

lemma redeem_used:
  assumes "normalize_code (cx_ext cx) code = Some c"
  shows "holds (\<lambda>d r. is_ok r \<longrightarrow> pairing_used c d) (redeem_pairing_code cx inp code dev s)"
proof -
  have issue: "holds (\<lambda>d r. pairing_used c d) (issue_auth_response cx inp 3 a t)" if "pairing_used c (sv_db t)" for a t
    using that within_issue_auth [of a "sv_db t" t cx inp 3]
    by (auto simp: within_def holds_def intro: pairing_used_steps)
  have "holds (\<lambda>d r. is_ok r \<longrightarrow> pairing_used c d) (transaction s (redeem_in_transaction cx inp c dev))"
    by (rule holds_transaction) (auto intro: holds_mono [OF redeem_marks])
  then show ?thesis
    unfolding redeem_pairing_code_def assms ok_or_simps require_def sum.case
    by (rule holds_bind) (auto intro: holds_mono [OF issue])
qed

text \<open>
  C24. A pairing code pairs once: after a redemption succeeded, any later redemption of the code, in
  any spelling that normalises to it, is refused and changes nothing, whatever happened between.
\<close>

theorem pairing_code_single_use:
  assumes "db_inv (tables ap)" "normalize_code (cx_ext cx) code = Some c" "normalize_code (cx_ext cx) code' = Some c"
    and "redeem_pairing_code cx inp code dev (ap_server ap) = (ap_server ap1, Ok resp)"
    and "(server_step cx)\<^sup>*\<^sup>* ap1 ap2"
  shows "\<exists>s e. redeem_pairing_code cx inp' code' dev' (ap_server ap2) = (s, Err e) \<and> sv_db s = tables ap2"
proof -
  have "\<exists>a. (db_step a)\<^sup>*\<^sup>* (tables ap) (tables ap1)"
    using serve_public_steps [of cx inp "Redeem code dev" "ap_server ap"] assms(4) by auto
  then have "db_inv (tables ap1)" using assms(1) by (auto intro: db_inv_steps)
  then have inv2: "db_inv (tables ap2)" by (rule server_run_inv [OF assms(5)])
  have "pairing_used c (tables ap1)" using redeem_used [OF assms(2), of inp dev "ap_server ap"] assms(4) by simp
  then have "pairing_used c (tables ap2)" by (rule server_run_used [OF assms(5)])
  from used_code_rejected [OF inv2 this assms(3), of inp' dev'] show ?thesis
    by (cases "redeem_pairing_code cx inp' code' dev' (ap_server ap2)";
        cases "snd (redeem_pairing_code cx inp' code' dev' (ap_server ap2))") auto
qed

definition pairing_app :: app where
  "pairing_app = (app_from_parts [])\<lparr>ap_server := \<lparr>sv_db = \<lparr>accounts = [sample_account], devices = [],
     pairing_codes = [\<lparr>pc_id = 3, pc_account_id = 1, pc_code = ''12345678'', pc_expires_at = 100000,
       pc_used_at = None, pc_created_at = 0\<rparr>], recovery_codes = [], refresh_tokens = []\<rparr>, sv_faults = []\<rparr>\<rparr>"

lemma pairing_code_single_use_witness:
  "\<exists>s e. redeem_pairing_code sample_cx (sample_inputs 3) '' 12345678'' None
      (fst (redeem_pairing_code sample_cx (sample_inputs 2) ''12345678'' None (ap_server pairing_app))) = (s, Err e)"
proof -
  let ?s1 = "fst (redeem_pairing_code sample_cx (sample_inputs 2) ''12345678'' None (ap_server pairing_app))"
  let ?ap1 = "pairing_app\<lparr>ap_server := ?s1\<rparr>"
  have inv: "db_inv (tables pairing_app)"
    by (simp add: pairing_app_def db_inv_def table_ok_def sample_account_def)
  have "redeem_pairing_code sample_cx (sample_inputs 2) ''12345678'' None (ap_server pairing_app) =
      (?s1, Ok (auth_authenticated ''a1'' ''0204''))" by code_simp
  then have ok: "redeem_pairing_code sample_cx (sample_inputs 2) ''12345678'' None (ap_server pairing_app) =
      (ap_server ?ap1, Ok (auth_authenticated ''a1'' ''0204''))" by simp
  have n: "normalize_code (cx_ext sample_cx) ''12345678'' = Some ''12345678''"
    "normalize_code (cx_ext sample_cx) '' 12345678'' = Some ''12345678''" by code_simp+
  show ?thesis
    using pairing_code_single_use [OF inv n ok rtranclp.rtrancl_refl, of "sample_inputs 3" None] by auto
qed

section \<open>What registration leaves\<close>

lemma update_row_find:
  "update_row pk i f rows = Ok (rows', r) \<Longrightarrow> (\<And>q. pk (f q) = pk q) \<Longrightarrow>
   List.find (\<lambda>q. pk q = i) rows' = Some r \<and> (\<exists>q. List.find (\<lambda>q. pk q = i) rows = Some q \<and> r = f q)"
proof -
  assume u: "update_row pk i f rows = Ok (rows', r)" and f: "\<And>q. pk (f q) = pk q"
  have "List.find (\<lambda>q. pk q = i) (map (\<lambda>q. if pk q = i then f q else q) rs) = map_option f (List.find (\<lambda>q. pk q = i) rs)" for rs
    by (induction rs) (auto simp: f)
  with u show ?thesis by (auto simp: update_row_def split: option.splits)
qed

lemma update_device_find:
  "update_device i f d = Ok (d', v) \<Longrightarrow> (\<And>q. dv_device_id (f q) = dv_device_id q) \<Longrightarrow>
   find_device i d' = Some v \<and> (\<exists>e. find_device i d = Some e \<and> v = f e)"
  by (auto simp: update_device_def map_ok_eq_Inr find_device_def dest!: update_row_find)

lemma insert_device_find: "insert_device v d = Ok d' \<Longrightarrow> find_device (dv_device_id v) d' = Some v"
proof -
  assume "insert_device v d = Ok d'"
  then have d': "devices d' = devices d @ [v]" and new: "dv_device_id v \<notin> dv_device_id ` set (devices d)"
    by (auto simp: insert_row_Ok dest!: insert_device_Ok)
  have "List.find (\<lambda>q. dv_device_id q = i) (vs @ [w]) = Some w"
    if "i \<notin> dv_device_id ` set vs" "dv_device_id w = i" for vs w i
    using that by (induction vs) auto
  from this [OF new refl] show ?thesis by (simp add: find_device_def d')
qed

text \<open>The device a registration leaves: active, of the acting account, with the new key.\<close>

definition registered :: "account_id \<Rightarrow> device_upsert_request \<Rightarrow> db \<Rightarrow> bool" where
  "registered a r d = (case find_device (device_uuid (du_device_id r)) d of None \<Rightarrow> False
     | Some v \<Rightarrow> dv_account_id v = account_uuid a \<and> dv_deleted_at v = None \<and>
         dv_iroh_public_key v = trim (du_iroh_public_key r))"

lemma register_device_registered:
  "holds (\<lambda>d res. is_ok res \<longrightarrow> registered a r d) (register_device inp n a r mode s)"
  unfolding register_device_def Let_def
  by (auto split: option.split register_device_mode.split intro!: holds_query holds_require holds_exec holds_insert
      dest!: update_device_find insert_device_find simp: registered_def)

lemma issue_auth_devices:
  "holds (\<lambda>d _. devices d = devices (sv_db s) \<and> pairing_codes d = pairing_codes (sv_db s)) (issue_auth_response cx inp n a s)"
proof -
  have keep: "holds (\<lambda>d _. devices d = devices (sv_db s) \<and> pairing_codes d = pairing_codes (sv_db s)) (issue_refresh cx inp m a s)" for m
    unfolding issue_refresh_def Let_def by (rule holds_insert) (auto dest!: insert_refresh_Ok)
  show ?thesis
    unfolding issue_auth_response_def by (intro holds_require holds_bind [OF keep]) simp_all
qed

definition device_done :: "account_id \<Rightarrow> device_upsert_request option \<Rightarrow> db \<Rightarrow> bool" where
  "device_done a dev d \<longleftrightarrow> (case dev of None \<Rightarrow> True | Some r \<Rightarrow> registered a r d)"

lemma device_done_cong: "devices d' = devices d \<Longrightarrow> device_done a dev d' = device_done a dev d"
  by (cases dev) (simp_all add: device_done_def registered_def find_device_def)

definition redeemed :: "string \<Rightarrow> instant \<Rightarrow> device_upsert_request option \<Rightarrow> db \<Rightarrow> db \<Rightarrow> bool" where
  "redeemed c now dev d d' \<longleftrightarrow> (\<exists>p. find_pairing c d = Some p \<and> now \<le> pc_expires_at p \<and> pc_used_at p = None \<and>
     pairing_used c d' \<and> device_done (AccountId (pc_account_id p)) dev d')"

lemma redeem_in_transaction_redeemed:
  "holds (\<lambda>d r. is_ok r \<longrightarrow> redeemed c (in_now inp 0) dev (sv_db s) d) (redeem_in_transaction cx inp c dev s)"
proof -
  let ?Q = "\<lambda>d r. is_ok r \<longrightarrow> (\<exists>p. find_pairing c (sv_db s) = Some p \<and> in_now inp 0 \<le> pc_expires_at p \<and>
      pc_used_at p = None \<and> device_done (AccountId (pc_account_id p)) dev d)"
  have reg: "holds (\<lambda>d res. is_ok res \<longrightarrow> device_done a dev d)
      (case dev of None \<Rightarrow> (t, Ok ()) | Some r \<Rightarrow> bind_resp (register_device inp 1 a r Pairing t) (\<lambda>t2 _. (t2, Ok ())))" for t a
    by (cases dev) (auto simp: device_done_def intro!: holds_bind [OF register_device_registered])
  have spend: "holds (\<lambda>d r. is_ok r \<longrightarrow> device_done a dev d)
      (exec (\<lambda>d. case update_many P f (pairing_codes d) of (rows, n) \<Rightarrow> Ok (d\<lparr>pairing_codes := rows\<rparr>, n)) t
        (\<lambda>t3 n. if n = 0 then (t3, Err e) else (t3, Ok v)))"
    if "device_done a dev (sv_db t)" for P f t a e and v :: account_id
    by (rule holds_exec_db) (use that in \<open>auto simp: update_many_def intro: iffD2 [OF device_done_cong]\<close>)
  have tail: "holds (\<lambda>d r. is_ok r \<longrightarrow> device_done a dev d)
      (bind_resp (case dev of None \<Rightarrow> (t, Ok ()) | Some r \<Rightarrow> bind_resp (register_device inp 1 a r Pairing t) (\<lambda>t2 _. (t2, Ok ())))
        (\<lambda>t2 _. exec (\<lambda>d. case update_many P f (pairing_codes d) of (rows, n) \<Rightarrow> Ok (d\<lparr>pairing_codes := rows\<rparr>, n)) t2
          (\<lambda>t3 n. if n = 0 then (t3, Err e) else (t3, Ok v))))" for P f t a e and v :: account_id
    by (rule holds_bind [OF reg]) (simp_all add: spend)
  have "holds ?Q (redeem_in_transaction cx inp c dev s)"
    unfolding redeem_in_transaction_def Let_def
    by (intro holds_query holds_require) (auto intro!: holds_mono [OF tail])
  with redeem_marks [of c cx inp dev s] show ?thesis
    by (auto simp: holds_def redeemed_def)
qed

text \<open>
  C19. A redemption is all or nothing. Either the tables are as before, or the code existed, was
  neither expired nor spent, is spent now, and the device of the request, if it carried one, is
  registered, active and under the account of the code. A success is always the latter.
\<close>

theorem redeem_all_or_nothing:
  assumes "normalize_code (cx_ext cx) code = Some c" "redeem_pairing_code cx inp code dev s = (s', r)"
  shows "(sv_db s' = sv_db s \<and> \<not> is_ok r) \<or> redeemed c (in_now inp 0) dev (sv_db s) (sv_db s')"
proof -
  have "holds (\<lambda>d r. if is_ok r then redeemed c (in_now inp 0) dev (sv_db s) d else d = sv_db s)
      (transaction s (redeem_in_transaction cx inp c dev))"
    by (rule holds_transaction) (auto intro: holds_mono [OF redeem_in_transaction_redeemed])
  then have "holds (\<lambda>d r. (d = sv_db s \<and> \<not> is_ok r) \<or> redeemed c (in_now inp 0) dev (sv_db s) d)
      (redeem_pairing_code cx inp code dev s)"
    unfolding redeem_pairing_code_def assms(1) ok_or_simps require_def sum.case
  proof (rule holds_bind)
    fix t :: server and v
    assume "if is_ok (Ok v :: (server_error, account_id) result) then redeemed c (in_now inp 0) dev (sv_db s) (sv_db t)
      else sv_db t = sv_db s"
    then show "holds (\<lambda>d r. (d = sv_db s \<and> \<not> is_ok r) \<or> redeemed c (in_now inp 0) dev (sv_db s) d)
        (issue_auth_response cx inp 3 v t)"
      by (auto intro!: holds_mono [OF issue_auth_devices]
          simp: redeemed_def pairing_used_def intro: iffD2 [OF device_done_cong])
  qed simp
  then show ?thesis using assms(2) by simp
qed

lemma redeem_all_or_nothing_witness:
  "pairing_used ''12345678''
     (sv_db (fst (redeem_pairing_code sample_cx (sample_inputs 2) ''12345678'' None (ap_server pairing_app))))"
proof -
  have n: "normalize_code (cx_ext sample_cx) ''12345678'' = Some ''12345678''" by code_simp
  have "redeem_pairing_code sample_cx (sample_inputs 2) ''12345678'' None (ap_server pairing_app) =
      (fst (redeem_pairing_code sample_cx (sample_inputs 2) ''12345678'' None (ap_server pairing_app)),
       Ok (auth_authenticated ''a1'' ''0204''))" by code_simp
  from redeem_all_or_nothing [OF n this] show ?thesis by (auto simp: redeemed_def)
qed

end
