(* ===== verification/Server_Access.thy ===== *)
theory Server_Access
  imports Server_Pairing
begin

text \<open>
  Who can do what: isolation of accounts on the protected routes, the server's authority over a
  device's policy, removed devices, and what the answers to failures reveal.
\<close>

section \<open>Isolation\<close>

lemma list_devices_own:
  "holds (\<lambda>d r. \<forall>ds. r = Ok ds \<longrightarrow> (\<forall>i \<in> set ds. \<exists>v \<in> set (devices (sv_db s)).
      DeviceId (dv_device_id v) = di_device_id i \<and> dv_account_id v = account_uuid a \<and> dv_deleted_at v = None))
     (list_devices cx inp a s)"
proof -
  have "di_device_id i = DeviceId (dv_device_id v)" if "model_to_info cx now v = Ok i" for now v i
    using that by (auto simp: model_to_info_def and_then_eq_Inr)
  then show ?thesis
    unfolding list_devices_def by (intro holds_query) (fastforce dest!: collect_res_set)+
qed

text \<open>
  C20. Accounts are isolated. A request to a protected route either changes nothing, or carries a
  bearer token the JWT service accepts as an access token of an existing account; then everything
  that belongs to other accounts stays exactly as it was, and a list of devices names only active
  devices of that account.
\<close>

theorem accounts_isolated:
  assumes inv: "db_inv (tables ap)"
    and req: "serve cx inp tick (Account header r) ap = (ap', status, body)"
  shows "(tables ap' = tables ap \<and> status \<noteq> 200 \<and> status \<noteq> 204) \<or>
    (\<exists>token a. header = Some (''Bearer '' @ token) \<and> jwt_validate cx (in_now inp 9) token = Ok a \<and>
       account_uuid a \<in> account_ids (tables ap) \<and>
       others (account_uuid a) (tables ap') = others (account_uuid a) (tables ap) \<and>
       (\<forall>ds. body = DevicesBody ds \<longrightarrow> (\<forall>i \<in> set ds. \<exists>v \<in> set (devices (tables ap)).
          DeviceId (dv_device_id v) = di_device_id i \<and> dv_account_id v = account_uuid a \<and> dv_deleted_at v = None)))"
proof -
  obtain s res where ra: "require_auth cx (in_now inp 9) header (ap_server ap) = (s, res)"
    by (cases "require_auth cx (in_now inp 9) header (ap_server ap)")
  note spec = require_auth_spec [of "ap_server ap" header cx "in_now inp 9", unfolded ra]
  show ?thesis
  proof (cases res)
    case (Inl e)
    have "fst (into_response e) \<noteq> 200 \<and> fst (into_response e) \<noteq> 204"
      by (cases e rule: into_response.cases) simp_all
    then show ?thesis using req spec by (auto simp: serve_def ra Inl)
  next
    case (Inr a)
    obtain s' ans where sa: "serve_account cx inp a r s = (s', ans)" by (cases "serve_account cx inp a r s")
    have ap': "tables ap' = sv_db s'" and body: "ans = (status, body)" using req by (auto simp: serve_def ra Inr sa)
    have "(db_step (account_uuid a))\<^sup>*\<^sup>* (sv_db s) (sv_db s')"
      using serve_account_steps [of a s cx inp r] by (simp add: sa)
    then have iso: "others (account_uuid a) (tables ap') = others (account_uuid a) (tables ap)"
      using inv spec unfolding ap' by (simp add: others_steps)
    have "\<exists>v \<in> set (devices (tables ap)). DeviceId (dv_device_id v) = di_device_id i \<and>
        dv_account_id v = account_uuid a \<and> dv_deleted_at v = None"
      if b: "body = DevicesBody ds" and i: "i \<in> set ds" for ds i
    proof -
      have "r = ListDevices" using sa b body
        by (cases r) (auto simp: reply_def split: prod.splits sum.splits)
      then have "\<exists>t. list_devices cx inp a s = (t, Ok ds)"
        using sa b body by (auto simp: reply_def split: prod.splits sum.splits)
      with list_devices_own [of s a cx inp] i spec show ?thesis by auto
    qed
    with iso show ?thesis using spec Inr by auto
  qed
qed

definition access_app :: app where
  "access_app = sample_app\<lparr>ap_server := \<lparr>sv_db = (sv_db (ap_server sample_app))\<lparr>devices := [\<lparr>dv_device_id = 5,
     dv_account_id = 1, dv_name = ''laptop'', dv_iroh_public_key = ''k'', dv_enabled_features = Ok [],
     dv_last_seen = None, dv_created_at = 0, dv_deleted_at = None\<rparr>]\<rparr>, sv_faults = []\<rparr>\<rparr>"

lemma access_app_inv: "db_inv (tables access_app)"
  by (simp add: access_app_def sample_app_def db_inv_def table_ok_def sample_account_def sample_token_def known_features_def)

lemma accounts_isolated_witness:
  "\<exists>ap' status body. serve sample_cx (sample_inputs 1) 0 (Account (Some ''Basic x'') ListDevices) access_app = (ap', status, body) \<and>
     tables ap' = tables access_app"
proof -
  let ?r = "serve sample_cx (sample_inputs 1) 0 (Account (Some ''Basic x'') ListDevices) access_app"
  have r: "?r = (fst ?r, fst (snd ?r), snd (snd ?r))" by simp
  from accounts_isolated [OF access_app_inv r] have "tables (fst ?r) = tables access_app" by auto
  with r show ?thesis by blast
qed

section \<open>Policy\<close>

text \<open>What the server decides about a device.\<close>

definition policy :: "device_row \<Rightarrow> uuid \<times> uuid \<times> string \<times> (string, feature_id list) result \<times> instant \<times> instant option" where
  "policy v = (dv_device_id v, dv_account_id v, dv_name v, dv_enabled_features v, dv_created_at v, dv_deleted_at v)"

lemma update_device_policy:
  "update_device i f d = Ok (d', v) \<Longrightarrow> (\<And>q. policy (f q) = policy q) \<Longrightarrow>
   map policy (devices d') = map policy (devices d)"
  by (auto simp: update_device_def map_ok_eq_Inr comp_def dest!: update_row_Ok)

lemma upsert_policy:
  assumes "find_device (device_uuid (du_device_id r)) (sv_db s) = Some e"
  shows "holds (\<lambda>d res. map policy (devices d) = map policy (devices (sv_db s))) (register_device inp n a r Upsert s)"
  unfolding register_device_def Let_def
  by (auto intro!: holds_query holds_exec simp: assms policy_def dest!: update_device_policy)

lemma heartbeat_policy:
  "holds (\<lambda>d res. map policy (devices d) = map policy (devices (sv_db s))) (heartbeat_device cx inp a i s)"
  unfolding heartbeat_device_def
  by (rule holds_bind [OF load_active_device_spec]) (auto intro!: holds_exec simp: policy_def dest!: update_device_policy)

text \<open>
  C25. The server is the authority on a device's policy: once a device is registered, neither its
  own upserts nor its heartbeats change its account, name, features or removal, of it or of any
  other device, whatever they claim.
\<close>

theorem devices_cannot_change_policy:
  assumes "find_device i (sv_db s) = Some e"
  shows "map policy (devices (sv_db (fst (upsert_device cx inp a i r s)))) = map policy (devices (sv_db s)) \<and>
    map policy (devices (sv_db (fst (heartbeat_device cx inp a i s)))) = map policy (devices (sv_db s))"
proof
  have "holds (\<lambda>d res. map policy (devices d) = map policy (devices (sv_db s))) (upsert_device cx inp a i r s)"
    unfolding upsert_device_def using assms
    by (auto intro!: holds_bind [OF upsert_policy])
  then show "map policy (devices (sv_db (fst (upsert_device cx inp a i r s)))) = map policy (devices (sv_db s))"
    by (simp add: holds_def)
  show "map policy (devices (sv_db (fst (heartbeat_device cx inp a i s)))) = map policy (devices (sv_db s))"
    using heartbeat_policy [of s cx inp a i] by (simp add: holds_def)
qed

lemma devices_cannot_change_policy_witness:
  "map policy (devices (sv_db (fst (upsert_device sample_cx (sample_inputs 1) (AccountId 1) 5
      \<lparr>du_device_id = DeviceId 5, du_name = ''other'', du_iroh_public_key = ''new'', du_enabled_features = [shell_id]\<rparr>
      (ap_server access_app))))) = map policy (devices (tables access_app))"
  by (rule conjunct1 [OF devices_cannot_change_policy]) (simp add: access_app_def find_device_def)

text \<open>
  C27. A removed device stays removed: its upserts and heartbeats, policy changes and another
  removal are all refused, with nothing written, and no list shows it. Only a pairing code brings
  it back.
\<close>

theorem removed_device_stays_removed:
  assumes "find_device i (sv_db s) = Some e" "dv_deleted_at e \<noteq> None"
  shows "sv_db (fst (upsert_device cx inp a i r s)) = sv_db s \<and> \<not> is_ok (snd (upsert_device cx inp a i r s)) \<and>
    sv_db (fst (heartbeat_device cx inp a i s)) = sv_db s \<and> \<not> is_ok (snd (heartbeat_device cx inp a i s)) \<and>
    sv_db (fst (patch_device cx inp a i p s)) = sv_db s \<and> \<not> is_ok (snd (patch_device cx inp a i p s)) \<and>
    sv_db (fst (delete_device inp a i s)) = sv_db s \<and> \<not> is_ok (snd (delete_device inp a i s))"
proof -
  let ?R = "\<lambda>d r. d = sv_db s \<and> \<not> is_ok r"
  have "holds ?R (register_device inp 0 a r Upsert s)" if "device_uuid (du_device_id r) = i"
    unfolding register_device_def Let_def using assms that by (auto intro!: holds_query)
  then have "holds ?R (upsert_device cx inp a i r s)"
    unfolding upsert_device_def by (auto elim!: holds_bind)
  moreover have load: "holds ?R (load_active_device i a s)"
    unfolding load_active_device_def using assms by (auto intro!: holds_query holds_require)
  then have "holds ?R (heartbeat_device cx inp a i s)" "holds ?R (patch_device cx inp a i p s)"
    unfolding heartbeat_device_def patch_device_def by (auto elim!: holds_bind)
  moreover have "holds ?R (delete_device inp a i s)"
    unfolding delete_device_def using assms by (auto intro!: holds_query holds_require)
  ultimately show ?thesis by (simp add: holds_def)
qed

definition removed_server :: server where
  "removed_server = (ap_server access_app)\<lparr>sv_db := (tables access_app)\<lparr>devices :=
     map (\<lambda>v. v\<lparr>dv_deleted_at := Some 3\<rparr>) (devices (tables access_app))\<rparr>\<rparr>"

lemma removed_device_stays_removed_witness:
  "sv_db (fst (heartbeat_device sample_cx (sample_inputs 1) (AccountId 1) 5 removed_server)) = sv_db removed_server"
proof -
  obtain e where "find_device 5 (sv_db removed_server) = Some e" "dv_deleted_at e \<noteq> None"
    by (simp add: removed_server_def access_app_def find_device_def)
  from removed_device_stays_removed [OF this] show ?thesis by blast
qed

section \<open>Errors and codes\<close>

text \<open>
  An answer never reveals an internal failure: the body of a server error is the same whatever
  the database, the JWT crate or a handler reported, every other error is answered with a client
  status, and no error is answered as a success.
\<close>

lemma internal_errors_hidden:
  "case into_response e of (status, message) \<Rightarrow>
     (status = 500 \<and> message = ''internal server error'') \<or>
     (status \<in> {400, 401, 403, 404, 409} \<and> (\<nexists>m. e = Database m) \<and> (\<nexists>m. e = Internal m) \<and> (\<nexists>m. e = Auth (Jwt m)))"
  by (cases e rule: into_response.cases) simp_all

lemma code_charset: "list_all (\<lambda>c. is_ascii_uppercase c \<or> is_ascii_digit c) CODE_CHARSET" "length CODE_CHARSET = 36"
  by code_simp+

lemma generated_chars:
  assumes "c \<in> set (generate_code draw)"
  shows "is_ascii_uppercase c \<or> is_ascii_digit c"
proof -
  obtain j where "c = CODE_CHARSET ! (draw j mod 36)"
    using assms by (auto simp: generate_code_def code_charset(2))
  moreover have "draw j mod 36 < 36" by simp
  ultimately show ?thesis using code_charset by (simp add: list_all_length)
qed

lemma upper_or_digit:
  assumes "is_ascii_uppercase c \<or> is_ascii_digit c"
  shows "to_ascii_uppercase_char (to_ascii_lowercase_char c) = c" "byte_of (to_ascii_lowercase_char c) < 128"
    "is_ascii_alphanumeric (to_ascii_lowercase_char c)"
proof -
  have "byte_of (char_of n) = n" if "n < 256" for n using that by (simp add: byte_of_def)
  moreover have "char_of (byte_of c) = c" by (simp add: byte_of_def)
  ultimately show "to_ascii_uppercase_char (to_ascii_lowercase_char c) = c" "byte_of (to_ascii_lowercase_char c) < 128"
    "is_ascii_alphanumeric (to_ascii_lowercase_char c)"
    using assms by (auto simp: to_ascii_uppercase_char_def to_ascii_lowercase_char_def is_ascii_lowercase_def
        is_ascii_uppercase_def is_ascii_digit_def is_ascii_alphanumeric_def)
qed

text \<open>
  C28. A pairing code can be typed in small letters and with blanks around it: whatever code the
  server generates, that spelling normalises to it.
\<close>

theorem generated_code_accepted:
  "normalize_code x (replicate n (CHR '' '') @ map to_ascii_lowercase_char (generate_code draw) @
     replicate m (CHR '' '')) = Some (generate_code draw)"
proof -
  let ?c = "generate_code draw" and ?l = "map to_ascii_lowercase_char (generate_code draw)"
  have len: "length ?c = 8" by (simp add: generate_code_def CODE_LEN_def)
  have l: "?l \<noteq> []" using len by auto
  note ne = l hd_in_set [OF l] last_in_set [OF l]
  have al: "is_ascii_alphanumeric k" if "k \<in> set ?l" for k
    using that upper_or_digit(3) generated_chars by (auto simp del: set_map simp: image_iff set_map)
  have "trim (replicate n (CHR '' '') @ ?l @ replicate m (CHR '' '')) = ?l"
    by (rule trim_spaces) (use ne al in blast)+
  moreover have "to_uppercase x ?l = ?c"
    using upper_or_digit(1,2) generated_chars
    by (simp add: to_uppercase_def is_ascii_def list_all_iff map_idI)
  moreover have "list_all (\<lambda>c. is_ascii_uppercase c \<or> is_ascii_digit c) ?c"
    using generated_chars by (simp add: list_all_iff)
  ultimately show ?thesis using len by (simp add: normalize_code_def CODE_LEN_def)
qed

end
