(* ===== verification/Removal.thy ===== *)
theory Removal
  imports Cli Server_Access
begin

text \<open>
  Client and server together: what the daemon makes of the server's answers once its device has
  been removed from the account (\<open>failsafe/src/daemon.rs\<close>, \<open>failsafe/src/server.rs\<close>,
  \<open>failsafe-server/src/routes/devices.rs\<close>).
\<close>

text \<open>
  The response a server error becomes. \<open>body\<close> writes its message as JSON; a message in it can be
  found again.
\<close>

definition error_response :: "(string \<Rightarrow> string) \<Rightarrow> server_error \<Rightarrow> http_response" where
  "error_response body e = \<lparr>rs_status = fst (into_response e), rs_text = Ok (body (snd (into_response e)))\<rparr>"

definition heartbeat_request :: "ext \<Rightarrow> server_client \<Rightarrow> device_id \<Rightarrow> string \<Rightarrow> http_request" where
  "heartbeat_request x c device = bearer c ''POST'' (device_path x device @ ''/heartbeat'') EmptyBody"

lemma removed_heartbeat_error:
  assumes "find_device i (sv_db s) = Some e" "dv_deleted_at e \<noteq> None" "dv_account_id e = account_uuid a"
    "heartbeat_device cx inp a i s = (s', res)"
  shows "\<exists>err. res = Err err \<and> fst (into_response err) \<noteq> 403"
proof -
  let ?R = "\<lambda>d (r :: (server_error, device_info) result). \<exists>err. r = Err err \<and> fst (into_response err) \<noteq> 403"
  have "holds (\<lambda>d r. \<exists>err. r = Err err \<and> fst (into_response err) \<noteq> 403) (load_active_device i a s)"
    unfolding load_active_device_def using assms(1-3) by (auto intro!: holds_query holds_require)
  then have "holds ?R (heartbeat_device cx inp a i s)"
    unfolding heartbeat_device_def by (auto elim!: holds_bind)
  with assms(4) show ?thesis by (simp add: holds_def)
qed

lemma removed_upsert_error:
  assumes "find_device i (sv_db s) = Some e" "dv_deleted_at e \<noteq> None" "dv_account_id e = account_uuid a"
    "upsert_device cx inp a i r s = (s', Err err)" "fst (into_response err) = 403"
  shows "err = ForbiddenMessage ''device removed''"
proof -
  let ?P = "\<lambda>e. fst (into_response e) = 403 \<longrightarrow> e = ForbiddenMessage ''device removed''"
  have "holds (\<lambda>d q. \<exists>e. q = Err e \<and> ?P e) (register_device inp 0 a r Upsert s)"
    if "device_uuid (du_device_id r) = i"
    unfolding register_device_def Let_def using assms(1-3) that by (auto intro!: holds_query)
  then have "holds (\<lambda>d (q :: (server_error, device_info) result). \<exists>e. q = Err e \<and> ?P e) (upsert_device cx inp a i r s)"
    unfolding upsert_device_def by (auto elim!: holds_bind)
  with assms(4,5) show ?thesis by (auto simp: holds_def)
qed

lemma tick_goes_on:
  assumes "require_server_client (rn_daemon st) = Ok client"
    "send_authenticated tm hc (heartbeat_request (ce_ext (de_clip env)) client
       (daemon_device_id (cw_world (rn_control st)))) client (rn_http st) = (client', h', Ok response)"
    "rs_status response \<noteq> 403"
  shows "snd (handle_sync_tick env tm hc pk st) \<noteq> Err (Raised DeviceRemoved)"
proof -
  let ?r = "map_device_mutation_response hc ''device heartbeat'' response"
  have "client_heartbeat_device (ce_ext (de_clip env)) tm hc (daemon_device_id (cw_world (rn_control st))) client
      (rn_http st) = (client', h', ?r)"
    using assms(2) by (simp add: client_heartbeat_device_def call_server_def heartbeat_request_def)
  then have hb: "heartbeat_with_server (ce_ext (de_clip env)) tm hc (daemon_device_id (cw_world (rn_control st)))
      (rn_daemon st) (rn_http st) = ((rn_daemon st)\<lparr>dm_client := Some client'\<rparr>, h', ?r)"
    using assms(1) by (simp add: heartbeat_with_server_def)
  have "?r \<noteq> Err DeviceRemoved" using assms(3) by (simp add: map_device_mutation_response_def)
  with hb show ?thesis
    by (simp add: handle_sync_tick_def Let_def split: prod.split sum.split raised.split)
qed


definition sample_removed_http :: "unit http_client" where
  "sample_removed_http = sample_http_ok\<lparr>hc_send := (\<lambda>r h. (h, Ok (error_response id ServerNotFound)))\<rparr>"

definition sample_removed_running :: "(mock_state, clipboard_content option, unit) running" where
  "sample_removed_running = running_new
     \<lparr>dm_registry = \<lparr>reg_features = built_features True, reg_enabled = []\<rparr>, dm_client = Some sample_saved_client,
      dm_features = [], dm_device_name = ''a'', dm_public_key = None, dm_iroh = True,
      dm_send_limits = limits_unlimited, dm_config_path = None, dm_config = None\<rparr>
     \<lparr>cw_world = sample_world, cw_sends = sample_send_dir\<rparr> ()"

definition sample_upsert :: device_upsert_request where
  "sample_upsert = \<lparr>du_device_id = DeviceId 5, du_name = ''a'', du_iroh_public_key = ''k'', du_enabled_features = []\<rparr>"


section \<open>Pairing codes\<close>

text \<open>The command and the server read a pairing code alike, so every code the server made passes both.\<close>

lemma same_pairing_code: "normalize_pairing_code x code = normalize_code x code"
  by (simp add: normalize_pairing_code_def normalize_code_def CODE_LEN_def)

end
