(* ===== verification/Server_Props.thy ===== *)
theory Server_Props
  imports Server
begin

text \<open>
  Second factors: what the second step of a login needs, and what a recovery code is good for.
\<close>

section \<open>Second factors\<close>

definition mfa_account :: account_row where
  "mfa_account = sample_account\<lparr>ac_totp_enabled := True, ac_totp_secret := Some ''n:s''\<rparr>"

definition sample_recovery :: recovery_row where
  "sample_recovery = \<lparr>rc_id = 4, rc_account_id = 1, rc_code_hash = hash_recovery_code sample_cx ''1234'',
     rc_used_at = None, rc_created_at = 0\<rparr>"

definition mfa_server :: server where
  "mfa_server = \<lparr>sv_db = \<lparr>accounts = [mfa_account\<lparr>ac_totp_secret := None\<rparr>], devices = [], pairing_codes = [],
     recovery_codes = [sample_recovery], refresh_tokens = []\<rparr>, sv_faults = []\<rparr>"

lemma sample_jwt: "jwt_roundtrip sample_cx"
  by (auto simp: jwt_roundtrip_def sample_cx_def split: option.splits bool.splits)

lemma password_alone_gives_no_session_witness:
  "\<exists>s' resp. login sample_cx (sample_inputs 1) ''a@b'' ''password'' mfa_server = (s', Ok resp) \<and>
     ar_token resp = None \<and> ar_refresh_token resp = None"
proof -
  let ?r = "login sample_cx (sample_inputs 1) ''a@b'' ''password'' mfa_server"
  have r: "?r = (fst ?r, Ok (auth_mfa_required ''m1''))" by code_simp
  have f: "find_email (to_lowercase (cx_ext sample_cx) (trim ''a@b'')) (sv_db mfa_server) =
      Some (mfa_account\<lparr>ac_totp_secret := None\<rparr>)" by code_simp
  have "ac_totp_enabled (mfa_account\<lparr>ac_totp_secret := None\<rparr>)" by (simp add: mfa_account_def)
  from password_alone_gives_no_session [OF sample_jwt f this r] r show ?thesis by blast
qed

text \<open>The unused recovery codes of an account with the given hash.\<close>

definition usable_codes :: "uuid \<Rightarrow> string \<Rightarrow> db \<Rightarrow> recovery_row list" where
  "usable_codes a h d = filter (\<lambda>q. rc_account_id q = a \<and> rc_code_hash q = h \<and> rc_used_at q = None) (recovery_codes d)"

lemma consume_spec:
  "holds (\<lambda>d r. \<forall>b. r = Ok b \<longrightarrow> (b \<longleftrightarrow> usable_codes (account_uuid a) (hash_recovery_code cx code) (sv_db s) \<noteq> []) \<and>
      usable_codes (account_uuid a) (hash_recovery_code cx code) d = [])
     (consume_recovery_code cx now a code s)"
  unfolding consume_recovery_code_def
  by (rule holds_exec_db) (auto simp: update_many_def usable_codes_def filter_empty_conv)

lemma consume_error: "holds (\<lambda>d r. \<not> is_ok r \<longrightarrow> d = sv_db s) (consume_recovery_code cx now a code s)"
  unfolding consume_recovery_code_def by (rule holds_exec_db) auto

definition totp_ok :: "server_ctx \<Rightarrow> instant \<Rightarrow> account_row \<Rightarrow> string \<Rightarrow> bool" where
  "totp_ok cx now row code = (case ac_totp_secret row of None \<Rightarrow> False
     | Some encrypted \<Rightarrow> (case decrypt_secret cx encrypted of Err _ \<Rightarrow> False
         | Ok secret \<Rightarrow> is_ok (verify_totp cx now (ac_email row) secret code)))"

definition code_spent :: "server_ctx \<Rightarrow> uuid \<Rightarrow> string \<Rightarrow> db \<Rightarrow> db \<Rightarrow> bool" where
  "code_spent cx a code d d' \<longleftrightarrow> usable_codes a (hash_recovery_code cx code) d \<noteq> [] \<and>
     usable_codes a (hash_recovery_code cx code) d' = []"

lemma verify_spec:
  "holds (\<lambda>d r. is_ok r \<longrightarrow> totp_ok cx (in_now inp n) row code \<or> code_spent cx (account_uuid a) code (sv_db s) d)
     (verify_totp_or_recovery cx inp n a row code s)"
proof -
  let ?Q = "\<lambda>d r. is_ok r \<longrightarrow> totp_ok cx (in_now inp n) row code \<or> code_spent cx (account_uuid a) code (sv_db s) d"
  have recovery: "holds ?Q (bind_resp (consume_recovery_code cx (in_now inp (n + 1)) a code s)
      (\<lambda>s1 used. if used then (s1, Ok ()) else (s1, Err Unauthorized)))"
    by (rule holds_bind [OF consume_spec]) (simp_all add: code_spent_def)
  show ?thesis
  proof (cases "ac_totp_secret row")
    case None
    then show ?thesis using recovery unfolding verify_totp_or_recovery_def by (simp add: Let_def)
  next
    case (Some encrypted)
    then show ?thesis
      using recovery unfolding verify_totp_or_recovery_def Let_def
      by (auto simp: totp_ok_def intro!: holds_require)
  qed
qed

lemma insert_refresh_recovery: "insert_refresh r d = Ok d' \<Longrightarrow> recovery_codes d' = recovery_codes d"
  by (auto dest: insert_refresh_Ok)

lemma issue_refresh_recovery:
  "holds (\<lambda>d _. recovery_codes d = recovery_codes (sv_db s)) (issue_refresh cx inp n a s)"
  unfolding issue_refresh_def Let_def by (rule holds_insert) (simp_all add: insert_refresh_recovery)

lemma insert_keeps_recovery:
  "holds (\<lambda>d _. recovery_codes d = recovery_codes (sv_db s)) (issue_auth_response cx inp n a s)"
  unfolding issue_auth_response_def
  by (intro holds_require holds_bind [OF issue_refresh_recovery]) simp_all

text \<open>
  C23. The second step of a login needs a second factor: when it succeeds, the pending token names
  an account with two-factor authentication, and either the code is the current one-time code, or
  it was an unused recovery code of that account, which afterwards is used up.
\<close>

theorem second_factor_needed:
  assumes "login_mfa cx inp token code s = (s', Ok resp)"
  shows "\<exists>a row. validate_mfa_pending cx (in_now inp 0) (trim token) = Ok a \<and>
    find_account (account_uuid a) (sv_db s) = Some row \<and> ac_totp_enabled row \<and>
    (totp_ok cx (in_now inp 1) row (trim code) \<or>
     code_spent cx (account_uuid a) (trim code) (sv_db s) (sv_db s'))"
proof -
  have "holds (\<lambda>d r. is_ok r \<longrightarrow> (\<exists>a row. validate_mfa_pending cx (in_now inp 0) (trim token) = Ok a \<and>
      find_account (account_uuid a) (sv_db s) = Some row \<and> ac_totp_enabled row \<and>
      (totp_ok cx (in_now inp 1) row (trim code) \<or> code_spent cx (account_uuid a) (trim code) (sv_db s) d)))
    (login_mfa cx inp token code s)"
    unfolding login_mfa_def
    by (auto intro!: holds_require holds_bind [OF load_account_spec] holds_bind [OF verify_spec]
        holds_mono [OF insert_keeps_recovery] simp: code_spent_def usable_codes_def)
  with assms show ?thesis by simp
qed

lemma second_factor_needed_witness:
  "usable_codes 1 (hash_recovery_code sample_cx ''1234'') (sv_db mfa_server) \<noteq> [] \<and>
   usable_codes 1 (hash_recovery_code sample_cx ''1234'')
     (sv_db (fst (login_mfa sample_cx (sample_inputs 2) ''m1'' ''1234'' mfa_server))) = []"
proof -
  let ?r = "login_mfa sample_cx (sample_inputs 2) ''m1'' ''1234'' mfa_server"
  have n: "show_nat (Suc 0) = ''1''" by code_simp
  have v: "validate_mfa_pending sample_cx (in_now (sample_inputs 2) 0) ''m1'' = Ok (AccountId 1)"
    using parse_word_show_nat [of "1 :: uuid"] n
    by (simp add: validate_mfa_pending_def sample_cx_def account_id_from_str_def sample_server_ext_def)
  have t: "trim ''m1'' = ''m1''" "trim ''1234'' = ''1234''" by code_simp+
  have "snd ?r = Ok (auth_authenticated ''a1'' ''0204'')"
    unfolding login_mfa_def t v require_def sum.case list.distinct if_False simp_thms by code_simp
  then have r: "?r = (fst ?r, Ok (auth_authenticated ''a1'' ''0204''))" by (metis prod.collapse)
  have f: "find_account 1 (sv_db mfa_server) = Some (mfa_account\<lparr>ac_totp_secret := None\<rparr>)" by code_simp
  from second_factor_needed [OF r] show ?thesis
    unfolding t v using f by (auto simp: totp_ok_def code_spent_def)
qed

end
