(* ===== verification/Control_Endpoint.thy ===== *)
theory Control_Endpoint
  imports Cli_Util Control_Server
begin

text \<open>
  Where daemon and command meet: the control socket and the token file
  (\<open>failsafe-core/src/control/mod.rs\<close>, \<open>control/transport/unix.rs\<close>), their creation by the daemon
  (\<open>ControlServer::bind\<close> in \<open>failsafe/src/control_server.rs\<close>) and what a command finds there
  (\<open>failsafe/src/control.rs\<close>). \<open>dirs\<close> answers through \<open>endpoint_dirs\<close>; a daemon that listens is a
  number.
\<close>

section \<open>Files with permissions\<close>

datatype local_file =
    Plain string nat
  | Socket nat nat

text \<open>
  \<open>ep_seen\<close> holds the earlier states of the files, which other processes can have met;
  \<open>ep_umask_mode\<close> is the mode of a new file; \<open>ep_faults\<close> the outcomes of the calls to come.
\<close>

record endpoint =
  ep_files :: "string \<rightharpoonup> local_file"
  ep_listening :: "nat set"
  ep_seen :: "(string \<rightharpoonup> local_file) list"
  ep_umask_mode :: nat
  ep_faults :: "string option list"

definition OWNER_ONLY :: nat where "OWNER_ONLY = 384"

definition next_call :: "endpoint \<Rightarrow> string option \<times> endpoint" where
  "next_call s = (case ep_faults s of [] \<Rightarrow> (None, s) | f # fs \<Rightarrow> (f, s\<lparr>ep_faults := fs\<rparr>))"

text \<open>One system call: it fails without an effect, or the files change to \<open>f files\<close>.\<close>

definition sys_call :: "((string \<rightharpoonup> local_file) \<Rightarrow> (string, string \<rightharpoonup> local_file) result) \<Rightarrow> endpoint
    \<Rightarrow> endpoint \<times> (control_error, unit) result" where
  "sys_call f s =
     (case next_call s of
        (Some m, s') \<Rightarrow> (s', Err (IoError m))
      | (None, s') \<Rightarrow>
          (case f (ep_files s') of
             Err m \<Rightarrow> (s', Err (IoError m))
           | Ok files \<Rightarrow> (s'\<lparr>ep_files := files, ep_seen := ep_seen s' @ [ep_files s']\<rparr>, Ok ())))"

definition create_dir_all :: "endpoint \<Rightarrow> endpoint \<times> (control_error, unit) result" where
  "create_dir_all = sys_call Ok"

text \<open>\<open>fs::write\<close> keeps the mode of a file that is there; a socket cannot be opened.\<close>

definition fs_write :: "nat \<Rightarrow> string \<Rightarrow> string \<Rightarrow> (string \<rightharpoonup> local_file)
    \<Rightarrow> (string, string \<rightharpoonup> local_file) result" where
  "fs_write new_mode p text files =
     (case files p of
        None \<Rightarrow> Ok (files(p \<mapsto> Plain text new_mode))
      | Some (Plain _ mode) \<Rightarrow> Ok (files(p \<mapsto> Plain text mode))
      | Some (Socket _ _) \<Rightarrow> Err ''No such device or address'')"

definition set_permissions :: "nat \<Rightarrow> string \<Rightarrow> (string \<rightharpoonup> local_file) \<Rightarrow> (string, string \<rightharpoonup> local_file) result" where
  "set_permissions mode p files =
     (case files p of
        None \<Rightarrow> Err ''No such file or directory''
      | Some (Plain t _) \<Rightarrow> Ok (files(p \<mapsto> Plain t mode))
      | Some (Socket n _) \<Rightarrow> Ok (files(p \<mapsto> Socket n mode)))"

fun call_each :: "(endpoint \<Rightarrow> endpoint \<times> (control_error, unit) result) list \<Rightarrow> endpoint
    \<Rightarrow> endpoint \<times> (control_error, unit) result" where
  "call_each [] s = (s, Ok ())"
| "call_each (c # cs) s = (case c s of (s', Err e) \<Rightarrow> (s', Err e) | (s', Ok _) \<Rightarrow> call_each cs s')"

section \<open>The token file\<close>

record endpoint_dirs =
  ed_config_dir :: "path option"
  ed_runtime_dir :: "path option"
  ed_path_text :: "path \<Rightarrow> string"

definition control_token_path :: "endpoint_dirs \<Rightarrow> (control_error, string) result" where
  "control_token_path ds =
     (case ed_config_dir ds of
        None \<Rightarrow> Err (ConfigError ''could not determine control token directory'')
      | Some base \<Rightarrow> Ok (ed_path_text ds (base @ [''failsafe'', ''control.token''])))"

definition restrict_permissions :: "string \<Rightarrow> endpoint \<Rightarrow> endpoint \<times> (control_error, unit) result" where
  "restrict_permissions p = sys_call (set_permissions OWNER_ONLY p)"

definition write_control_token :: "string \<Rightarrow> string \<Rightarrow> endpoint \<Rightarrow> endpoint \<times> (control_error, unit) result" where
  "write_control_token p token s =
     call_each [create_dir_all, sys_call (fs_write (ep_umask_mode s) p token), restrict_permissions p] s"

section \<open>The socket\<close>

definition endpoint_path :: "endpoint_dirs \<Rightarrow> (control_error, string) result" where
  "endpoint_path ds =
     (case (case ed_runtime_dir ds of Some d \<Rightarrow> Some d | None \<Rightarrow> ed_config_dir ds) of
        None \<Rightarrow> Err (ConfigError ''could not determine control socket directory'')
      | Some base \<Rightarrow> Ok (ed_path_text ds (base @ [''failsafe'', ''control.sock''])))"

definition remove_stale_control_endpoint :: "string \<Rightarrow> endpoint \<Rightarrow> endpoint \<times> (control_error, unit) result" where
  "remove_stale_control_endpoint p s =
     (if ep_files s p \<noteq> None then sys_call (\<lambda>files. Ok (files(p := None))) s else (s, Ok ()))"

definition listener_bind :: "nat \<Rightarrow> string \<Rightarrow> endpoint \<Rightarrow> endpoint \<times> (control_error, unit) result" where
  "listener_bind me p s =
     (case sys_call (\<lambda>files. if files p = None then Ok (files(p \<mapsto> Socket me (ep_umask_mode s)))
                             else Err ''Address already in use'') s of
        (s', Err e) \<Rightarrow> (s', Err e)
      | (s', Ok _) \<Rightarrow> (s'\<lparr>ep_listening := insert me (ep_listening s')\<rparr>, Ok ()))"

text \<open>A listener is dropped, and its socket closed, when its permissions cannot be set.\<close>

definition bind_control :: "nat \<Rightarrow> string \<Rightarrow> endpoint \<Rightarrow> endpoint \<times> (control_error, unit) result" where
  "bind_control me p s =
     (case call_each [create_dir_all, remove_stale_control_endpoint p, listener_bind me p] s of
        (s', Err e) \<Rightarrow> (s', Err e)
      | (s', Ok _) \<Rightarrow>
          (case restrict_permissions p s' of
             (s'', Err e) \<Rightarrow> (s''\<lparr>ep_listening := ep_listening s'' - {me}\<rparr>, Err e)
           | (s'', Ok _) \<Rightarrow> (s'', Ok ())))"

definition connect_control :: "string \<Rightarrow> endpoint \<Rightarrow> (connect_error, nat) result" where
  "connect_control p s =
     (case ep_files s p of
        None \<Rightarrow> Err ConnectNotFound
      | Some (Plain _ _) \<Rightarrow> Err ConnectRefused
      | Some (Socket n _) \<Rightarrow> if n \<in> ep_listening s then Ok n else Err ConnectRefused)"

section \<open>The daemon's side\<close>

definition generate_control_token :: "(uuid \<Rightarrow> string) \<Rightarrow> uuid \<Rightarrow> string" where
  "generate_control_token simple fresh = simple fresh"

definition server_bind :: "endpoint_dirs \<Rightarrow> nat \<Rightarrow> string \<Rightarrow> string \<Rightarrow> endpoint
    \<Rightarrow> endpoint \<times> (daemon_error, unit) result" where
  "server_bind ds me p token s =
     (case control_token_path ds of
        Err e \<Rightarrow> (s, Err (DControl e))
      | Ok token_path \<Rightarrow>
          (case write_control_token token_path token s of
             (s1, Err e) \<Rightarrow> (s1, Err (DControl e))
           | (s1, Ok _) \<Rightarrow> (case bind_control me p s1 of (s2, r) \<Rightarrow> (s2, map_err DControl r))))"

text \<open>\<open>ControlServer::new\<close> followed by \<open>bind\<close>: the token is the server's once it listens.\<close>

definition control_start :: "endpoint_dirs \<Rightarrow> nat \<Rightarrow> string \<Rightarrow> endpoint
    \<Rightarrow> endpoint \<times> (daemon_error, string) result" where
  "control_start ds me token s =
     (case endpoint_path ds of
        Err e \<Rightarrow> (s, Err (DControl e))
      | Ok p \<Rightarrow> (case server_bind ds me p token s of (s', r) \<Rightarrow> (s', map_ok (\<lambda>_. token) r)))"

section \<open>The command's side\<close>

text \<open>
  The control link of a command started on these files: \<open>writes\<close> says how its request is
  written, \<open>response\<close> and \<open>events\<close> what comes back.
\<close>

definition local_link :: "endpoint_dirs \<Rightarrow> endpoint \<Rightarrow> (string \<Rightarrow> (control_error, unit) result)
    \<Rightarrow> (control_error, control_response) result \<Rightarrow> (control_error, control_event) result list \<Rightarrow> control_link" where
  "local_link ds s writes response events =
     \<lparr>kl_socket_path = map_ok (\<lambda>_. ()) (endpoint_path ds),
      kl_connect = (case endpoint_path ds of Err _ \<Rightarrow> Err ConnectNotFound
        | Ok p \<Rightarrow> map_ok (\<lambda>_. ()) (connect_control p s)),
      kl_token_path = control_token_path ds,
      kl_token_files = (\<lambda>p. case ep_files s p of None \<Rightarrow> None
        | Some (Plain t _) \<Rightarrow> Some (Ok t)
        | Some (Socket _ _) \<Rightarrow> Some (Err ''No such device or address'')),
      kl_write = writes, kl_response = response, kl_events = events\<rparr>"

section \<open>What a start leaves behind\<close>

lemma sys_call_Ok:
  "sys_call f s = (s', Ok u) \<Longrightarrow> f (ep_files s) = Ok (ep_files s') \<and> ep_listening s' = ep_listening s \<and>
     ep_seen s' = ep_seen s @ [ep_files s] \<and> ep_umask_mode s' = ep_umask_mode s"
  by (auto simp: sys_call_def next_call_def split: list.splits option.splits prod.splits sum.splits)

lemma sys_call_Err:
  "sys_call f s = (s', Err e) \<Longrightarrow> ep_files s' = ep_files s \<and> ep_listening s' = ep_listening s \<and>
     ep_seen s' = ep_seen s \<and> ep_umask_mode s' = ep_umask_mode s"
  by (auto simp: sys_call_def next_call_def split: list.splits option.splits prod.splits sum.splits)

lemma create_dir_all_Ok:
  "create_dir_all s = (s', Ok u) \<Longrightarrow> ep_files s' = ep_files s \<and> ep_listening s' = ep_listening s \<and>
     ep_seen s' = ep_seen s @ [ep_files s] \<and> ep_umask_mode s' = ep_umask_mode s"
  using sys_call_Ok [of Ok s s'] by (simp add: create_dir_all_def)

lemma call_each_Ok:
  "call_each [] s = (s', Ok u) \<longleftrightarrow> s' = s"
  "call_each (c # cs) s = (s', Ok u) \<longleftrightarrow> (\<exists>s1. c s = (s1, Ok ()) \<and> call_each cs s1 = (s', Ok u))"
  by (auto split: prod.splits sum.splits)

lemma write_control_token_Ok:
  assumes "write_control_token p token s = (s', Ok u)"
  shows "ep_files s' = (ep_files s)(p \<mapsto> Plain token OWNER_ONLY)" "ep_listening s' = ep_listening s"
    "\<exists>files \<in> set (ep_seen s'). files p = Some (Plain token
       (case ep_files s p of Some (Plain _ m) \<Rightarrow> m | _ \<Rightarrow> ep_umask_mode s))"
proof -
  from assms obtain s1 s2 where
    c: "create_dir_all s = (s1, Ok ())" "sys_call (fs_write (ep_umask_mode s) p token) s1 = (s2, Ok ())"
      "restrict_permissions p s2 = (s', Ok ())"
    by (auto simp: write_control_token_def call_each_Ok simp del: call_each.simps)
  note f = create_dir_all_Ok [OF c(1)] sys_call_Ok [OF c(2)]
    sys_call_Ok [OF c(3) [unfolded restrict_permissions_def]]
  let ?m = "case ep_files s p of Some (Plain _ m) \<Rightarrow> m | _ \<Rightarrow> ep_umask_mode s"
  have s2: "ep_files s2 = (ep_files s)(p \<mapsto> Plain token ?m)"
    using f by (simp add: fs_write_def split: option.splits local_file.splits)
  then show "ep_files s' = (ep_files s)(p \<mapsto> Plain token OWNER_ONLY)" "ep_listening s' = ep_listening s"
    using f by (simp_all add: set_permissions_def)
  have "ep_files s2 \<in> set (ep_seen s')" using f by simp
  with s2 show "\<exists>files \<in> set (ep_seen s'). files p = Some (Plain token ?m)" by (metis fun_upd_same)
qed

lemma remove_stale_Ok:
  "remove_stale_control_endpoint p s = (s', Ok u) \<Longrightarrow>
     ep_files s' = (ep_files s)(p := None) \<and> ep_listening s' = ep_listening s"
  by (auto simp: remove_stale_control_endpoint_def split: if_splits dest!: sys_call_Ok)

lemma listener_bind_Ok:
  "listener_bind me p s = (s', Ok u) \<Longrightarrow> ep_files s p = None \<and>
     ep_files s' = (ep_files s)(p \<mapsto> Socket me (ep_umask_mode s)) \<and> ep_listening s' = insert me (ep_listening s)"
  by (auto simp: listener_bind_def split: prod.splits sum.splits if_splits dest!: sys_call_Ok)

lemma bind_control_Ok:
  assumes "bind_control me p s = (s', Ok u)"
  shows "ep_files s' = (ep_files s)(p \<mapsto> Socket me OWNER_ONLY)" "ep_listening s' = insert me (ep_listening s)"
proof -
  from assms obtain s1 s2 s3 where
    c: "create_dir_all s = (s1, Ok ())" "remove_stale_control_endpoint p s1 = (s2, Ok ())"
      "listener_bind me p s2 = (s3, Ok ())" "restrict_permissions p s3 = (s', Ok ())"
    by (auto simp: bind_control_def call_each_Ok simp del: call_each.simps split: prod.splits sum.splits)
  note f = create_dir_all_Ok [OF c(1)] remove_stale_Ok [OF c(2)] listener_bind_Ok [OF c(3)]
    sys_call_Ok [OF c(4) [unfolded restrict_permissions_def]]
  from f show "ep_files s' = (ep_files s)(p \<mapsto> Socket me OWNER_ONLY)"
    "ep_listening s' = insert me (ep_listening s)"
    by (auto simp: set_permissions_def)
qed

text \<open>The two files have names of their own, as long as a path keeps its last component.\<close>

lemma token_path_differs:
  assumes "\<And>a b c d. ed_path_text ds (a @ [c]) = ed_path_text ds (b @ [d]) \<Longrightarrow> c = d"
    and "control_token_path ds = Ok tp" "endpoint_path ds = Ok p"
  shows "tp \<noteq> p"
  using assms(1) [of "_ @ [''failsafe'']" "''control.token''" "_ @ [''failsafe'']" "''control.sock''"] assms(2,3)
  by (auto simp: control_token_path_def endpoint_path_def split: option.splits)

lemma control_start_Ok:
  assumes "control_start ds me token s = (s', Ok t)"
  obtains tp p where "control_token_path ds = Ok tp" "endpoint_path ds = Ok p" "t = token"
    "ep_files s' = (ep_files s)(tp \<mapsto> Plain token OWNER_ONLY, p \<mapsto> Socket me OWNER_ONLY)"
    "ep_listening s' = insert me (ep_listening s)"
proof -
  from assms obtain p where p: "endpoint_path ds = Ok p" "server_bind ds me p token s = (s', Ok ())" "t = token"
    by (auto simp: control_start_def res_simps split: sum.splits prod.splits)
  from p(2) obtain tp s1 where tp: "control_token_path ds = Ok tp"
    "write_control_token tp token s = (s1, Ok ())" "bind_control me p s1 = (s', Ok ())"
    by (auto simp: server_bind_def split: sum.splits prod.splits)
  show ?thesis
    using that [OF tp(1) p(1) p(3)] write_control_token_Ok [OF tp(2)] bind_control_Ok [OF tp(3)] by simp
qed

text \<open>The last daemon to start is the one that commands reach, whoever else still listens.\<close>

lemma started_daemon_is_found:
  assumes "control_start ds me token s = (s', Ok t)" and "control_token_path ds \<noteq> endpoint_path ds"
    and "trim token = token" "token \<noteq> []"
  shows "and_then (map_err ConnectFailed (endpoint_path ds)) (\<lambda>p. connect_control p s') = Ok me"
    "load_control_token (local_link ds s' writes response events) = Ok token"
    "connect_and_request (local_link ds s' writes response events) = map_err DControl (writes token)"
proof -
  from assms(1) obtain tp p where s': "control_token_path ds = Ok tp" "endpoint_path ds = Ok p"
    "ep_files s' = (ep_files s)(tp \<mapsto> Plain token OWNER_ONLY, p \<mapsto> Socket me OWNER_ONLY)"
    "ep_listening s' = insert me (ep_listening s)" by (rule control_start_Ok)
  have ne: "tp \<noteq> p" using assms(2) s'(1,2) by auto
  have c: "connect_control p s' = Ok me" by (simp add: connect_control_def s')
  then show "and_then (map_err ConnectFailed (endpoint_path ds)) (\<lambda>p. connect_control p s') = Ok me"
    by (simp add: s' and_then_def)
  show l: "load_control_token (local_link ds s' writes response events) = Ok token"
    using ne assms(3,4)
    by (simp add: load_control_token_def local_link_def s' read_control_token_def Let_def and_then_def)
  show "connect_and_request (local_link ds s' writes response events) = map_err DControl (writes token)"
    using c l
    by (simp add: connect_and_request_def client_send_request_def and_then_def)
       (simp add: local_link_def s' map_ok_def)
qed

lemma running_daemon_displaced:
  assumes "control_start ds me token s = (s', Ok t)"
    and "n \<in> ep_listening s" "n \<noteq> me"
  shows "n \<in> ep_listening s' \<and> (\<forall>p. endpoint_path ds = Ok p \<longrightarrow> connect_control p s' \<noteq> Ok n)"
  using assms by (auto elim!: control_start_Ok simp: connect_control_def)

text \<open>Before its permissions are set, the new token lies in a file with the mode of a new file.\<close>

lemma token_readable_before_chmod:
  assumes "control_start ds me token s = (s', Ok t)" and "control_token_path ds = Ok tp"
    and "ep_files s tp = None"
  shows "\<exists>files. files tp = Some (Plain token (ep_umask_mode s)) \<and>
    (\<exists>s1. write_control_token tp token s = (s1, Ok ()) \<and> files \<in> set (ep_seen s1))"
proof -
  from assms(1,2) obtain s1 where w: "write_control_token tp token s = (s1, Ok ())"
    by (auto simp: control_start_def server_bind_def split: sum.splits prod.splits)
  from write_control_token_Ok(3) [OF w] obtain files where
    "files \<in> set (ep_seen s1)" "files tp = Some (Plain token (ep_umask_mode s))"
    using assms(3) by auto
  with w show ?thesis by blast
qed

text \<open>A start that fails after writing its token leaves a daemon whose socket is there without clients.\<close>

lemma failed_start_changes_token:
  assumes "write_control_token tp token s = (s1, Ok ())" "create_dir_all s1 = (s2, Err e)"
    "control_token_path ds = Ok tp" "endpoint_path ds = Ok p" "tp \<noteq> p"
    "ep_files s p = Some (Socket n m)" "n \<in> ep_listening s" "trim token = token" "token \<noteq> []"
  shows "control_start ds me token s = (s2, Err (DControl e)) \<and> connect_control p s2 = Ok n \<and>
    load_control_token (local_link ds s2 writes response events) = Ok token"
proof -
  note w = write_control_token_Ok [OF assms(1)]
  have f: "ep_files s2 = ep_files s1" "ep_listening s2 = ep_listening s1"
    using sys_call_Err [of Ok s1 s2 e] assms(2) by (simp_all add: create_dir_all_def)
  have "control_start ds me token s = (s2, Err (DControl e))"
    using assms(1-4) by (simp add: control_start_def server_bind_def bind_control_def map_ok_def)
  moreover have "connect_control p s2 = Ok n"
    using w(1,2) f assms(5-7) by (simp add: connect_control_def)
  moreover have "load_control_token (local_link ds s2 writes response events) = Ok token"
    using w(1) f assms(3,8,9)
    by (simp add: load_control_token_def local_link_def read_control_token_def Let_def and_then_def)
  ultimately show ?thesis by blast
qed

text \<open>
  C6. A command that starts after the daemon reaches that daemon and is let in: it connects to
  the daemon's socket, reads the token of the daemon from the token file, and the bytes of its
  request make the control server dispatch exactly that request to its handlers. Earlier
  daemons that still listen do not matter. \<open>ser\<close> and \<open>de\<close> are serde's writer and reader of
  envelopes, \<open>simple\<close> the text form of the fresh UUID.
\<close>

theorem control_client_reaches_daemon:
  assumes start: "control_start ds me (generate_control_token simple fresh) s = (s', Ok token)"
    and paths: "control_token_path ds \<noteq> endpoint_path ds"
    and written: "trim (simple fresh) = simple fresh" "simple fresh \<noteq> []"
    and serde: "ser \<lparr>ce_token = token, ce_request = request\<rparr> = Ok bs"
      "de bs = Ok \<lparr>ce_token = token, ce_request = request\<rparr>" "length bs \<le> CONTROL_MAX_MESSAGE"
    and server: "cs_token cs = token"
  shows "and_then (map_err ConnectFailed (endpoint_path ds)) (\<lambda>p. connect_control p s') = Ok me \<and>
    connect_and_request (local_link ds s' (\<lambda>t. map_ok (\<lambda>_. ()) (send_request ser [] t request)) response events)
      = Ok () \<and>
    (\<exists>out. send_request ser [] (simple fresh) request = Ok out \<and>
       handle_connection show_error cs ctx (map_ok fst (recv_envelope de out)) io w =
         dispatch_request cs ctx request io w)"
proof -
  have token: "token = simple fresh"
    using start by (auto elim: control_start_Ok simp: generate_control_token_def)
  note found = started_daemon_is_found [OF start paths, unfolded generate_control_token_def, OF written]
  have "length bs < 2 ^ 32" using serde(3) by (simp add: CONTROL_MAX_MESSAGE_def)
  then obtain out where out: "send_request ser [] (simple fresh) request = Ok out"
    using serde(1) token by (simp add: send_request_def write_json_def write_message_def and_then_def)
  have "read_json de ''request'' (out @ []) = Ok (\<lparr>ce_token = token, ce_request = request\<rparr>, [])"
    using read_write_json [of ser _ bs de "''request''" out "''request''" "[]", OF serde] out token
    by (simp add: send_request_def)
  then show ?thesis
    using found(1,3) out server by (simp add: handle_connection_def recv_envelope_def map_ok_def)
qed

definition sample_dirs :: endpoint_dirs where
  "sample_dirs = \<lparr>ed_config_dir = Some [''home''], ed_runtime_dir = Some [''run''],
     ed_path_text = (\<lambda>p. concat (map (\<lambda>c. CHR ''/'' # c) p))\<rparr>"

text \<open>An older daemon, number 1, still listens on the socket.\<close>

definition sample_endpoint :: endpoint where
  "sample_endpoint = \<lparr>ep_files = [''/home/failsafe/control.token'' \<mapsto> Plain ''old'' 384,
       ''/run/failsafe/control.sock'' \<mapsto> Socket 1 384],
     ep_listening = {1}, ep_seen = [], ep_umask_mode = 420, ep_faults = []\<rparr>"

definition sample_server :: "(unit, unit) control_server" where
  "sample_server = \<lparr>cs_token = ''token'', cs_handlers = []\<rparr>"

lemma control_client_reaches_daemon_witness:
  "connect_and_request (local_link sample_dirs (fst (control_start sample_dirs 2 ''token'' sample_endpoint))
     (\<lambda>t. map_ok (\<lambda>_. ()) (send_request (\<lambda>e. Ok [7]) [] t \<lparr>cr_feature = FeatureId ''x'', cr_body = ()\<rparr>))
     (Ok Ready) []) = Ok () \<and>
   connect_control ''/run/failsafe/control.sock'' (fst (control_start sample_dirs 2 ''token'' sample_endpoint)) = Ok 2"
proof -
  let ?r = "\<lparr>cr_feature = FeatureId ''x'', cr_body = ()\<rparr>"
  have ok: "snd (control_start sample_dirs 2 ''token'' sample_endpoint) = Ok ''token''" by code_simp
  have "trim ''token'' = ''token''" by code_simp
  moreover have "control_token_path sample_dirs \<noteq> endpoint_path sample_dirs" by code_simp
  moreover have "endpoint_path sample_dirs = Ok ''/run/failsafe/control.sock''" by code_simp
  ultimately show ?thesis
    using control_client_reaches_daemon [where simple = "\<lambda>_. ''token''" and ser = "\<lambda>e. Ok [7]"
        and de = "\<lambda>_. Ok \<lparr>ce_token = ''token'', ce_request = ?r\<rparr>" and cs = sample_server and bs = "[7]"
        and request = ?r and token = "''token''" and ds = sample_dirs and me = 2 and s = sample_endpoint
        and s' = "fst (control_start sample_dirs 2 ''token'' sample_endpoint)"] ok
    by (simp add: generate_control_token_def sample_server_def CONTROL_MAX_MESSAGE_def
        surjective_pairing [symmetric] prod_eq_iff and_then_def)
qed

end
