(* ===== verification/Io_Relay.thy ===== *)
theory Io_Relay
  imports Relay Client
begin

text \<open>
  The relay between two byte connections (\<open>failsafe-core/src/io.rs\<close>) and its use for the terminal
  of \<open>failsafe shell\<close> (\<open>relay_terminal_io\<close> of \<open>failsafe/src/control.rs\<close>). An event is one turn of
  the \<open>select!\<close>: the branch that reads from \<open>A\<close> or the one that reads from \<open>B\<close>, with the outcome
  of the write that follows a read of data.
\<close>

datatype write_outcome = Written | WriteFails string | FlushFails string

datatype duplex_event = FromA write_outcome | FromB write_outcome

record 'e duplex =
  dx_read_a :: recv_stream
  dx_read_b :: recv_stream
  dx_to_a :: "u8 list"
  dx_to_b :: "u8 list"
  dx_a_shut :: bool
  dx_result :: "('e, unit) result option"

definition duplex_new :: "recv_stream \<Rightarrow> recv_stream \<Rightarrow> 'e duplex" where
  "duplex_new a b = \<lparr>dx_read_a = a, dx_read_b = b, dx_to_a = [], dx_to_b = [], dx_a_shut = False,
     dx_result = None\<rparr>"

text \<open>The loop is left with \<open>break\<close>: the writing half of \<open>A\<close> is shut down on request.\<close>

definition duplex_break :: "bool \<Rightarrow> 'e duplex \<Rightarrow> 'e duplex" where
  "duplex_break shutdown_a s = s\<lparr>dx_a_shut := shutdown_a \<or> dx_a_shut s, dx_result := Some (Ok ())\<rparr>"

definition duplex_turn :: "(string \<Rightarrow> 'e) \<Rightarrow> nat \<Rightarrow> nat \<Rightarrow> bool \<Rightarrow> duplex_event \<Rightarrow> 'e duplex \<Rightarrow> 'e duplex" where
  "duplex_turn map_io_error buf_a buf_b shutdown_a e s =
     (if dx_result s \<noteq> None then s
      else
       (case e of
          FromA w \<Rightarrow>
            (case recv_read buf_a (dx_read_a s) of
               (Err m, a) \<Rightarrow> s\<lparr>dx_read_a := a, dx_result := Some (Err (map_io_error m))\<rparr>
             | (Ok bs, a) \<Rightarrow>
                 (if bs = [] then duplex_break shutdown_a (s\<lparr>dx_read_a := a\<rparr>)
                  else
                   (case w of
                      Written \<Rightarrow> s\<lparr>dx_read_a := a, dx_to_b := dx_to_b s @ bs\<rparr>
                    | WriteFails m \<Rightarrow> s\<lparr>dx_read_a := a, dx_result := Some (Err (map_io_error m))\<rparr>
                    | FlushFails m \<Rightarrow> s\<lparr>dx_read_a := a, dx_to_b := dx_to_b s @ bs,
                        dx_result := Some (Err (map_io_error m))\<rparr>)))
        | FromB w \<Rightarrow>
            (case recv_read buf_b (dx_read_b s) of
               (Err m, b) \<Rightarrow> s\<lparr>dx_read_b := b, dx_result := Some (Err (map_io_error m))\<rparr>
             | (Ok bs, b) \<Rightarrow>
                 (if bs = [] then duplex_break shutdown_a (s\<lparr>dx_read_b := b\<rparr>)
                  else
                   (case w of
                      Written \<Rightarrow> s\<lparr>dx_read_b := b, dx_to_a := dx_to_a s @ bs\<rparr>
                    | WriteFails m \<Rightarrow> s\<lparr>dx_read_b := b, dx_result := Some (Err (map_io_error m))\<rparr>
                    | FlushFails m \<Rightarrow> s\<lparr>dx_read_b := b, dx_to_a := dx_to_a s @ bs,
                        dx_result := Some (Err (map_io_error m))\<rparr>)))))"

definition relay_bidirectional :: "(string \<Rightarrow> 'e) \<Rightarrow> nat \<Rightarrow> nat \<Rightarrow> bool \<Rightarrow> duplex_event list
    \<Rightarrow> recv_stream \<Rightarrow> recv_stream \<Rightarrow> 'e duplex" where
  "relay_bidirectional map_io_error buf_a buf_b shutdown_a es a b =
     fold (duplex_turn map_io_error buf_a buf_b shutdown_a) es (duplex_new a b)"

definition relay_terminal_io :: "duplex_event list \<Rightarrow> recv_stream \<Rightarrow> recv_stream \<Rightarrow> daemon_error duplex" where
  "relay_terminal_io es stream stdin = relay_bidirectional DIo 4096 256 True es stream stdin"

section \<open>Prefixes, and the end\<close>

definition duplex_sound :: "u8 list \<Rightarrow> u8 list \<Rightarrow> 'e duplex \<Rightarrow> bool" where
  "duplex_sound as bs s \<longleftrightarrow>
     (\<exists>ra. as = dx_to_b s @ ra \<and> (dx_result s = None \<longrightarrow> ra = stream_bytes (dx_read_a s))) \<and>
     (\<exists>rb. bs = dx_to_a s @ rb \<and> (dx_result s = None \<longrightarrow> rb = stream_bytes (dx_read_b s)))"

lemma duplex_turn_sound:
  "duplex_sound as bs s \<Longrightarrow> duplex_sound as bs (duplex_turn f m n sd e s)"
  unfolding duplex_turn_def duplex_sound_def duplex_break_def
  by (auto split: duplex_event.splits prod.splits sum.splits write_outcome.splits
      dest!: reader.recv_read_bytes)

lemma fold_duplex_sound:
  "duplex_sound as bs s \<Longrightarrow> duplex_sound as bs (fold (duplex_turn f m n sd) es s)"
  by (induction es arbitrary: s) (simp_all add: duplex_turn_sound)

lemma duplex_prefixes:
  assumes "s = relay_bidirectional f m n sd es a b"
  shows "\<exists>rest. stream_bytes a = dx_to_b s @ rest" "\<exists>rest. stream_bytes b = dx_to_a s @ rest"
proof -
  have "duplex_sound (stream_bytes a) (stream_bytes b) (duplex_new a b)"
    by (simp add: duplex_sound_def duplex_new_def)
  then have "duplex_sound (stream_bytes a) (stream_bytes b) s"
    unfolding assms relay_bidirectional_def by (rule fold_duplex_sound)
  then show "\<exists>rest. stream_bytes a = dx_to_b s @ rest" "\<exists>rest. stream_bytes b = dx_to_a s @ rest"
    by (auto simp: duplex_sound_def)
qed

lemma duplex_over: "dx_result s \<noteq> None \<Longrightarrow> fold (duplex_turn f m n sd) es s = s"
  by (induction es) (simp_all add: duplex_turn_def)

text \<open>The writing half of \<open>A\<close> is shut down exactly when a side has ended, not after an error.\<close>

lemma duplex_shut_iff:
  assumes "s = relay_bidirectional f m n True es a b"
  shows "dx_a_shut s \<longleftrightarrow> dx_result s = Some (Ok ())"
proof -
  have "(dx_a_shut t \<longleftrightarrow> dx_result t = Some (Ok ())) \<Longrightarrow>
      dx_a_shut (fold (duplex_turn f m n True) es t) \<longleftrightarrow>
      dx_result (fold (duplex_turn f m n True) es t) = Some (Ok ())" for t :: "'a duplex"
  proof (induction es arbitrary: t)
    case (Cons e es)
    have "dx_a_shut (duplex_turn f m n True e t) \<longleftrightarrow> dx_result (duplex_turn f m n True e t) = Some (Ok ())"
      using Cons.prems
      by (auto simp: duplex_turn_def duplex_break_def
          split: duplex_event.splits prod.splits sum.splits write_outcome.splits)
    then show ?case by (simp add: Cons.IH)
  qed simp
  from this [of "duplex_new a b"] show ?thesis
    by (simp add: assms relay_bidirectional_def duplex_new_def)
qed

text \<open>
  The end of the terminal's input ends a shell session: output the remote side has yet to send is
  not shown.
\<close>

lemma end_of_input_ends_session:
  assumes "recv_read 256 (dx_read_b s) = (Ok [], b)" "dx_result s = None"
  shows "fold (duplex_turn f 4096 256 True) (FromB w # es) s =
    s\<lparr>dx_read_b := b, dx_a_shut := True, dx_result := Some (Ok ())\<rparr>"
proof -
  have "duplex_turn f 4096 256 True (FromB w) s =
      s\<lparr>dx_read_b := b, dx_a_shut := True, dx_result := Some (Ok ())\<rparr>"
    using assms by (simp add: duplex_turn_def duplex_break_def)
  then show ?thesis by (simp add: duplex_over)
qed

end
