(* ===== verification/Blob_Store.thy ===== *)
theory Blob_Store
  imports Blobs
begin

text \<open>
  The operations of \<open>IrohBlobTransfer\<close> (\<open>failsafe-transport/src/blobs/iroh.rs\<close>) that put content
  into iroh's blob store and get it out. The store is outside: its calls are the fields of
  \<open>blob_store\<close>, and \<open>lawful_store\<close> states what its documentation promises of them (content stays
  under the hash it was added with; a stored collection is loaded as it was stored).
\<close>

record 's blob_store =
  sto_add_bytes :: "u8 list \<Rightarrow> 's \<Rightarrow> 's \<times> (string, string) result"
  sto_batch :: "'s \<Rightarrow> 's \<times> (string, unit) result"
  sto_store_collection :: "(string \<times> string) list \<Rightarrow> 's \<Rightarrow> 's \<times> (string, string) result"
  sto_create_tag :: "string \<Rightarrow> 's \<Rightarrow> 's \<times> (string, unit) result"
  sto_download :: "bool \<Rightarrow> string \<Rightarrow> string \<Rightarrow> 's \<Rightarrow> 's \<times> (string, unit) result"
  sto_get_bytes :: "string \<Rightarrow> 's \<Rightarrow> (string, u8 list) result"
  sto_load_collection :: "string \<Rightarrow> 's \<Rightarrow> (string, (string \<times> string) list) result"
  sto_local :: "string \<Rightarrow> 's \<Rightarrow> (string, u64 \<times> bool) result"
  sto_parse_hash :: "string \<Rightarrow> (string, string) result"

text \<open>A call on the store, with the rest of the function behind its \<open>?\<close>.\<close>

definition store_call :: "('s \<Rightarrow> 's \<times> (string, 'a) result) \<Rightarrow> ('a \<Rightarrow> 's \<Rightarrow> 's \<times> (blob_error, 'b) result)
    \<Rightarrow> 's \<Rightarrow> 's \<times> (blob_error, 'b) result" where
  "store_call call k s = (case call s of (s', Err e) \<Rightarrow> (s', Err (StoreError e)) | (s', Ok x) \<Rightarrow> k x s')"

lemma store_call_Ok:
  "store_call call k s = (s', Ok y) \<longleftrightarrow> (\<exists>s1 x. call s = (s1, Ok x) \<and> k x s1 = (s', Ok y))"
  by (auto simp: store_call_def split: prod.splits sum.splits)

definition iroh_parse_hash :: "'s blob_store \<Rightarrow> string \<Rightarrow> (blob_error, string) result" where
  "iroh_parse_hash st h = map_err InvalidHash (sto_parse_hash st h)"

definition iroh_download :: "ext \<Rightarrow> (string \<Rightarrow> (string, string) result) \<Rightarrow> 's blob_store \<Rightarrow> address_state
    \<Rightarrow> device_id \<Rightarrow> bool \<Rightarrow> string \<Rightarrow> 's \<Rightarrow> 's \<times> (blob_error, unit) result" where
  "iroh_download x pk st addresses peer sequence h s =
     (case peer_endpoint_id x pk addresses peer of
        Err e \<Rightarrow> (s, Err e)
      | Ok provider \<Rightarrow> store_call (sto_download st sequence h provider) (\<lambda>_ s'. (s', Ok ())) s)"

definition iroh_store_bytes :: "'s blob_store \<Rightarrow> u8 list \<Rightarrow> 's \<Rightarrow> 's \<times> (blob_error, string) result" where
  "iroh_store_bytes st data =
     store_call (sto_add_bytes st data) (\<lambda>h. store_call (sto_create_tag st h) (\<lambda>_ s'. (s', Ok h)))"

fun add_entries :: "'s blob_store \<Rightarrow> (string \<times> u8 list) list \<Rightarrow> 's
    \<Rightarrow> 's \<times> (blob_error, (string \<times> string) list) result" where
  "add_entries st [] s = (s, Ok [])"
| "add_entries st ((name, data) # files) s =
     store_call (sto_add_bytes st data)
       (\<lambda>h s1. case add_entries st files s1 of (s2, r) \<Rightarrow> (s2, map_ok (\<lambda>es. (name, h) # es) r)) s"

definition iroh_store_files :: "'s blob_store \<Rightarrow> (string \<times> u8 list) list \<Rightarrow> 's
    \<Rightarrow> 's \<times> (blob_error, string) result" where
  "iroh_store_files st files =
     store_call (sto_batch st) (\<lambda>_ s.
       case add_entries st files s of
         (s1, Err e) \<Rightarrow> (s1, Err e)
       | (s1, Ok entries) \<Rightarrow>
           store_call (sto_store_collection st entries)
             (\<lambda>root. store_call (sto_create_tag st root) (\<lambda>_ s'. (s', Ok root))) s1)"

definition iroh_fetch_bytes :: "ext \<Rightarrow> (string \<Rightarrow> (string, string) result) \<Rightarrow> 's blob_store
    \<Rightarrow> address_state \<Rightarrow> device_id \<Rightarrow> string \<Rightarrow> 's \<Rightarrow> 's \<times> (blob_error, u8 list) result" where
  "iroh_fetch_bytes x pk st addresses peer h s =
     (case iroh_parse_hash st h of
        Err e \<Rightarrow> (s, Err e)
      | Ok h' \<Rightarrow>
          (case iroh_download x pk st addresses peer False h' s of
             (s1, Err e) \<Rightarrow> (s1, Err e)
           | (s1, Ok _) \<Rightarrow> (s1, map_err StoreError (sto_get_bytes st h' s1))))"

fun get_entries :: "'s blob_store \<Rightarrow> (string \<times> string) list \<Rightarrow> 's
    \<Rightarrow> (blob_error, (string \<times> u8 list) list) result" where
  "get_entries st [] s = Ok []"
| "get_entries st ((name, h) # entries) s =
     and_then (map_err StoreError (sto_get_bytes st h s)) (\<lambda>data.
       map_ok (\<lambda>files. (name, data) # files) (get_entries st entries s))"

definition iroh_fetch_collection_files :: "ext \<Rightarrow> (string \<Rightarrow> (string, string) result) \<Rightarrow> 's blob_store
    \<Rightarrow> address_state \<Rightarrow> device_id \<Rightarrow> string \<Rightarrow> 's \<Rightarrow> 's \<times> (blob_error, (string \<times> u8 list) list) result" where
  "iroh_fetch_collection_files x pk st addresses peer root s =
     (case iroh_parse_hash st root of
        Err e \<Rightarrow> (s, Err e)
      | Ok h \<Rightarrow>
          (case iroh_download x pk st addresses peer True h s of
             (s1, Err e) \<Rightarrow> (s1, Err e)
           | (s1, Ok _) \<Rightarrow>
               (s1, and_then (map_err StoreError (sto_load_collection st h s1))
                      (\<lambda>entries. get_entries st entries s1))))"

definition iroh_collection_status :: "'s blob_store \<Rightarrow> string \<Rightarrow> u64 \<Rightarrow> 's
    \<Rightarrow> (blob_error, u64 \<times> u64 \<times> bool) result" where
  "iroh_collection_status st root total_bytes s =
     and_then (iroh_parse_hash st root) (\<lambda>h.
       map_ok (\<lambda>(local_bytes, complete). (local_bytes, total_bytes, complete))
         (map_err StoreError (sto_local st h s)))"

section \<open>Importing one file\<close>

datatype add_item =
    AddSize u64
  | AddCopyProgress u64
  | AddCopyDone
  | AddOutboardProgress u64
  | AddError string
  | AddDone string

text \<open>What is sent to the progress channel, and the result.\<close>

fun import_items :: "string \<Rightarrow> add_item list \<Rightarrow> u64 \<Rightarrow> u64 list \<times> (blob_error, string \<times> u64) result" where
  "import_items path [] file_size =
     ([], Err (StoreError (''import stream ended before completion for '' @ path)))"
| "import_items path (AddSize n # items) file_size =
     (case import_items path items n of (ps, r) \<Rightarrow> (0 # ps, r))"
| "import_items path (AddCopyProgress n # items) file_size =
     (case import_items path items file_size of (ps, r) \<Rightarrow> (n # ps, r))"
| "import_items path (AddCopyDone # items) file_size =
     (case import_items path items file_size of (ps, r) \<Rightarrow> (file_size # ps, r))"
| "import_items path (AddOutboardProgress n # items) file_size =
     (case import_items path items file_size of (ps, r) \<Rightarrow> (n # ps, r))"
| "import_items path (AddError cause # items) file_size =
     ([], Err (StoreError (''failed to import '' @ path @ '': '' @ cause)))"
| "import_items path (AddDone h # items) file_size = ([], Ok (h, file_size))"

definition import_source_file :: "(path \<Rightarrow> string) \<Rightarrow> string \<Rightarrow> path \<Rightarrow> nat \<Rightarrow> add_item list
    \<Rightarrow> import_event list" where
  "import_source_file show_path name p index items =
     (case import_items (show_path p) items 0 of
        (ps, r) \<Rightarrow> map (ImportOffset index) ps @ [ImportResult index (map_ok (\<lambda>(h, sz). (name, h, sz)) r)])"

text \<open>Every import task reports exactly one result, as the last thing it does.\<close>

lemma import_source_file_reports:
  "\<exists>offsets r. import_source_file show_path name p i items = map (ImportOffset i) offsets @ [ImportResult i r] \<and>
     (\<forall>n h sz. r = Ok (n, h, sz) \<longrightarrow> n = name \<and> AddDone h \<in> set items)"
proof -
  have reported: "snd (import_items q items f) = Ok (h, sz) \<Longrightarrow> AddDone h \<in> set items" for q f h sz
    by (induction q items f rule: import_items.induct) (auto split: prod.splits)
  obtain ps r where r: "import_items (show_path p) items 0 = (ps, r)" by fastforce
  show ?thesis
    using reported [of "show_path p" 0] r
    by (intro exI [of _ ps] exI [of _ "map_ok (\<lambda>(h, sz). (name, h, sz)) r"])
      (auto simp: import_source_file_def res_simps)
qed

section \<open>What was stored is what is fetched\<close>

definition keeps_content :: "('s \<Rightarrow> string \<rightharpoonup> u8 list) \<Rightarrow> ('s \<Rightarrow> string \<rightharpoonup> (string \<times> string) list) \<Rightarrow> 's \<Rightarrow> 's \<Rightarrow> bool" where
  "keeps_content blobs cols s s' \<longleftrightarrow> blobs s \<subseteq>\<^sub>m blobs s' \<and> cols s \<subseteq>\<^sub>m cols s'"

definition lawful_store :: "'s blob_store \<Rightarrow> ('s \<Rightarrow> string \<rightharpoonup> u8 list)
    \<Rightarrow> ('s \<Rightarrow> string \<rightharpoonup> (string \<times> string) list) \<Rightarrow> bool" where
  "lawful_store st blobs cols \<longleftrightarrow>
     (\<forall>d s s' h. sto_add_bytes st d s = (s', Ok h) \<longrightarrow> keeps_content blobs cols s s' \<and> blobs s' h = Some d) \<and>
     (\<forall>s s' u. sto_batch st s = (s', Ok u) \<longrightarrow> keeps_content blobs cols s s') \<and>
     (\<forall>es s s' h. sto_store_collection st es s = (s', Ok h) \<longrightarrow>
        keeps_content blobs cols s s' \<and> cols s' h = Some es) \<and>
     (\<forall>h s s' u. sto_create_tag st h s = (s', Ok u) \<longrightarrow> keeps_content blobs cols s s') \<and>
     (\<forall>h s d. sto_get_bytes st h s = Ok d \<longrightarrow> blobs s h = Some d) \<and>
     (\<forall>h s es. sto_load_collection st h s = Ok es \<longrightarrow> cols s h = Some es)"

lemma keeps_content_trans:
  "keeps_content blobs cols a b \<Longrightarrow> keeps_content blobs cols b c \<Longrightarrow> keeps_content blobs cols a c"
  by (auto simp: keeps_content_def intro: map_le_trans)

lemma keeps_content_refl: "keeps_content blobs cols a a"
  by (simp add: keeps_content_def)

lemma map_le_Some: "f \<subseteq>\<^sub>m g \<Longrightarrow> f x = Some y \<Longrightarrow> g x = Some y"
  by (metis domI map_le_def)

text \<open>\<open>holds_files\<close>: the entries of a collection name content that is there.\<close>

definition holds_files :: "(string \<rightharpoonup> u8 list) \<Rightarrow> (string \<times> string) list \<Rightarrow> (string \<times> u8 list) list \<Rightarrow> bool" where
  "holds_files blobs entries files \<longleftrightarrow>
     list_all2 (\<lambda>(n, h) (m, d). n = m \<and> blobs h = Some d) entries files"

lemma holds_files_mono:
  "holds_files b es fs \<Longrightarrow> b \<subseteq>\<^sub>m b' \<Longrightarrow> holds_files b' es fs"
  unfolding holds_files_def by (erule list_all2_mono) (auto dest: map_le_Some)

text \<open>The laws, one call at a time.\<close>

lemma lawful_add:
  "lawful_store st blobs cols \<Longrightarrow> sto_add_bytes st d s = (s', Ok h) \<Longrightarrow> keeps_content blobs cols s s' \<and> blobs s' h = Some d"
  by (rule iffD1 [OF lawful_store_def, THEN conjunct1, rule_format])

lemma lawful_batch:
  "lawful_store st blobs cols \<Longrightarrow> sto_batch st s = (s', Ok u) \<Longrightarrow> keeps_content blobs cols s s'"
  by (rule iffD1 [OF lawful_store_def, THEN conjunct2, THEN conjunct1, rule_format])

lemma lawful_collection:
  "lawful_store st blobs cols \<Longrightarrow> sto_store_collection st es s = (s', Ok h) \<Longrightarrow> keeps_content blobs cols s s' \<and> cols s' h = Some es"
  by (rule iffD1 [OF lawful_store_def, THEN conjunct2, THEN conjunct2, THEN conjunct1, rule_format])

lemma lawful_tag:
  "lawful_store st blobs cols \<Longrightarrow> sto_create_tag st h s = (s', Ok u) \<Longrightarrow> keeps_content blobs cols s s'"
  by (rule iffD1 [OF lawful_store_def, THEN conjunct2, THEN conjunct2, THEN conjunct2, THEN conjunct1, rule_format])

lemma lawful_get:
  "lawful_store st blobs cols \<Longrightarrow> sto_get_bytes st h s = Ok d \<Longrightarrow> blobs s h = Some d"
  by (rule iffD1 [OF lawful_store_def, THEN conjunct2, THEN conjunct2, THEN conjunct2, THEN conjunct2, THEN conjunct1, rule_format])

lemma lawful_load:
  "lawful_store st blobs cols \<Longrightarrow> sto_load_collection st h s = Ok es \<Longrightarrow> cols s h = Some es"
  by (rule iffD1 [OF lawful_store_def, THEN conjunct2, THEN conjunct2, THEN conjunct2, THEN conjunct2, THEN conjunct2, rule_format])

lemmas lawful_storeD = lawful_add lawful_batch lawful_collection lawful_tag lawful_get lawful_load

lemma add_entries_Ok:
  "lawful_store st blobs cols \<Longrightarrow> add_entries st files s = (s', Ok es) \<Longrightarrow>
    keeps_content blobs cols s s' \<and> holds_files (blobs s') es files"
proof (induction st files s arbitrary: s' es rule: add_entries.induct)
  case (2 st name data files s)
  from 2(3) obtain s1 h where a1: "sto_add_bytes st data s = (s1, Ok h)"
    "(case add_entries st files s1 of (s2, r) \<Rightarrow> (s2, map_ok (\<lambda>es. (name, h) # es) r)) = (s', Ok es)"
    by (auto simp: store_call_Ok)
  obtain s2 r where r: "add_entries st files s1 = (s2, r)" by fastforce
  with a1 obtain es1 where a: "sto_add_bytes st data s = (s1, Ok h)"
    "add_entries st files s1 = (s', Ok es1)" "es = (name, h) # es1"
    by (auto simp: res_simps)
  note s1 = lawful_storeD(1) [OF 2(2) a(1)]
  from 2(1) [OF 2(2) a(2)] have ih: "keeps_content blobs cols s1 s'" "holds_files (blobs s') es1 files"
    by simp_all
  then have "blobs s' h = Some data" using s1 by (auto simp: keeps_content_def dest: map_le_Some)
  then have "holds_files (blobs s') es ((name, data) # files)" using ih(2) a(3) by (simp add: holds_files_def)
  then show ?case using keeps_content_trans [OF conjunct1 [OF s1] ih(1)] by simp
qed (simp add: keeps_content_refl holds_files_def)

lemma iroh_store_files_Ok:
  assumes law: "lawful_store st blobs cols" and "iroh_store_files st files s = (s', Ok root)"
  shows "\<exists>es. cols s' root = Some es \<and> holds_files (blobs s') es files"
proof -
  from assms(2) obtain s1 s2 s3 es u v where
    c: "sto_batch st s = (s1, Ok u)" "add_entries st files s1 = (s2, Ok es)"
      "sto_store_collection st es s2 = (s3, Ok root)" "sto_create_tag st root s3 = (s', Ok v)"
    by (auto simp: iroh_store_files_def store_call_def split: prod.splits sum.splits)
  note e = add_entries_Ok [OF law c(2)] and f = lawful_storeD(3) [OF law c(3)]
    and t = lawful_storeD(4) [OF law c(4)]
  have "blobs s2 \<subseteq>\<^sub>m blobs s'"
    using keeps_content_trans [OF conjunct1 [OF f] t] by (simp add: keeps_content_def)
  with e have "holds_files (blobs s') es files" using holds_files_mono by blast
  moreover have "cols s' root = Some es" using f t by (auto simp: keeps_content_def dest: map_le_Some)
  ultimately show ?thesis by blast
qed

lemma get_entries_Ok:
  "lawful_store st blobs cols \<Longrightarrow> get_entries st entries s = Ok files \<Longrightarrow> holds_files (blobs s) entries files"
proof (induction st entries s arbitrary: files rule: get_entries.induct)
  case (2 st name h entries s)
  then show ?case
    by (auto simp: holds_files_def and_then_def map_ok_def map_err_def dest: lawful_storeD(5) split: sum.splits)
qed (simp add: holds_files_def)

lemma holds_files_unique:
  "holds_files b entries files \<Longrightarrow> b \<subseteq>\<^sub>m b' \<Longrightarrow> holds_files b' entries files' \<Longrightarrow> files' = files"
proof (induction entries arbitrary: files files')
  case (Cons e entries)
  then obtain n h d d' fs fs' where "e = (n, h)" "files = (n, d) # fs" "files' = (n, d') # fs'"
    "b h = Some d" "b' h = Some d'" "holds_files b entries fs" "holds_files b' entries fs'"
    by (auto simp: holds_files_def list_all2_Cons1)
  with Cons.IH [of fs fs'] Cons.prems(2) show ?case using map_le_Some by fastforce
qed (simp add: holds_files_def)

text \<open>
  Files stored on one device are what another device fetches under their hash. The download is
  where the devices meet: what it brought of this collection is what the sender's store holds.
\<close>

lemma stored_files_are_fetched:
  assumes law: "lawful_store st blobs cols"
    and sent: "iroh_store_files st files s = (s', Ok root)"
    and fetched: "iroh_fetch_collection_files x pk st addresses peer shown r = (r', Ok files')"
    and parsed: "iroh_parse_hash st shown = Ok root"
    and landed: "cols s' root = cols r' root" "blobs s' \<subseteq>\<^sub>m blobs r'"
  shows "files' = files"
proof -
  obtain es where es: "cols s' root = Some es" "holds_files (blobs s') es files"
    using iroh_store_files_Ok [OF law sent] by blast
  from fetched parsed obtain es' where es': "sto_load_collection st root r' = Ok es'"
    "get_entries st es' r' = Ok files'"
    by (auto simp: iroh_fetch_collection_files_def and_then_def map_err_def split: prod.splits sum.splits)
  have "es' = es" using lawful_storeD(6) [OF law es'(1)] landed(1) es(1) by simp
  then show ?thesis
    using holds_files_unique [OF es(2) landed(2)] get_entries_Ok [OF law es'(2)] by simp
qed

text \<open>A peer without an address answers with an error before the store is touched.\<close>

lemma fetch_unknown_peer:
  assumes "book_get peer (as_book addresses) = None" "iroh_parse_hash st h = Ok h'"
  shows "iroh_fetch_bytes x pk st addresses peer h s = (s, Err (BlobPeerNotFound (device_id_display x peer)))"
    "iroh_fetch_collection_files x pk st addresses peer h s =
      (s, Err (BlobPeerNotFound (device_id_display x peer)))"
  using assms by (simp_all add: iroh_fetch_bytes_def iroh_fetch_collection_files_def iroh_download_def
      peer_endpoint_id_def and_then_def ok_or_def)

end
