(* ===== verification/Transport_Start.thy ===== *)
theory Transport_Start
  imports Client
begin

text \<open>
  Starting and stopping the Iroh transport: the key file and \<open>IrohTransport::start\<close>
  (\<open>failsafe-transport/src/iroh/transport.rs\<close>), the loop of the dial manager
  (\<open>iroh/manager.rs\<close>), the blocking receive, and \<open>create_transport_bundle\<close>
  (\<open>failsafe/src/daemon.rs\<close>). Key generation, the public key of a secret key, the endpoint and
  the blob store answer through arguments.
\<close>

section \<open>The key file\<close>

record key_files =
  kf_files :: "path \<rightharpoonup> u8 list"
  kf_faults :: "string option list"

definition next_key_fault :: "key_files \<Rightarrow> string option \<times> key_files" where
  "next_key_fault s = (case kf_faults s of [] \<Rightarrow> (None, s) | f # fs \<Rightarrow> (f, s\<lparr>kf_faults := fs\<rparr>))"

text \<open>\<open>create_dir_all\<close> and the write of a new key, each of which may fail.\<close>

definition create_key :: "u8 list \<Rightarrow> path \<Rightarrow> key_files \<Rightarrow> key_files \<times> (transport_error, u8 list) result" where
  "create_key fresh p s =
     (case next_key_fault s of
        (Some e, s1) \<Rightarrow> (s1, Err (CodecError e))
      | (None, s1) \<Rightarrow>
          (case next_key_fault s1 of
             (Some e, s2) \<Rightarrow> (s2, Err (CodecError e))
           | (None, s2) \<Rightarrow> (s2\<lparr>kf_files := (kf_files s2)(p \<mapsto> fresh)\<rparr>, Ok fresh)))"

definition load_or_create_secret_key :: "(path \<Rightarrow> string) \<Rightarrow> u8 list \<Rightarrow> path \<Rightarrow> key_files
    \<Rightarrow> key_files \<times> (transport_error, u8 list) result" where
  "load_or_create_secret_key show_path fresh p s =
     (case kf_files s p of
        Some bytes \<Rightarrow>
          (case next_key_fault s of
             (Some e, s1) \<Rightarrow> (s1, Err (CodecError e))
           | (None, s1) \<Rightarrow>
               (s1, if length bytes \<noteq> 32
                    then Err (CodecError (''secret key at '' @ show_path p @ '' must be 32 bytes''))
                    else Ok bytes))
      | None \<Rightarrow> create_key fresh p s)"

definition iroh_public_key_hex :: "(path \<Rightarrow> string) \<Rightarrow> (u8 list \<Rightarrow> string) \<Rightarrow> u8 list \<Rightarrow> path \<Rightarrow> key_files
    \<Rightarrow> key_files \<times> (transport_error, string) result" where
  "iroh_public_key_hex show_path public_key fresh p s =
     (case load_or_create_secret_key show_path fresh p s of (s', r) \<Rightarrow> (s', map_ok public_key r))"

lemma next_key_fault_files: "next_key_fault s = (f, s') \<Longrightarrow> kf_files s' = kf_files s"
  by (auto simp: next_key_fault_def split: list.splits)

lemma load_key_Ok:
  assumes "load_or_create_secret_key sp fresh p s = (s', Ok k)" "length fresh = 32"
  shows "kf_files s' = (kf_files s)(p \<mapsto> k)" "length k = 32" "kf_files s p = None \<longrightarrow> k = fresh"
    "kf_files s p \<noteq> None \<longrightarrow> kf_files s p = Some k"
  using assms
  by (auto simp: load_or_create_secret_key_def create_key_def fun_upd_idem
      split: option.splits prod.splits if_splits dest!: next_key_fault_files)

text \<open>A device keeps its identity: the key of the first start is the key of every later one.\<close>

lemma key_is_kept:
  assumes "load_or_create_secret_key sp fresh p s = (s1, Ok k)" "length fresh = 32"
    and "load_or_create_secret_key sp fresh' p s1 = (s2, r)" "kf_faults s1 = []"
  shows "r = Ok k" "kf_files s2 = kf_files s1"
proof -
  note k = load_key_Ok [OF assms(1,2)]
  then have "load_or_create_secret_key sp fresh' p s1 = (s1, Ok k)"
    using assms(4) by (simp add: load_or_create_secret_key_def next_key_fault_def)
  then show "r = Ok k" "kf_files s2 = kf_files s1" using assms(3) by simp_all
qed

text \<open>A key file of another length is an error and is left as it is.\<close>

lemma short_key_rejected:
  assumes "kf_files s p = Some bytes" "length bytes \<noteq> 32"
    and "load_or_create_secret_key sp fresh p s = (s', r)"
  shows "is_ok r \<Longrightarrow> False" "kf_files s' = kf_files s"
  using assms by (auto simp: load_or_create_secret_key_def split: prod.splits option.splits
      dest!: next_key_fault_files)

section \<open>Starting\<close>

text \<open>
  \<open>load_store\<close> and \<open>bind_endpoint\<close> are the answers of the blob store and of the endpoint; the
  router and the dial manager are spawned with the state this returns.
\<close>

definition iroh_start :: "(path \<Rightarrow> string) \<Rightarrow> (u8 list \<Rightarrow> string) \<Rightarrow> u8 list
    \<Rightarrow> (string \<Rightarrow> (string, string) result) \<Rightarrow> (path \<Rightarrow> (string, unit) result)
    \<Rightarrow> (u8 list \<Rightarrow> (string, unit) result) \<Rightarrow> device_id \<Rightarrow> path \<Rightarrow> path \<Rightarrow> peer_address_book
    \<Rightarrow> key_files \<Rightarrow> key_files \<times> (transport_error, net_state) result" where
  "iroh_start show_path public_key fresh pk load_store bind_endpoint device key_path store_path book s =
     (case load_or_create_secret_key show_path fresh key_path s of
        (s', Err e) \<Rightarrow> (s', Err e)
      | (s', Ok key) \<Rightarrow>
          (s', and_then (map_err CodecError (load_store store_path)) (\<lambda>_.
               and_then (map_err CodecError (bind_endpoint key)) (\<lambda>_.
               map_ok (net_start device (public_key key)) (address_state_from_book pk book)))))"

lemma iroh_start_Ok:
  assumes "iroh_start sp public_key fresh pk ls be d kp st book s = (s', Ok n)" "length fresh = 32"
  shows "pool_inv n" "ns_device_id n = d" "\<exists>k. kf_files s' kp = Some k \<and> ns_endpoint_id n = public_key k"
proof -
  from assms(1) obtain k where k: "load_or_create_secret_key sp fresh kp s = (s', Ok k)"
    and n: "\<exists>a. n = net_start d (public_key k) a"
    by (auto simp: iroh_start_def res_simps split: prod.splits sum.splits)
  then show "pool_inv n" "ns_device_id n = d" "\<exists>k. kf_files s' kp = Some k \<and> ns_endpoint_id n = public_key k"
    using pool_inv_start load_key_Ok(1) [OF k assms(2)] by (auto simp: net_start_def)
qed

section \<open>The dial manager\<close>

text \<open>
  A turn of its \<open>select!\<close>: the shutdown flag was written, or the timer ticked, with what the
  endpoint answers to each attempt to connect. \<open>dial_manager\<close> also says whether it has ended.
\<close>

datatype manager_event =
    ShutdownChanged bool
  | DialTick "string \<Rightarrow> (string, conn) result"

fun run_dial_manager :: "(string \<Rightarrow> (string, string) result) \<Rightarrow> manager_event list \<Rightarrow> net_state
    \<Rightarrow> net_state \<times> bool" where
  "run_dial_manager pk [] s = (s, False)"
| "run_dial_manager pk (ShutdownChanged flag # es) s =
     (if flag then (s, True) else run_dial_manager pk es s)"
| "run_dial_manager pk (DialTick connect # es) s = run_dial_manager pk es (dial_peers pk connect s)"

text \<open>What it does is steps of the transport, as long as connections are authenticated.\<close>

lemma run_dial_manager_steps:
  "\<forall>connect. DialTick connect \<in> set es \<longrightarrow> (\<forall>k c. connect k = Ok c \<longrightarrow> c_remote_id c = k) \<Longrightarrow>
     (net_step pk de ser)\<^sup>*\<^sup>* s (fst (run_dial_manager pk es s))"
proof (induction pk es s rule: run_dial_manager.induct)
  case (3 pk connect es s)
  have "net_step pk de ser s (dial_peers pk connect s)"
    using 3(2) by (intro step_dial) simp
  then show ?case using 3 by (simp add: converse_rtranclp_into_rtranclp)
qed auto

lemma shutdown_stops_dialing:
  "\<forall>connect. DialTick connect \<notin> set es \<Longrightarrow> ShutdownChanged True \<in> set es \<Longrightarrow>
     run_dial_manager pk es s = (s, True)"
  by (induction pk es s rule: run_dial_manager.induct) auto

text \<open>A device that is pooled is not dialed again.\<close>

lemma pooled_not_dialed:
  "pool_get d (ns_pool s) \<noteq> None \<Longrightarrow> try_dial_one pk connect (d, a) s = s"
  by (simp add: try_dial_one_def)

section \<open>Receiving\<close>

text \<open>\<open>None\<close>: still waiting. The inbox's senders live as long as the transport.\<close>

definition iroh_recv :: "net_state \<Rightarrow> (net_state \<times> (transport_error, feature_message) result) option" where
  "iroh_recv s =
     (case ch_queue (se_inbox (ns_streams s)) of
        [] \<Rightarrow> None
      | m # ms \<Rightarrow>
          Some (s\<lparr>ns_streams := (ns_streams s)\<lparr>se_inbox := (se_inbox (ns_streams s))\<lparr>ch_queue := ms\<rparr>\<rparr>\<rparr>, Ok m))"

lemma recv_agrees_with_try_recv:
  "iroh_recv s = Some (s', Ok m) \<longleftrightarrow> iroh_try_recv s = (s', Ok (Some m))"
  "iroh_recv s = None \<longleftrightarrow> iroh_try_recv s = (s, Ok None)"
  by (auto simp: iroh_recv_def iroh_try_recv_def split: list.splits)

section \<open>The bundle of the daemon\<close>

record transport_bundle =
  tb_transport :: net_state
  tb_public_key :: string

definition create_transport_bundle :: "path option \<Rightarrow> path option
    \<Rightarrow> (path \<Rightarrow> path \<Rightarrow> device_id \<Rightarrow> peer_address_book \<Rightarrow> key_files \<Rightarrow> key_files \<times> (transport_error, net_state) result)
    \<Rightarrow> config \<Rightarrow> peer_address_book \<Rightarrow> key_files \<Rightarrow> key_files \<times> (daemon_error, transport_bundle) result" where
  "create_transport_bundle config_dir data_dir start c book s =
     (case ok_or (default_secret_key_path config_dir) (DConfig ''could not determine iroh secret key path'') of
        Err e \<Rightarrow> (s, Err e)
      | Ok key_path \<Rightarrow>
          (case ok_or (resolved_blob_store_path data_dir c) (DConfig ''could not determine blob store path'') of
             Err e \<Rightarrow> (s, Err e)
           | Ok store_path \<Rightarrow>
               (case start key_path store_path (cf_device_id c) book s of
                  (s', r) \<Rightarrow>
                    (s', map_ok (\<lambda>n. \<lparr>tb_transport = n, tb_public_key = ns_endpoint_id n\<rparr>)
                           (map_err DTransport r)))))"

text \<open>
  The key the command line announces before a daemon ever ran is the one the daemon starts with.
\<close>

lemma announced_key_is_used:
  assumes "default_secret_key_path config_dir = Some kp"
    and "iroh_public_key_hex sp public_key fresh kp s = (s1, Ok text)" "length fresh = 32" "kf_faults s1 = []"
    and "create_transport_bundle config_dir data_dir (\<lambda>kp st d. iroh_start sp public_key fresh' pk ls be d kp st)
           c book s1 = (s2, Ok b)"
  shows "tb_public_key b = text"
proof -
  from assms(2) obtain k where k: "load_or_create_secret_key sp fresh kp s = (s1, Ok k)" "text = public_key k"
    by (auto simp: iroh_public_key_hex_def res_simps split: prod.splits)
  obtain s3 r where "load_or_create_secret_key sp fresh' kp s1 = (s3, r)" by fastforce
  moreover from this have "r = Ok k" using key_is_kept(1) [OF k(1) assms(3)] assms(4) by blast
  ultimately have s3: "load_or_create_secret_key sp fresh' kp s1 = (s3, Ok k)" by simp
  with assms(1,5) k(2) show ?thesis
    by (auto simp: create_transport_bundle_def iroh_start_def net_start_def res_simps
        split: prod.splits sum.splits)
qed

end
