(* ===== verification/Mock_Network.thy ===== *)
theory Mock_Network
  imports Network
begin

text \<open>
  The in-memory network of \<open>failsafe-transport/src/mock.rs\<close>, the other implementation of the
  \<open>Transport\<close> trait. A channel is a number: the router holds the sender of a device's channel,
  a transport its receiver. A send to a channel whose 32 places are taken waits for a place and
  is then as here; \<open>mn_delivered\<close> records what was handed over.
\<close>

record mock_channel =
  mc_queue :: "feature_message list"
  mc_receiver :: bool

record mock_network =
  mn_router :: "(device_id \<times> nat) list"
  mn_channels :: "mock_channel list"
  mn_delivered :: "(device_id \<times> feature_message) list"

record mock_transport =
  mt_local_id :: device_id
  mt_inbox :: nat
  mt_network :: mock_network

definition mock_network_new :: mock_network where
  "mock_network_new = \<lparr>mn_router = [], mn_channels = [], mn_delivered = []\<rparr>"

definition connect_with_id :: "device_id \<Rightarrow> mock_network \<Rightarrow> mock_transport" where
  "connect_with_id local_id net =
     (let inbox = length (mn_channels net) in
      \<lparr>mt_local_id = local_id, mt_inbox = inbox,
       mt_network = net\<lparr>mn_router := map_insert local_id inbox (mn_router net),
          mn_channels := mn_channels net @ [\<lparr>mc_queue = [], mc_receiver = True\<rparr>]\<rparr>\<rparr>)"

text \<open>\<open>pair\<close>: two transports of one network; both see the network after the second has connected.\<close>

definition mock_pair :: "device_id \<Rightarrow> device_id \<Rightarrow> mock_transport \<times> mock_transport" where
  "mock_pair ida idb =
     (let a = connect_with_id ida mock_network_new;
          b = connect_with_id idb (mt_network a)
      in (a\<lparr>mt_network := mt_network b\<rparr>, b))"

definition mock_connected_peers :: "mock_transport \<Rightarrow> device_id list" where
  "mock_connected_peers t = filter (\<lambda>peer. peer \<noteq> mt_local_id t) (map fst (mn_router (mt_network t)))"

definition mock_send :: "feature_message \<Rightarrow> mock_transport \<Rightarrow> mock_transport \<times> (transport_error, unit) result" where
  "mock_send message t =
     (let net = mt_network t in
      case map_of (mn_router net) (fm_to message) of
        None \<Rightarrow> (t, Err (PeerNotFound (fm_to message)))
      | Some n \<Rightarrow>
          (let c = mn_channels net ! n in
           if mc_receiver c
           then (t\<lparr>mt_network := net\<lparr>
                     mn_channels := (mn_channels net)[n := c\<lparr>mc_queue := mc_queue c @ [message]\<rparr>],
                     mn_delivered := mn_delivered net @ [(fm_to message, message)]\<rparr>\<rparr>, Ok ())
           else (t, Err Disconnected)))"

text \<open>Every sender of the channel is gone once the router has none: nothing will come any more.\<close>

definition mock_try_recv :: "mock_transport \<Rightarrow> mock_transport \<times> (transport_error, feature_message option) result" where
  "mock_try_recv t =
     (let net = mt_network t; c = mn_channels net ! mt_inbox t in
      case mc_queue c of
        m # ms \<Rightarrow>
          (t\<lparr>mt_network := net\<lparr>mn_channels := (mn_channels net)[mt_inbox t := c\<lparr>mc_queue := ms\<rparr>]\<rparr>\<rparr>,
           Ok (Some m))
      | [] \<Rightarrow> (t, if mt_inbox t \<in> snd ` set (mn_router net) then Ok None else Err Disconnected))"

definition mock_recv :: "mock_transport \<Rightarrow> (mock_transport \<times> (transport_error, feature_message) result) option" where
  "mock_recv t =
     (case mock_try_recv t of
        (t', Ok (Some m)) \<Rightarrow> Some (t', Ok m)
      | (t', Ok None) \<Rightarrow> None
      | (t', Err e) \<Rightarrow> Some (t', Err e))"

text \<open>A transport that goes away takes its receiver with it.\<close>

definition mock_drop :: "mock_transport \<Rightarrow> mock_network" where
  "mock_drop t =
     (let net = mt_network t in
      net\<lparr>mn_channels := (mn_channels net)[mt_inbox t := (mn_channels net ! mt_inbox t)\<lparr>mc_receiver := False\<rparr>]\<rparr>)"

definition mock_transport_ops :: "mock_transport transport_ops" where
  "mock_transport_ops =
     \<lparr>tr_local_device_id = mt_local_id, tr_send = mock_send, tr_connected_peers = mock_connected_peers,
      tr_try_recv = mock_try_recv\<rparr>"

text \<open>
  It keeps the contract of the transport: the routing lemmas hold for it, with any injective
  picture \<open>bytes\<close> of a message in the place of its frame.
\<close>

interpretation mocknet: transport mock_transport_ops
  "\<lambda>t. map (\<lambda>(d, m). (d, bytes m)) (mn_delivered (mt_network t))" "\<lambda>m. Some (bytes m)"
  by unfold_locales
    (auto simp: mock_transport_ops_def mock_send_def Let_def split: option.splits if_splits)

section \<open>What its users rely on\<close>

definition mock_inv :: "mock_network \<Rightarrow> bool" where
  "mock_inv net \<longleftrightarrow> distinct (map fst (mn_router net)) \<and>
     (\<forall>(d, n) \<in> set (mn_router net). n < length (mn_channels net)) \<and>
     inj_on snd (set (mn_router net))"

lemma mock_inv_new: "mock_inv mock_network_new"
  by (simp add: mock_inv_def mock_network_new_def)

lemma mock_inv_send: "mock_inv (mt_network t) \<Longrightarrow> mock_inv (mt_network (fst (mock_send m t)))"
  by (auto simp: mock_send_def Let_def mock_inv_def split: option.splits)

lemma mock_inv_try_recv: "mock_inv (mt_network t) \<Longrightarrow> mock_inv (mt_network (fst (mock_try_recv t)))"
  by (auto simp: mock_try_recv_def Let_def mock_inv_def split: list.splits)

lemma mock_inv_drop: "mock_inv (mt_network t) \<Longrightarrow> mock_inv (mock_drop t)"
  by (auto simp: mock_drop_def Let_def mock_inv_def)

lemma mem_map_insert:
  assumes "distinct (map fst m)"
  shows "(e, k) \<in> set (map_insert d v m) \<longleftrightarrow> (if e = d then k = v else (e, k) \<in> set m)"
proof -
  have "(e, k) \<in> set (map_insert d v m) \<longleftrightarrow> map_of (map_insert d v m) e = Some k"
    using map_of_eq_Some_iff [OF distinct_map_insert [OF assms]] by blast
  also have "\<dots> \<longleftrightarrow> (if e = d then k = v else map_of m e = Some k)" by auto
  also have "map_of m e = Some k \<longleftrightarrow> (e, k) \<in> set m" using assms by simp
  finally show ?thesis .
qed

lemma mock_inv_router:
  assumes "mock_inv net" "(d, n) \<in> set (mn_router net)"
  shows "n < length (mn_channels net)" "(e, n) \<in> set (mn_router net) \<Longrightarrow> e = d"
  using assms inj_onD [of snd "set (mn_router net)" "(e, n)" "(d, n)"] by (auto simp: mock_inv_def)

lemma mock_inv_connect: "mock_inv net \<Longrightarrow> mock_inv (mt_network (connect_with_id d net))"
proof -
  assume inv: "mock_inv net"
  then have dist: "distinct (map fst (mn_router net))" by (simp add: mock_inv_def)
  let ?r = "map_insert d (length (mn_channels net)) (mn_router net)"
  have "inj_on snd (set ?r)"
  proof (rule inj_onI, clarify)
    fix e n e' n'
    assume "(e, n) \<in> set ?r" "(e', n') \<in> set ?r" "snd (e, n) = snd (e', n')"
    then show "e = e' \<and> n = n'"
      unfolding mem_map_insert [OF dist]
      using mock_inv_router [OF inv] by (auto split: if_splits)
  qed
  moreover have "\<forall>(e, n) \<in> set ?r. n < Suc (length (mn_channels net))"
    using mock_inv_router(1) [OF inv] by (auto simp: mem_map_insert [OF dist] less_Suc_eq split: if_splits)
  ultimately show "mock_inv (mt_network (connect_with_id d net))"
    using dist by (simp add: mock_inv_def connect_with_id_def Let_def)
qed

text \<open>What is sent to a device is what its transport receives next, after what was there.\<close>

lemma mock_send_then_recv:
  assumes "mock_send m t = (t', Ok ())" and "map_of (mn_router (mt_network t)) (fm_to m) = Some (mt_inbox r)"
    and "mt_inbox r < length (mn_channels (mt_network t))" and "mt_network r = mt_network t'"
  shows "mc_queue (mn_channels (mt_network r) ! mt_inbox r) =
      mc_queue (mn_channels (mt_network t) ! mt_inbox r) @ [m]"
    "mc_queue (mn_channels (mt_network t) ! mt_inbox r) = [] \<Longrightarrow> snd (mock_try_recv r) = Ok (Some m)"
proof -
  from assms(1,2,3) show q: "mc_queue (mn_channels (mt_network r) ! mt_inbox r) =
      mc_queue (mn_channels (mt_network t) ! mt_inbox r) @ [m]"
    unfolding assms(4) by (auto simp: mock_send_def Let_def split: if_splits)
  show "mc_queue (mn_channels (mt_network t) ! mt_inbox r) = [] \<Longrightarrow> snd (mock_try_recv r) = Ok (Some m)"
    using q by (simp add: mock_try_recv_def Let_def)
qed

lemma mock_send_other:
  assumes "map_of (mn_router (mt_network t)) (fm_to m) \<noteq> Some n"
  shows "mn_channels (mt_network (fst (mock_send m t))) ! n = mn_channels (mt_network t) ! n"
  using assms by (auto simp: mock_send_def Let_def split: option.splits)

lemma mock_send_unknown:
  "fm_to m \<notin> fst ` set (mn_router (mt_network t)) \<Longrightarrow> mock_send m t = (t, Err (PeerNotFound (fm_to m)))"
  by (simp add: mock_send_def Let_def map_of_eq_None_iff split: option.splits)

text \<open>A device that connects again takes over its name; the old transport hears no more.\<close>

lemma reconnected_old_transport_disconnected:
  assumes inv: "mock_inv (mt_network t)" and "map_of (mn_router (mt_network t)) d = Some (mt_inbox t)"
    and "mc_queue (mn_channels (mt_network t) ! mt_inbox t) = []"
  shows "snd (mock_try_recv (t\<lparr>mt_network := mt_network (connect_with_id d (mt_network t))\<rparr>)) = Err Disconnected"
proof -
  let ?net = "mt_network t"
  let ?n = "length (mn_channels ?net)"
  have own: "(d, mt_inbox t) \<in> set (mn_router ?net)" by (rule map_of_SomeD [OF assms(2)])
  have dist: "distinct (map fst (mn_router ?net))" using inv by (simp add: mock_inv_def)
  note lt = mock_inv_router(1) [OF inv own]
  have "(e, mt_inbox t) \<notin> set (map_insert d ?n (mn_router ?net))" for e
    using lt mock_inv_router(2) [OF inv own, of e] by (auto simp: mem_map_insert [OF dist])
  then have "mt_inbox t \<notin> snd ` set (map_insert d ?n (mn_router ?net))" by force
  then show ?thesis using assms(3) lt
    by (simp add: mock_try_recv_def connect_with_id_def Let_def nth_append)
qed

end
