(* ===== verification/Transfer_Files.thy ===== *)
theory Transfer_Files
  imports Send_Feature
begin

text \<open>
  How the transfer states lie on disk (\<open>failsafe-send/src/transfer_state.rs\<close>): one file per
  transfer, written beside its place and renamed into it. \<open>Transfers.state_dir\<close> is what the rest
  of the program sees of it; here the files keep that contract, and a process stopped at any
  moment leaves whole states behind. \<open>ser\<close> and \<open>de\<close> are serde's writer and reader of a state,
  \<open>disp\<close> the text of an id.
\<close>

section \<open>Names\<close>

definition file_stem :: "string \<Rightarrow> string" where
  "file_stem name =
     (let r = dropWhile (\<lambda>c. c \<noteq> CHR ''.'') (rev name) in if r = [] \<or> tl r = [] then name else rev (tl r))"

definition with_extension :: "string \<Rightarrow> string \<Rightarrow> string" where
  "with_extension ext name = file_stem name @ ''.'' @ ext"

definition has_json_extension :: "string \<Rightarrow> bool" where
  "has_json_extension name \<longleftrightarrow> file_stem name @ ''.json'' = name \<and> file_stem name \<noteq> name"

definition transfers_dir :: "path option \<Rightarrow> path option" where
  "transfers_dir data_local = map_option (\<lambda>dir. dir @ [''failsafe'', ''transfers'']) data_local"

definition state_dir_path :: "string \<Rightarrow> path option \<Rightarrow> path option" where
  "state_dir_path kind data_local = map_option (\<lambda>dir. dir @ [kind]) (transfers_dir data_local)"

definition state_name :: "(uuid \<Rightarrow> string) \<Rightarrow> uuid \<Rightarrow> string" where
  "state_name disp i = disp i @ ''.json''"

definition state_path :: "(uuid \<Rightarrow> string) \<Rightarrow> string \<Rightarrow> path option \<Rightarrow> uuid \<Rightarrow> path option" where
  "state_path disp kind data_local i =
     map_option (\<lambda>dir. dir @ [state_name disp i]) (state_dir_path kind data_local)"

text \<open>Where received files go by default.\<close>

definition downloads_base_dir :: "path option \<Rightarrow> path option \<Rightarrow> path option" where
  "downloads_base_dir download_dir home_dir =
     map_option (\<lambda>dir. dir @ [''failsafe''])
       (case download_dir of Some d \<Rightarrow> Some d | None \<Rightarrow> map_option (\<lambda>h. h @ [''Downloads'']) home_dir)"

section \<open>Files\<close>

text \<open>
  A fault of a write says how many bytes were written before it. \<open>tf_seen\<close> are the contents the
  disk has gone through; a write goes through every prefix of what it writes.
\<close>

record byte_dir =
  tf_base :: "path option"
  tf_files :: "path \<rightharpoonup> u8 list"
  tf_seen :: "(path \<rightharpoonup> u8 list) list"
  tf_faults :: "(string \<times> nat) option list"

definition next_io_fault :: "byte_dir \<Rightarrow> (string \<times> nat) option \<times> byte_dir" where
  "next_io_fault d = (case tf_faults d of [] \<Rightarrow> (None, d) | f # fs \<Rightarrow> (f, d\<lparr>tf_faults := fs\<rparr>))"

definition put_files :: "(path \<rightharpoonup> u8 list) list \<Rightarrow> byte_dir \<Rightarrow> byte_dir" where
  "put_files fss d = (if fss = [] then d else d\<lparr>tf_files := last fss, tf_seen := tf_seen d @ fss\<rparr>)"

definition write_file :: "path \<Rightarrow> u8 list \<Rightarrow> byte_dir \<Rightarrow> byte_dir \<times> (string, unit) result" where
  "write_file p bytes d =
     (case next_io_fault d of
        (Some (e, n), d') \<Rightarrow>
          (put_files (map (\<lambda>k. (tf_files d')(p \<mapsto> take k bytes)) [0..<n]) d', Err e)
      | (None, d') \<Rightarrow>
          (put_files (map (\<lambda>k. (tf_files d')(p \<mapsto> take k bytes)) [0..<Suc (length bytes)]) d', Ok ()))"

text \<open>\<open>rename\<close> replaces its target in one step.\<close>

definition rename_file :: "path \<Rightarrow> path \<Rightarrow> byte_dir \<Rightarrow> byte_dir \<times> (string, unit) result" where
  "rename_file p q d =
     (case next_io_fault d of
        (Some (e, _), d') \<Rightarrow> (d', Err e)
      | (None, d') \<Rightarrow>
          (case tf_files d' p of
             None \<Rightarrow> (d', Err ''No such file or directory'')
           | Some bytes \<Rightarrow> (put_files [(tf_files d')(p := None, q \<mapsto> bytes)] d', Ok ())))"

definition temp_path :: "path \<Rightarrow> path" where
  "temp_path p = butlast p @ [with_extension ''json.tmp'' (last p)]"

definition write_state :: "('s \<Rightarrow> (string, u8 list) result) \<Rightarrow> path \<Rightarrow> 's \<Rightarrow> byte_dir
    \<Rightarrow> byte_dir \<times> (string, unit) result" where
  "write_state ser p st d =
     (case next_io_fault d of
        (Some (e, _), d1) \<Rightarrow> (d1, Err (''failed to create transfer state dir: '' @ e))
      | (None, d1) \<Rightarrow>
          (case ser st of
             Err e \<Rightarrow> (d1, Err (''failed to encode transfer state: '' @ e))
           | Ok payload \<Rightarrow>
               (case write_file (temp_path p) payload d1 of
                  (d2, Err e) \<Rightarrow> (d2, Err (''failed to write transfer state: '' @ e))
                | (d2, Ok _) \<Rightarrow>
                    (case rename_file (temp_path p) p d2 of
                       (d3, r) \<Rightarrow> (d3, map_err (\<lambda>e. ''failed to commit transfer state: '' @ e) r)))))"

definition read_state :: "(u8 list \<Rightarrow> (string, 's) result) \<Rightarrow> path \<Rightarrow> byte_dir
    \<Rightarrow> byte_dir \<times> (string, 's) result" where
  "read_state de p d =
     (case next_io_fault d of
        (Some (e, _), d') \<Rightarrow> (d', Err (''failed to read transfer state: '' @ e))
      | (None, d') \<Rightarrow>
          (d', map_err (\<lambda>e. ''failed to decode transfer state: '' @ e)
                 (case tf_files d' p of None \<Rightarrow> Err ''No such file or directory'' | Some bytes \<Rightarrow> de bytes)))"

definition save_state_file :: "(uuid \<Rightarrow> string) \<Rightarrow> string \<Rightarrow> ('s \<Rightarrow> (string, u8 list) result) \<Rightarrow> ('s \<Rightarrow> uuid)
    \<Rightarrow> 's \<Rightarrow> byte_dir \<Rightarrow> byte_dir \<times> (string, unit) result" where
  "save_state_file disp kind ser key st d =
     (case state_path disp kind (tf_base d) (key st) of
        None \<Rightarrow> (d, Err no_directory)
      | Some p \<Rightarrow> write_state ser p st d)"

definition load_state_file :: "(uuid \<Rightarrow> string) \<Rightarrow> string \<Rightarrow> (u8 list \<Rightarrow> (string, 's) result) \<Rightarrow> uuid
    \<Rightarrow> byte_dir \<Rightarrow> byte_dir \<times> (string, 's) result" where
  "load_state_file disp kind de i d =
     (case state_path disp kind (tf_base d) i of
        None \<Rightarrow> (d, Err no_directory)
      | Some p \<Rightarrow>
          (if tf_files d p = None then (d, Err (''no '' @ kind @ '' transfer state found for '' @ disp i))
           else read_state de p d))"

definition remove_state_file :: "(uuid \<Rightarrow> string) \<Rightarrow> string \<Rightarrow> uuid \<Rightarrow> byte_dir
    \<Rightarrow> byte_dir \<times> (string, unit) result" where
  "remove_state_file disp kind i d =
     (case state_path disp kind (tf_base d) i of
        None \<Rightarrow> (d, Ok ())
      | Some p \<Rightarrow>
          (if tf_files d p = None then (d, Ok ())
           else (case next_io_fault d of
             (Some (e, _), d') \<Rightarrow> (d', Err (''failed to remove '' @ kind @ '' transfer state: '' @ e))
           | (None, d') \<Rightarrow> (put_files [(tf_files d')(p := None)] d', Ok ()))))"

text \<open>The loop of the listing over the names \<open>read_dir\<close> yields.\<close>

fun list_files :: "('s \<Rightarrow> bool) \<Rightarrow> (u8 list \<Rightarrow> (string, 's) result) \<Rightarrow> path \<Rightarrow> string list \<Rightarrow> byte_dir
    \<Rightarrow> byte_dir \<times> (string, 's list) result" where
  "list_files finished de dir [] d = (d, Ok [])"
| "list_files finished de dir (name # names) d =
     (if \<not> has_json_extension name then list_files finished de dir names d
      else (case read_state de (dir @ [name]) d of
        (d', Err e) \<Rightarrow> (d', Err e)
      | (d', Ok st) \<Rightarrow>
          (case list_files finished de dir names d' of
             (d'', Err e) \<Rightarrow> (d'', Err e)
           | (d'', Ok sts) \<Rightarrow> (d'', Ok (if finished st then sts else st # sts)))))"

section \<open>Stored paths\<close>

text \<open>A path in an old state file is only the local path; its label is then empty.\<close>

datatype stored_send_path = LegacyPath string | SpecPath send_path_spec

definition deserialize_send_paths :: "stored_send_path list \<Rightarrow> send_path_spec list" where
  "deserialize_send_paths items =
     map (\<lambda>item. case item of LegacyPath l \<Rightarrow> \<lparr>sp_local = l, sp_label = []\<rparr> | SpecPath s \<Rightarrow> s) items"

definition serialize_send_paths :: "send_path_spec list \<Rightarrow> stored_send_path list" where
  "serialize_send_paths paths = map SpecPath paths"

lemma stored_paths_roundtrip: "deserialize_send_paths (serialize_send_paths ps) = ps"
  by (simp add: deserialize_send_paths_def serialize_send_paths_def comp_def)

section \<open>Names do not clash\<close>

lemma file_stem_json: "s \<noteq> [] \<Longrightarrow> file_stem (s @ ''.json'') = s"
  by (simp add: file_stem_def Let_def)

lemma state_name_json: "disp i \<noteq> [] \<Longrightarrow> has_json_extension (state_name disp i)"
  by (simp add: has_json_extension_def state_name_def file_stem_json)

lemma temp_name: "with_extension ''json.tmp'' n \<noteq> state_name disp j"
  by (auto simp: state_name_def with_extension_def dest!: arg_cong [of _ _ rev])

lemma temp_not_json: "s \<noteq> [] \<Longrightarrow> \<not> has_json_extension (with_extension ''json.tmp'' (s @ ''.json''))"
proof -
  assume s: "s \<noteq> []"
  have "file_stem (s @ ''.json.tmp'') = s @ ''.json''" by (simp add: file_stem_def Let_def)
  then show ?thesis using s by (simp add: has_json_extension_def with_extension_def file_stem_json)
qed


lemma temp_path_state:
  "state_path disp kind base i = Some p \<Longrightarrow> state_path disp kind base' j = Some q \<Longrightarrow> temp_path p \<noteq> q"
  using temp_name by (auto simp: state_path_def temp_path_def)

lemma state_path_inj:
  "inj disp \<Longrightarrow> state_path disp kind base i = Some p \<Longrightarrow> state_path disp kind base j = Some p \<Longrightarrow> i = j"
  by (auto simp: state_path_def state_name_def dest: injD)

section \<open>One save, step by step\<close>

lemma next_io_fault_frame:
  "next_io_fault d = (f, d') \<Longrightarrow> tf_files d' = tf_files d \<and> tf_base d' = tf_base d \<and> tf_seen d' = tf_seen d"
  by (auto simp: next_io_fault_def split: list.splits)

lemma put_files_simps [simp]:
  "tf_base (put_files fss d) = tf_base d" "tf_seen (put_files fss d) = tf_seen d @ fss"
  "tf_files (put_files fss d) = (if fss = [] then tf_files d else last fss)"
  by (simp_all add: put_files_def)

lemma write_file_spec:
  assumes "write_file p bytes d = (d', r)"
  shows "tf_base d' = tf_base d" "q \<noteq> p \<Longrightarrow> tf_files d' q = tf_files d q"
    "r = Ok () \<Longrightarrow> tf_files d' p = Some bytes"
    "\<exists>fss. tf_seen d' = tf_seen d @ fss \<and> (\<forall>f \<in> set fss. \<forall>q. q \<noteq> p \<longrightarrow> f q = tf_files d q)"
  using assms
  by (auto simp: write_file_def last_map split: prod.splits option.splits dest!: next_io_fault_frame)

lemma rename_file_spec:
  assumes "rename_file p q d = (d', r)" "p \<noteq> q"
  shows "tf_base d' = tf_base d"
    "r \<noteq> Ok () \<Longrightarrow> tf_files d' = tf_files d \<and> tf_seen d' = tf_seen d"
    "r = Ok () \<Longrightarrow> tf_files d' = (tf_files d)(p := None, q := tf_files d p) \<and> tf_seen d' = tf_seen d @ [tf_files d']"
  using assms
  by (auto simp: rename_file_def fun_eq_iff split: prod.splits option.splits dest!: next_io_fault_frame)

text \<open>
  \<open>beside\<close>: the two contents agree outside the temporary file; \<open>saved\<close>: the state file has been
  replaced as well.
\<close>

lemma write_state_spec:
  assumes w: "write_state ser p st d = (d', r)" and ne: "temp_path p \<noteq> p"
  defines "same \<equiv> \<lambda>f. \<forall>q. q \<noteq> temp_path p \<longrightarrow> f q = tf_files d q"
    and "saved \<equiv> \<lambda>f. \<exists>b. ser st = Ok b \<and> (\<forall>q. q \<noteq> temp_path p \<longrightarrow> f q = ((tf_files d)(p \<mapsto> b)) q)"
  shows "tf_base d' = tf_base d \<and> (if r = Ok () then saved (tf_files d') else same (tf_files d')) \<and>
    (\<exists>fss. tf_seen d' = tf_seen d @ fss \<and> (\<forall>f \<in> set fss. same f \<or> saved f))"
proof -
  obtain f0 d1 where d1: "next_io_fault d = (f0, d1)" by fastforce
  note fr = next_io_fault_frame [OF d1]
  show ?thesis
  proof (cases "f0 = None \<and> is_ok (ser st)")
    case False
    then have "r \<noteq> Ok ()" "d' = d1"
      using w d1 by (auto simp: write_state_def split: option.splits sum.splits prod.splits)
    with fr show ?thesis by (simp add: same_def)
  next
    case True
    then obtain b where b: "ser st = Ok b" by (cases "ser st") auto
    obtain d2 r2 where d2: "write_file (temp_path p) b d1 = (d2, r2)" by fastforce
    note w2 = write_file_spec [OF d2]
    from w2(4) fr obtain fss where fss: "tf_seen d2 = tf_seen d @ fss" "\<forall>f \<in> set fss. same f"
      by (auto simp: same_def)
    have same2: "same (tf_files d2)" using w2(2) fr by (simp add: same_def)
    show ?thesis
    proof (cases r2)
      case (Inl e)
      then have "r \<noteq> Ok ()" "d' = d2"
        using w d1 True b d2 by (auto simp: write_state_def)
      with w2(1) fr fss same2 show ?thesis by auto
    next
      case (Inr u)
      obtain d3 r3 where d3: "rename_file (temp_path p) p d2 = (d3, r3)" by fastforce
      note w3 = rename_file_spec [OF d3 ne]
      have r: "r = Ok () \<longleftrightarrow> r3 = Ok ()" "d' = d3"
        using w d1 True b d2 d3 Inr by (auto simp: write_state_def)
      show ?thesis
      proof (cases "r3 = Ok ()")
        case False
        with w3(1,2) w2(1) fr fss same2 r show ?thesis by auto
      next
        case ok: True
        have "tf_files d2 (temp_path p) = Some b" using w2(3) Inr by simp
        then have "saved (tf_files d3)"
          using w3(3) [OF ok] same2 b by (auto simp: saved_def same_def)
        with ok w3(1,3) w2(1) fr fss r show ?thesis by auto
      qed
    qed
  qed
qed


section \<open>The contract of the state store\<close>

text \<open>The state the disk holds of a transfer, or the complaint of the decoder.\<close>

definition view_of :: "(uuid \<Rightarrow> string) \<Rightarrow> string \<Rightarrow> (u8 list \<Rightarrow> (string, 's) result) \<Rightarrow> path option
    \<Rightarrow> (path \<rightharpoonup> u8 list) \<Rightarrow> uuid \<rightharpoonup> (string, 's) result" where
  "view_of disp kind de base files i =
     (case state_path disp kind base i of None \<Rightarrow> None | Some p \<Rightarrow> map_option de (files p))"

definition file_view :: "(uuid \<Rightarrow> string) \<Rightarrow> string \<Rightarrow> (u8 list \<Rightarrow> (string, 's) result) \<Rightarrow> byte_dir
    \<Rightarrow> uuid \<rightharpoonup> (string, 's) result" where
  "file_view disp kind de d = view_of disp kind de (tf_base d) (tf_files d)"

lemma view_of_same:
  assumes "state_path disp kind base i = Some p" "\<forall>q. q \<noteq> temp_path p \<longrightarrow> f q = g q"
  shows "view_of disp kind de base f = view_of disp kind de base g"
proof
  fix j
  show "view_of disp kind de base f j = view_of disp kind de base g j"
    using assms(2) temp_path_state [OF assms(1), of base j] by (cases "state_path disp kind base j")
      (auto simp: view_of_def)
qed

lemma view_of_upd:
  assumes "inj disp" "state_path disp kind base i = Some p" "de b = Ok st"
  shows "view_of disp kind de base (f(p \<mapsto> b)) = (view_of disp kind de base f)(i \<mapsto> Ok st)"
proof
  fix j
  show "view_of disp kind de base (f(p \<mapsto> b)) j = ((view_of disp kind de base f)(i \<mapsto> Ok st)) j"
    using assms state_path_inj [OF assms(1,2), of j]
    by (cases "state_path disp kind base j") (auto simp: view_of_def)
qed

lemma view_of_del:
  assumes "inj disp" "state_path disp kind base i = Some p"
  shows "view_of disp kind de base (f(p := None)) = (view_of disp kind de base f)(i := None)"
proof
  fix j
  show "view_of disp kind de base (f(p := None)) j = ((view_of disp kind de base f)(i := None)) j"
    using assms state_path_inj [OF assms, of j] by (cases "state_path disp kind base j") (auto simp: view_of_def)
qed

lemma save_state_file_view:
  assumes serde: "\<And>s b. ser s = Ok b \<Longrightarrow> de b = Ok s" and inj: "inj disp"
    and s: "save_state_file disp kind ser key st d = (d', r)"
  shows "tf_base d' = tf_base d \<and>
    file_view disp kind de d' =
      (if r = Ok () then (file_view disp kind de d)(key st \<mapsto> Ok st) else file_view disp kind de d) \<and>
    (\<exists>fss. tf_seen d' = tf_seen d @ fss \<and> (\<forall>f \<in> set fss.
       view_of disp kind de (tf_base d) f = file_view disp kind de d \<or>
       view_of disp kind de (tf_base d) f = (file_view disp kind de d)(key st \<mapsto> Ok st)))"
proof (cases "state_path disp kind (tf_base d) (key st)")
  case None
  with s show ?thesis by (auto simp: save_state_file_def)
next
  case (Some p)
  let ?v = "view_of disp kind de (tf_base d)"
  from s Some have w: "write_state ser p st d = (d', r)" by (simp add: save_state_file_def)
  have ne: "temp_path p \<noteq> p" by (rule temp_path_state [OF Some Some])
  have same: "?v f = file_view disp kind de d" if "\<forall>q. q \<noteq> temp_path p \<longrightarrow> f q = tf_files d q" for f
    unfolding file_view_def by (rule view_of_same [OF Some that])
  have saved: "?v f = (file_view disp kind de d)(key st \<mapsto> Ok st)"
    if "\<exists>b. ser st = Ok b \<and> (\<forall>q. q \<noteq> temp_path p \<longrightarrow> f q = ((tf_files d)(p \<mapsto> b)) q)" for f
  proof -
    from that obtain b where b: "ser st = Ok b" "\<forall>q. q \<noteq> temp_path p \<longrightarrow> f q = ((tf_files d)(p \<mapsto> b)) q"
      by blast
    show ?thesis
      unfolding file_view_def view_of_same [OF Some b(2)]
      using inj Some serde [OF b(1)] by (rule view_of_upd)
  qed
  from write_state_spec [OF w ne] obtain fss where
    base: "tf_base d' = tf_base d" and fss: "tf_seen d' = tf_seen d @ fss"
    and f: "\<forall>f \<in> set fss. (\<forall>q. q \<noteq> temp_path p \<longrightarrow> f q = tf_files d q) \<or>
      (\<exists>b. ser st = Ok b \<and> (\<forall>q. q \<noteq> temp_path p \<longrightarrow> f q = ((tf_files d)(p \<mapsto> b)) q))"
    and r: "if r = Ok () then \<exists>b. ser st = Ok b \<and>
        (\<forall>q. q \<noteq> temp_path p \<longrightarrow> tf_files d' q = ((tf_files d)(p \<mapsto> b)) q)
      else (\<forall>q. q \<noteq> temp_path p \<longrightarrow> tf_files d' q = tf_files d q)"
    by blast
  have "file_view disp kind de d' = ?v (tf_files d')" by (simp add: file_view_def base)
  also have "\<dots> = (if r = Ok () then (file_view disp kind de d)(key st \<mapsto> Ok st) else file_view disp kind de d)"
    using r same saved by (cases "r = Ok ()") simp_all
  finally show ?thesis using base fss f same saved by (metis (no_types, lifting))
qed

lemma load_state_file_frame:
  "load_state_file disp kind de i d = (d', r) \<Longrightarrow> tf_base d' = tf_base d \<and> tf_files d' = tf_files d"
  by (auto simp: load_state_file_def read_state_def split: option.splits if_splits prod.splits
      dest!: next_io_fault_frame)

lemma remove_state_file_view:
  assumes inj: "inj disp" and r: "remove_state_file disp kind i d = (d', r)"
  shows "file_view disp kind de d' =
    (if r = Ok () then (file_view disp kind de d)(i := None) else file_view disp kind de d)"
proof (cases "state_path disp kind (tf_base d) i")
  case None
  with r show ?thesis by (auto simp: remove_state_file_def file_view_def view_of_def fun_eq_iff)
next
  case (Some p)
  show ?thesis
  proof (cases "tf_files d p")
    case None
    with r Some have "d' = d" "r = Ok ()" by (simp_all add: remove_state_file_def)
    with None Some show ?thesis by (auto simp: file_view_def view_of_def fun_eq_iff)
  next
    case b: (Some b)
    obtain f d1 where d1: "next_io_fault d = (f, d1)" by fastforce
    with next_io_fault_frame [OF d1] b Some r show ?thesis
      by (cases f) (auto simp: remove_state_file_def file_view_def view_of_del [OF inj Some])
  qed
qed

lemma state_files_store:
  assumes serde: "\<And>s b. ser s = Ok b \<Longrightarrow> de b = Ok s" and inj: "inj disp"
  shows "state_store key (save_state_file disp kind ser key) (load_state_file disp kind de)
    (remove_state_file disp kind) (file_view disp kind de)"
proof
  fix s d d' and r :: "(string, 'a) result"
  assume a: "save_state_file disp kind ser key s d = (d', Ok ())"
  show "file_view disp kind de d' = (file_view disp kind de d)(key s \<mapsto> Ok s)"
    using save_state_file_view [OF serde inj a] by simp
next
  fix s d d' e
  assume a: "save_state_file disp kind ser key s d = (d', Err e)"
  show "file_view disp kind de d' = file_view disp kind de d"
    using save_state_file_view [OF serde inj a] by simp
next
  fix i d d' and r :: "(string, 'a) result"
  assume a: "load_state_file disp kind de i d = (d', r)"
  show "file_view disp kind de d' = file_view disp kind de d"
    using load_state_file_frame [OF a] by (simp add: file_view_def)
next
  fix i d d' s
  assume "load_state_file disp kind de i d = (d', Ok s)"
  then show "file_view disp kind de d i = Some (Ok s)"
    by (auto simp: load_state_file_def read_state_def file_view_def view_of_def
        split: option.splits if_splits prod.splits dest!: next_io_fault_frame)
next
  fix i d d'
  assume a: "remove_state_file disp kind i d = (d', Ok ())"
  show "file_view disp kind de d' = (file_view disp kind de d)(i := None)"
    using remove_state_file_view [OF inj a, of de] by simp
next
  fix i d d' e
  assume a: "remove_state_file disp kind i d = (d', Err e)"
  show "file_view disp kind de d' = file_view disp kind de d"
    using remove_state_file_view [OF inj a, of de] by simp
qed

text \<open>A listing that succeeds read every state file among the names, and nothing else.\<close>

lemma read_state_Ok:
  "read_state de p d = (d', Ok s) \<Longrightarrow> tf_files d' = tf_files d \<and> map_option de (tf_files d p) = Some (Ok s)"
  by (auto simp: read_state_def split: prod.splits option.splits dest!: next_io_fault_frame)

lemma list_files_Ok:
  "list_files finished de dir names d = (d', Ok sts) \<Longrightarrow>
     \<exists>all. map (\<lambda>n. map_option de (tf_files d (dir @ [n]))) (filter has_json_extension names) =
       map (\<lambda>s. Some (Ok s)) all \<and> sts = filter (\<lambda>s. \<not> finished s) all"
proof (induction finished de dir names d arbitrary: d' sts rule: list_files.induct)
  case (2 finished de dir name names d)
  show ?case
  proof (cases "has_json_extension name")
    case True
    obtain d1 r where r: "read_state de (dir @ [name]) d = (d1, r)" by fastforce
    with 2(3) True obtain s where s: "r = Ok s" by (cases r) auto
    obtain d2 r2 where r2: "list_files finished de dir names d1 = (d2, r2)" by fastforce
    with 2(3) True r s obtain ss where ss: "r2 = Ok ss" "sts = (if finished s then ss else s # ss)"
      by (cases r2) auto
    from 2(2) [OF _ r [symmetric] s, of d2 ss] True r2 ss obtain all where
      "map (\<lambda>n. map_option de (tf_files d1 (dir @ [n]))) (filter has_json_extension names) =
        map (\<lambda>s. Some (Ok s)) all" "ss = filter (\<lambda>s. \<not> finished s) all" by auto
    with read_state_Ok [of de "dir @ [name]" d d1 s] r s ss True show ?thesis
      by (intro exI [of _ "s # all"]) auto
  next
    case False
    with 2(1) [of d' sts] 2(3) show ?thesis by simp
  qed
qed simp

text \<open>
  C7. The state files of the transfers keep the contract the rest of the program uses them by
  (what was saved is what is loaded, a failing save or removal changes nothing, other transfers
  are not touched), although a save is a write of many bytes and a rename, each of which can
  fail. And a process that is stopped at any moment of a save leaves, for every transfer, either
  the states from before it or those from after it: never a part of one.
\<close>

theorem state_files_atomic:
  fixes key :: "'s \<Rightarrow> uuid"
  assumes serde: "\<forall>s b. ser s = Ok b \<longrightarrow> de b = Ok s" and ids: "inj disp"
  shows "state_store key (save_state_file disp kind ser key) (load_state_file disp kind de)
      (remove_state_file disp kind) (file_view disp kind de) \<and>
    (\<forall>st d. \<forall>f \<in> set (drop (length (tf_seen d)) (tf_seen (fst (save_state_file disp kind ser key st d)))).
       view_of disp kind de (tf_base d) f = file_view disp kind de d \<or>
       view_of disp kind de (tf_base d) f = (file_view disp kind de d)(key st \<mapsto> Ok st))"
proof -
  have serde': "\<And>s b. ser s = Ok b \<Longrightarrow> de b = Ok s" using serde by blast
  have "view_of disp kind de (tf_base d) f = file_view disp kind de d \<or>
      view_of disp kind de (tf_base d) f = (file_view disp kind de d)(key st \<mapsto> Ok st)"
    if f: "f \<in> set (drop (length (tf_seen d)) (tf_seen (fst (save_state_file disp kind ser key st d))))" for st d f
  proof -
    obtain d' r where s: "save_state_file disp kind ser key st d = (d', r)" by fastforce
    from save_state_file_view [where ser = ser and de = de, OF serde' ids s] f show ?thesis by (auto simp: s)
  qed
  with state_files_store [where ser = ser and de = de and key = key, OF serde' ids] show ?thesis by blast
qed

lemma state_files_atomic_witness:
  "state_store (ucast :: u8 \<Rightarrow> uuid)
     (save_state_file (\<lambda>i. show_nat (unat i)) ''send'' (\<lambda>s. Ok [s]) ucast)
     (load_state_file (\<lambda>i. show_nat (unat i)) ''send'' (\<lambda>bs. if length bs = 1 then Ok (hd bs) else Err []))
     (remove_state_file (\<lambda>i. show_nat (unat i)) ''send'')
     (file_view (\<lambda>i. show_nat (unat i)) ''send'' (\<lambda>bs. if length bs = 1 then Ok (hd bs) else Err []))"
proof -
  have "inj (\<lambda>i :: uuid. show_nat (unat i))"
    by (rule injI) (metis parse_word_show_nat option.inject)
  then show ?thesis
    using state_files_atomic [of "\<lambda>s. Ok [s]" "\<lambda>bs. if length bs = 1 then Ok (hd bs) else Err []"
        "\<lambda>i. show_nat (unat i)" "ucast :: u8 \<Rightarrow> uuid" "''send''"] by simp
qed

text \<open>One save in the ids of the program: before it nothing, after it the state, beside it no rest.\<close>

definition sample_byte_dir :: byte_dir where
  "sample_byte_dir = \<lparr>tf_base = Some [''data''], tf_files = (\<lambda>_. None), tf_seen = [], tf_faults = []\<rparr>"

lemma sample_save:
  "tf_files (fst (save_state_file (\<lambda>_. ''7'') ''send'' (\<lambda>s. Ok [s, s]) (\<lambda>_. 7) 5 sample_byte_dir))
     [''data'', ''failsafe'', ''transfers'', ''send'', ''7.json''] = Some [5, 5]"
  "tf_files (fst (save_state_file (\<lambda>_. ''7'') ''send'' (\<lambda>s. Ok [s, s]) (\<lambda>_. 7) 5 sample_byte_dir))
     [''data'', ''failsafe'', ''transfers'', ''send'', ''7.json.tmp''] = None"
  "length (tf_seen (fst (save_state_file (\<lambda>_. ''7'') ''send'' (\<lambda>s. Ok [s, s]) (\<lambda>_. 7) 5 sample_byte_dir))) = 4"
  by code_simp+

section \<open>Saving received files at once\<close>

text \<open>\<open>fail\<close> says why a file cannot be written; \<open>dir\<close> are the contents of the receive directory.\<close>

definition save_received_files :: "ext \<Rightarrow> path option \<Rightarrow> string \<Rightarrow> (path \<Rightarrow> u8 list \<Rightarrow> string option) \<Rightarrow> string
    \<Rightarrow> uuid \<Rightarrow> (string \<times> u8 list) list \<Rightarrow> (string \<rightharpoonup> u8 list) \<Rightarrow> (string \<rightharpoonup> u8 list) \<times> (string, path list) result" where
  "save_received_files x downloads timestamp fail sender_name tid files dir =
     (case Send_Feature.receive_dir x downloads timestamp sender_name tid of
        None \<Rightarrow> (dir, Err ''downloads directory unavailable'')
      | Some base \<Rightarrow>
          (case write_named_files (\<lambda>n d. fail (base @ [n]) d) dir files of
             (dir', r) \<Rightarrow>
               (dir', map_ok (map (\<lambda>n. base @ [n])) (map_err (\<lambda>e. ''failed to write received files: '' @ e) r))))"

lemma write_named_files_Ok:
  "write_named_files fail dir files = (dir', Ok ps) \<Longrightarrow> ps = map (\<lambda>(n, _). sanitize_filename n) files"
proof (induction files arbitrary: dir ps)
  case (Cons f files)
  obtain name data where f: "f = (name, data)" by fastforce
  obtain d r where r: "write_named_files fail (dir(sanitize_filename name \<mapsto> data)) files = (d, r)" by fastforce
  with Cons.prems f obtain qs where "r = Ok qs" "d = dir'" "ps = sanitize_filename name # qs"
    by (cases r) (auto simp: Let_def split: option.splits)
  with Cons.IH r f show ?case by simp
qed simp

text \<open>Whatever the names, the files lie directly in one directory below the downloads directory.\<close>

lemma received_files_inside:
  assumes "save_received_files x (Some downloads) ts fail sender tid files dir = (dir', Ok paths)"
  shows "\<exists>d t. list_all (\<lambda>p. \<exists>n. p = downloads @ [d, t, n] \<and> n \<noteq> [] \<and> n \<noteq> ''.'' \<and> n \<noteq> ''..'' \<and>
    CHR ''/'' \<notin> set n) paths"
proof -
  from assms obtain d t ps where ps: "write_named_files (\<lambda>n. fail (downloads @ [d, t] @ [n])) dir files = (dir', Ok ps)"
    "paths = map (\<lambda>n. downloads @ [d, t] @ [n]) ps"
    by (auto simp: save_received_files_def receive_dir_def res_simps split: prod.splits)
  show ?thesis
    unfolding ps(2) write_named_files_Ok [OF ps(1)]
    using sanitize_filename_safe by (intro exI [of _ d] exI [of _ t]) (auto simp: list_all_iff)
qed

end
