(* ===== verification/Server_Config.thy ===== *)
theory Server_Config
  imports Server Blobs
begin

text \<open>
  The start of the server (\<open>failsafe-server/src/config.rs\<close>, \<open>lib.rs\<close>, \<open>main.rs\<close>): the address it listens on
  from flags and environment, and the settings it cannot do without. \<open>server_env\<close> answers for the
  environment; the text of IPv6 socket addresses is read by \<open>nv_v6\<close>, that of IPv4 ones as the
  standard library does it.
\<close>

section \<open>Socket addresses\<close>

datatype 'i socket_addr = SocketV4 "nat list" u16 | SocketV6 'i

definition read_octet :: "string \<Rightarrow> nat option" where
  "read_octet s =
     (if s = [] \<or> 3 < length s \<or> (hd s = CHR ''0'' \<and> 1 < length s) then None
      else (case digits_value 0 s of None \<Rightarrow> None | Some n \<Rightarrow> if n < 256 then Some n else None))"

definition read_port :: "string \<Rightarrow> u16 option" where
  "read_port s =
     (if s = [] then None
      else (case digits_value 0 s of None \<Rightarrow> None
            | Some n \<Rightarrow> if n < 65536 then Some (of_nat n) else None))"

fun read_octets :: "string list \<Rightarrow> nat list option" where
  "read_octets [] = Some []"
| "read_octets (s # ss) =
     (case read_octet s of None \<Rightarrow> None | Some n \<Rightarrow> map_option (\<lambda>ns. n # ns) (read_octets ss))"

definition parse_socket_v4 :: "string \<Rightarrow> 'i socket_addr option" where
  "parse_socket_v4 s =
     (case split_once_char (CHR '':'') s of
        None \<Rightarrow> None
      | Some (host, port) \<Rightarrow>
          (case (read_octets (split_char (CHR ''.'') host), read_port port) of
             (Some os, Some p) \<Rightarrow> if length os = 4 then Some (SocketV4 os p) else None
           | _ \<Rightarrow> None))"

datatype env_var = NotPresent | NotUnicode | Present string

record 'i server_env =
  nv_var :: "string \<Rightarrow> env_var"
  nv_v6 :: "string \<Rightarrow> 'i option"
  nv_port_error :: "string \<Rightarrow> string"

definition parse_socket :: "'i server_env \<Rightarrow> string \<Rightarrow> (string, 'i socket_addr) result" where
  "parse_socket env s =
     (case parse_socket_v4 s of
        Some a \<Rightarrow> Ok a
      | None \<Rightarrow> (case nv_v6 env s of Some i \<Rightarrow> Ok (SocketV6 i) | None \<Rightarrow> Err ''invalid socket address syntax''))"

section \<open>The address to listen on\<close>

definition DEFAULT_HOST :: string where "DEFAULT_HOST = ''127.0.0.1''"
definition DEFAULT_PORT :: u16 where "DEFAULT_PORT = 8080"

record 'i listen_config =
  lc_listen :: "'i socket_addr option"
  lc_host :: "string option"
  lc_port :: "u16 option"

definition parse_port_env :: "'i server_env \<Rightarrow> string \<Rightarrow> (string, u16 option) result" where
  "parse_port_env env name =
     (case nv_var env name of
        Present value \<Rightarrow>
          (case parse_word value of
             Some p \<Rightarrow> Ok (Some p)
           | None \<Rightarrow> Err (''invalid '' @ name @ '': '' @ nv_port_error env value))
      | NotPresent \<Rightarrow> Ok None
      | NotUnicode \<Rightarrow> Err (''invalid '' @ name @ '': not unicode''))"

definition parse_socket_addr :: "'i server_env \<Rightarrow> string \<Rightarrow> u16 \<Rightarrow> (string, 'i socket_addr) result" where
  "parse_socket_addr env host port =
     (let address = host @ '':'' @ show_nat (unat port) in
      map_err (\<lambda>e. ''invalid listen address '' @ address @ '': '' @ e) (parse_socket env address))"

definition env_text :: "'i server_env \<Rightarrow> string \<Rightarrow> string option" where
  "env_text env name = (case nv_var env name of Present v \<Rightarrow> Some v | _ \<Rightarrow> None)"

definition listen_resolve :: "'i server_env \<Rightarrow> 'i listen_config \<Rightarrow> (string, 'i socket_addr) result" where
  "listen_resolve env c =
     (case lc_listen c of
        Some addr \<Rightarrow> Ok addr
      | None \<Rightarrow>
          if lc_host c \<noteq> None \<or> lc_port c \<noteq> None
          then (let host = (case lc_host c of Some h \<Rightarrow> h
                      | None \<Rightarrow> (case env_text env ''FAILSAFE_LISTEN_HOST'' of Some h \<Rightarrow> h | None \<Rightarrow> DEFAULT_HOST));
                    port = (case lc_port c of Some p \<Rightarrow> p
                      | None \<Rightarrow> (case parse_port_env env ''FAILSAFE_LISTEN_PORT'' of
                          Ok (Some p) \<Rightarrow> p | _ \<Rightarrow> DEFAULT_PORT))
                in parse_socket_addr env host port)
          else (case nv_var env ''FAILSAFE_LISTEN'' of
                  Present listen \<Rightarrow> map_err (\<lambda>e. ''invalid FAILSAFE_LISTEN: '' @ e) (parse_socket env listen)
                | _ \<Rightarrow>
                    (let host = (case env_text env ''FAILSAFE_LISTEN_HOST'' of Some h \<Rightarrow> h | None \<Rightarrow> DEFAULT_HOST)
                     in and_then (parse_port_env env ''FAILSAFE_LISTEN_PORT'')
                          (\<lambda>p. parse_socket_addr env host (case p of Some q \<Rightarrow> q | None \<Rightarrow> DEFAULT_PORT)))))"

section \<open>What it resolves to\<close>

lemma digits_value_digits: "digits_value a s = Some n \<Longrightarrow> list_all is_ascii_digit s"
  by (induction a s rule: digits_value.induct) (auto split: if_splits)

lemma read_port_show [simp]: "read_port (show_nat (unat (p :: u16))) = Some p"
  using unat_lt2p [of p] by (simp add: read_port_def digits_value_show_nat)

lemma split_once_host: "d \<notin> set h \<Longrightarrow> split_once_char d (h @ d # t) = Some (h, t)"
  by (induction h) auto

text \<open>An IPv4 host and a port are listened on as they are given; nothing of the environment matters.\<close>

lemma flags_resolve:
  assumes "lc_listen c = None" "lc_host c = Some host" "lc_port c = Some port"
    "read_octets (split_char (CHR ''.'') host) = Some os" "length os = 4" "CHR '':'' \<notin> set host"
  shows "listen_resolve env c = Ok (SocketV4 os port)"
  using assms
  by (simp add: listen_resolve_def parse_socket_addr_def parse_socket_def parse_socket_v4_def Let_def
      split_once_host map_err_def)

lemma listen_flag_wins: "lc_listen c = Some a \<Longrightarrow> listen_resolve env c = Ok a"
  by (simp add: listen_resolve_def)

text \<open>
  A port in the environment that is no port is an error, but only as long as neither flag is
  given: with a host flag the server silently listens on the default port.
\<close>

lemma bad_port_reported:
  assumes "lc_listen c = None" "lc_host c = None" "lc_port c = None"
    "nv_var env ''FAILSAFE_LISTEN'' = NotPresent"
    "nv_var env ''FAILSAFE_LISTEN_PORT'' = Present v" "parse_word v = (None :: u16 option)"
  shows "listen_resolve env c = Err (''invalid FAILSAFE_LISTEN_PORT: '' @ nv_port_error env v)"
  using assms by (simp add: listen_resolve_def parse_port_env_def and_then_def Let_def)

lemma bad_port_ignored:
  assumes "lc_listen c = None" "lc_host c = Some host" "lc_port c = None"
    "nv_var env ''FAILSAFE_LISTEN_PORT'' = Present v" "parse_word v = (None :: u16 option)"
  shows "listen_resolve env c = parse_socket_addr env host DEFAULT_PORT"
  using assms by (simp add: listen_resolve_def parse_port_env_def Let_def)

text \<open>
  The flag is documented as taking an address or a host name; a name is never accepted, since only
  numeric addresses parse.
\<close>

lemma host_name_rejected:
  assumes "lc_listen c = None" "lc_host c = Some host" "lc_port c = Some port"
    "\<not> is_ascii_digit (hd host)" "host \<noteq> []" "CHR ''.'' \<noteq> hd host" "CHR '':'' \<notin> set host"
    "nv_v6 env (host @ '':'' @ show_nat (unat port)) = None"
  shows "\<not> is_ok (listen_resolve env c)"
proof -
  obtain h t where ht: "host = h # t" using assms(5) by (cases host) auto
  obtain w ws where w: "split_char (CHR ''.'') host = w # ws" by (cases "split_char (CHR ''.'') host") auto
  have "w \<noteq> [] \<and> hd w = h" using w ht assms(6) by (cases "split_char (CHR ''.'') t") auto
  then have "read_octet w = None"
    using assms(4) ht by (cases w) (auto simp: read_octet_def)
  then have "read_octets (split_char (CHR ''.'') host) = None" by (simp add: w)
  then show ?thesis
    using assms(1-3,7,8)
    by (simp add: listen_resolve_def parse_socket_addr_def parse_socket_def parse_socket_v4_def Let_def
        split_once_host map_err_def)
qed

section \<open>The flags\<close>

text \<open>
  The command line of \<open>main.rs\<close>: \<open>--host\<close> and \<open>--port\<close> are declared with an environment variable
  each, whose value clap takes for a flag that is not given. \<open>flags\<close> are those given.
\<close>

definition cli_parse :: "'i server_env \<Rightarrow> 'i listen_config \<Rightarrow> (string, 'i listen_config) result" where
  "cli_parse env flags =
     and_then (case lc_host flags of
         Some h \<Rightarrow> Ok (Some h)
       | None \<Rightarrow> (case nv_var env ''FAILSAFE_LISTEN_HOST'' of
           Present h \<Rightarrow> Ok (Some h) | NotPresent \<Rightarrow> Ok None | NotUnicode \<Rightarrow> Err ''invalid UTF-8''))
     (\<lambda>host.
     and_then (case lc_port flags of
         Some p \<Rightarrow> Ok (Some p)
       | None \<Rightarrow> parse_port_env env ''FAILSAFE_LISTEN_PORT'')
     (\<lambda>port. Ok \<lparr>lc_listen = lc_listen flags, lc_host = host, lc_port = port\<rparr>))"

text \<open>
  With a host or a port in the environment, \<open>FAILSAFE_LISTEN\<close> is never looked at.
\<close>

lemma listen_variable_shadowed:
  assumes "lc_listen flags = None" "lc_host flags = None" "lc_port flags = None"
    "nv_var env ''FAILSAFE_LISTEN_HOST'' = Present host" "nv_var env ''FAILSAFE_LISTEN_PORT'' = Present v"
    "parse_word v = Some (port :: u16)"
  shows "and_then (cli_parse env flags) (listen_resolve env) = parse_socket_addr env host port"
  using assms by (simp add: cli_parse_def parse_port_env_def listen_resolve_def and_then_def)

section \<open>The other settings\<close>

definition default_database_url :: "'i server_env \<Rightarrow> (path \<Rightarrow> string) \<Rightarrow> path option \<Rightarrow> string option" where
  "default_database_url env show_path data_dir =
     (case env_text env ''FAILSAFE_DB_URL'' of
        Some url \<Rightarrow> Some url
      | None \<Rightarrow> map_option (\<lambda>dir. ''sqlite://'' @ show_path (dir @ [''failsafe'', ''failsafe.db'']) @ ''?mode=rwc'')
          data_dir)"

definition load_encryption_key :: "'i server_env \<Rightarrow> (string, string) result" where
  "load_encryption_key env =
     ok_or (env_text env ''FAILSAFE_ENCRYPTION_KEY'') ''FAILSAFE_ENCRYPTION_KEY environment variable is required''"

text \<open>The file of an SQLite URL, whose directory is created; \<open>mkdir_parent\<close> answers for that.\<close>

definition database_file :: "string \<Rightarrow> string option" where
  "database_file url = map_option (\<lambda>p. hd (split_char (CHR ''?'') p)) (strip_prefix ''sqlite://'' url)"

definition ensure_database_parent :: "(string \<Rightarrow> (string, unit) result) \<Rightarrow> string \<Rightarrow> (string, unit) result" where
  "ensure_database_parent mkdir_parent url =
     (case database_file url of None \<Rightarrow> Ok () | Some file \<Rightarrow> mkdir_parent file)"

text \<open>
  \<open>main\<close> up to the listener: every setting is checked before the database is touched.
  \<open>connect_and_migrate\<close> is sea-orm's.
\<close>

record server_start =
  ss_jwt_secret :: string
  ss_encryption_key :: string
  ss_app :: app

definition server_main :: "'i server_env \<Rightarrow> (path \<Rightarrow> string) \<Rightarrow> path option \<Rightarrow> (string \<Rightarrow> (string, unit) result)
    \<Rightarrow> (string \<Rightarrow> (string, server) result) \<Rightarrow> 'i listen_config
    \<Rightarrow> (string, 'i socket_addr \<times> server_start) result" where
  "server_main env show_path data_dir mkdir_parent connect_and_migrate flags =
     and_then (cli_parse env flags) (\<lambda>cli.
     and_then (listen_resolve env cli) (\<lambda>listen.
     and_then (ok_or (env_text env ''FAILSAFE_JWT_SECRET'')
         ''FAILSAFE_JWT_SECRET environment variable is required'') (\<lambda>secret.
     and_then (load_encryption_key env) (\<lambda>key.
     and_then (ok_or (default_database_url env show_path data_dir)
         ''could not determine default database path for this platform'') (\<lambda>url.
     and_then (ensure_database_parent mkdir_parent url) (\<lambda>_.
     and_then (connect_and_migrate url) (\<lambda>db.
       Ok (listen, \<lparr>ss_jwt_secret = secret, ss_encryption_key = key,
         ss_app = \<lparr>ap_server = db, ap_login_limiter = rate_limiter_new 20 (seconds 60),
           ap_pairing_limiter = rate_limiter_new 10 (seconds 60)\<rparr>\<rparr>))))))))"

text \<open>A server that starts has both of its secrets, as the environment gives them.\<close>

lemma server_main_secrets:
  "server_main env sp dd mk cm flags = Ok (listen, s) \<Longrightarrow>
     nv_var env ''FAILSAFE_JWT_SECRET'' = Present (ss_jwt_secret s) \<and>
     nv_var env ''FAILSAFE_ENCRYPTION_KEY'' = Present (ss_encryption_key s)"
  by (auto simp: server_main_def load_encryption_key_def env_text_def res_simps split: env_var.splits)

text \<open>On a fresh database its tables are consistent from the first request on.\<close>

lemma server_main_fresh:
  assumes "server_main env sp dd mk (\<lambda>_. Ok (ap_server (app_from_parts faults))) flags = Ok (listen, s)"
  shows "ss_app s = app_from_parts faults" "db_inv (tables (ss_app s))"
proof -
  show "ss_app s = app_from_parts faults"
    using assms by (auto simp: server_main_def res_simps app_from_parts_def)
  then show "db_inv (tables (ss_app s))" using app_inv by simp
qed

lemma sample_database_file:
  "database_file ''sqlite:///srv/failsafe.db?mode=rwc'' = Some ''/srv/failsafe.db''"
  "database_file ''postgres://db/failsafe'' = None"
  by (simp_all add: database_file_def)

end
