(* ===== verification/Cli_Main.thy ===== *)
theory Cli_Main
  imports Cli Cli_Send
begin

text \<open>
  The command line as a whole (\<open>failsafe/src/cli/args.rs\<close>, \<open>cli/mod.rs\<close>): the commands with their
  arguments as clap hands them over, and the one function they all go through.
\<close>

datatype devices_command =
    DevicesList "string option"
  | DevicesRename "string option" string string
  | DevicesRemove "string option" string bool
  | DevicesFeatures "string option" string string

datatype command =
    CmdRun "string option"
  | CmdRegister "string option" string "string option"
  | CmdLogin "string option" string "string option" "string option"
  | CmdPair "string option" "string option" "string option"
  | CmdStatus "string option"
  | CmdDevices devices_command
  | CmdShell "string option" "string option"
  | CmdSend "string option" "string list" "uuid option" "string option" bool bool
  | CmdPort "string option" "string option" "string option" "u16 option" "string option"

record cli_call =
  ca_server_url :: "string option"
  ca_command :: command

text \<open>
  What the commands meet besides configuration and server: the daemon's control socket, the file
  system, the terminal and its session, the building of a daemon, the environment variable.
\<close>

record ('b, 'k) cli_session =
  xs_link :: control_link
  xs_file_system :: file_system
  xs_show_bytes :: "u64 \<Rightarrow> string"
  xs_fresh_transfer :: uuid
  xs_terminal_size :: "(string, u16 \<times> u16) result"
  xs_raw_mode :: "(string, unit) result"
  xs_relay :: "(daemon_error, unit) result"
  xs_env :: "('b, 'k) daemon_env"
  xs_start_transport :: "config \<Rightarrow> peer_address_book \<Rightarrow> (daemon_error, string) result"
  xs_server_url_var :: "string option"

text \<open>
  The outcome: \<open>ex_daemon\<close> is the daemon \<open>failsafe run\<close> goes on to run, and no result is there
  while a command has not come to its end.
\<close>

record 'h executed =
  ex_disk :: disk
  ex_http :: 'h
  ex_sends :: "send_transfer_state state_dir"
  ex_daemon :: "daemon option"
  ex_result :: "(daemon_error raised, unit) result option"

definition executed_with :: "send_transfer_state state_dir \<Rightarrow> disk \<times> 'h \<times> (daemon_error, 'r) result \<Rightarrow> 'h executed" where
  "executed_with sends out =
     (case out of (d, h, r) \<Rightarrow>
       \<lparr>ex_disk = d, ex_http = h, ex_sends = sends, ex_daemon = None,
        ex_result = Some (map_ok (\<lambda>_. ()) (map_err Raised r))\<rparr>)"

fun run_devices :: "'h cli \<Rightarrow> devices_command \<Rightarrow> string option \<Rightarrow> disk \<Rightarrow> 'h
    \<Rightarrow> disk \<times> 'h \<times> (daemon_error, unit) result" where
  "run_devices cl (DevicesList c) url d h =
     (case devices_list cl c url d h of (d', h', r) \<Rightarrow> (d', h', map_ok (\<lambda>_. ()) r))"
| "run_devices cl (DevicesRename c i name) url d h =
     (case devices_rename cl c url i name d h of (d', h', r) \<Rightarrow> (d', h', map_ok (\<lambda>_. ()) r))"
| "run_devices cl (DevicesRemove c i yes) url d h =
     (case devices_remove cl c url i yes d h of (d', h', r) \<Rightarrow> (d', h', map_ok (\<lambda>_. ()) r))"
| "run_devices cl (DevicesFeatures c i features) url d h =
     (case devices_features cl c url i features d h of (d', h', r) \<Rightarrow> (d', h', map_ok (\<lambda>_. ()) r))"

fun dispatch_command :: "'h cli \<Rightarrow> ('b, 'k) cli_session \<Rightarrow> string option \<Rightarrow> command
    \<Rightarrow> send_transfer_state state_dir \<Rightarrow> disk \<Rightarrow> 'h \<Rightarrow> 'h executed" where
  "dispatch_command cl xs url (CmdRun c) sends d h =
     (case run_command cl (xs_env xs) (xs_start_transport xs) c url d h of
        (d', h', Err e) \<Rightarrow> executed_with sends (d', h', Err e :: (daemon_error, unit) result)
      | (d', h', Ok dm) \<Rightarrow>
          \<lparr>ex_disk = d', ex_http = h', ex_sends = sends, ex_daemon = Some dm, ex_result = None\<rparr>)"
| "dispatch_command cl xs url (CmdRegister c email password) sends d h =
     executed_with sends (authenticate cl c url email password None True d h)"
| "dispatch_command cl xs url (CmdLogin c email password totp) sends d h =
     executed_with sends (authenticate cl c url email password totp False d h)"
| "dispatch_command cl xs url (CmdPair c code name) sends d h =
     executed_with sends (pair_command cl c url code name d h)"
| "dispatch_command cl xs url (CmdStatus c) sends d h =
     (case status_command cl c url d of (d', r) \<Rightarrow> executed_with sends (d', h, r))"
| "dispatch_command cl xs url (CmdDevices command) sends d h =
     executed_with sends (run_devices cl command url d h)"
| "dispatch_command cl xs url (CmdShell c device) sends d h =
     (case shell_command cl (xs_link xs) (xs_terminal_size xs) (xs_raw_mode xs) (xs_relay xs) c url device d h of
        (d', h', _, r) \<Rightarrow>
          \<lparr>ex_disk = d', ex_http = h', ex_sends = sends, ex_daemon = None, ex_result = Some r\<rparr>)"
| "dispatch_command cl xs url (CmdSend c paths resume device yes cancel_all) sends d h =
     (let out = send_command cl (xs_link xs) (xs_file_system xs) (xs_show_bytes xs) (xs_fresh_transfer xs)
            \<lparr>sa_config = c, sa_server_url = url, sa_paths = paths, sa_resume = resume, sa_device = device,
             sa_yes = yes, sa_cancel_all = cancel_all\<rparr> sends d h in
      \<lparr>ex_disk = so_disk out, ex_http = so_http out, ex_sends = so_sends out, ex_daemon = None,
       ex_result = so_result out\<rparr>)"
| "dispatch_command cl xs url (CmdPort c port protocol remote_port device) sends d h =
     (case port_command cl (xs_link xs) c url port protocol remote_port device d h of
        (d', h', _, r) \<Rightarrow>
          \<lparr>ex_disk = d', ex_http = h', ex_sends = sends, ex_daemon = None, ex_result = Some r\<rparr>)"

definition execute :: "'h cli \<Rightarrow> ('b, 'k) cli_session \<Rightarrow> cli_call \<Rightarrow> send_transfer_state state_dir
    \<Rightarrow> disk \<Rightarrow> 'h \<Rightarrow> 'h executed" where
  "execute cl xs call sends d h =
     (let url = (case ca_server_url call of Some u \<Rightarrow> Some u | None \<Rightarrow> xs_server_url_var xs) in
      dispatch_command cl xs url (ca_command call) sends d h)"

section \<open>What every command keeps to\<close>

text \<open>A server URL on the command line stands before the one of the environment.\<close>

lemma server_url_flag_wins:
  "execute cl (xs\<lparr>xs_server_url_var := v\<rparr>) \<lparr>ca_server_url = Some u, ca_command = cmd\<rparr> sends d h =
   execute cl (xs\<lparr>xs_server_url_var := w\<rparr>) \<lparr>ca_server_url = Some u, ca_command = cmd\<rparr> sends d h"
  by (cases cmd) (simp_all add: execute_def Let_def)

lemma executed_with_sends [simp]: "ex_sends (executed_with sends out) = sends"
  by (simp add: executed_with_def split: prod.splits)

text \<open>Only \<open>send\<close> touches the states of transfers.\<close>

lemma only_send_changes_sends:
  "(\<nexists>c ps r dv y ca. ca_command call = CmdSend c ps r dv y ca) \<Longrightarrow> ex_sends (execute cl xs call sends d h) = sends"
  by (cases "ca_command call") (auto simp: execute_def Let_def split: prod.splits sum.splits)

text \<open>\<open>status\<close> and the listing or cancelling of transfers never speak to the server.\<close>

lemma status_is_local: "ca_command call = CmdStatus c \<Longrightarrow> ex_http (execute cl xs call sends d h) = h"
  by (simp add: execute_def executed_with_def Let_def split: prod.splits)

lemma send_listing_is_local:
  "ca_command call = CmdSend c [] None dv y False \<or> ca_command call = CmdSend c ps r dv y True \<Longrightarrow>
     ex_http (execute cl xs call sends d h) = h \<and> ex_disk (execute cl xs call sends d h) = d"
  by (auto simp: execute_def send_command_def Let_def split: prod.splits)

text \<open>Every command but \<open>run\<close> and a send in progress comes to a result.\<close>

lemma commands_return:
  assumes "\<nexists>c. ca_command call = CmdRun c"
    and "\<nexists>c ps r dv y ca. ca_command call = CmdSend c ps r dv y ca"
  shows "\<exists>r. ex_result (execute cl xs call sends d h) = Some r"
  using assms by (cases "ca_command call") (auto simp: execute_def executed_with_def Let_def split: prod.splits)

end
