(* ===== verification/Spec2Isabelle.thy ===== *)
theory Spec2Isabelle
  imports Removal Server_Props Control_Endpoint Io_Relay Blob_Store Transport_Start Mock_Network
    Transfer_Files Server_Config Cli_Main
begin

text \<open>
  Failsafe keeps the devices of one person in sync: clipboard, file transfers, remote shells and
  forwarded ports go directly from device to device, and a registration server says which devices
  belong together and what each of them may do. This development models the Rust crates under
  \<open>crates/\<close> and proves what makes them correct.

  \<^bold>\<open>The parts and how they interact.\<close> A device runs the daemon (\<open>failsafe run\<close>). The daemon asks the
  server for the device list every 30 seconds and takes over its name, its own features, the
  features it shares with each peer, and the peers' addresses. Its four features (clipboard, file
  send, shell, port forwarding) sit in a registry; a message from a peer arrives on a stream of the
  Iroh transport, is attributed to the device the connection authenticates, and is dispatched to
  the feature it names if that feature is on and shared with the peer. Outgoing messages go
  through the router to the peers that have the feature and are connected. Large contents go
  through the blob store: a message carries a hash, the receiver downloads. Commands (\<open>failsafe
  send\<close>, \<open>shell\<close>, \<open>port\<close>) reach the daemon over a local socket with a token; the other commands
  talk to the server themselves. The server keeps accounts, devices, pairing codes, refresh tokens
  and recovery codes in five tables.

  \<^bold>\<open>Theories and sources.\<close> Names keep those of the source; a record field has the prefix of its
  record.
  \<^item> \<open>Prelude\<close>, \<open>Text\<close>: results, words, bytes, and the functions of Rust's standard library on
    strings.
  \<^item> \<open>Core\<close>, \<open>Registry\<close>, \<open>Peers\<close>, \<open>Control_Io\<close>: \<open>failsafe-core\<close> (identifiers, messages, control
    framing, feature registry, peer directory, address book) and the catalog of
    \<open>failsafe-feature-registry\<close>.
  \<^item> \<open>Codec\<close>, \<open>Network\<close>, \<open>Transport_Start\<close>, \<open>Mock_Network\<close>, \<open>Blobs\<close>, \<open>Blob_Store\<close>, \<open>Relay\<close>,
    \<open>Io_Relay\<close>: \<open>failsafe-transport\<close> (frames and handshakes, router, connection pool and dialing,
    start and key file, in-memory network, blob transfer, byte relays) and \<open>failsafe-core/src/io.rs\<close>.
  \<^item> \<open>Limits\<close>, \<open>Clipboard\<close>: \<open>failsafe-clipboard\<close>.
  \<^item> \<open>Manifest\<close>, \<open>Transfers\<close>, \<open>Transfer_Files\<close>, \<open>Send_Feature\<close>, \<open>Send_Files\<close>, \<open>Send_Control\<close>:
    \<open>failsafe-send\<close> (envelopes and chunked manifests, states and waiters, the states on disk, the
    receiver, the files that are sent, the sender).
  \<^item> \<open>Shell_Port\<close>: \<open>failsafe-shell\<close> and \<open>failsafe-port\<close>.
  \<^item> \<open>Features\<close>: the sum of the four features, as the registry holds them.
  \<^item> \<open>Client\<close>, \<open>Sync\<close>, \<open>Control_Server\<close>, \<open>Control_Endpoint\<close>, \<open>Daemon\<close>: \<open>failsafe/src\<close> (configuration,
    credentials and HTTP client, policy, control server with its socket and token file, the daemon).
  \<^item> \<open>Cli_Util\<close>, \<open>Cli_Send\<close>, \<open>Cli\<close>, \<open>Cli_Main\<close>: \<open>failsafe/src/cli\<close>.
  \<^item> \<open>Server_Db\<close>, \<open>Server_Auth\<close>, \<open>Server_Accounts\<close>, \<open>Server_Devices\<close>, \<open>Rate_Limit\<close>, \<open>Server\<close>,
    \<open>Server_Config\<close>: \<open>failsafe-server\<close> (tables and statements, credentials, the handlers, the rate
    limiter, the application, the start). \<open>Server_Steps\<close> and \<open>Server_Inv\<close> hold the proofs that every
    handler is a sequence of elementary changes and what those keep; \<open>Server_Pairing\<close>,
    \<open>Server_Access\<close> and \<open>Server_Props\<close> the properties about codes, access and second factors.
  \<^item> \<open>Removal\<close>: client and server together, after a device has been removed.

  \<^bold>\<open>How code becomes definitions.\<close> A \<open>Result\<close> is a sum whose left side is the error, and \<open>?\<close> skips the
  rest as in the source. Shared state (\<open>Arc\<close>, mutexes, channels) is passed explicitly; a spawned
  task is an entry of the state that a later step runs. Machine integers have their width. A
  \<open>HashSet\<close> is a distinct list and a \<open>HashMap\<close> an association list, whose order stands for the
  unspecified one of the source. What fails outside (streams, files, statements of the database,
  writes to the control socket) takes its outcome from a script in the state, whose end means
  success; the theorems hold for every script. Concurrency is a list of turns or events in any
  order, or a step relation (\<open>net_step\<close>, \<open>db_step\<close>, \<open>coordinator_step\<close>). A loop that waits for
  its surroundings returns \<open>None\<close> while its events are used up; there is no fuel, since every
  recursion is over such a list or has a measure. Sums of sizes and sequence numbers of 64 bits
  can only wrap beyond the bounds the theorems state (for the loop of \<open>failsafe send\<close>, fewer than
  2 to the 64 events).

  \<^bold>\<open>Interfaces.\<close> \<open>feature_impl\<close> is the contract of a feature, interpreted on the daemon's features;
  \<open>transport\<close> that of a transport, on Iroh and on the in-memory network; \<open>blob_transfer\<close> that of
  content transfer, on the in-memory implementation; \<open>clipboard_io\<close> that of a clipboard;
  \<open>relay_reader\<close> that of the input of a relay, on streams and channels; \<open>state_store\<close> that of the
  saved transfers, on both stores, and proved again for their files (\<open>state_files_atomic\<close>).

  \<^bold>\<open>Code that is not here\<close> is a parameter: iroh and its blob store, serde (writers and readers), TOML,
  HTTP, JSON web tokens, Argon2, AES, SHA-256, TOTP, UUID text, sea-orm, the PTY, the operating
  system. Where a property relies on such code, its hypotheses say on what (a reader undoes its
  writer; a connection to a key is with the owner of the key).

  \<^bold>\<open>What is shown\<close>, by kind.
  \<^item> Messages and streams: frames and control requests arrive as sent under every chunking
    (\<open>incoming_frame_delivered\<close>, \<open>control_client_reaches_daemon\<close>), and only under the name of the
    device that authenticated (\<open>incoming_authentic\<close>); relays neither invent nor reorder bytes
    (\<open>relay_prefixes_and_ends\<close>); the pool stays consistent (\<open>pool_consistent\<close>).
  \<^item> Transfers: chunked manifests reassemble in any order and fit (\<open>reassembly_any_order\<close>,
    \<open>planned_envelopes_fit\<close>), an incomplete one is refused, a transfer is handled once, the first
    answer counts, received and sent names stay inside their directories, saved states are never
    torn, the command's loop ends.
  \<^item> Policy: the directory is the intersection of both sides' features and is reached by a sync
    (\<open>directory_is_intersection\<close>, \<open>sync_reaches_target\<close>), the daemon's features follow it.
  \<^item> Server: tables consistent over every run, accounts isolated, refresh tokens and pairing codes
    single use, password changes and redemptions all or nothing, second factors needed, rate
    limits kept, removed devices stay removed.
  \<^item> Negative results, each where the code does something its authors hardly mean:
    \<open>old_connection_evicts_newer\<close>, \<open>in_order_end_rejected\<close>, \<open>removal_unnoticed_until_restart\<close>,
    and lemmas such as \<open>token_readable_before_chmod\<close> or \<open>listen_variable_shadowed\<close>.

  \<^bold>\<open>Not modelled.\<close> The tests of the crates; logging, desktop notifications and what commands print;
  the Windows pipe of the control socket (\<open>control/transport/windows.rs\<close>); the embedded web pages
  (\<open>web.rs\<close>, \<open>build.rs\<close>), the generator of TypeScript bindings and the web interfaces, which are
  another language; the migrations, whose constraints are those of the inserts in \<open>Server_Db\<close>;
  argument parsing by clap beyond its environment variables; Iroh's endpoint, relays and
  encryption. Durations are integers and clocks are inputs, so nothing is said about how long a
  step takes.
\<close>

section \<open>Daemon and command\<close>

text \<open>
  A daemon with a transport that has started holds the token its control server was given, so
  with \<open>control_start\<close> as the start of that server, what \<open>control_client_reaches_daemon\<close> says of
  the server's token is said of the running daemon.
\<close>

lemma started_daemon_token:
  assumes "start_up env tm hc pk control s = (s', Ok u)" and "dm_iroh (rn_daemon s')"
  shows "control = Ok (rn_token s')"
proof -
  from assms(1) obtain s4 where "start_control control s4 = (s', Ok ())"
    by (auto simp: start_up_def split: if_splits prod.splits sum.splits)
  with assms(2) show ?thesis
    by (auto simp: start_control_def Let_def split: if_splits sum.splits)
qed

lemma started_daemon_reachable:
  assumes "control_start ds n token e = (e', control)" and "start_up env tm hc pk control s = (s', Ok u)"
    and "dm_iroh (rn_daemon s')" and "control_token_path ds \<noteq> endpoint_path ds"
    and "trim token = token" "token \<noteq> []"
  shows "load_control_token (local_link ds e' writes response events) = Ok (rn_token s')"
proof -
  have c: "control = Ok (rn_token s')" by (rule started_daemon_token [OF assms(2,3)])
  with assms(1) have start: "control_start ds n token e = (e', Ok (rn_token s'))" by simp
  then have "rn_token s' = token" by (auto elim: control_start_Ok)
  then show ?thesis using started_daemon_is_found(2) [OF start assms(4-6)] by simp
qed

end
